(* ===== verification/Go_Base.thy ===== *)
theory Go_Base
  imports Complex_Main "HOL-Library.AList" "HOL-Library.Sublist"
begin

text \<open>What the control plane uses of Go and its standard library: byte strings with the
  \<^verbatim>\<open>strings\<close> helpers, \<^verbatim>\<open>any\<close> values and string-keyed maps, instants and durations, error
  values with \<^verbatim>\<open>errors.Is\<close>, and the calling convention ``value or error, and the world after the
  call'' in which every service and repository is written.  The lemma collections at the end
  (what a call keeps of the world) carry the proofs of the component theories.\<close>

named_theorems keeps_intros \<open>observations of the world that a call leaves unchanged\<close>
named_theorems str_simps \<open>evaluation of the string helpers\<close>
named_theorems eval_simps \<open>definitions unfolded to evaluate a call on a concrete input\<close>


section \<open>Byte strings\<close>

text \<open>A Go string is a sequence of bytes; \<^typ>\<open>char\<close> is a byte.  \<^verbatim>\<open>strings.TrimSpace\<close> strips the
  UTF-8 encodings of the Unicode white space: one byte, two bytes (U+0085, U+00A0) or three bytes
  (U+1680, U+2000 to U+200A, U+2028, U+2029, U+202F, U+205F, U+3000).\<close>

definition byte_in :: "nat \<Rightarrow> nat \<Rightarrow> char \<Rightarrow> bool" where
  "byte_in lo hi c \<longleftrightarrow> lo \<le> (of_char c :: nat) \<and> (of_char c :: nat) \<le> hi"

definition space1 :: "char \<Rightarrow> bool" where
  "space1 c \<longleftrightarrow> c = CHR 0x20 \<or> byte_in 9 13 c"

definition space2 :: "char \<Rightarrow> char \<Rightarrow> bool" where
  "space2 c d \<longleftrightarrow> c = CHR 0xC2 \<and> (d = CHR 0x85 \<or> d = CHR 0xA0)"

definition space3 :: "char \<Rightarrow> char \<Rightarrow> char \<Rightarrow> bool" where
  "space3 c d e \<longleftrightarrow>
     c = CHR 0xE1 \<and> d = CHR 0x9A \<and> e = CHR 0x80 \<or>
     c = CHR 0xE2 \<and> d = CHR 0x80 \<and> (byte_in 128 138 e \<or> e = CHR 0xA8 \<or> e = CHR 0xA9 \<or> e = CHR 0xAF) \<or>
     c = CHR 0xE2 \<and> d = CHR 0x81 \<and> e = CHR 0x9F \<or>
     c = CHR 0xE3 \<and> d = CHR 0x80 \<and> e = CHR 0x80"

fun trim_by :: "(char \<Rightarrow> char \<Rightarrow> bool) \<Rightarrow> (char \<Rightarrow> char \<Rightarrow> char \<Rightarrow> bool) \<Rightarrow> string \<Rightarrow> string" where
  "trim_by two three [] = []"
| "trim_by two three [c] = (if space1 c then [] else [c])"
| "trim_by two three [c, d] =
     (if space1 c then trim_by two three [d] else if two c d then [] else [c, d])"
| "trim_by two three (c # d # e # s) =
     (if space1 c then trim_by two three (d # e # s)
      else if two c d then trim_by two three (e # s)
      else if three c d e then trim_by two three s
      else c # d # e # s)"

definition trim_left :: "string \<Rightarrow> string" where
  "trim_left s = trim_by space2 space3 s"

definition trim_right :: "string \<Rightarrow> string" where
  "trim_right s = rev (trim_by (\<lambda>c d. space2 d c) (\<lambda>c d e. space3 e d c) (rev s))"

definition trim_space :: "string \<Rightarrow> string" where
  "trim_space s = trim_right (trim_left s)"

definition blank :: "string \<Rightarrow> bool" where
  "blank s \<longleftrightarrow> trim_space s = []"

text \<open>\<^verbatim>\<open>strings.ToLower\<close>: the ASCII letters, and the two code points outside ASCII whose lower
  case is an ASCII letter (U+0130 and the Kelvin sign U+212A).  Other non-ASCII letters are kept:
  the code compares lowered strings with ASCII literals only.  \<^verbatim>\<open>strings.EqualFold\<close> also folds
  U+017F to s, and does not fold U+0130.\<close>

definition lower_byte :: "char \<Rightarrow> char" where
  "lower_byte c = (if byte_in 65 90 c then char_of ((of_char c :: nat) + 32) else c)"

fun to_lower :: "string \<Rightarrow> string" where
  "to_lower [] = []"
| "to_lower [a] = [lower_byte a]"
| "to_lower [a, b] =
     (if a = CHR 0xC4 \<and> b = CHR 0xB0 then [CHR 0x69] else [lower_byte a, lower_byte b])"
| "to_lower (a # b # c # s) =
     (if a = CHR 0xC4 \<and> b = CHR 0xB0 then CHR 0x69 # to_lower (c # s)
      else if a = CHR 0xE2 \<and> b = CHR 0x84 \<and> c = CHR 0xAA then CHR 0x6B # to_lower s
      else lower_byte a # to_lower (b # c # s))"

fun fold_key :: "string \<Rightarrow> string" where
  "fold_key [] = []"
| "fold_key [a] = [lower_byte a]"
| "fold_key [a, b] =
     (if a = CHR 0xC5 \<and> b = CHR 0xBF then [CHR 0x73] else [lower_byte a, lower_byte b])"
| "fold_key (a # b # c # s) =
     (if a = CHR 0xC5 \<and> b = CHR 0xBF then CHR 0x73 # fold_key (c # s)
      else if a = CHR 0xE2 \<and> b = CHR 0x84 \<and> c = CHR 0xAA then CHR 0x6B # fold_key s
      else lower_byte a # fold_key (b # c # s))"

definition equal_fold :: "string \<Rightarrow> string \<Rightarrow> bool" where
  "equal_fold s t \<longleftrightarrow> fold_key s = fold_key t"

abbreviation has_prefix :: "string \<Rightarrow> string \<Rightarrow> bool" where
  "has_prefix s p \<equiv> prefix p s"

abbreviation has_suffix :: "string \<Rightarrow> string \<Rightarrow> bool" where
  "has_suffix s p \<equiv> suffix p s"

fun str_contains :: "string \<Rightarrow> string \<Rightarrow> bool" where
  "str_contains [] p \<longleftrightarrow> p = []"
| "str_contains (c # s) p \<longleftrightarrow> prefix p (c # s) \<or> str_contains s p"

lemma str_contains_sublist: "str_contains s p \<longleftrightarrow> sublist p s"
  by (induction s) (auto simp: sublist_Cons_right)

definition trim_prefix :: "string \<Rightarrow> string \<Rightarrow> string" where
  "trim_prefix s p = (if has_prefix s p then drop (length p) s else s)"

definition trim_right_char :: "char \<Rightarrow> string \<Rightarrow> string" where
  "trim_right_char c s = rev (dropWhile (\<lambda>d. d = c) (rev s))"

text \<open>\<^verbatim>\<open>%d\<close> and \<^verbatim>\<open>%q\<close>.\<close>

fun show_nat :: "nat \<Rightarrow> string" where
  "show_nat n = (if n < 10 then [char_of (48 + n)] else show_nat (n div 10) @ [char_of (48 + n mod 10)])"

declare show_nat.simps [simp del]

definition show_int :: "int \<Rightarrow> string" where
  "show_int i = (if i < 0 then CHR 0x2D # show_nat (nat (- i)) else show_nat (nat i))"

definition hex_digit :: "nat \<Rightarrow> char" where
  "hex_digit n = (if n < 10 then char_of (48 + n) else char_of (87 + n))"

definition quote_byte :: "char \<Rightarrow> string" where
  "quote_byte c =
     (if c = CHR 0x22 \<or> c = CHR 0x5C then [CHR 0x5C, c]
      else if c = CHR 0x07 then [CHR 0x5C, CHR 0x61]
      else if c = CHR 0x08 then [CHR 0x5C, CHR 0x62]
      else if c = CHR 0x0C then [CHR 0x5C, CHR 0x66]
      else if c = CHR 0x0A then [CHR 0x5C, CHR 0x6E]
      else if c = CHR 0x0D then [CHR 0x5C, CHR 0x72]
      else if c = CHR 0x09 then [CHR 0x5C, CHR 0x74]
      else if c = CHR 0x0B then [CHR 0x5C, CHR 0x76]
      else if byte_in 0 31 c \<or> c = CHR 0x7F
        then [CHR 0x5C, CHR 0x78, hex_digit (of_char c div 16), hex_digit (of_char c mod 16)]
      else [c])"

definition quoted :: "string \<Rightarrow> string" where
  "quoted s = CHR 0x22 # concat (map quote_byte s) @ [CHR 0x22]"

lemma trim_by_le: "length (trim_by two three s) \<le> length s"
  by (induction two three s rule: trim_by.induct) auto

lemma trim_by_idem: "trim_by two three (trim_by two three s) = trim_by two three s"
  by (induction two three s rule: trim_by.induct) auto

lemma trim_by_suffix: "suffix (trim_by two three s) s"
  by (induction two three s rule: trim_by.induct) (auto intro: suffix_ConsI)

lemma trim_right_prefix: "prefix (trim_right s) s"
  by (metis rev_rev_ident suffix_to_prefix trim_by_suffix trim_right_def)

lemma trim_by_neq: "length s < length t \<Longrightarrow> trim_by two three s \<noteq> t"
  using trim_by_le leD by blast

lemma trim_by_neq_Cons [simp]:
  "trim_by two three (d # e # s) \<noteq> c # d # e # s"
  "trim_by two three (e # s) \<noteq> c # d # e # s"
  "trim_by two three s \<noteq> c # d # e # s"
  "trim_by two three [d] \<noteq> [c, d]"
  by (rule trim_by_neq, simp)+

lemma trim_by_prefix_closed:
  assumes "trim_by two three s = s" "prefix t s"
  shows "trim_by two three t = t"
  using assms
  by (cases "(two, three, s)" rule: trim_by.cases)
     (auto split: if_splits simp: prefix_Cons trim_by_neq)

lemma trim_space_idem [simp]: "trim_space (trim_space s) = trim_space s"
proof -
  let ?l = "trim_left s"
  have "trim_left (trim_right ?l) = trim_right ?l"
    unfolding trim_left_def [of "trim_right ?l"]
    by (rule trim_by_prefix_closed [OF _ trim_right_prefix])
       (simp add: trim_left_def trim_by_idem)
  then show ?thesis
    by (simp add: trim_space_def) (simp add: trim_right_def trim_by_idem)
qed

lemma trim_space_le: "length (trim_space s) \<le> length s"
  unfolding trim_space_def trim_left_def
  by (meson order_trans prefix_length_le trim_by_le trim_right_prefix)

lemma trim_space_Nil [simp]: "trim_space [] = []"
  by (simp add: trim_space_def trim_left_def trim_right_def)

lemma blank_Nil [simp]: "blank []"
  by (simp add: blank_def)

lemmas [str_simps] = trim_space_def trim_left_def trim_right_def space1_def space2_def space3_def
  byte_in_def blank_def lower_byte_def equal_fold_def trim_prefix_def trim_right_char_def


section \<open>Values of type \<^verbatim>\<open>any\<close>, string-keyed maps, time\<close>

text \<open>Values the code keeps in \<^verbatim>\<open>map[string]any\<close>.  A \<^verbatim>\<open>float64\<close> is a rational (every finite
  one is); a map is an association list read through \<^const>\<open>map_of\<close> and written through
  \<^const>\<open>AList.update\<close>; the nil map and the empty map are the same value, as they are for every
  read the code makes.\<close>

datatype gval = GNil | GBool bool | GInt int | GNum rat | GStr string | GTime int
  | GList "gval list" | GMap "(string \<times> gval) list"

type_synonym gmap = "(string \<times> gval) list"

abbreviation mput :: "string \<Rightarrow> 'v \<Rightarrow> (string \<times> 'v) list \<Rightarrow> (string \<times> 'v) list" where
  "mput k v m \<equiv> AList.update k v m"

lemma map_of_mput [simp]: "map_of (mput k v m) = (map_of m)(k \<mapsto> v)"
  by (rule update_conv')

text \<open>An instant is the number of nanoseconds since Go's zero time, so \<^verbatim>\<open>t.IsZero()\<close> is
  \<^term>\<open>t = (0::int)\<close>; \<^verbatim>\<open>t.Sub(u)\<close> saturates at the bounds of \<^verbatim>\<open>int64\<close> and \<^verbatim>\<open>Milliseconds\<close>
  divides towards zero.\<close>

type_synonym time = int

definition tquot :: "int \<Rightarrow> int \<Rightarrow> int" where
  "tquot a b = (if a < 0 then - (- a div b) else a div b)"

definition max_int64 :: int where "max_int64 = 2 ^ 63 - 1"
definition min_int64 :: int where "min_int64 = - (2 ^ 63)"

definition time_sub :: "time \<Rightarrow> time \<Rightarrow> int" where
  "time_sub t u = max min_int64 (min max_int64 (t - u))"

definition milliseconds :: "int \<Rightarrow> int" where
  "milliseconds d = tquot d 1000000"

abbreviation (input) second :: int where "second \<equiv> 1000000000"
abbreviation (input) minute :: int where "minute \<equiv> 60000000000"
abbreviation (input) hour :: int where "hour \<equiv> 3600000000000"

text \<open>Arithmetic on \<^verbatim>\<open>int64\<close> wraps.\<close>

definition wrap64 :: "int \<Rightarrow> int" where
  "wrap64 i = (i + 2 ^ 63) mod 2 ^ 64 - 2 ^ 63"

lemma wrap64_range: "min_int64 \<le> wrap64 i \<and> wrap64 i \<le> max_int64"
  by (simp add: wrap64_def min_int64_def max_int64_def)

lemma wrap64_id: "min_int64 \<le> i \<Longrightarrow> i \<le> max_int64 \<Longrightarrow> wrap64 i = i"
  by (simp add: wrap64_def min_int64_def max_int64_def)

lemma tquot_nonneg: "0 \<le> a \<Longrightarrow> tquot a b = a div b"
  by (simp add: tquot_def)


section \<open>Errors\<close>

text \<open>The sentinel errors the code compares with \<^verbatim>\<open>errors.Is\<close> (or with \<^verbatim>\<open>==\<close>), plain texts,
  \<^verbatim>\<open>fmt.Errorf("prefix: %w", err)\<close>, \<^verbatim>\<open>fmt.Errorf("%w: text", err)\<close>, \<^verbatim>\<open>errors.Join\<close>, and the two typed errors found through
  \<^verbatim>\<open>errors.As\<close>: a PostgreSQL error with its SQLSTATE and a response of a runtime with its status.\<close>

datatype sentinel = NoRows | SyncConflict | SecretNotFound | InvalidUsageQuery
  | InvalidUsageObservation | UnknownRuntimeConnection | InvalidCredentials | EmailUnavailable
  | WeakPassword | RateLimited | InvalidSession | InvalidCSRF | IdentityNotFound | EmailExists

fun sentinel_text :: "sentinel \<Rightarrow> string" where
  "sentinel_text NoRows = ''sql: no rows in result set''"
| "sentinel_text SyncConflict = ''runtime sync already in progress''"
| "sentinel_text SecretNotFound = ''secret not found''"
| "sentinel_text InvalidUsageQuery = ''invalid usage query''"
| "sentinel_text InvalidUsageObservation = ''invalid usage observation''"
| "sentinel_text UnknownRuntimeConnection = ''unknown runtime connection''"
| "sentinel_text InvalidCredentials = ''invalid credentials''"
| "sentinel_text EmailUnavailable = ''email unavailable''"
| "sentinel_text WeakPassword = ''password does not meet requirements''"
| "sentinel_text RateLimited = ''authentication rate limited''"
| "sentinel_text InvalidSession = ''invalid session''"
| "sentinel_text InvalidCSRF = ''invalid csrf token''"
| "sentinel_text IdentityNotFound = ''identity not found''"
| "sentinel_text EmailExists = ''email already exists''"

datatype gerr = Sentinel sentinel | Text string | Wrapped string gerr | Annotated gerr string
  | Joined gerr gerr | PgError string string | HttpStatus int string

fun err_text :: "gerr \<Rightarrow> string" where
  "err_text (Sentinel s) = sentinel_text s"
| "err_text (Text t) = t"
| "err_text (Wrapped p e) = p @ err_text e"
| "err_text (Annotated e t) = err_text e @ t"
| "err_text (Joined a b) = err_text a @ [CHR 0x0A] @ err_text b"
| "err_text (PgError code t) = t"
| "err_text (HttpStatus code t) = t"

fun err_is :: "gerr \<Rightarrow> sentinel \<Rightarrow> bool" where
  "err_is (Sentinel s) t \<longleftrightarrow> s = t"
| "err_is (Wrapped p e) t \<longleftrightarrow> err_is e t"
| "err_is (Annotated e p) t \<longleftrightarrow> err_is e t"
| "err_is (Joined a b) t \<longleftrightarrow> err_is a t \<or> err_is b t"
| "err_is _ t \<longleftrightarrow> False"

fun err_http_status :: "gerr \<Rightarrow> int option" where
  "err_http_status (HttpStatus code t) = Some code"
| "err_http_status (Wrapped p e) = err_http_status e"
| "err_http_status (Annotated e t) = err_http_status e"
| "err_http_status (Joined a b) =
     (case err_http_status a of Some c \<Rightarrow> Some c | None \<Rightarrow> err_http_status b)"
| "err_http_status _ = None"

fun err_pg_code :: "gerr \<Rightarrow> string option" where
  "err_pg_code (PgError code t) = Some code"
| "err_pg_code (Wrapped p e) = err_pg_code e"
| "err_pg_code (Annotated e t) = err_pg_code e"
| "err_pg_code (Joined a b) =
     (case err_pg_code a of Some c \<Rightarrow> Some c | None \<Rightarrow> err_pg_code b)"
| "err_pg_code _ = None"


section \<open>Calls\<close>

text \<open>A call takes the world and gives an error or a value, and the world after it.
  \<^verbatim>\<open>if err != nil { return err }\<close> is \<open>seq\<close>, \<^verbatim>\<open>fmt.Errorf("p: %w", err)\<close> around a call is
  \<open>wrapping\<close>, and a \<^verbatim>\<open>for range\<close> over a slice whose body returns early on an error is
  \<open>for_each\<close>.\<close>

type_synonym 'a res = "gerr + 'a"
type_synonym ('w, 'a) call = "'w \<Rightarrow> 'a res \<times> 'w"

definition return :: "'a \<Rightarrow> ('w, 'a) call" where
  "return x w = (Inr x, w)"

definition failing :: "gerr \<Rightarrow> ('w, 'a) call" where
  "failing e w = (Inl e, w)"

definition seq :: "('w, 'a) call \<Rightarrow> ('a \<Rightarrow> ('w, 'b) call) \<Rightarrow> ('w, 'b) call" where
  "seq m f w = (case m w of (Inl e, w') \<Rightarrow> (Inl e, w') | (Inr x, w') \<Rightarrow> f x w')"

definition wrapping :: "string \<Rightarrow> ('w, 'a) call \<Rightarrow> ('w, 'a) call" where
  "wrapping p m w = (case m w of (Inl e, w') \<Rightarrow> (Inl (Wrapped p e), w') | (Inr x, w') \<Rightarrow> (Inr x, w'))"

fun for_each :: "('x \<Rightarrow> ('w, unit) call) \<Rightarrow> 'x list \<Rightarrow> ('w, unit) call" where
  "for_each f [] = return ()"
| "for_each f (x # xs) = seq (f x) (\<lambda>_. for_each f xs)"

lemma return_apply [simp]: "return x w = (Inr x, w)"
  by (simp add: return_def)

lemma failing_apply [simp]: "failing e w = (Inl e, w)"
  by (simp add: failing_def)

lemma seq_Inl [simp]: "m w = (Inl e, w') \<Longrightarrow> seq m f w = (Inl e, w')"
  by (simp add: seq_def)

lemma seq_Inr [simp]: "m w = (Inr x, w') \<Longrightarrow> seq m f w = f x w'"
  by (simp add: seq_def)

lemma seq_Inr_iff:
  "seq m f w = (Inr y, w'') \<longleftrightarrow> (\<exists>x w'. m w = (Inr x, w') \<and> f x w' = (Inr y, w''))"
  by (auto simp: seq_def split: prod.splits sum.splits)

lemma wrapping_Inr_iff: "wrapping p m w = (Inr x, w') \<longleftrightarrow> m w = (Inr x, w')"
  by (auto simp: wrapping_def split: prod.splits sum.splits)

lemma seq_assoc: "seq (seq m f) g = seq m (\<lambda>x. seq (f x) g)"
  by (rule ext) (simp add: seq_def split: prod.splits sum.splits)

text \<open>Congruences that evaluate a call outside in: the continuation of a call is not touched before
  the call is evaluated.\<close>

lemma seq_eval_cong: "w = w' \<Longrightarrow> seq m f w = seq m f w'"
  by simp

lemma wrapping_eval_cong: "w = w' \<Longrightarrow> wrapping p m w = wrapping p m w'"
  by simp

lemma for_each_eval_cong: "xs = xs' \<Longrightarrow> for_each f xs = for_each f xs'"
  by simp

lemmas eval_congs = seq_eval_cong wrapping_eval_cong for_each_eval_cong prod.case_cong_weak
  sum.case_cong_weak option.case_cong_weak if_weak_cong let_weak_cong

text \<open>What a call keeps of the world.\<close>

definition keeps :: "('w \<Rightarrow> 'o) \<Rightarrow> ('w, 'a) call \<Rightarrow> bool" where
  "keeps obs m \<longleftrightarrow> (\<forall>w. obs (snd (m w)) = obs w)"

lemma keepsD: "keeps obs m \<Longrightarrow> m w = (r, w') \<Longrightarrow> obs w' = obs w"
  by (metis keeps_def snd_conv)

lemma keepsI: "(\<And>w r w'. m w = (r, w') \<Longrightarrow> obs w' = obs w) \<Longrightarrow> keeps obs m"
  by (metis keeps_def prod.collapse)

lemma keeps_pair: "keeps f m \<Longrightarrow> keeps g m \<Longrightarrow> keeps (\<lambda>w. (f w, g w)) m"
  by (simp add: keeps_def)

lemma keeps_return [keeps_intros]: "keeps obs (return x)"
  by (simp add: keeps_def)

lemma keeps_failing [keeps_intros]: "keeps obs (failing e)"
  by (simp add: keeps_def)

lemma keeps_seq [keeps_intros]:
  "keeps obs m \<Longrightarrow> (\<And>x. keeps obs (f x)) \<Longrightarrow> keeps obs (seq m f)"
  by (auto simp: keeps_def seq_def split: prod.splits sum.splits dest: keepsD) (metis snd_conv)+

lemma keeps_wrapping [keeps_intros]: "keeps obs m \<Longrightarrow> keeps obs (wrapping p m)"
  by (auto simp: keeps_def wrapping_def split: prod.splits sum.splits) (metis snd_conv)+

lemma keeps_for_each [keeps_intros]: "(\<And>x. keeps obs (f x)) \<Longrightarrow> keeps obs (for_each f xs)"
  by (induction xs) (auto intro!: keeps_intros)

lemma keeps_if [keeps_intros]: "keeps obs m \<Longrightarrow> keeps obs n \<Longrightarrow> keeps obs (if b then m else n)"
  by simp

lemma keeps_let [keeps_intros]: "keeps obs (f x) \<Longrightarrow> keeps obs (let y = x in f y)"
  by (simp add: Let_def)

lemma keeps_case_option [keeps_intros]:
  "keeps obs m \<Longrightarrow> (\<And>x. keeps obs (f x)) \<Longrightarrow> keeps obs (case x of None \<Rightarrow> m | Some y \<Rightarrow> f y)"
  by (simp split: option.splits)

lemma find_SomeD: "List.find P xs = Some x \<Longrightarrow> x \<in> set xs \<and> P x"
  by (auto simp: find_Some_iff)

end
