(* ===== verification/Domain.thy ===== *)
theory Domain
  imports Go_Base
begin

text \<open>The domain model (\<^verbatim>\<open>internal/domain\<close>): the enumerations, entities and runtime snapshots that
  services, repositories and adapters exchange.  A Go string type with declared constants is a
  datatype with one constructor per constant; the types whose values come from outside (a request,
  a runtime) have one more constructor for every other text.  \<^verbatim>\<open>*time.Time\<close> is \<^typ>\<open>time option\<close>.\<close>

section \<open>Enumerations\<close>

datatype agent_status = AgentUnknown | AgentEnabled | AgentDisabled | AgentStale
  | AgentStatusOther string

datatype agent_kind = AgentMain | AgentRegistered | AgentSubagent | AgentKindOther string

datatype control_action_status = ActionQueued | ActionRunning | ActionSucceeded | ActionFailed
  | ActionRejected

datatype runtime_kind = KindGantry | KindLangGraph | KindOther string

datatype runtime_mode = ModeReadOnly | ModeControlEnabled | ModeOther string

datatype runtime_status = RuntimePending | RuntimeActive | RuntimeDegraded | RuntimeDisabled
  | RuntimeFailed | RuntimeStatusOther string

datatype endpoint_kind = EndpointCanonical | EndpointAlias | EndpointRelay

datatype sync_trigger = TriggerUnset | TriggerManual | TriggerScheduled | TriggerPostAction

datatype sync_status = SyncUnset | SyncRunning | SyncSucceeded | SyncFailed | SyncSkipped

datatype freshness = FreshLive | FreshCached | FreshStale

datatype usage_source = SourceGantryNative | SourceLangSmith | SourceOTEL | SourceOther string

datatype telemetry_run_status = TelemetryUnset | TelemetryRunning | TelemetrySucceeded | TelemetryFailed

fun agent_status_text :: "agent_status \<Rightarrow> string" where
  "agent_status_text AgentUnknown = ''unknown''"
| "agent_status_text AgentEnabled = ''enabled''"
| "agent_status_text AgentDisabled = ''disabled''"
| "agent_status_text AgentStale = ''stale''"
| "agent_status_text (AgentStatusOther s) = s"

definition agent_status_of :: "string \<Rightarrow> agent_status" where
  "agent_status_of s =
     (if s = ''unknown'' then AgentUnknown else if s = ''enabled'' then AgentEnabled
      else if s = ''disabled'' then AgentDisabled else if s = ''stale'' then AgentStale
      else AgentStatusOther s)"

fun runtime_kind_text :: "runtime_kind \<Rightarrow> string" where
  "runtime_kind_text KindGantry = ''gantry''"
| "runtime_kind_text KindLangGraph = ''langgraph''"
| "runtime_kind_text (KindOther s) = s"

definition runtime_kind_of :: "string \<Rightarrow> runtime_kind" where
  "runtime_kind_of s =
     (if s = ''gantry'' then KindGantry else if s = ''langgraph'' then KindLangGraph
      else KindOther s)"

fun runtime_mode_text :: "runtime_mode \<Rightarrow> string" where
  "runtime_mode_text ModeReadOnly = ''read_only''"
| "runtime_mode_text ModeControlEnabled = ''control_enabled''"
| "runtime_mode_text (ModeOther s) = s"

fun runtime_status_text :: "runtime_status \<Rightarrow> string" where
  "runtime_status_text RuntimePending = ''pending''"
| "runtime_status_text RuntimeActive = ''active''"
| "runtime_status_text RuntimeDegraded = ''degraded''"
| "runtime_status_text RuntimeDisabled = ''disabled''"
| "runtime_status_text RuntimeFailed = ''failed''"
| "runtime_status_text (RuntimeStatusOther s) = s"

fun control_action_status_text :: "control_action_status \<Rightarrow> string" where
  "control_action_status_text ActionQueued = ''queued''"
| "control_action_status_text ActionRunning = ''running''"
| "control_action_status_text ActionSucceeded = ''succeeded''"
| "control_action_status_text ActionFailed = ''failed''"
| "control_action_status_text ActionRejected = ''rejected''"

fun sync_trigger_text :: "sync_trigger \<Rightarrow> string" where
  "sync_trigger_text TriggerUnset = ''''"
| "sync_trigger_text TriggerManual = ''manual''"
| "sync_trigger_text TriggerScheduled = ''scheduled''"
| "sync_trigger_text TriggerPostAction = ''post_action''"

fun sync_status_text :: "sync_status \<Rightarrow> string" where
  "sync_status_text SyncUnset = ''''"
| "sync_status_text SyncRunning = ''running''"
| "sync_status_text SyncSucceeded = ''succeeded''"
| "sync_status_text SyncFailed = ''failed''"
| "sync_status_text SyncSkipped = ''skipped''"

fun usage_source_text :: "usage_source \<Rightarrow> string" where
  "usage_source_text SourceGantryNative = ''gantry_native''"
| "usage_source_text SourceLangSmith = ''langsmith''"
| "usage_source_text SourceOTEL = ''otel''"
| "usage_source_text (SourceOther s) = s"

lemma agent_status_text_of [simp]: "agent_status_text (agent_status_of s) = s"
  by (simp add: agent_status_of_def)

lemma runtime_kind_text_of [simp]: "runtime_kind_text (runtime_kind_of s) = s"
  by (simp add: runtime_kind_of_def)


section \<open>Tenants, principals\<close>

record organization =
  org_id :: string
  org_name :: string
  org_slug :: string

record principal =
  p_user :: string
  p_email :: string
  p_org :: string
  p_organization :: organization
  p_role :: string
  p_session :: string
  p_csrf_hash :: string
  p_platform_admin :: bool

text \<open>The request context as \<^verbatim>\<open>internal/tenant\<close> uses it: the principal, when one was attached.  The
  organisation identifier that every repository scopes its queries with is empty (``not scoped'')
  for the platform administrator and for a context without a principal.\<close>

type_synonym req_context = "principal option"

definition with_principal :: "req_context \<Rightarrow> principal \<Rightarrow> req_context" where
  "with_principal ctx p = Some p"

definition principal_from :: "req_context \<Rightarrow> principal option" where
  "principal_from ctx = ctx"

definition organization_id :: "req_context \<Rightarrow> string" where
  "organization_id ctx =
     (case principal_from ctx of
        None \<Rightarrow> ''''
      | Some p \<Rightarrow> if p_platform_admin p then '''' else p_org p)"


section \<open>Runtimes, agents, access\<close>

record runtime_endpoint =
  ep_id :: string
  ep_conn :: string
  ep_url :: string
  ep_kind :: endpoint_kind
  ep_auth_ref :: string
  ep_source :: string

record runtime_connection =
  rc_id :: string
  rc_org :: string
  rc_name :: string
  rc_display_name :: string
  rc_environment :: string
  rc_kind :: runtime_kind
  rc_mode :: runtime_mode
  rc_status :: runtime_status
  rc_base_url :: string
  rc_auth_ref :: string
  rc_metadata :: gmap
  rc_labels :: "(string \<times> string) list"
  rc_last_synced_at :: "time option"
  rc_sync_enabled :: bool
  rc_sync_interval :: int
  rc_last_sync_status :: sync_status
  rc_last_sync_started :: "time option"
  rc_last_sync_finished :: "time option"
  rc_last_sync_duration :: int
  rc_last_error :: string
  rc_endpoints :: "runtime_endpoint list"

record access_selection =
  sel_kind :: string
  sel_id :: string
  sel_name :: string
  sel_allowed :: bool
  sel_attributes :: gmap

record access_document =
  acc_agent :: string
  acc_selections :: "access_selection list"
  acc_raw :: gmap
  acc_observed_at :: time
  acc_desired_at :: "time option"
  acc_source :: string
  acc_source_ref :: string
  acc_source_sha :: string

definition no_access :: access_document where
  "no_access = \<lparr>acc_agent = [], acc_selections = [], acc_raw = [], acc_observed_at = 0,
     acc_desired_at = None, acc_source = [], acc_source_ref = [], acc_source_sha = []\<rparr>"

record agent_snapshot =
  as_id :: string
  as_parent :: string
  as_kind :: agent_kind
  as_name :: string
  as_status :: agent_status
  as_metadata :: gmap
  as_observed_at :: time

record skill_snapshot =
  sk_id :: string
  sk_name :: string
  sk_description :: string
  sk_source :: string
  sk_status :: string
  sk_version :: string
  sk_tools :: "string list"
  sk_workflows :: "string list"
  sk_metadata :: gmap
  sk_observed_at :: time

record snapshot_agent =
  sa_agent :: agent_snapshot
  sa_skills :: "skill_snapshot list"
  sa_access :: access_document

record diagnostic_snapshot =
  dg_check :: string
  dg_status :: string
  dg_message :: string
  dg_observed_at :: time
  dg_metadata :: gmap
  dg_raw :: gmap

record inventory_snapshot =
  iv_id :: string
  iv_kind :: string
  iv_name :: string
  iv_status :: string
  iv_provider :: string
  iv_source :: string
  iv_observed_at :: time
  iv_metadata :: gmap
  iv_raw :: gmap

record capability_snapshot =
  cp_id :: string
  cp_version :: string
  cp_name :: string
  cp_category :: string
  cp_risk :: string
  cp_can :: string
  cp_cannot :: string
  cp_source :: string
  cp_observed_at :: time
  cp_metadata :: gmap
  cp_raw :: gmap

record delegation_snapshot =
  dl_orchestrator :: string
  dl_delegate :: string
  dl_ref :: string
  dl_tool :: string
  dl_display :: string
  dl_persona :: string
  dl_configured :: bool
  dl_resolved :: bool
  dl_revision :: int
  dl_status :: string
  dl_observed_at :: time
  dl_metadata :: gmap
  dl_raw :: gmap

record execution_snapshot =
  ex_id :: string
  ex_parent :: string
  ex_agent :: string
  ex_kind :: string
  ex_status :: string
  ex_started :: "time option"
  ex_ended :: "time option"
  ex_observed_at :: time
  ex_metadata :: gmap
  ex_raw :: gmap

record subagent_execution =
  se_id :: string
  se_parent_run :: string
  se_agent :: string
  se_type :: string
  se_status :: string
  se_description :: string
  se_summary :: string
  se_started :: "time option"
  se_ended :: "time option"
  se_observed_at :: time
  se_metadata :: gmap
  se_raw :: gmap

record runtime_snapshot =
  sn_observed_at :: time
  sn_agents :: "snapshot_agent list"
  sn_diagnostics :: "diagnostic_snapshot list"
  sn_inventory :: "inventory_snapshot list"
  sn_catalog :: "capability_snapshot list"
  sn_delegations :: "delegation_snapshot list"
  sn_executions :: "execution_snapshot list"
  sn_subagents :: "subagent_execution list"
  sn_metadata :: gmap
  sn_capabilities :: "(string \<times> bool) list"

record sync_run =
  run_id :: string
  run_conn :: string
  run_trigger :: sync_trigger
  run_status :: sync_status
  run_started :: time
  run_finished :: "time option"
  run_duration :: int
  run_agents :: nat
  run_skills :: nat
  run_bindings :: nat
  run_access :: nat
  run_executions :: nat
  run_diagnostics :: nat
  run_inventory :: nat
  run_capabilities :: nat
  run_delegations :: nat
  run_error_code :: string
  run_error_message :: string

definition no_run :: sync_run where
  "no_run = \<lparr>run_id = [], run_conn = [], run_trigger = TriggerUnset, run_status = SyncUnset,
     run_started = 0, run_finished = None, run_duration = 0, run_agents = 0, run_skills = 0,
     run_bindings = 0, run_access = 0, run_executions = 0, run_diagnostics = 0, run_inventory = 0,
     run_capabilities = 0, run_delegations = 0, run_error_code = [], run_error_message = []\<rparr>"

record persisted_agent =
  pa_id :: string
  pa_name :: string
  pa_status :: agent_status
  pa_metadata :: gmap
  pa_conn :: string
  pa_runtime_agent :: string
  pa_parent :: string
  pa_kind :: agent_kind
  pa_freshness :: freshness
  pa_observed_at :: time
  pa_last_sync :: "time option"
  pa_runtime_status :: runtime_status

record agent_detail =
  ad_agent :: persisted_agent
  ad_skills :: "skill_snapshot list"
  ad_access :: access_document

record persisted_execution =
  px_id :: string
  px_conn :: string
  px_snapshot :: execution_snapshot


section \<open>Control actions and audit events\<close>

record control_action =
  ca_id :: string
  ca_conn :: string
  ca_agent :: string
  ca_type :: string
  ca_status :: control_action_status
  ca_actor :: string
  ca_reason :: string
  ca_key :: string
  ca_before :: gmap
  ca_after :: gmap
  ca_result :: gmap

definition no_action :: control_action where
  "no_action = \<lparr>ca_id = [], ca_conn = [], ca_agent = [], ca_type = [], ca_status = ActionQueued,
     ca_actor = [], ca_reason = [], ca_key = [], ca_before = [], ca_after = [], ca_result = []\<rparr>"

record audit_event =
  au_id :: string
  au_conn :: string
  au_agent :: string
  au_action :: string
  au_actor :: string
  au_event :: string
  au_target_type :: string
  au_target :: string
  au_reason :: string
  au_before :: gmap
  au_after :: gmap
  au_result :: string
  au_metadata :: gmap


section \<open>The adapter interface\<close>

text \<open>\<^verbatim>\<open>internal/adapters/runtime/runtime.go\<close>: what every runtime connector offers to the services.
  An adapter is a record of calls on the world.\<close>

record capabilities =
  can_read_agents :: bool
  can_read_hierarchy :: bool
  can_read_delegates :: bool
  can_read_skills :: bool
  can_read_access :: bool
  can_replace_access :: bool
  can_read_subagents :: bool
  can_read_executions :: bool
  can_read_diagnostics :: bool
  can_read_inventory :: bool
  can_read_catalog :: bool
  can_set_status :: bool
  can_delete_agent :: bool
  can_cancel :: bool

record check_result =
  ck_status :: runtime_status
  ck_message :: string
  ck_capabilities :: capabilities
  ck_metadata :: gmap
  ck_diagnostics :: "diagnostic_snapshot list"

record 'w adapter =
  ad_check :: "runtime_connection \<Rightarrow> ('w, check_result) call"
  ad_replace_access ::
    "runtime_connection \<Rightarrow> string \<Rightarrow> access_document \<Rightarrow> ('w, access_document) call"
  ad_set_status :: "runtime_connection \<Rightarrow> string \<Rightarrow> agent_status \<Rightarrow> ('w, agent_snapshot) call"
  ad_delete_agent :: "runtime_connection \<Rightarrow> string \<Rightarrow> ('w, unit) call"
  ad_cancel :: "runtime_connection \<Rightarrow> execution_snapshot \<Rightarrow> ('w, unit) call"
  ad_collect :: "runtime_connection \<Rightarrow> ('w, runtime_snapshot) call"

text \<open>\<^verbatim>\<open>WithAdapter\<close> registers an adapter under its kind; a service looks it up by the kind of a
  connection.\<close>

type_synonym 'w adapters = "(runtime_kind \<times> 'w adapter) list"

definition with_adapter ::
    "runtime_kind \<Rightarrow> 'w adapter option \<Rightarrow> 'w adapters \<Rightarrow> 'w adapters" where
  "with_adapter k a m = (case a of None \<Rightarrow> m | Some a' \<Rightarrow> AList.update k a' m)"

lemma with_adapter_lookup:
  "map_of (with_adapter k (Some a) m) k' = (if k' = k then Some a else map_of m k')"
  by (simp add: with_adapter_def update_conv')

section \<open>Usage telemetry\<close>

text \<open>A \<^verbatim>\<open>Decimal\<close> is its text; a \<^verbatim>\<open>float64\<close> is a rational.\<close>

record usage_observation =
  uo_source :: usage_source
  uo_source_id :: string
  uo_conn :: string
  uo_agent :: string
  uo_execution :: string
  uo_parent :: string
  uo_thread :: string
  uo_model :: string
  uo_provider :: string
  uo_requests :: int
  uo_input :: int
  uo_output :: int
  uo_cached :: int
  uo_cache_creation :: int
  uo_reasoning :: int
  uo_total :: int
  uo_window :: "int option"
  uo_utilization :: "rat option"
  uo_input_cost :: "string option"
  uo_output_cost :: "string option"
  uo_total_cost :: "string option"
  uo_duration :: "int option"
  uo_first_token :: "int option"
  uo_errors :: int
  uo_started :: "time option"
  uo_ended :: "time option"
  uo_observed :: time
  uo_metadata_version :: string
  uo_attributes :: gmap

record usage_query =
  uq_from :: time
  uq_to :: time
  uq_interval :: int
  uq_conn :: string
  uq_agent :: string
  uq_runtime_agent :: string
  uq_execution :: string
  uq_job :: string
  uq_grouping :: string
  uq_model :: string
  uq_source :: string

record model_usage =
  mu_model :: string
  mu_requests :: int
  mu_input :: int
  mu_output :: int
  mu_total :: int

record usage_bucket =
  ub_started :: time
  ub_requests :: int
  ub_input :: int
  ub_output :: int
  ub_total :: int

record usage_summary =
  us_conn :: string
  us_agent :: string
  us_from :: time
  us_to :: time
  us_source :: string
  us_available :: bool
  us_configured :: bool
  us_last_observed :: "time option"
  us_requests :: int
  us_input :: int
  us_output :: int
  us_cached :: int
  us_cache_creation :: int
  us_reasoning :: int
  us_total :: int
  us_cost :: "string option"
  us_average_duration :: "rat option"
  us_p95_duration :: "rat option"
  us_error_rate :: "rat option"
  us_utilization :: "rat option"
  us_models :: "model_usage list"
  us_series :: "usage_bucket list"

record ingestion_run =
  ti_id :: string
  ti_conn :: string
  ti_source :: string
  ti_status :: telemetry_run_status
  ti_cursor :: "time option"
  ti_schema :: string
  ti_started :: time
  ti_finished :: "time option"
  ti_last_success :: "time option"
  ti_accepted :: int
  ti_rejected :: int
  ti_deduplicated :: int
  ti_error :: string


section \<open>Accounts\<close>

record user =
  u_id :: string
  u_email :: string
  u_created :: time

record auth_session =
  se_user :: user
  se_organization :: organization
  se_role :: string
  se_token :: string
  se_csrf :: string
  se_absolute :: time
  se_idle :: time

end
