(* ===== verification/Snapshot_Validation.thy ===== *)
theory Snapshot_Validation
  imports Domain
begin

text \<open>\<^verbatim>\<open>validateRuntimeSnapshot\<close> of \<^verbatim>\<open>internal/services/runtime_sync.go\<close>: the checks a snapshot of a
  runtime passes before anything of it is stored.  Each loop of the function is \<open>scan_unique\<close> with
  the loop's own body; the declarative reading is \<open>snapshot_ok\<close>.\<close>

section \<open>The loops\<close>

text \<open>A loop that classifies each item (an error, or the key under which it is recorded), rejects a
  key already recorded, records it and then runs the rest of the body.\<close>

fun scan_unique :: "('x \<Rightarrow> gerr + string) \<Rightarrow> (string \<Rightarrow> gerr) \<Rightarrow> ('x \<Rightarrow> gerr option) \<Rightarrow>
    string list \<Rightarrow> 'x list \<Rightarrow> gerr option" where
  "scan_unique key dup after seen [] = None"
| "scan_unique key dup after seen (x # xs) =
     (case key x of
        Inl e \<Rightarrow> Some e
      | Inr k \<Rightarrow>
          if k \<in> set seen then Some (dup k)
          else (case after x of
                  Some e \<Rightarrow> Some e
                | None \<Rightarrow> scan_unique key dup after (k # seen) xs))"

definition no_more :: "'x \<Rightarrow> gerr option" where
  "no_more x = None"

definition diagnostic_key :: "diagnostic_snapshot \<Rightarrow> gerr + string" where
  "diagnostic_key item =
     (let id = trim_space (dg_check item) in
      if id = [] then Inl (Text ''snapshot contains a diagnostic without check id'') else Inr id)"

definition inventory_key :: "inventory_snapshot \<Rightarrow> gerr + string" where
  "inventory_key item =
     (if trim_space (iv_kind item) = [] \<or> trim_space (iv_id item) = []
      then Inl (Text ''snapshot contains inventory without kind or runtime id'')
      else Inr (iv_kind item @ '':'' @ iv_id item))"

definition capability_key :: "capability_snapshot \<Rightarrow> gerr + string" where
  "capability_key item =
     (if trim_space (cp_id item) = [] \<or> trim_space (cp_version item) = []
      then Inl (Text ''snapshot contains capability without runtime id or version'')
      else Inr (cp_id item @ '':'' @ cp_version item))"

definition delegation_key :: "delegation_snapshot \<Rightarrow> gerr + string" where
  "delegation_key item =
     (let orchestrator = trim_space (dl_orchestrator item);
          delegate = trim_space (dl_delegate item);
          ref = trim_space (dl_ref item)
      in if orchestrator = [] \<or> (delegate = [] \<and> ref = [])
         then Inl (Text ''snapshot contains delegation without orchestrator or delegate identity'')
         else Inr (if ref = [] then orchestrator @ '':agent:'' @ delegate
                   else orchestrator @ '':ref:'' @ ref))"

definition skill_key :: "string \<Rightarrow> skill_snapshot \<Rightarrow> gerr + string" where
  "skill_key agent skill =
     (if trim_space (sk_id skill) = []
      then Inl (Text (''agent '' @ quoted agent @ '' has skill without runtime id''))
      else Inr (sk_id skill))"

definition agent_key :: "snapshot_agent \<Rightarrow> gerr + string" where
  "agent_key item =
     (let id = trim_space (as_id (sa_agent item)) in
      if id = [] then Inl (Text ''snapshot contains an agent without runtime id'') else Inr id)"

definition agent_body :: "snapshot_agent \<Rightarrow> gerr option" where
  "agent_body item =
     (let id = trim_space (as_id (sa_agent item)); acc = acc_agent (sa_access item) in
      if acc \<noteq> [] \<and> acc \<noteq> id
      then Some (Text (''access document agent id '' @ quoted acc @ '' does not match '' @ quoted id))
      else scan_unique (skill_key id)
             (\<lambda>k. Text (''agent '' @ quoted id @ '' has duplicate skill '' @ quoted k))
             no_more [] (sa_skills item))"

definition execution_key :: "execution_snapshot \<Rightarrow> gerr + string" where
  "execution_key item =
     (let id = trim_space (ex_id item) in
      if id = [] \<or> trim_space (ex_kind item) = []
      then Inl (Text ''snapshot contains a runtime execution without kind or runtime id'')
      else Inr (ex_kind item @ '':'' @ id))"

definition subagent_key :: "subagent_execution \<Rightarrow> gerr + string" where
  "subagent_key item =
     (let id = trim_space (se_id item) in
      if id = [] then Inl (Text ''snapshot contains a subagent execution without runtime id'')
      else Inr id)"

definition duplicate :: "string \<Rightarrow> string \<Rightarrow> gerr" where
  "duplicate what k = Text (''snapshot contains duplicate '' @ what @ '' '' @ quoted k)"

text \<open>The first error of two consecutive loops.\<close>

definition first_error :: "gerr option \<Rightarrow> gerr option \<Rightarrow> gerr option" where
  "first_error a b = (case a of Some e \<Rightarrow> Some e | None \<Rightarrow> b)"

definition validate_runtime_snapshot :: "runtime_snapshot \<Rightarrow> gerr option" where
  "validate_runtime_snapshot sn =
     first_error (scan_unique diagnostic_key (duplicate ''diagnostic'') no_more [] (sn_diagnostics sn))
     (first_error (scan_unique inventory_key (duplicate ''inventory item'') no_more [] (sn_inventory sn))
     (first_error (scan_unique capability_key (duplicate ''capability'') no_more [] (sn_catalog sn))
     (first_error (scan_unique delegation_key (duplicate ''agent delegation'') no_more [] (sn_delegations sn))
     (first_error (scan_unique agent_key (duplicate ''runtime agent id'') agent_body [] (sn_agents sn))
     (first_error (scan_unique execution_key (duplicate ''runtime execution'') no_more [] (sn_executions sn))
     (scan_unique subagent_key (duplicate ''subagent execution id'') no_more [] (sn_subagents sn)))))))"


section \<open>What a loop accepts\<close>

lemma first_error_None [simp]: "first_error a b = None \<longleftrightarrow> a = None \<and> b = None"
  by (simp add: first_error_def split: option.splits)

lemma scan_unique_None:
  "scan_unique key dup after seen xs = None \<longleftrightarrow>
     (\<forall>x\<in>set xs. isl (key x) = False \<and> after x = None) \<and>
     distinct (map (\<lambda>x. projr (key x)) xs) \<and>
     (\<forall>x\<in>set xs. projr (key x) \<notin> set seen)"
  by (induction xs arbitrary: seen) (auto split: sum.splits option.splits)

text \<open>A scan that fails reports the error of one of the items, or the key of a duplicate.\<close>

lemma scan_unique_Some:
  "scan_unique key dup after seen xs = Some e \<Longrightarrow>
     (\<exists>x\<in>set xs. key x = Inl e \<or> after x = Some e \<or> (\<exists>k. key x = Inr k \<and> e = dup k))"
  by (induction xs arbitrary: seen) (fastforce split: sum.splits option.splits if_splits)+

lemma no_more [simp]: "no_more x = None"
  by (simp add: no_more_def)

lemma scan_unique_keyed:
  assumes "\<And>x. isl (key x) \<longleftrightarrow> \<not> P x" and "\<And>x. P x \<Longrightarrow> projr (key x) = f x"
  shows "scan_unique key dup after [] xs = None \<longleftrightarrow>
    (\<forall>x\<in>set xs. P x \<and> after x = None) \<and> distinct (map f xs)"
proof (cases "\<forall>x\<in>set xs. P x")
  case True
  then have "map (\<lambda>x. projr (key x)) xs = map f xs"
    using assms(2) by simp
  then have "distinct (map (\<lambda>x. projr (key x)) xs) \<longleftrightarrow> distinct (map f xs)"
    by (rule arg_cong)
  then show ?thesis
    using True by (simp add: scan_unique_None assms(1))
next
  case False
  then show ?thesis
    by (auto simp: scan_unique_None assms(1))
qed

lemma scan_skills:
  "scan_unique (skill_key a) dup no_more [] sks = None \<longleftrightarrow>
     (\<forall>sk\<in>set sks. \<not> blank (sk_id sk)) \<and> distinct (map sk_id sks)"
  by (subst scan_unique_keyed [where P = "\<lambda>sk. \<not> blank (sk_id sk)" and f = sk_id])
     (auto simp: skill_key_def blank_def)

lemma agent_body_None:
  "agent_body item = None \<longleftrightarrow>
     (acc_agent (sa_access item) = [] \<or> acc_agent (sa_access item) = trim_space (as_id (sa_agent item))) \<and>
     (\<forall>sk\<in>set (sa_skills item). \<not> blank (sk_id sk)) \<and> distinct (map sk_id (sa_skills item))"
  by (auto simp: agent_body_def Let_def scan_skills)


section \<open>The declarative reading\<close>

definition delegation_identity :: "delegation_snapshot \<Rightarrow> string" where
  "delegation_identity item =
     (if blank (dl_ref item)
      then trim_space (dl_orchestrator item) @ '':agent:'' @ trim_space (dl_delegate item)
      else trim_space (dl_orchestrator item) @ '':ref:'' @ trim_space (dl_ref item))"

definition agent_entry_ok :: "snapshot_agent \<Rightarrow> bool" where
  "agent_entry_ok item \<longleftrightarrow>
     \<not> blank (as_id (sa_agent item)) \<and>
     acc_agent (sa_access item) \<in> {[], trim_space (as_id (sa_agent item))} \<and>
     (\<forall>sk\<in>set (sa_skills item). \<not> blank (sk_id sk)) \<and> distinct (map sk_id (sa_skills item))"

definition snapshot_ok :: "runtime_snapshot \<Rightarrow> bool" where
  "snapshot_ok sn \<longleftrightarrow>
     (\<forall>d\<in>set (sn_diagnostics sn). \<not> blank (dg_check d)) \<and>
     distinct (map (\<lambda>d. trim_space (dg_check d)) (sn_diagnostics sn)) \<and>
     (\<forall>i\<in>set (sn_inventory sn). \<not> blank (iv_kind i) \<and> \<not> blank (iv_id i)) \<and>
     distinct (map (\<lambda>i. iv_kind i @ '':'' @ iv_id i) (sn_inventory sn)) \<and>
     (\<forall>c\<in>set (sn_catalog sn). \<not> blank (cp_id c) \<and> \<not> blank (cp_version c)) \<and>
     distinct (map (\<lambda>c. cp_id c @ '':'' @ cp_version c) (sn_catalog sn)) \<and>
     (\<forall>d\<in>set (sn_delegations sn).
        \<not> blank (dl_orchestrator d) \<and> \<not> (blank (dl_delegate d) \<and> blank (dl_ref d))) \<and>
     distinct (map delegation_identity (sn_delegations sn)) \<and>
     (\<forall>a\<in>set (sn_agents sn). agent_entry_ok a) \<and>
     distinct (map (\<lambda>a. trim_space (as_id (sa_agent a))) (sn_agents sn)) \<and>
     (\<forall>x\<in>set (sn_executions sn). \<not> blank (ex_id x) \<and> \<not> blank (ex_kind x)) \<and>
     distinct (map (\<lambda>x. ex_kind x @ '':'' @ trim_space (ex_id x)) (sn_executions sn)) \<and>
     (\<forall>x\<in>set (sn_subagents sn). \<not> blank (se_id x)) \<and>
     distinct (map (\<lambda>x. trim_space (se_id x)) (sn_subagents sn))"

lemmas validation_keys = diagnostic_key_def inventory_key_def capability_key_def delegation_key_def
  agent_key_def execution_key_def subagent_key_def delegation_identity_def blank_def Let_def

lemma scan_diagnostics:
  "scan_unique diagnostic_key dup no_more [] xs = None \<longleftrightarrow>
     (\<forall>d\<in>set xs. \<not> blank (dg_check d)) \<and> distinct (map (\<lambda>d. trim_space (dg_check d)) xs)"
  by (subst scan_unique_keyed [where P = "\<lambda>d. \<not> blank (dg_check d)"
        and f = "\<lambda>d. trim_space (dg_check d)"]) (auto simp: validation_keys)

lemma scan_inventory:
  "scan_unique inventory_key dup no_more [] xs = None \<longleftrightarrow>
     (\<forall>i\<in>set xs. \<not> blank (iv_kind i) \<and> \<not> blank (iv_id i)) \<and>
     distinct (map (\<lambda>i. iv_kind i @ '':'' @ iv_id i) xs)"
  by (subst scan_unique_keyed [where P = "\<lambda>i. \<not> blank (iv_kind i) \<and> \<not> blank (iv_id i)"
        and f = "\<lambda>i. iv_kind i @ '':'' @ iv_id i"]) (auto simp: validation_keys)

lemma scan_catalog:
  "scan_unique capability_key dup no_more [] xs = None \<longleftrightarrow>
     (\<forall>c\<in>set xs. \<not> blank (cp_id c) \<and> \<not> blank (cp_version c)) \<and>
     distinct (map (\<lambda>c. cp_id c @ '':'' @ cp_version c) xs)"
  by (subst scan_unique_keyed [where P = "\<lambda>c. \<not> blank (cp_id c) \<and> \<not> blank (cp_version c)"
        and f = "\<lambda>c. cp_id c @ '':'' @ cp_version c"]) (auto simp: validation_keys)

lemma scan_delegations:
  "scan_unique delegation_key dup no_more [] xs = None \<longleftrightarrow>
     (\<forall>d\<in>set xs. \<not> blank (dl_orchestrator d) \<and> \<not> (blank (dl_delegate d) \<and> blank (dl_ref d))) \<and>
     distinct (map delegation_identity xs)"
  by (subst scan_unique_keyed [where f = delegation_identity and
        P = "\<lambda>d. \<not> blank (dl_orchestrator d) \<and> \<not> (blank (dl_delegate d) \<and> blank (dl_ref d))"])
     (auto simp: validation_keys)

lemma scan_agents:
  "scan_unique agent_key dup agent_body [] xs = None \<longleftrightarrow>
     (\<forall>a\<in>set xs. agent_entry_ok a) \<and> distinct (map (\<lambda>a. trim_space (as_id (sa_agent a))) xs)"
  by (subst scan_unique_keyed [where P = "\<lambda>a. \<not> blank (as_id (sa_agent a))"
        and f = "\<lambda>a. trim_space (as_id (sa_agent a))"])
     (auto simp: validation_keys agent_body_None agent_entry_ok_def)

lemma scan_executions:
  "scan_unique execution_key dup no_more [] xs = None \<longleftrightarrow>
     (\<forall>x\<in>set xs. \<not> blank (ex_id x) \<and> \<not> blank (ex_kind x)) \<and>
     distinct (map (\<lambda>x. ex_kind x @ '':'' @ trim_space (ex_id x)) xs)"
  by (subst scan_unique_keyed [where P = "\<lambda>x. \<not> blank (ex_id x) \<and> \<not> blank (ex_kind x)"
        and f = "\<lambda>x. ex_kind x @ '':'' @ trim_space (ex_id x)"]) (auto simp: validation_keys)

lemma scan_subagents:
  "scan_unique subagent_key dup no_more [] xs = None \<longleftrightarrow>
     (\<forall>x\<in>set xs. \<not> blank (se_id x)) \<and> distinct (map (\<lambda>x. trim_space (se_id x)) xs)"
  by (subst scan_unique_keyed [where P = "\<lambda>x. \<not> blank (se_id x)"
        and f = "\<lambda>x. trim_space (se_id x)"]) (auto simp: validation_keys)

lemmas scan_loops = scan_diagnostics scan_inventory scan_catalog scan_delegations scan_agents
  scan_executions scan_subagents

lemma validate_None: "validate_runtime_snapshot sn = None \<longleftrightarrow> snapshot_ok sn"
  by (simp add: validate_runtime_snapshot_def scan_loops snapshot_ok_def)

end
