(* ===== verification/Store_Base.thy ===== *)
theory Store_Base
  imports Domain
begin

text \<open>What the repositories (\<^verbatim>\<open>internal/store\<close>) share: the database session they run in, with
  statements that may fail, transactions, the clock and the random source as an environment;
  identifiers; and the tables of the control plane with PostgreSQL's
  \<^verbatim>\<open>INSERT .. ON CONFLICT DO UPDATE\<close>.\<close>

section \<open>Sessions\<close>

text \<open>The environment of a call: whether the statement executed at a given step fails (a lost
  connection, a violated constraint the tables below do not carry, a value that is not a uuid), the
  clock, the bytes \<^verbatim>\<open>crypto/rand\<close> delivers, the identifiers PostgreSQL generates for a column
  default, \<^verbatim>\<open>hashtext\<close>, which error texts a text column takes (PostgreSQL refuses bytes that are not
  UTF-8, as a cut in the middle of a character leaves them), and the request context.  The world is the database, the number of steps
  taken, the advisory locks held, and the state of the runtimes outside.\<close>

record env =
  e_fault :: "nat \<Rightarrow> gerr option"
  e_now :: "nat \<Rightarrow> time"
  e_random :: "nat \<Rightarrow> gerr + string"
  e_default_id :: "nat \<Rightarrow> string"
  e_hash :: "string \<Rightarrow> int"
  e_text :: "string \<Rightarrow> bool"
  e_context :: req_context

record ('d, 'x) world =
  w_db :: 'd
  w_step :: nat
  w_locks :: "int list"
  w_runtime :: 'x

text \<open>A call of a connector works on the outside world only.\<close>

definition outside :: "('x, 'a) call \<Rightarrow> (('d, 'x) world, 'a) call" where
  "outside m w = (case m (w_runtime w) of (r, x) \<Rightarrow> (r, w\<lparr>w_runtime := x\<rparr>))"

lemma keeps_outside: "keeps (\<lambda>w. (w_db w, w_locks w)) (outside m)"
  by (simp add: keeps_def outside_def split: prod.splits)

definition tick :: "('d, 'x) world \<Rightarrow> ('d, 'x) world" where
  "tick w = w\<lparr>w_step := Suc (w_step w)\<rparr>"

definition tenant :: "env \<Rightarrow> string" where
  "tenant env = organization_id (e_context env)"

definition exec :: "env \<Rightarrow> ('d \<Rightarrow> 'd) \<Rightarrow> (('d, 'x) world, unit) call" where
  "exec env f w =
     (case e_fault env (w_step w) of
        Some e \<Rightarrow> (Inl e, tick w)
      | None \<Rightarrow> (Inr (), (tick w)\<lparr>w_db := f (w_db w)\<rparr>))"

text \<open>A statement that may violate a constraint of the table it writes: the check gives the
  database's error.\<close>

definition exec_checked :: "env \<Rightarrow> ('d \<Rightarrow> gerr option) \<Rightarrow> ('d \<Rightarrow> 'd) \<Rightarrow> (('d, 'x) world, unit) call" where
  "exec_checked env violation f w =
     (case violation (w_db w) of
        Some e \<Rightarrow> (Inl e, tick w)
      | None \<Rightarrow> exec env f w)"

definition query :: "env \<Rightarrow> ('d \<Rightarrow> 'a) \<Rightarrow> (('d, 'x) world, 'a) call" where
  "query env q w =
     (case e_fault env (w_step w) of
        Some e \<Rightarrow> (Inl e, tick w)
      | None \<Rightarrow> (Inr (q (w_db w)), tick w))"

text \<open>\<^verbatim>\<open>QueryRow(..).Scan\<close> of a query without a row is \<^verbatim>\<open>sql.ErrNoRows\<close>.\<close>

definition query_row :: "env \<Rightarrow> ('d \<Rightarrow> 'a option) \<Rightarrow> (('d, 'x) world, 'a) call" where
  "query_row env q =
     seq (query env q) (\<lambda>r. case r of None \<Rightarrow> failing (Sentinel NoRows) | Some x \<Rightarrow> return x)"

text \<open>A statement with its number of affected rows, and one with \<^verbatim>\<open>RETURNING\<close>.\<close>

definition exec_returning :: "env \<Rightarrow> ('d \<Rightarrow> 'd) \<Rightarrow> ('d \<Rightarrow> 'a) \<Rightarrow> (('d, 'x) world, 'a) call" where
  "exec_returning env f q w =
     (case exec env f w of (Inl e, w') \<Rightarrow> (Inl e, w') | (Inr _, w') \<Rightarrow> (Inr (q (w_db w)), w'))"

text \<open>SQL's \<^verbatim>\<open>now()\<close> inside a statement.\<close>

definition exec_now :: "env \<Rightarrow> (time \<Rightarrow> 'd \<Rightarrow> 'd) \<Rightarrow> (('d, 'x) world, unit) call" where
  "exec_now env f w = exec env (f (e_now env (w_step w))) w"

definition query_now :: "env \<Rightarrow> (time \<Rightarrow> 'd \<Rightarrow> 'a) \<Rightarrow> (('d, 'x) world, 'a) call" where
  "query_now env q w = query env (q (e_now env (w_step w))) w"

definition now :: "env \<Rightarrow> (('d, 'x) world, time) call" where
  "now env w = (Inr (e_now env (w_step w)), tick w)"

definition default_id :: "env \<Rightarrow> (('d, 'x) world, string) call" where
  "default_id env w = (Inr (e_default_id env (w_step w)), tick w)"

text \<open>\<^verbatim>\<open>BeginTx\<close>, the statements, \<^verbatim>\<open>Commit\<close>, with \<^verbatim>\<open>defer tx.Rollback()\<close>: unless the commit
  succeeds the database is the one the transaction began with.\<close>

definition transaction :: "env \<Rightarrow> string \<Rightarrow> string \<Rightarrow> (('d, 'x) world, 'a) call \<Rightarrow> (('d, 'x) world, 'a) call" where
  "transaction env begin_msg commit_msg body w =
     (case e_fault env (w_step w) of
        Some e \<Rightarrow> (Inl (Wrapped begin_msg e), tick w)
      | None \<Rightarrow>
          (case body (tick w) of
             (Inl e, w1) \<Rightarrow> (Inl e, w1\<lparr>w_db := w_db w\<rparr>)
           | (Inr x, w1) \<Rightarrow>
               (case e_fault env (w_step w1) of
                  Some e \<Rightarrow> (Inl (Wrapped commit_msg e), (tick w1)\<lparr>w_db := w_db w\<rparr>)
                | None \<Rightarrow> (Inr x, tick w1))))"

lemma tick_simps [simp]:
  "w_db (tick w) = w_db w" "w_locks (tick w) = w_locks w" "w_step (tick w) = Suc (w_step w)"
  "w_runtime (tick w) = w_runtime w"
  by (simp_all add: tick_def)

lemma transaction_error_keeps_db:
  "transaction env b c body w = (Inl e, w') \<Longrightarrow> w_db w' = w_db w"
  by (auto simp: transaction_def split: option.splits prod.splits sum.splits)

lemma transaction_commit:
  "transaction env b c body w = (Inr x, w') \<Longrightarrow>
     \<exists>w1. body (tick w) = (Inr x, w1) \<and> w_db w' = w_db w1 \<and> w_locks w' = w_locks w1"
  by (auto simp: transaction_def split: option.splits prod.splits sum.splits)

lemma transaction_fault_free:
  assumes "e_fault env = (\<lambda>_. None)" and "body (tick w) = (Inr x, w1)"
  shows "transaction env b c body w = (Inr x, tick w1)"
  using assms by (simp add: transaction_def)

lemma exec_fault_free: "e_fault env = (\<lambda>_. None) \<Longrightarrow> exec env f w = (Inr (), (tick w)\<lparr>w_db := f (w_db w)\<rparr>)"
  by (simp add: exec_def)

lemma query_fault_free: "e_fault env = (\<lambda>_. None) \<Longrightarrow> query env q w = (Inr (q (w_db w)), tick w)"
  by (simp add: query_def)

lemma exec_Inr_db: "exec env f w = (Inr u, w') \<Longrightarrow> w_db w' = f (w_db w)"
  by (auto simp: exec_def split: option.splits)

lemma query_Inr: "query env q w = (Inr x, w') \<Longrightarrow> x = q (w_db w) \<and> w_db w' = w_db w"
  by (auto simp: query_def split: option.splits)

lemma query_row_Inr: "query_row env q w = (Inr x, w') \<Longrightarrow> q (w_db w) = Some x \<and> w_db w' = w_db w"
  by (auto simp: query_row_def seq_Inr_iff query_def split: option.splits)

text \<open>What statements keep: a query keeps the database, a statement keeps any observation its
  update keeps, and none of them touches the locks.\<close>

lemma keeps_exec: "(\<And>d. obs (f d) = obs d) \<Longrightarrow> keeps (\<lambda>w. obs (w_db w)) (exec env f)"
  by (simp add: keeps_def exec_def split: option.splits)

lemma keeps_query_db [keeps_intros]: "keeps (\<lambda>w. obs (w_db w)) (query env q)"
  by (simp add: keeps_def query_def split: option.splits)

lemma keeps_query_row_db [keeps_intros]: "keeps (\<lambda>w. obs (w_db w)) (query_row env q)"
  unfolding query_row_def by (intro keeps_intros)

lemma keeps_now_db [keeps_intros]: "keeps (\<lambda>w. obs (w_db w)) (now env)"
  by (simp add: keeps_def now_def)

lemma keeps_default_id_db [keeps_intros]: "keeps (\<lambda>w. obs (w_db w)) (default_id env)"
  by (simp add: keeps_def default_id_def)

lemma keeps_query_now_db [keeps_intros]: "keeps (\<lambda>w. obs (w_db w)) (query_now env q)"
  by (simp add: keeps_def query_now_def query_def split: option.splits)

lemma keeps_exec_now: "(\<And>t d. obs (f t d) = obs d) \<Longrightarrow> keeps (\<lambda>w. obs (w_db w)) (exec_now env f)"
  by (simp add: keeps_def exec_now_def exec_def split: option.splits)

lemma keeps_exec_checked:
  "(\<And>d. obs (f d) = obs d) \<Longrightarrow> keeps (\<lambda>w. obs (w_db w)) (exec_checked env v f)"
  by (simp add: keeps_def exec_checked_def exec_def split: option.splits)

lemma keeps_locks [keeps_intros]:
  "keeps w_locks (exec env f)" "keeps w_locks (exec_checked env v f)"
  "keeps w_locks (exec_now env g)" "keeps w_locks (query_now env h)"
  "keeps w_locks (query env q)" "keeps w_locks (now env)" "keeps w_locks (default_id env)"
  "keeps w_locks (exec_returning env f r)"
  by (simp_all add: keeps_def exec_def exec_checked_def query_def now_def default_id_def
      exec_now_def query_now_def exec_returning_def split: option.splits)

lemma keeps_locks_query_row [keeps_intros]: "keeps w_locks (query_row env q)"
  unfolding query_row_def by (intro keeps_intros)

lemma keeps_locks_transaction [keeps_intros]:
  assumes "keeps w_locks body"
  shows "keeps w_locks (transaction env b c body)"
  using keepsD [OF assms]
  by (fastforce intro!: keepsI simp: transaction_def split: option.splits prod.splits sum.splits)


lemma exec_eval_cong: "w = w' \<Longrightarrow> exec env f w = exec env f w'"
  by simp

lemma exec_checked_eval_cong: "w = w' \<Longrightarrow> exec_checked env v f w = exec_checked env v f w'"
  by simp

lemma exec_now_eval_cong: "w = w' \<Longrightarrow> exec_now env f w = exec_now env f w'"
  by simp

lemma exec_returning_eval_cong: "w = w' \<Longrightarrow> exec_returning env f g w = exec_returning env f g w'"
  by simp

lemma query_eval_cong: "w = w' \<Longrightarrow> query env q w = query env q w'"
  by simp

lemma query_now_eval_cong: "w = w' \<Longrightarrow> query_now env q w = query_now env q w'"
  by simp

lemma query_row_eval_cong: "w = w' \<Longrightarrow> query_row env q w = query_row env q w'"
  by simp

lemma transaction_eval_cong: "w = w' \<Longrightarrow> transaction env b c m w = transaction env b c m w'"
  by simp

lemmas store_congs = eval_congs exec_eval_cong exec_checked_eval_cong exec_now_eval_cong
  exec_returning_eval_cong query_eval_cong query_now_eval_cong query_row_eval_cong transaction_eval_cong


section \<open>Identifiers\<close>

text \<open>\<^verbatim>\<open>newID\<close>: sixteen random bytes with the version and variant bits of a version 4 UUID set,
  printed in hexadecimal with dashes.\<close>

definition hex_byte :: "nat \<Rightarrow> string" where
  "hex_byte b = [hex_digit (b div 16), hex_digit (b mod 16)]"

definition format_id :: "string \<Rightarrow> string" where
  "format_id bytes =
     (let b = map (of_char :: char \<Rightarrow> nat) bytes;
          b = b[6 := b ! 6 mod 16 + 64];
          b = b[8 := b ! 8 mod 64 + 128];
          encoded = concat (map hex_byte b)
      in take 8 encoded @ ''-'' @ take 4 (drop 8 encoded) @ ''-'' @ take 4 (drop 12 encoded)
         @ ''-'' @ take 4 (drop 16 encoded) @ ''-'' @ take 12 (drop 20 encoded))"

definition new_id :: "env \<Rightarrow> (('d, 'x) world, string) call" where
  "new_id env w =
     (case e_random env (w_step w) of
        Inl e \<Rightarrow> (Inl (Wrapped ''generate id: '' e), tick w)
      | Inr bytes \<Rightarrow> (Inr (format_id bytes), tick w))"

lemma keeps_new_id [keeps_intros]:
  "keeps (\<lambda>w. obs (w_db w)) (new_id env)" "keeps w_locks (new_id env)"
  by (simp_all add: keeps_def new_id_def split: sum.splits)

text \<open>\<^verbatim>\<open>organizationIDForWrite\<close>: rows written outside a tenant belong to the bootstrap
  organisation.\<close>

definition bootstrap_organization :: string where
  "bootstrap_organization = ''00000000-0000-4000-8000-000000000001''"

definition organization_for_write :: "env \<Rightarrow> string" where
  "organization_for_write env =
     (if tenant env \<noteq> '''' then tenant env else bootstrap_organization)"


section \<open>Upserts\<close>

text \<open>\<^verbatim>\<open>INSERT .. ON CONFLICT (key) DO UPDATE\<close>: the rows with the key are updated, and when there is
  none the new row is appended.\<close>

definition upsert :: "('r \<Rightarrow> bool) \<Rightarrow> ('r \<Rightarrow> 'r) \<Rightarrow> 'r \<Rightarrow> 'r list \<Rightarrow> 'r list" where
  "upsert same update new rows =
     (if \<exists>r\<in>set rows. same r then map (\<lambda>r. if same r then update r else r) rows
      else rows @ [new])"

definition update_where :: "('r \<Rightarrow> bool) \<Rightarrow> ('r \<Rightarrow> 'r) \<Rightarrow> 'r list \<Rightarrow> 'r list" where
  "update_where p f rows = map (\<lambda>r. if p r then f r else r) rows"

lemma set_update_where: "set (update_where p f rows) = (\<lambda>r. if p r then f r else r) ` set rows"
  by (simp add: update_where_def)

lemma update_where_Nil [simp]: "update_where p f [] = []"
  by (simp add: update_where_def)

lemma map_update_where:
  "(\<And>r. p r \<Longrightarrow> g (f r) = g r) \<Longrightarrow> map g (update_where p f rows) = map g rows"
  by (simp add: update_where_def)

lemma find_update_where:
  assumes "\<And>r. q (f r) = q r"
  shows "List.find q (update_where p f rows) =
    map_option (\<lambda>r. if p r then f r else r) (List.find q rows)"
  using assms by (induction rows) (auto simp: update_where_def)

lemma filter_update_where:
  assumes "\<And>r. q r \<Longrightarrow> \<not> p r" and "\<And>r. p r \<Longrightarrow> \<not> q (f r)"
  shows "filter q (update_where p f rows) = filter q rows"
  using assms by (induction rows) (auto simp: update_where_def)

text \<open>An upsert touches only the rows with its key.\<close>

lemma filter_upsert:
  assumes "\<And>r. q r \<Longrightarrow> \<not> same r" and "\<And>r. same r \<Longrightarrow> \<not> q (update r)" and "\<not> q new"
  shows "filter q (upsert same update new rows) = filter q rows"
proof -
  have "filter q (map (\<lambda>r. if same r then update r else r) rows) = filter q rows"
    using assms(1,2) by (induction rows) auto
  then show ?thesis
    using assms(3) by (simp add: upsert_def)
qed

text \<open>The keys of a table stay distinct.\<close>

lemma distinct_upsert:
  assumes "distinct (map key rows)" and "\<And>r. same r \<longleftrightarrow> key r = k"
    and "\<And>r. same r \<Longrightarrow> key (update r) = k" and "key new = k"
  shows "distinct (map key (upsert same update new rows))"
proof (cases "\<exists>r\<in>set rows. same r")
  case True
  have "map key (map (\<lambda>r. if same r then update r else r) rows) = map key rows"
    using assms(2,3) by (induction rows) auto
  then show ?thesis
    using True assms(1) by (simp add: upsert_def del: map_map)
next
  case False
  then show ?thesis
    using assms by (auto simp: upsert_def)
qed

lemma upsert_lookup:
  assumes "\<And>r. same r \<Longrightarrow> same (update r)" and "same new"
  shows "\<exists>r\<in>set (upsert same update new rows). same r"
  using assms by (auto simp: upsert_def)

end
