(* ===== verification/Schema.thy ===== *)
theory Schema
  imports Store_Base
begin

text \<open>The tables that the repositories work on
  (\<^verbatim>\<open>migrations/\<close>), as lists of rows.  A row holds the snapshot it was written from and the columns
  the repositories maintain themselves.  A nullable text column that the code reads through
  \<^verbatim>\<open>COALESCE(c, '')\<close> is a string, empty for \<^verbatim>\<open>NULL\<close>.\<close>

record connection_row =
  cr_conn :: runtime_connection
  cr_archived_at :: "time option"
  cr_archived_by :: string
  cr_archive_reason :: string
  cr_archive_kind :: string
  cr_merged_into :: string

record endpoint_row =
  er_endpoint :: runtime_endpoint
  er_created_at :: time

record agent_row =
  ag_id :: string
  ag_org :: string
  ag_name :: string
  ag_status :: agent_status
  ag_metadata :: gmap
  ag_updated_at :: time

record binding_row =
  bd_id :: string
  bd_agent :: string
  bd_conn :: string
  bd_runtime_agent :: string
  bd_kind :: agent_kind
  bd_parent :: string
  bd_last_seen :: "time option"
  bd_last_run :: "string option"
  bd_missing :: nat
  bd_raw :: gmap

record skill_row =
  ks_id :: string
  ks_conn :: string
  ks_skill :: skill_snapshot
  ks_last_run :: "string option"
  ks_missing :: nat

record skill_binding_row =
  kb_agent :: string
  kb_skill :: string
  kb_status :: string
  kb_observed_at :: time
  kb_last_run :: "string option"
  kb_missing :: nat

record access_row =
  aa_agent :: string
  aa_conn :: string
  aa_access :: access_document
  aa_last_run :: "string option"

record execution_row =
  xr_id :: string
  xr_conn :: string
  xr_snapshot :: execution_snapshot

record subagent_row =
  sr_id :: string
  sr_conn :: string
  sr_snapshot :: subagent_execution

record diagnostic_row =
  gr_id :: string
  gr_conn :: string
  gr_snapshot :: diagnostic_snapshot

record inventory_row =
  ir_id :: string
  ir_conn :: string
  ir_snapshot :: inventory_snapshot

record capability_row =
  pr_id :: string
  pr_conn :: string
  pr_snapshot :: capability_snapshot

record delegation_row =
  dr_id :: string
  dr_conn :: string
  dr_key :: string
  dr_snapshot :: delegation_snapshot
  dr_last_run :: "string option"
  dr_missing :: nat

record action_row =
  cx_action :: control_action
  cx_org :: string
  cx_request :: gmap
  cx_error :: string
  cx_finished :: "time option"

record audit_row =
  ur_event :: audit_event
  ur_org :: string
  ur_created_at :: time

record secret =
  sc_id :: string
  sc_name :: string
  sc_created_at :: time
  sc_updated_at :: time

record secret_row =
  st_secret :: secret
  st_cipher :: string
  st_org :: string

record usage_row =
  ug_observation :: usage_observation
  ug_org :: string

record ingestion_row =
  tr_run :: ingestion_run
  tr_org :: string

record user_row =
  us_row_user :: user
  us_row_email :: string
  us_row_active :: bool
  us_row_hash :: "string option"

record organization_row =
  og_organization :: organization
  og_active :: bool

record member_row =
  mb_org :: string
  mb_user :: string
  mb_role :: string
  mb_active :: bool
  mb_created :: time

record session_row =
  sv_id :: string
  sv_user :: string
  sv_org :: string
  sv_token_hash :: string
  sv_csrf_hash :: string
  sv_absolute :: time
  sv_idle :: time
  sv_last_seen :: time
  sv_revoked :: "time option"

record db =
  db_conns :: "connection_row list"
  db_endpoints :: "endpoint_row list"
  db_runs :: "sync_run list"
  db_agents :: "agent_row list"
  db_bindings :: "binding_row list"
  db_skills :: "skill_row list"
  db_skill_bindings :: "skill_binding_row list"
  db_access :: "access_row list"
  db_executions :: "execution_row list"
  db_subagents :: "subagent_row list"
  db_diagnostics :: "diagnostic_row list"
  db_inventory :: "inventory_row list"
  db_catalog :: "capability_row list"
  db_delegations :: "delegation_row list"
  db_actions :: "action_row list"
  db_audits :: "audit_row list"
  db_secrets :: "secret_row list"
  db_usage :: "usage_row list"
  db_ingestions :: "ingestion_row list"
  db_users :: "user_row list"
  db_organizations :: "organization_row list"
  db_members :: "member_row list"
  db_sessions :: "session_row list"

definition empty_db :: db where
  "empty_db = \<lparr>db_conns = [], db_endpoints = [], db_runs = [], db_agents = [], db_bindings = [],
     db_skills = [], db_skill_bindings = [], db_access = [], db_executions = [], db_subagents = [],
     db_diagnostics = [], db_inventory = [], db_catalog = [], db_delegations = [], db_actions = [],
     db_audits = [], db_secrets = [], db_usage = [], db_ingestions = [], db_users = [],
     db_organizations = [], db_members = [], db_sessions = []\<rparr>"

text \<open>SQLSTATE of the constraints the tables carry.\<close>

definition unique_violation :: gerr where
  "unique_violation = PgError ''23505'' ''duplicate key value violates unique constraint''"

definition foreign_key_violation :: gerr where
  "foreign_key_violation = PgError ''23503'' ''insert or update violates foreign key constraint''"

definition check_violation :: gerr where
  "check_violation = PgError ''23514'' ''new row violates check constraint''"

definition require_ok :: "bool \<Rightarrow> gerr \<Rightarrow> gerr option" where
  "require_ok ok e = (if ok then None else Some e)"

fun first_of :: "gerr option list \<Rightarrow> gerr option" where
  "first_of [] = None"
| "first_of (Some e # es) = Some e"
| "first_of (None # es) = first_of es"

text \<open>\<^verbatim>\<open>FROM runtime_connections WHERE id=$1 AND ($2='' OR organization_id=$2::uuid)\<close>.\<close>

definition tenant_allows :: "string \<Rightarrow> string \<Rightarrow> bool" where
  "tenant_allows t org \<longleftrightarrow> t = '''' \<or> org = t"

definition conn_row :: "db \<Rightarrow> string \<Rightarrow> connection_row option" where
  "conn_row d cid = List.find (\<lambda>c. rc_id (cr_conn c) = cid) (db_conns d)"

definition conn_visible :: "env \<Rightarrow> db \<Rightarrow> string \<Rightarrow> runtime_connection option" where
  "conn_visible env d cid =
     (case conn_row d cid of
        None \<Rightarrow> None
      | Some c \<Rightarrow> if tenant_allows (tenant env) (rc_org (cr_conn c)) then Some (cr_conn c) else None)"

text \<open>\<^verbatim>\<open>$t='' OR EXISTS(SELECT 1 FROM runtime_connections rc WHERE rc.id=.. AND rc.organization_id=$t)\<close>.\<close>

definition conn_in_tenant :: "env \<Rightarrow> db \<Rightarrow> string \<Rightarrow> bool" where
  "conn_in_tenant env d cid \<longleftrightarrow>
     tenant env = '''' \<or>
     (\<exists>c\<in>set (db_conns d). rc_id (cr_conn c) = cid \<and> rc_org (cr_conn c) = tenant env)"

definition update_conn :: "string \<Rightarrow> (runtime_connection \<Rightarrow> runtime_connection) \<Rightarrow> db \<Rightarrow> db" where
  "update_conn cid f d =
     d\<lparr>db_conns := update_where (\<lambda>c. rc_id (cr_conn c) = cid) (\<lambda>c. c\<lparr>cr_conn := f (cr_conn c)\<rparr>) (db_conns d)\<rparr>"

lemma update_conn_simps [simp]:
  "db_runs (update_conn cid f d) = db_runs d" "db_agents (update_conn cid f d) = db_agents d"
  "db_bindings (update_conn cid f d) = db_bindings d" "db_skills (update_conn cid f d) = db_skills d"
  "db_skill_bindings (update_conn cid f d) = db_skill_bindings d"
  "db_access (update_conn cid f d) = db_access d"
  "db_executions (update_conn cid f d) = db_executions d"
  "db_subagents (update_conn cid f d) = db_subagents d"
  "db_diagnostics (update_conn cid f d) = db_diagnostics d"
  "db_inventory (update_conn cid f d) = db_inventory d"
  "db_catalog (update_conn cid f d) = db_catalog d"
  "db_delegations (update_conn cid f d) = db_delegations d"
  "db_actions (update_conn cid f d) = db_actions d" "db_audits (update_conn cid f d) = db_audits d"
  "db_endpoints (update_conn cid f d) = db_endpoints d" "db_secrets (update_conn cid f d) = db_secrets d"
  "db_usage (update_conn cid f d) = db_usage d" "db_ingestions (update_conn cid f d) = db_ingestions d"
  "db_users (update_conn cid f d) = db_users d" "db_organizations (update_conn cid f d) = db_organizations d"
  "db_members (update_conn cid f d) = db_members d" "db_sessions (update_conn cid f d) = db_sessions d"
  by (simp_all add: update_conn_def)

lemma conn_row_update:
  assumes "\<And>c. rc_id (f c) = rc_id c"
  shows "conn_row (update_conn cid f d) cid' =
    map_option (\<lambda>c. if cid' = cid then c\<lparr>cr_conn := f (cr_conn c)\<rparr> else c) (conn_row d cid')"
proof -
  have "List.find (\<lambda>c. rc_id (cr_conn c) = cid') (update_where (\<lambda>c. rc_id (cr_conn c) = cid)
      (\<lambda>c. c\<lparr>cr_conn := f (cr_conn c)\<rparr>) cs) =
    map_option (\<lambda>c. if cid' = cid then c\<lparr>cr_conn := f (cr_conn c)\<rparr> else c)
      (List.find (\<lambda>c. rc_id (cr_conn c) = cid') cs)" for cs
    using assms by (induction cs) (auto simp: update_where_def)
  then show ?thesis
    by (simp add: conn_row_def update_conn_def)
qed

lemma first_of_None [simp]: "first_of es = None \<longleftrightarrow> (\<forall>e\<in>set es. e = None)"
  by (induction es rule: first_of.induct) auto

lemma require_ok_None [simp]: "require_ok b e = None \<longleftrightarrow> b"
  by (simp add: require_ok_def)

end
