(* ===== verification/Sync_Store.thy ===== *)
theory Sync_Store
  imports Schema
begin

text \<open>The synchronisation repository (\<^verbatim>\<open>internal/store/sync_repository.go\<close> and the upserts of
  \<^verbatim>\<open>runtime_inventory_repository.go\<close>): the advisory lock of a runtime, the run records, and the
  transaction that stores a snapshot, advances the counters of what the snapshot no longer holds and
  marks it stale.\<close>

section \<open>Locks and runs\<close>

text \<open>\<^verbatim>\<open>TryLock\<close> takes the session lock of \<^verbatim>\<open>hashtext(runtimeID)\<close>; the value tells whether it was
  acquired.  The release function ignores the error of the unlock
  statement and gives the connection back to the pool: when that statement fails and the session
  lives on, the session keeps the lock.  Which pooled session a later call gets is not modelled; a lock
  in \<open>w_locks\<close> counts as another session's.\<close>

definition try_lock :: "env \<Rightarrow> string \<Rightarrow> (('d, 'x) world, bool) call" where
  "try_lock env runtime w =
     (case e_fault env (w_step w) of
        Some e \<Rightarrow> (Inl (Wrapped ''open sync lock connection: '' e), tick w)
      | None \<Rightarrow>
          (let w = tick w in
           case e_fault env (w_step w) of
             Some e \<Rightarrow> (Inl (Wrapped ''acquire runtime sync lock: '' e), tick w)
           | None \<Rightarrow>
               if e_hash env runtime \<in> set (w_locks w) then (Inr False, tick w)
               else (Inr True, (tick w)\<lparr>w_locks := e_hash env runtime # w_locks w\<rparr>)))"

definition release_lock :: "env \<Rightarrow> string \<Rightarrow> ('d, 'x) world \<Rightarrow> ('d, 'x) world" where
  "release_lock env runtime w =
     (case e_fault env (w_step w) of
        Some _ \<Rightarrow> tick w
      | None \<Rightarrow> (tick w)\<lparr>w_locks := remove1 (e_hash env runtime) (w_locks w)\<rparr>)"

definition create_run :: "env \<Rightarrow> sync_run \<Rightarrow> ((db, 'x) world, sync_run) call" where
  "create_run env run =
     seq (if run_id run = '''' then new_id env else return (run_id run)) (\<lambda>rid.
     seq (if run_started run = 0 then now env else return (run_started run)) (\<lambda>started.
     let run = run\<lparr>run_id := rid, run_started := started, run_status := SyncRunning\<rparr> in
     seq (wrapping ''create sync run: '' (exec env (\<lambda>d.
            case conn_visible env d (run_conn run) of
              None \<Rightarrow> d
            | Some _ \<Rightarrow> d\<lparr>db_runs := db_runs d @ [run]\<rparr>))) (\<lambda>_.
     seq (wrapping ''mark runtime syncing: '' (exec env (update_conn (run_conn run)
            (\<lambda>c. c\<lparr>rc_last_sync_status := SyncRunning, rc_last_sync_started := Some started\<rparr>)))) (\<lambda>_.
     return run))))"

text \<open>\<^verbatim>\<open>FailRun\<close> gives the failed run also when storing it fails, so its result is the run and an
  optional error.\<close>

definition error_of :: "'a res \<Rightarrow> gerr option" where
  "error_of r = (case r of Inl e \<Rightarrow> Some e | Inr _ \<Rightarrow> None)"

definition store_failed_run :: "env \<Rightarrow> sync_run \<Rightarrow> ((db, 'x) world, unit) call" where
  "store_failed_run env run =
     transaction env ''begin failed sync update: '' ''commit failed sync update: ''
       (seq (wrapping ''fail sync run: '' (exec env (\<lambda>d. d\<lparr>db_runs :=
               update_where (\<lambda>x. run_id x = run_id run)
                 (\<lambda>x. x\<lparr>run_status := SyncFailed, run_finished := run_finished run,
                        run_duration := run_duration run, run_error_code := run_error_code run,
                        run_error_message := run_error_message run\<rparr>) (db_runs d)\<rparr>)))
        (\<lambda>_. wrapping ''degrade runtime: '' (exec env (update_conn (run_conn run)
               (\<lambda>c. c\<lparr>rc_status := RuntimeDegraded, rc_last_sync_status := SyncFailed,
                      rc_last_sync_finished := run_finished run,
                      rc_last_sync_duration := run_duration run,
                      rc_last_error := run_error_message run\<rparr>)))))"

definition fail_run ::
    "env \<Rightarrow> sync_run \<Rightarrow> string \<Rightarrow> string \<Rightarrow> (db, 'x) world \<Rightarrow> (sync_run \<times> gerr option) \<times> (db, 'x) world" where
  "fail_run env run code message w =
     (let finished = e_now env (w_step w);
          run = run\<lparr>run_status := SyncFailed, run_finished := Some finished,
                    run_duration := milliseconds (time_sub finished (run_started run)),
                    run_error_code := code, run_error_message := message\<rparr>;
          (r, w) = store_failed_run env run (tick w)
      in ((run, error_of r), w))"


section \<open>Upserts of a snapshot's items\<close>

definition fk_run :: "sync_run \<Rightarrow> db \<Rightarrow> gerr option" where
  "fk_run run d = require_ok (run_id run \<in> set (map run_id (db_runs d))) foreign_key_violation"

definition status_check :: "agent_status \<Rightarrow> gerr option" where
  "status_check s =
     require_ok (s \<in> {AgentUnknown, AgentEnabled, AgentDisabled, AgentStale}) check_violation"

definition kind_check :: "agent_kind \<Rightarrow> gerr option" where
  "kind_check k = require_ok (k \<in> {AgentMain, AgentRegistered, AgentSubagent}) check_violation"

definition find_binding :: "string \<Rightarrow> string \<Rightarrow> db \<Rightarrow> string option" where
  "find_binding conn agent d =
     map_option bd_agent
       (List.find (\<lambda>b. bd_conn b = conn \<and> bd_runtime_agent b = agent) (db_bindings d))"

definition insert_agent :: "env \<Rightarrow> sync_run \<Rightarrow> agent_snapshot \<Rightarrow> string \<Rightarrow> time \<Rightarrow> db \<Rightarrow> db" where
  "insert_agent env run snap agent t d =
     (case conn_visible env d (run_conn run) of
        None \<Rightarrow> d
      | Some c \<Rightarrow> d\<lparr>db_agents := db_agents d @
          [\<lparr>ag_id = agent, ag_org = rc_org c, ag_name = as_name snap, ag_status = as_status snap,
            ag_metadata = as_metadata snap, ag_updated_at = t\<rparr>]\<rparr>)"

definition insert_agent_check :: "env \<Rightarrow> sync_run \<Rightarrow> agent_snapshot \<Rightarrow> string \<Rightarrow> db \<Rightarrow> gerr option" where
  "insert_agent_check env run snap agent d =
     (case conn_visible env d (run_conn run) of
        None \<Rightarrow> None
      | Some c \<Rightarrow> first_of [status_check (as_status snap),
          require_ok (agent \<notin> set (map ag_id (db_agents d))) unique_violation])"

definition new_binding :: "sync_run \<Rightarrow> agent_snapshot \<Rightarrow> string \<Rightarrow> string \<Rightarrow> binding_row" where
  "new_binding run snap bid agent =
     \<lparr>bd_id = bid, bd_agent = agent, bd_conn = run_conn run, bd_runtime_agent = as_id snap,
      bd_kind = as_kind snap, bd_parent = as_parent snap, bd_last_seen = Some (as_observed_at snap),
      bd_last_run = Some (run_id run), bd_missing = 0, bd_raw = as_metadata snap\<rparr>"

definition insert_binding_check :: "sync_run \<Rightarrow> agent_snapshot \<Rightarrow> string \<Rightarrow> db \<Rightarrow> gerr option" where
  "insert_binding_check run snap agent d =
     first_of [kind_check (as_kind snap),
       require_ok (agent \<in> set (map ag_id (db_agents d))) foreign_key_violation, fk_run run d]"

definition seen_binding :: "sync_run \<Rightarrow> agent_snapshot \<Rightarrow> binding_row \<Rightarrow> binding_row" where
  "seen_binding run snap b =
     b\<lparr>bd_kind := as_kind snap, bd_parent := as_parent snap,
       bd_last_seen := Some (as_observed_at snap), bd_last_run := Some (run_id run),
       bd_missing := 0, bd_raw := as_metadata snap\<rparr>"

definition upsert_snapshot_agent ::
    "env \<Rightarrow> sync_run \<Rightarrow> agent_snapshot \<Rightarrow> ((db, 'x) world, string) call" where
  "upsert_snapshot_agent env run snap =
     seq (wrapping ''find snapshot agent: '' (query env (find_binding (run_conn run) (as_id snap))))
     (\<lambda>found. case found of
        None \<Rightarrow>
          seq (new_id env) (\<lambda>agent.
          seq (new_id env) (\<lambda>bid.
          seq (wrapping ''insert snapshot agent: ''
                 (\<lambda>w. exec_checked env (insert_agent_check env run snap agent)
                        (insert_agent env run snap agent (e_now env (w_step w))) w)) (\<lambda>_.
          seq (wrapping ''insert snapshot binding: ''
                 (exec_checked env (insert_binding_check run snap agent)
                    (\<lambda>d. d\<lparr>db_bindings := db_bindings d @ [new_binding run snap bid agent]\<rparr>))) (\<lambda>_.
          return agent))))
      | Some agent \<Rightarrow>
          seq (wrapping ''update snapshot agent: ''
                 (\<lambda>w. exec_checked env (\<lambda>d. status_check (as_status snap))
                    (\<lambda>d. d\<lparr>db_agents := update_where (\<lambda>a. ag_id a = agent)
                       (\<lambda>a. a\<lparr>ag_name := as_name snap, ag_status := as_status snap,
                              ag_metadata := as_metadata snap,
                              ag_updated_at := e_now env (w_step w)\<rparr>) (db_agents d)\<rparr>) w)) (\<lambda>_.
          seq (wrapping ''update snapshot binding: ''
                 (exec_checked env (\<lambda>d. first_of [kind_check (as_kind snap), fk_run run d])
                    (\<lambda>d. d\<lparr>db_bindings := update_where (\<lambda>b. bd_agent b = agent) (seen_binding run snap)
                       (db_bindings d)\<rparr>))) (\<lambda>_.
          return agent)))"

definition skill_same :: "sync_run \<Rightarrow> skill_snapshot \<Rightarrow> skill_row \<Rightarrow> bool" where
  "skill_same run sk r \<longleftrightarrow> ks_conn r = run_conn run \<and> sk_id (ks_skill r) = sk_id sk"

definition upsert_snapshot_skill ::
    "env \<Rightarrow> sync_run \<Rightarrow> string \<Rightarrow> skill_snapshot \<Rightarrow> ((db, 'x) world, unit) call" where
  "upsert_snapshot_skill env run agent sk =
     seq (default_id env) (\<lambda>fresh.
     seq (wrapping ''upsert runtime skill: ''
       (seq (exec_checked env (fk_run run) (\<lambda>d. d\<lparr>db_skills :=
               upsert (skill_same run sk)
                 (\<lambda>r. r\<lparr>ks_skill := sk, ks_last_run := Some (run_id run), ks_missing := 0\<rparr>)
                 \<lparr>ks_id = fresh, ks_conn = run_conn run, ks_skill = sk,
                  ks_last_run = Some (run_id run), ks_missing = 0\<rparr> (db_skills d)\<rparr>))
        (\<lambda>_ w. (case List.find (skill_same run sk) (db_skills (w_db w)) of
                  None \<Rightarrow> (Inl (Sentinel NoRows), w) | Some r \<Rightarrow> (Inr (ks_id r), w))))) (\<lambda>skill.
     wrapping ''upsert agent skill binding: ''
       (exec_checked env (fk_run run) (\<lambda>d. d\<lparr>db_skill_bindings :=
          upsert (\<lambda>r. kb_agent r = agent \<and> kb_skill r = skill)
            (\<lambda>r. r\<lparr>kb_status := ''active'', kb_observed_at := sk_observed_at sk,
                   kb_last_run := Some (run_id run), kb_missing := 0\<rparr>)
            \<lparr>kb_agent = agent, kb_skill = skill, kb_status = ''active'',
             kb_observed_at = sk_observed_at sk, kb_last_run = Some (run_id run), kb_missing = 0\<rparr>
            (db_skill_bindings d)\<rparr>))))"

definition upsert_actual_access ::
    "env \<Rightarrow> sync_run \<Rightarrow> string \<Rightarrow> access_document \<Rightarrow> ((db, 'x) world, unit) call" where
  "upsert_actual_access env run agent access =
     wrapping ''upsert actual access: ''
       (exec_checked env (fk_run run) (\<lambda>d. d\<lparr>db_access :=
          upsert (\<lambda>r. aa_agent r = agent \<and> aa_conn r = run_conn run)
            (\<lambda>r. r\<lparr>aa_access := access, aa_last_run := Some (run_id run)\<rparr>)
            \<lparr>aa_agent = agent, aa_conn = run_conn run, aa_access = access,
             aa_last_run = Some (run_id run)\<rparr> (db_access d)\<rparr>))"

text \<open>\<^verbatim>\<open>started_at=COALESCE(runtime_executions.started_at, EXCLUDED.started_at)\<close>: the first known
  start of an execution is kept.\<close>

definition keep_started :: "time option \<Rightarrow> time option \<Rightarrow> time option" where
  "keep_started old new = (case old of None \<Rightarrow> new | Some t \<Rightarrow> Some t)"

definition upsert_runtime_execution ::
    "env \<Rightarrow> string \<Rightarrow> execution_snapshot \<Rightarrow> ((db, 'x) world, unit) call" where
  "upsert_runtime_execution env runtime x =
     seq (default_id env) (\<lambda>fresh.
     wrapping ''upsert runtime execution: '' (exec env (\<lambda>d. d\<lparr>db_executions :=
       upsert (\<lambda>r. xr_conn r = runtime \<and> ex_kind (xr_snapshot r) = ex_kind x \<and>
                   ex_id (xr_snapshot r) = ex_id x)
         (\<lambda>r. r\<lparr>xr_snapshot := x\<lparr>ex_started := keep_started (ex_started (xr_snapshot r)) (ex_started x)\<rparr>\<rparr>)
         \<lparr>xr_id = fresh, xr_conn = runtime, xr_snapshot = x\<rparr> (db_executions d)\<rparr>)))"

definition upsert_subagent_execution ::
    "env \<Rightarrow> string \<Rightarrow> subagent_execution \<Rightarrow> ((db, 'x) world, unit) call" where
  "upsert_subagent_execution env runtime x =
     seq (default_id env) (\<lambda>fresh.
     wrapping ''upsert subagent execution: '' (exec env (\<lambda>d. d\<lparr>db_subagents :=
       upsert (\<lambda>r. sr_conn r = runtime \<and> se_id (sr_snapshot r) = se_id x)
         (\<lambda>r. r\<lparr>sr_snapshot := x\<lparr>se_started := keep_started (se_started (sr_snapshot r)) (se_started x)\<rparr>\<rparr>)
         \<lparr>sr_id = fresh, sr_conn = runtime, sr_snapshot = x\<rparr> (db_subagents d)\<rparr>)))"

definition upsert_runtime_diagnostic ::
    "env \<Rightarrow> string \<Rightarrow> diagnostic_snapshot \<Rightarrow> ((db, 'x) world, unit) call" where
  "upsert_runtime_diagnostic env runtime x =
     seq (default_id env) (\<lambda>fresh.
     wrapping ''upsert runtime diagnostic: '' (exec env (\<lambda>d. d\<lparr>db_diagnostics :=
       upsert (\<lambda>r. gr_conn r = runtime \<and> dg_check (gr_snapshot r) = dg_check x)
         (\<lambda>r. r\<lparr>gr_snapshot := x\<rparr>)
         \<lparr>gr_id = fresh, gr_conn = runtime, gr_snapshot = x\<rparr> (db_diagnostics d)\<rparr>)))"

definition upsert_runtime_inventory ::
    "env \<Rightarrow> string \<Rightarrow> inventory_snapshot \<Rightarrow> ((db, 'x) world, unit) call" where
  "upsert_runtime_inventory env runtime x =
     seq (default_id env) (\<lambda>fresh.
     wrapping ''upsert runtime inventory: '' (exec env (\<lambda>d. d\<lparr>db_inventory :=
       upsert (\<lambda>r. ir_conn r = runtime \<and> iv_kind (ir_snapshot r) = iv_kind x \<and>
                   iv_id (ir_snapshot r) = iv_id x)
         (\<lambda>r. r\<lparr>ir_snapshot := x\<rparr>)
         \<lparr>ir_id = fresh, ir_conn = runtime, ir_snapshot = x\<rparr> (db_inventory d)\<rparr>)))"

definition upsert_runtime_capability ::
    "env \<Rightarrow> string \<Rightarrow> capability_snapshot \<Rightarrow> ((db, 'x) world, unit) call" where
  "upsert_runtime_capability env runtime x =
     seq (default_id env) (\<lambda>fresh.
     wrapping ''upsert runtime capability: '' (exec env (\<lambda>d. d\<lparr>db_catalog :=
       upsert (\<lambda>r. pr_conn r = runtime \<and> cp_id (pr_snapshot r) = cp_id x \<and>
                   cp_version (pr_snapshot r) = cp_version x)
         (\<lambda>r. r\<lparr>pr_snapshot := x\<rparr>)
         \<lparr>pr_id = fresh, pr_conn = runtime, pr_snapshot = x\<rparr> (db_catalog d)\<rparr>)))"

text \<open>The key of a stored delegation is always built from the delegate's reference.\<close>

definition delegate_key :: "delegation_snapshot \<Rightarrow> string" where
  "delegate_key x = ''ref:'' @ dl_ref x"

definition delegation_same :: "sync_run \<Rightarrow> delegation_snapshot \<Rightarrow> delegation_row \<Rightarrow> bool" where
  "delegation_same run x r \<longleftrightarrow>
     dr_conn r = run_conn run \<and> dl_orchestrator (dr_snapshot r) = dl_orchestrator x \<and>
     dr_key r = delegate_key x"

definition store_delegation :: "sync_run \<Rightarrow> string \<Rightarrow> delegation_snapshot \<Rightarrow> db \<Rightarrow> db" where
  "store_delegation run fresh x d = d\<lparr>db_delegations :=
     upsert (delegation_same run x)
       (\<lambda>r. r\<lparr>dr_snapshot := x\<lparr>dl_status := ''active''\<rparr>, dr_last_run := Some (run_id run), dr_missing := 0\<rparr>)
       \<lparr>dr_id = fresh, dr_conn = run_conn run, dr_key = delegate_key x,
        dr_snapshot = x\<lparr>dl_status := ''active''\<rparr>, dr_last_run = Some (run_id run), dr_missing = 0\<rparr>
       (db_delegations d)\<rparr>"

definition upsert_agent_delegation ::
    "env \<Rightarrow> sync_run \<Rightarrow> delegation_snapshot \<Rightarrow> ((db, 'x) world, unit) call" where
  "upsert_agent_delegation env run x =
     seq (default_id env) (\<lambda>fresh.
     wrapping ''upsert agent delegation: '' (exec_checked env (fk_run run) (store_delegation run fresh x)))"

section \<open>Persisting a snapshot\<close>

definition persist_agent :: "env \<Rightarrow> sync_run \<Rightarrow> snapshot_agent \<Rightarrow> ((db, 'x) world, unit) call" where
  "persist_agent env run item =
     seq (upsert_snapshot_agent env run (sa_agent item)) (\<lambda>agent.
     seq (for_each (upsert_snapshot_skill env run agent) (sa_skills item)) (\<lambda>_.
     if acc_source (sa_access item) \<noteq> ''''
     then upsert_actual_access env run agent (sa_access item) else return ()))"

definition advance_missing_agents :: "sync_run \<Rightarrow> db \<Rightarrow> db" where
  "advance_missing_agents run d = d\<lparr>db_bindings :=
     update_where (\<lambda>b. bd_conn b = run_conn run \<and> bd_last_run b \<noteq> Some (run_id run))
       (\<lambda>b. b\<lparr>bd_missing := bd_missing b + 1\<rparr>) (db_bindings d)\<rparr>"

definition mark_missing_stale :: "sync_run \<Rightarrow> int \<Rightarrow> time \<Rightarrow> db \<Rightarrow> db" where
  "mark_missing_stale run threshold t d = d\<lparr>db_agents :=
     update_where (\<lambda>a. \<exists>b\<in>set (db_bindings d). bd_agent b = ag_id a \<and> bd_conn b = run_conn run \<and>
                        threshold \<le> int (bd_missing b))
       (\<lambda>a. a\<lparr>ag_status := AgentStale, ag_updated_at := t\<rparr>) (db_agents d)\<rparr>"

definition advance_skill_bindings :: "sync_run \<Rightarrow> int \<Rightarrow> db \<Rightarrow> db" where
  "advance_skill_bindings run threshold d = d\<lparr>db_skill_bindings :=
     update_where (\<lambda>kb. (\<exists>s\<in>set (db_skills d). ks_id s = kb_skill kb \<and> ks_conn s = run_conn run) \<and>
                         kb_last_run kb \<noteq> Some (run_id run))
       (\<lambda>kb. kb\<lparr>kb_missing := kb_missing kb + 1,
                kb_status := if threshold \<le> int (kb_missing kb) + 1 then ''stale'' else kb_status kb\<rparr>)
       (db_skill_bindings d)\<rparr>"

definition advance_skills :: "sync_run \<Rightarrow> int \<Rightarrow> db \<Rightarrow> db" where
  "advance_skills run threshold d = d\<lparr>db_skills :=
     update_where (\<lambda>s. ks_conn s = run_conn run \<and> ks_last_run s \<noteq> Some (run_id run))
       (\<lambda>s. s\<lparr>ks_missing := ks_missing s + 1,
              ks_skill := (ks_skill s)\<lparr>sk_status :=
                if threshold \<le> int (ks_missing s) + 1 then ''stale'' else sk_status (ks_skill s)\<rparr>\<rparr>)
       (db_skills d)\<rparr>"

definition advance_delegations :: "sync_run \<Rightarrow> int \<Rightarrow> db \<Rightarrow> db" where
  "advance_delegations run threshold d = d\<lparr>db_delegations :=
     update_where (\<lambda>r. dr_conn r = run_conn run \<and> dr_last_run r \<noteq> Some (run_id run))
       (\<lambda>r. r\<lparr>dr_missing := dr_missing r + 1,
              dr_snapshot := (dr_snapshot r)\<lparr>dl_status :=
                if threshold \<le> int (dr_missing r) + 1 then ''stale'' else dl_status (dr_snapshot r)\<rparr>\<rparr>)
       (db_delegations d)\<rparr>"

definition complete_run :: "sync_run \<Rightarrow> runtime_snapshot \<Rightarrow> time \<Rightarrow> sync_run" where
  "complete_run run sn finished = run\<lparr>run_status := SyncSucceeded, run_finished := Some finished,
     run_duration := milliseconds (time_sub finished (run_started run)),
     run_agents := length (sn_agents sn),
     run_skills := sum_list (map (\<lambda>a. length (sa_skills a)) (sn_agents sn)),
     run_bindings := sum_list (map (\<lambda>a. length (sa_skills a)) (sn_agents sn)),
     run_access := run_access run + length (filter (\<lambda>a. acc_source (sa_access a) \<noteq> '''') (sn_agents sn)),
     run_executions := length (sn_executions sn),
     run_diagnostics := length (sn_diagnostics sn),
     run_inventory := length (sn_inventory sn),
     run_capabilities := length (sn_catalog sn),
     run_delegations := length (sn_delegations sn)\<rparr>"

definition store_completed :: "sync_run \<Rightarrow> sync_run \<Rightarrow> sync_run" where
  "store_completed completed x = x\<lparr>run_status := SyncSucceeded, run_finished := run_finished completed,
     run_duration := run_duration completed, run_agents := run_agents completed,
     run_skills := run_skills completed, run_bindings := run_bindings completed,
     run_access := run_access completed, run_executions := run_executions completed,
     run_diagnostics := run_diagnostics completed, run_inventory := run_inventory completed,
     run_capabilities := run_capabilities completed, run_delegations := run_delegations completed\<rparr>"

text \<open>The upserts of a snapshot, in the order of the code, then the statements that advance the
  counters.\<close>

definition persist_items :: "env \<Rightarrow> sync_run \<Rightarrow> runtime_snapshot \<Rightarrow> ((db, 'x) world, unit) call" where
  "persist_items env run sn =
     seq (for_each (persist_agent env run) (sn_agents sn)) (\<lambda>_.
     seq (for_each (upsert_runtime_execution env (run_conn run)) (sn_executions sn)) (\<lambda>_.
     seq (for_each (upsert_runtime_diagnostic env (run_conn run)) (sn_diagnostics sn)) (\<lambda>_.
     seq (for_each (upsert_runtime_inventory env (run_conn run)) (sn_inventory sn)) (\<lambda>_.
     seq (for_each (upsert_runtime_capability env (run_conn run)) (sn_catalog sn)) (\<lambda>_.
     seq (for_each (upsert_agent_delegation env run) (sn_delegations sn)) (\<lambda>_.
     for_each (upsert_subagent_execution env (run_conn run)) (sn_subagents sn)))))))"

definition advance_missing :: "env \<Rightarrow> sync_run \<Rightarrow> int \<Rightarrow> ((db, 'x) world, unit) call" where
  "advance_missing env run threshold =
     seq (wrapping ''advance missing agents: '' (exec env (advance_missing_agents run))) (\<lambda>_.
     seq (wrapping ''mark missing agents stale: '' (exec_now env (mark_missing_stale run threshold))) (\<lambda>_.
     seq (wrapping ''advance missing skill bindings: '' (exec env (advance_skill_bindings run threshold))) (\<lambda>_.
     seq (wrapping ''advance missing runtime skills: '' (exec env (advance_skills run threshold))) (\<lambda>_.
     wrapping ''advance missing agent delegations: '' (exec env (advance_delegations run threshold))))))"

definition finish_run :: "env \<Rightarrow> sync_run \<Rightarrow> runtime_snapshot \<Rightarrow> ((db, 'x) world, sync_run) call" where
  "finish_run env run sn =
     seq (now env) (\<lambda>finished.
     let run' = complete_run run sn finished in
     seq (wrapping ''complete sync run: '' (exec env (\<lambda>d. d\<lparr>db_runs :=
            update_where (\<lambda>x. run_id x = run_id run) (store_completed run') (db_runs d)\<rparr>))) (\<lambda>_.
     seq (wrapping ''activate synced runtime: '' (exec env (update_conn (run_conn run)
            (\<lambda>c. c\<lparr>rc_status := RuntimeActive, rc_last_sync_status := SyncSucceeded,
                   rc_last_synced_at := Some finished, rc_last_sync_finished := Some finished,
                   rc_last_sync_duration := run_duration run', rc_last_error := ''''\<rparr>)))) (\<lambda>_.
     return run')))"

definition persist_snapshot ::
    "env \<Rightarrow> sync_run \<Rightarrow> runtime_snapshot \<Rightarrow> int \<Rightarrow> ((db, 'x) world, sync_run) call" where
  "persist_snapshot env run sn threshold =
     transaction env ''begin persist runtime snapshot: '' ''commit runtime snapshot: ''
       (seq (persist_items env run sn) (\<lambda>_.
        seq (advance_missing env run threshold) (\<lambda>_.
        finish_run env run sn)))"


section \<open>Reading\<close>

definition clamp_limit :: "int \<Rightarrow> int \<Rightarrow> int \<Rightarrow> nat" where
  "clamp_limit limit upper fallback = nat (if limit \<le> 0 \<or> upper < limit then fallback else limit)"

text \<open>\<^verbatim>\<open>ORDER BY started_at DESC LIMIT n\<close>; rows with equal keys keep the order of the table.  A
  listing ordered by texts alone is given in table order: the order of texts is a parameter of the
  database (its collation).\<close>

definition list_runs :: "env \<Rightarrow> string \<Rightarrow> int \<Rightarrow> ((db, 'x) world, sync_run list) call" where
  "list_runs env runtime limit =
     wrapping ''list sync runs: '' (query env (\<lambda>d.
       take (clamp_limit limit 100 20)
         (sort_key (\<lambda>r. - run_started r)
           (filter (\<lambda>r. run_conn r = runtime \<and> conn_in_tenant env d (run_conn r)) (db_runs d)))))"

definition get_run :: "env \<Rightarrow> string \<Rightarrow> string \<Rightarrow> ((db, 'x) world, sync_run) call" where
  "get_run env runtime rid =
     query_row env (\<lambda>d. List.find (\<lambda>r. run_conn r = runtime \<and> run_id r = rid \<and>
       conn_in_tenant env d (run_conn r)) (db_runs d))"

definition freshness_of :: "time \<Rightarrow> agent_row \<Rightarrow> runtime_connection \<Rightarrow> freshness" where
  "freshness_of t a c =
     (if rc_status c = RuntimeDegraded \<or> ag_status a = AgentStale then FreshStale
      else case rc_last_synced_at c of
             Some s \<Rightarrow> if s < t - rc_sync_interval c * 1000000000 then FreshCached else FreshLive
           | None \<Rightarrow> FreshLive)"

definition persisted_agent_of ::
    "time \<Rightarrow> agent_row \<Rightarrow> binding_row \<Rightarrow> runtime_connection \<Rightarrow> persisted_agent" where
  "persisted_agent_of t a b c =
     \<lparr>pa_id = ag_id a, pa_name = ag_name a, pa_status = ag_status a, pa_metadata = ag_metadata a,
      pa_conn = bd_conn b, pa_runtime_agent = bd_runtime_agent b, pa_parent = bd_parent b,
      pa_kind = bd_kind b, pa_freshness = freshness_of t a c,
      pa_observed_at = (case bd_last_seen b of Some s \<Rightarrow> s | None \<Rightarrow> ag_updated_at a),
      pa_last_sync = rc_last_synced_at c, pa_runtime_status = rc_status c\<rparr>"

definition persisted_agents :: "env \<Rightarrow> string \<Rightarrow> time \<Rightarrow> db \<Rightarrow> persisted_agent list" where
  "persisted_agents env runtime t d =
     concat (map (\<lambda>a. concat (map (\<lambda>b. map (\<lambda>c. persisted_agent_of t a b (cr_conn c))
         (filter (\<lambda>c. rc_id (cr_conn c) = bd_conn b \<and> cr_archived_at c = None \<and>
             tenant_allows (tenant env) (rc_org (cr_conn c))) (db_conns d)))
       (filter (\<lambda>b. bd_agent b = ag_id a \<and> (runtime = '''' \<or> bd_conn b = runtime)) (db_bindings d))))
     (db_agents d))"

definition list_persisted_agents :: "env \<Rightarrow> string \<Rightarrow> ((db, 'x) world, persisted_agent list) call" where
  "list_persisted_agents env runtime =
     wrapping ''list persisted agents: '' (query_now env (persisted_agents env runtime))"

definition agent_skills :: "string \<Rightarrow> db \<Rightarrow> skill_snapshot list" where
  "agent_skills agent d =
     concat (map (\<lambda>kb. map (\<lambda>s. (ks_skill s)\<lparr>sk_status := kb_status kb, sk_observed_at := kb_observed_at kb\<rparr>)
         (filter (\<lambda>s. ks_id s = kb_skill kb) (db_skills d)))
       (filter (\<lambda>kb. kb_agent kb = agent) (db_skill_bindings d)))"

definition get_persisted_agent :: "env \<Rightarrow> string \<Rightarrow> ((db, 'x) world, agent_detail) call" where
  "get_persisted_agent env agent =
     seq (list_persisted_agents env '''') (\<lambda>agents.
     case List.find (\<lambda>a. pa_id a = agent) agents of
       None \<Rightarrow> failing (Sentinel NoRows)
     | Some found \<Rightarrow>
         seq (wrapping ''list persisted agent skills: '' (query env (agent_skills agent))) (\<lambda>skills.
         seq (wrapping ''get persisted access: '' (query env (\<lambda>d.
                List.find (\<lambda>r. aa_agent r = agent \<and> aa_conn r = pa_conn found) (db_access d)))) (\<lambda>access.
         return \<lparr>ad_agent = found, ad_skills = skills,
                 ad_access = (case access of None \<Rightarrow> no_access | Some r \<Rightarrow> aa_access r)\<rparr>)))"

definition deletable :: "env \<Rightarrow> db \<Rightarrow> string \<Rightarrow> agent_row \<Rightarrow> bool" where
  "deletable env d agent a \<longleftrightarrow>
     ag_id a = agent \<and>
     (tenant env = '''' \<or> (\<exists>b\<in>set (db_bindings d). bd_agent b = ag_id a \<and>
        (\<exists>c\<in>set (db_conns d). rc_id (cr_conn c) = bd_conn b \<and> rc_org (cr_conn c) = tenant env)))"

definition mark_deleted :: "env \<Rightarrow> string \<Rightarrow> time \<Rightarrow> db \<Rightarrow> db" where
  "mark_deleted env agent t d = d\<lparr>db_agents := update_where (deletable env d agent)
     (\<lambda>a. a\<lparr>ag_status := AgentDisabled,
            ag_metadata := mput ''runtime_deleted_at'' (GTime t)
              (mput ''runtime_deleted'' (GBool True) (ag_metadata a)),
            ag_updated_at := t\<rparr>) (db_agents d)\<rparr>"

definition mark_agent_deleted :: "env \<Rightarrow> string \<Rightarrow> ((db, 'x) world, unit) call" where
  "mark_agent_deleted env agent =
     seq (wrapping ''mark persisted agent deleted: '' (\<lambda>w.
            exec_returning env (mark_deleted env agent (e_now env (w_step w)))
              (\<lambda>d. length (filter (deletable env d agent) (db_agents d))) w)) (\<lambda>affected.
     if affected = 0 then failing (Sentinel NoRows) else return ())"

definition list_agent_delegations ::
    "env \<Rightarrow> string \<Rightarrow> string \<Rightarrow> ((db, 'x) world, delegation_row list) call" where
  "list_agent_delegations env runtime agent =
     wrapping ''list agent delegations: '' (query env (\<lambda>d.
       filter (\<lambda>r. (runtime = '''' \<or> dr_conn r = runtime) \<and>
           (agent = '''' \<or> dl_orchestrator (dr_snapshot r) = agent \<or> dl_delegate (dr_snapshot r) = agent) \<and>
           conn_in_tenant env d (dr_conn r)) (db_delegations d)))"

definition list_subagent_executions ::
    "env \<Rightarrow> string \<Rightarrow> string \<Rightarrow> ((db, 'x) world, subagent_row list) call" where
  "list_subagent_executions env runtime agent =
     wrapping ''list subagent executions: '' (query env (\<lambda>d.
       take 200 (sort_key (\<lambda>r. - se_observed_at (sr_snapshot r))
         (filter (\<lambda>r. (runtime = '''' \<or> sr_conn r = runtime) \<and>
             (agent = '''' \<or> (\<exists>b\<in>set (db_bindings d). bd_agent b = agent \<and>
                               bd_runtime_agent b = se_agent (sr_snapshot r))) \<and>
             conn_in_tenant env d (sr_conn r)) (db_subagents d)))))"

definition list_runtime_executions ::
    "env \<Rightarrow> string \<Rightarrow> string \<Rightarrow> string \<Rightarrow> int \<Rightarrow> ((db, 'x) world, execution_row list) call" where
  "list_runtime_executions env runtime agent kind limit =
     wrapping ''list runtime executions: '' (query env (\<lambda>d.
       take (clamp_limit limit 1000 200) (sort_key (\<lambda>r. - ex_observed_at (xr_snapshot r))
         (filter (\<lambda>r. (runtime = '''' \<or> xr_conn r = runtime) \<and>
             (agent = '''' \<or> ex_agent (xr_snapshot r) = agent) \<and>
             (kind = '''' \<or> ex_kind (xr_snapshot r) = kind) \<and>
             conn_in_tenant env d (xr_conn r)) (db_executions d)))))"

definition get_runtime_execution :: "env \<Rightarrow> string \<Rightarrow> ((db, 'x) world, persisted_execution) call" where
  "get_runtime_execution env execution =
     seq (wrapping ''get runtime execution: '' (query_row env (\<lambda>d.
       List.find (\<lambda>r. xr_id r = execution \<and> conn_in_tenant env d (xr_conn r)) (db_executions d)))) (\<lambda>r.
     return \<lparr>px_id = xr_id r, px_conn = xr_conn r, px_snapshot = xr_snapshot r\<rparr>)"

definition list_runtime_diagnostics :: "env \<Rightarrow> string \<Rightarrow> ((db, 'x) world, diagnostic_row list) call" where
  "list_runtime_diagnostics env runtime =
     wrapping ''list runtime diagnostics: '' (query env (\<lambda>d.
       filter (\<lambda>r. gr_conn r = runtime \<and> conn_in_tenant env d (gr_conn r)) (db_diagnostics d)))"

definition list_runtime_inventory ::
    "env \<Rightarrow> string \<Rightarrow> string \<Rightarrow> ((db, 'x) world, inventory_row list) call" where
  "list_runtime_inventory env runtime kind =
     wrapping ''list runtime inventory: '' (query env (\<lambda>d.
       filter (\<lambda>r. ir_conn r = runtime \<and> (kind = '''' \<or> iv_kind (ir_snapshot r) = kind) \<and>
           conn_in_tenant env d (ir_conn r)) (db_inventory d)))"

definition list_runtime_capabilities :: "env \<Rightarrow> string \<Rightarrow> ((db, 'x) world, capability_row list) call" where
  "list_runtime_capabilities env runtime =
     wrapping ''list runtime capabilities: '' (query env (\<lambda>d.
       filter (\<lambda>r. pr_conn r = runtime \<and> conn_in_tenant env d (pr_conn r)) (db_catalog d)))"

section \<open>Evaluation\<close>

lemmas [eval_simps] = seq_def wrapping_def transaction_def query_def query_now_def query_row_def
  exec_def exec_now_def exec_checked_def exec_returning_def now_def tick_def default_id_def
  require_ok_def conn_visible_def conn_row_def conn_in_tenant_def tenant_allows_def tenant_def
  organization_id_def principal_from_def update_where_def upsert_def update_conn_def
  try_lock_def release_lock_def create_run_def fail_run_def store_failed_run_def error_of_def
  persist_snapshot_def persist_items_def persist_agent_def upsert_snapshot_agent_def find_binding_def
  insert_agent_check_def insert_agent_def insert_binding_check_def new_binding_def seen_binding_def
  status_check_def kind_check_def fk_run_def advance_missing_def advance_missing_agents_def
  mark_missing_stale_def advance_skill_bindings_def advance_skills_def advance_delegations_def
  finish_run_def complete_run_def store_completed_def Let_def time_sub_def milliseconds_def
  tquot_def max_int64_def min_int64_def

end
