(* ===== verification/Connection_Store.thy ===== *)
theory Connection_Store
  imports Schema
begin

text \<open>The repositories of \<^verbatim>\<open>internal/store/repositories.go\<close> for runtime connections, their endpoints,
  audit events and agents.\<close>

section \<open>Audit events\<close>

text \<open>\<^verbatim>\<open>AuditRepository.Create\<close>: the event is appended; nothing updates or deletes one.\<close>

definition audit_create :: "env \<Rightarrow> audit_event \<Rightarrow> ((db, 'x) world, audit_event) call" where
  "audit_create env event =
     seq (if au_id event = '''' then new_id env else return (au_id event)) (\<lambda>eid.
     seq (now env) (\<lambda>created.
     let event = event\<lparr>au_id := eid\<rparr> in
     seq (wrapping ''create audit event: '' (exec env (\<lambda>d. d\<lparr>db_audits := db_audits d @
            [\<lparr>ur_event = event, ur_org = organization_for_write env, ur_created_at = created\<rparr>]\<rparr>))) (\<lambda>_.
     return event)))"


section \<open>Runtime connections\<close>

definition endpoint_key :: "string \<Rightarrow> string" where
  "endpoint_key url = to_lower (trim_right_char (CHR 0x2F) url)"

definition environment_text_ok :: "string \<Rightarrow> bool" where
  "environment_text_ok s \<longleftrightarrow>
     (case s of [] \<Rightarrow> False
      | c # t \<Rightarrow> byte_in 97 122 c \<and> length t \<le> 31 \<and>
          list_all (\<lambda>b. byte_in 97 122 b \<or> byte_in 48 57 b \<or> b = CHR 0x5F \<or> b = CHR 0x2D) t)"

text \<open>The constraints of the connections table: the checks on a row, and the two unique indexes over
  the active rows of an organisation.\<close>

definition connection_checks :: "runtime_connection \<Rightarrow> gerr option" where
  "connection_checks c = first_of
     [require_ok (rc_mode c \<in> {ModeReadOnly, ModeControlEnabled}) check_violation,
      require_ok (rc_status c \<in> {RuntimePending, RuntimeActive, RuntimeDegraded, RuntimeDisabled, RuntimeFailed})
        check_violation,
      require_ok (environment_text_ok (rc_environment c)) check_violation,
      require_ok (15 \<le> rc_sync_interval c \<and> rc_sync_interval c \<le> 86400) check_violation]"

definition connection_conflict :: "runtime_connection \<Rightarrow> connection_row \<Rightarrow> bool" where
  "connection_conflict c r \<longleftrightarrow>
     cr_archived_at r = None \<and> rc_id (cr_conn r) \<noteq> rc_id c \<and> rc_org (cr_conn r) = rc_org c \<and>
     (rc_name (cr_conn r) = rc_name c \<or>
      rc_kind (cr_conn r) = rc_kind c \<and>
      endpoint_key (rc_base_url (cr_conn r)) = endpoint_key (rc_base_url c))"

definition connection_violation :: "runtime_connection \<Rightarrow> db \<Rightarrow> gerr option" where
  "connection_violation c d = first_of
     [connection_checks c, require_ok (\<not> (\<exists>r\<in>set (db_conns d). connection_conflict c r)) unique_violation]"

definition insert_connection_violation :: "runtime_connection \<Rightarrow> db \<Rightarrow> gerr option" where
  "insert_connection_violation c d = first_of
     [connection_violation c d,
      require_ok (rc_id c \<notin> set (map (\<lambda>r. rc_id (cr_conn r)) (db_conns d))) unique_violation]"

definition endpoint_violation :: "string \<Rightarrow> string \<Rightarrow> db \<Rightarrow> gerr option" where
  "endpoint_violation conn url d = require_ok
     (\<not> (\<exists>r\<in>set (db_endpoints d). ep_conn (er_endpoint r) = conn \<and>
            endpoint_key (ep_url (er_endpoint r)) = endpoint_key url)) unique_violation"

definition canonical_endpoint :: "string \<Rightarrow> runtime_connection \<Rightarrow> runtime_endpoint" where
  "canonical_endpoint eid c =
     \<lparr>ep_id = eid, ep_conn = rc_id c, ep_url = rc_base_url c, ep_kind = EndpointCanonical,
      ep_auth_ref = rc_auth_ref c, ep_source = ''''\<rparr>"

text \<open>The row of a new connection: the columns \<^verbatim>\<open>Create\<close> does not insert take their defaults.\<close>

definition inserted_row :: "runtime_connection \<Rightarrow> connection_row" where
  "inserted_row c =
     \<lparr>cr_conn = c\<lparr>rc_last_synced_at := None, rc_sync_enabled := True, rc_sync_interval := 60,
        rc_last_sync_status := SyncUnset, rc_last_sync_started := None, rc_last_sync_finished := None,
        rc_last_sync_duration := 0, rc_last_error := '''', rc_endpoints := []\<rparr>,
      cr_archived_at = None, cr_archived_by = '''', cr_archive_reason = '''', cr_archive_kind = '''',
      cr_merged_into = ''''\<rparr>"

definition connection_create ::
    "env \<Rightarrow> runtime_connection \<Rightarrow> ((db, 'x) world, runtime_connection) call" where
  "connection_create env conn =
     seq (if rc_id conn = '''' then new_id env else return (rc_id conn)) (\<lambda>cid.
     seq (now env) (\<lambda>created.
     let conn = conn\<lparr>rc_id := cid,
           rc_display_name := (if rc_display_name conn = '''' then rc_name conn else rc_display_name conn),
           rc_environment := (if rc_environment conn = '''' then ''unspecified'' else rc_environment conn),
           rc_org := organization_for_write env\<rparr> in
     transaction env ''begin runtime connection creation: '' ''commit runtime connection creation: ''
       (seq (wrapping ''create runtime connection: ''
               (exec_checked env (insert_connection_violation (cr_conn (inserted_row conn)))
                  (\<lambda>d. d\<lparr>db_conns := db_conns d @ [inserted_row conn]\<rparr>))) (\<lambda>_.
        seq (new_id env) (\<lambda>eid.
        seq (wrapping ''create canonical runtime endpoint: ''
               (exec_checked env (endpoint_violation (rc_id conn) (rc_base_url conn))
                  (\<lambda>d. d\<lparr>db_endpoints := db_endpoints d @
                     [\<lparr>er_endpoint = canonical_endpoint eid conn, er_created_at = created\<rparr>]\<rparr>))) (\<lambda>_.
        return (conn\<lparr>rc_endpoints := [canonical_endpoint eid conn]\<rparr>)))))))"

definition endpoint_rank :: "endpoint_kind \<Rightarrow> int" where
  "endpoint_rank k = (case k of EndpointCanonical \<Rightarrow> 0 | EndpointAlias \<Rightarrow> 1 | EndpointRelay \<Rightarrow> 2)"

definition endpoints_of :: "string \<Rightarrow> db \<Rightarrow> runtime_endpoint list" where
  "endpoints_of conn d =
     map er_endpoint (sort_key (\<lambda>r. endpoint_rank (ep_kind (er_endpoint r)))
       (sort_key er_created_at (filter (\<lambda>r. ep_conn (er_endpoint r) = conn) (db_endpoints d))))"

definition list_endpoints :: "env \<Rightarrow> string \<Rightarrow> ((db, 'x) world, runtime_endpoint list) call" where
  "list_endpoints env conn = wrapping ''list runtime endpoints: '' (query env (endpoints_of conn))"

definition active_in_tenant :: "env \<Rightarrow> connection_row \<Rightarrow> bool" where
  "active_in_tenant env r \<longleftrightarrow> cr_archived_at r = None \<and> tenant_allows (tenant env) (rc_org (cr_conn r))"

definition find_active :: "env \<Rightarrow> string \<Rightarrow> db \<Rightarrow> runtime_connection option" where
  "find_active env cid d =
     map_option cr_conn (List.find (\<lambda>r. rc_id (cr_conn r) = cid \<and> active_in_tenant env r) (db_conns d))"

definition connection_get :: "env \<Rightarrow> string \<Rightarrow> ((db, 'x) world, runtime_connection) call" where
  "connection_get env cid =
     seq (wrapping ''get runtime connection: '' (query_row env (find_active env cid))) (\<lambda>conn.
     seq (list_endpoints env (rc_id conn)) (\<lambda>endpoints.
     return (conn\<lparr>rc_endpoints := endpoints\<rparr>)))"

lemma find_active_Some:
  "find_active env c d = Some conn \<Longrightarrow> \<exists>r\<in>set (db_conns d). cr_conn r = conn \<and> rc_id conn = c \<and> active_in_tenant env r"
  by (auto simp: find_active_def dest: find_SomeD)

lemma connection_get_result:
  assumes "connection_get env c w = (Inr conn, w')"
  shows "\<exists>stored. find_active env c (w_db w) = Some stored \<and> rc_mode conn = rc_mode stored \<and>
    rc_id conn = rc_id stored \<and> rc_org conn = rc_org stored \<and> rc_kind conn = rc_kind stored \<and>
    conn = stored\<lparr>rc_endpoints := rc_endpoints conn\<rparr>"
  using assms
  by (auto simp: connection_get_def list_endpoints_def seq_Inr_iff wrapping_Inr_iff query_row_def
      split: option.splits dest!: query_Inr) (metis option.inject)

lemma connection_get_id: "connection_get env c w = (Inr conn, w') \<Longrightarrow> rc_id conn = c"
  by (auto dest!: connection_get_result find_active_Some)

text \<open>\<^verbatim>\<open>List\<close> reads the endpoints of each row with a query of its own.\<close>

fun with_endpoints ::
    "env \<Rightarrow> runtime_connection list \<Rightarrow> ((db, 'x) world, runtime_connection list) call" where
  "with_endpoints env [] = return []"
| "with_endpoints env (c # cs) =
     seq (list_endpoints env (rc_id c)) (\<lambda>endpoints.
     seq (with_endpoints env cs) (\<lambda>rest.
     return (c\<lparr>rc_endpoints := endpoints\<rparr> # rest)))"

definition connection_list :: "env \<Rightarrow> ((db, 'x) world, runtime_connection list) call" where
  "connection_list env =
     seq (wrapping ''list runtime connections: ''
            (query env (\<lambda>d. map cr_conn (filter (active_in_tenant env) (db_conns d))))) (with_endpoints env)"

definition settings_applied :: "runtime_connection \<Rightarrow> runtime_connection \<Rightarrow> runtime_connection" where
  "settings_applied conn c = c\<lparr>rc_display_name := rc_display_name conn,
     rc_environment := rc_environment conn, rc_labels := rc_labels conn, rc_mode := rc_mode conn,
     rc_base_url := rc_base_url conn, rc_auth_ref := rc_auth_ref conn, rc_metadata := rc_metadata conn,
     rc_sync_enabled := rc_sync_enabled conn, rc_sync_interval := rc_sync_interval conn\<rparr>"

definition connection_update_settings ::
    "env \<Rightarrow> runtime_connection \<Rightarrow> ((db, 'x) world, runtime_connection) call" where
  "connection_update_settings env conn =
     seq (transaction env ''begin runtime settings update: '' ''commit runtime settings update: ''
       (seq (wrapping ''update runtime instance settings: ''
               (exec_checked env (\<lambda>d. case find_active env (rc_id conn) d of
                    None \<Rightarrow> None
                  | Some c \<Rightarrow> connection_violation (settings_applied conn c) d)
                  (\<lambda>d. d\<lparr>db_conns := update_where
                     (\<lambda>r. rc_id (cr_conn r) = rc_id conn \<and> active_in_tenant env r)
                     (\<lambda>r. r\<lparr>cr_conn := settings_applied conn (cr_conn r)\<rparr>) (db_conns d)\<rparr>))) (\<lambda>_.
        wrapping ''update canonical runtime endpoint: ''
          (exec_checked env (\<lambda>d. require_ok (\<not> ((\<exists>r\<in>set (db_endpoints d).
                ep_conn (er_endpoint r) = rc_id conn \<and> ep_kind (er_endpoint r) = EndpointCanonical) \<and>
              (\<exists>r\<in>set (db_endpoints d).
                ep_conn (er_endpoint r) = rc_id conn \<and> ep_kind (er_endpoint r) \<noteq> EndpointCanonical \<and>
                endpoint_key (ep_url (er_endpoint r)) = endpoint_key (rc_base_url conn)))) unique_violation)
             (\<lambda>d. d\<lparr>db_endpoints := update_where
             (\<lambda>r. ep_conn (er_endpoint r) = rc_id conn \<and> ep_kind (er_endpoint r) = EndpointCanonical)
             (\<lambda>r. r\<lparr>er_endpoint := (er_endpoint r)\<lparr>ep_url := rc_base_url conn,
                     ep_auth_ref := rc_auth_ref conn\<rparr>\<rparr>) (db_endpoints d)\<rparr>))))) (\<lambda>_.
     connection_get env (rc_id conn))"

definition archived_row :: "time \<Rightarrow> string \<Rightarrow> string \<Rightarrow> string \<Rightarrow> connection_row \<Rightarrow> connection_row" where
  "archived_row t actor reason kind r =
     r\<lparr>cr_archived_at := Some t, cr_archived_by := actor, cr_archive_reason := reason,
       cr_archive_kind := kind,
       cr_conn := (cr_conn r)\<lparr>rc_sync_enabled := False, rc_status := RuntimeDisabled\<rparr>\<rparr>"

definition connection_archive :: "env \<Rightarrow> string \<Rightarrow> string \<Rightarrow> string \<Rightarrow> ((db, 'x) world, unit) call" where
  "connection_archive env cid actor reason =
     seq (wrapping ''archive runtime connection: '' (\<lambda>w.
            exec_returning env (\<lambda>d. d\<lparr>db_conns :=
                update_where (\<lambda>r. rc_id (cr_conn r) = cid \<and> active_in_tenant env r)
                  (archived_row (e_now env (w_step w)) actor reason ''removed'') (db_conns d)\<rparr>)
              (\<lambda>d. length (filter (\<lambda>r. rc_id (cr_conn r) = cid \<and> active_in_tenant env r) (db_conns d))) w))
     (\<lambda>affected.
     if affected = 0 then failing (Wrapped ''archive runtime connection: '' (Sentinel NoRows))
     else return ())"

definition endpoint_kind_text :: "endpoint_kind \<Rightarrow> string" where
  "endpoint_kind_text k =
     (case k of EndpointCanonical \<Rightarrow> ''canonical'' | EndpointAlias \<Rightarrow> ''alias'' | EndpointRelay \<Rightarrow> ''relay'')"

text \<open>\<^verbatim>\<open>ConsolidateEndpoint\<close>: both connections must be active in the tenant and of one kind; the
  duplicate's endpoint becomes a route of the canonical one, and the duplicate is archived.  The
  archive statement itself is not scoped to the tenant.\<close>

definition consolidate_endpoint ::
    "env \<Rightarrow> string \<Rightarrow> string \<Rightarrow> endpoint_kind \<Rightarrow> string \<Rightarrow> string \<Rightarrow> ((db, 'x) world, unit) call" where
  "consolidate_endpoint env canonical duplicate kind actor reason =
     transaction env ''begin endpoint consolidation: '' ''commit endpoint consolidation: ''
       (seq (wrapping ''get canonical runtime connection: '' (query_row env (find_active env canonical))) (\<lambda>c.
        seq (wrapping ''get duplicate runtime connection: '' (query_row env (find_active env duplicate))) (\<lambda>dup.
        if rc_kind c \<noteq> rc_kind dup then failing (Text ''runtime types must match'') else
        seq (new_id env) (\<lambda>eid.
        seq (wrapping ''create runtime endpoint alias: '' (\<lambda>w.
               exec_checked env (endpoint_violation canonical (rc_base_url dup))
                 (\<lambda>d. d\<lparr>db_endpoints := db_endpoints d @
                    [\<lparr>er_endpoint = \<lparr>ep_id = eid, ep_conn = canonical, ep_url = rc_base_url dup,
                        ep_kind = kind, ep_auth_ref = rc_auth_ref dup, ep_source = duplicate\<rparr>,
                      er_created_at = e_now env (w_step w)\<rparr>]\<rparr>) w)) (\<lambda>_.
        seq (wrapping ''archive duplicate runtime connection: '' (\<lambda>w.
               exec_returning env (\<lambda>d. d\<lparr>db_conns :=
                   update_where (\<lambda>r. rc_id (cr_conn r) = duplicate \<and> cr_archived_at r = None)
                     (\<lambda>r. (archived_row (e_now env (w_step w)) actor reason (endpoint_kind_text kind) r)
                        \<lparr>cr_merged_into := canonical\<rparr>) (db_conns d)\<rparr>)
                 (\<lambda>d. length (filter (\<lambda>r. rc_id (cr_conn r) = duplicate \<and> cr_archived_at r = None)
                        (db_conns d))) w)) (\<lambda>affected.
        if affected \<noteq> 1
        then failing (Wrapped ''archive duplicate runtime connection: '' (Sentinel NoRows))
        else return ()))))))"


section \<open>Agents\<close>

definition agent_create ::
    "env \<Rightarrow> string \<Rightarrow> string \<Rightarrow> agent_status \<Rightarrow> string \<Rightarrow> string \<Rightarrow> string \<Rightarrow>
      ((db, 'x) world, agent_row \<times> binding_row) call" where
  "agent_create env agent_id name status binding_id conn runtime_agent =
     seq (if agent_id = '''' then new_id env else return agent_id) (\<lambda>aid.
     seq (if binding_id = '''' then new_id env else return binding_id) (\<lambda>bid.
     seq (now env) (\<lambda>created.
     let binding = \<lparr>bd_id = bid, bd_agent = aid, bd_conn = conn, bd_runtime_agent = runtime_agent,
           bd_kind = AgentRegistered, bd_parent = '''', bd_last_seen = None, bd_last_run = None,
           bd_missing = 0, bd_raw = []\<rparr>;
         agent = \<lparr>ag_id = aid, ag_org = '''', ag_name = name, ag_status = status, ag_metadata = [],
           ag_updated_at = created\<rparr> in
     transaction env ''begin create agent: '' ''commit create agent: ''
       (seq (wrapping ''create agent: '' (exec_checked env
               (\<lambda>d. case conn_visible env d conn of None \<Rightarrow> None
                     | Some _ \<Rightarrow> require_ok (aid \<notin> set (map ag_id (db_agents d))) unique_violation)
               (\<lambda>d. case conn_visible env d conn of None \<Rightarrow> d
                     | Some c \<Rightarrow> d\<lparr>db_agents := db_agents d @ [agent\<lparr>ag_org := rc_org c\<rparr>]\<rparr>))) (\<lambda>_.
        seq (wrapping ''create agent binding: '' (exec_checked env
               (\<lambda>d. first_of [require_ok (aid \<in> set (map ag_id (db_agents d))) foreign_key_violation,
                  require_ok (\<not> (\<exists>b\<in>set (db_bindings d). bd_conn b = conn \<and>
                     (bd_runtime_agent b = runtime_agent \<or> bd_agent b = aid))) unique_violation])
               (\<lambda>d. d\<lparr>db_bindings := db_bindings d @ [binding]\<rparr>))) (\<lambda>_.
        return (agent, binding)))))))"

definition agent_get :: "env \<Rightarrow> string \<Rightarrow> ((db, 'x) world, agent_row) call" where
  "agent_get env agent =
     wrapping ''get agent: '' (query_row env (\<lambda>d.
       List.find (\<lambda>a. ag_id a = agent \<and> tenant_allows (tenant env) (ag_org a)) (db_agents d)))"

definition agent_list :: "env \<Rightarrow> ((db, 'x) world, agent_row list) call" where
  "agent_list env = wrapping ''list agents: '' (query env (\<lambda>d.
     filter (\<lambda>a. tenant_allows (tenant env) (ag_org a)) (db_agents d)))"

end
