(* ===== verification/Sync_Service.thy ===== *)
theory Sync_Service
  imports Snapshot_Validation Sync_Store Connection_Store
begin

text \<open>The synchronisation service (\<^verbatim>\<open>internal/services/runtime_sync.go\<close>) over the interfaces it
  consumes: \<^verbatim>\<open>RuntimeConnectionRepository.Get\<close>, \<^verbatim>\<open>RuntimeSyncRepository\<close>, \<^verbatim>\<open>AuditRepository\<close> and the
  registered adapters.  The locale \<open>sync_contract\<close> states what the service relies on; it is
  interpreted on the repository of \<^verbatim>\<open>Sync_Store\<close>.\<close>

section \<open>The service\<close>

record sync_input =
  si_conn :: string
  si_trigger :: sync_trigger
  si_actor :: string
  si_reason :: string

text \<open>The audit port is absent when the service was built without an audit repository; the service
  ignores what \<^verbatim>\<open>audit.Create\<close> returns.\<close>

record 'w sync_ports =
  sp_get_runtime :: "string \<Rightarrow> ('w, runtime_connection) call"
  sp_try_lock :: "string \<Rightarrow> ('w, bool) call"
  sp_release :: "string \<Rightarrow> 'w \<Rightarrow> 'w"
  sp_create_run :: "sync_run \<Rightarrow> ('w, sync_run) call"
  sp_fail_run :: "sync_run \<Rightarrow> string \<Rightarrow> string \<Rightarrow> 'w \<Rightarrow> (sync_run \<times> gerr option) \<times> 'w"
  sp_persist :: "sync_run \<Rightarrow> runtime_snapshot \<Rightarrow> int \<Rightarrow> ('w, sync_run) call"
  sp_audit :: "(audit_event \<Rightarrow> ('w, audit_event) call) option"
  sp_adapters :: "'w adapters"
  sp_threshold :: int

text \<open>\<^verbatim>\<open>NewRuntimeSyncService\<close>: a threshold that is not positive is 3.\<close>

definition missing_threshold :: "int \<Rightarrow> int" where
  "missing_threshold n = (if n \<le> 0 then 3 else n)"

definition sanitize_runtime_error :: "gerr \<Rightarrow> string" where
  "sanitize_runtime_error e = take 1000 (trim_space (err_text e))"

definition audit_event_of_sync :: "sync_run \<Rightarrow> sync_input \<Rightarrow> string \<Rightarrow> string \<Rightarrow> audit_event" where
  "audit_event_of_sync run input event result =
     \<lparr>au_id = '''', au_conn = run_conn run, au_agent = '''', au_action = '''',
      au_actor = (if trim_space (si_actor input) = '''' then ''capcom-sync-worker''
                  else trim_space (si_actor input)),
      au_event = event, au_target_type = ''runtime_sync_run'', au_target = run_id run,
      au_reason = (if trim_space (si_reason input) = '''' then ''scheduled runtime synchronization''
                   else trim_space (si_reason input)),
      au_before = [], au_after = [], au_result = result,
      au_metadata =
        [(''trigger'', GStr (sync_trigger_text (run_trigger run))),
         (''status'', GStr (sync_status_text (run_status run))),
         (''agents_seen'', GInt (int (run_agents run))),
         (''skills_seen'', GInt (int (run_skills run))),
         (''delegations_seen'', GInt (int (run_delegations run))),
         (''duration_ms'', GInt (run_duration run)),
         (''error_code'', GStr (run_error_code run))]\<rparr>"

definition audit_sync ::
    "'w sync_ports \<Rightarrow> sync_run \<Rightarrow> sync_input \<Rightarrow> string \<Rightarrow> string \<Rightarrow> 'w \<Rightarrow> 'w" where
  "audit_sync p run input event result w =
     (case sp_audit p of
        None \<Rightarrow> w
      | Some create \<Rightarrow> snd (create (audit_event_of_sync run input event result) w))"

text \<open>The three failure branches: the run is failed, the failure audited, and the error of the run's
  own update joined to the cause.\<close>

definition fail_sync ::
    "'w sync_ports \<Rightarrow> sync_input \<Rightarrow> sync_run \<Rightarrow> string \<Rightarrow> string \<Rightarrow> gerr \<Rightarrow> gerr \<Rightarrow> 'w \<Rightarrow>
     (sync_run \<times> gerr option) \<times> 'w" where
  "fail_sync p input run code message cause returned w =
     (let ((failed, fail_err), w) = sp_fail_run p run code message w;
          w = audit_sync p failed input ''runtime.sync_failed'' ''failed'' w
      in ((failed, Some (case fail_err of Some e \<Rightarrow> Joined cause e | None \<Rightarrow> returned)), w))"

text \<open>What \<^verbatim>\<open>Sync\<close> does while it holds the lock.\<close>

definition sync_locked ::
    "'w sync_ports \<Rightarrow> sync_input \<Rightarrow> runtime_connection \<Rightarrow> 'w adapter \<Rightarrow> 'w \<Rightarrow>
     (sync_run \<times> gerr option) \<times> 'w" where
  "sync_locked p input conn adapter w =
     (case sp_create_run p (no_run\<lparr>run_conn := rc_id conn, run_trigger := si_trigger input\<rparr>) w of
        (Inl e, w) \<Rightarrow> ((no_run, Some e), w)
      | (Inr run, w) \<Rightarrow>
         (case ad_collect adapter conn w of
            (Inl e, w) \<Rightarrow>
              fail_sync p input run ''adapter_error'' (sanitize_runtime_error e) e
                (Wrapped ''collect runtime snapshot: '' e) w
          | (Inr sn, w) \<Rightarrow>
             (case validate_runtime_snapshot sn of
                Some e \<Rightarrow> fail_sync p input run ''invalid_snapshot'' (err_text e) e e w
              | None \<Rightarrow>
                 (case sp_persist p run sn (sp_threshold p) w of
                    (Inl e, w) \<Rightarrow>
                      fail_sync p input run ''persistence_error'' (sanitize_runtime_error e) e e w
                  | (Inr completed, w) \<Rightarrow>
                      ((completed, None),
                       audit_sync p completed input ''runtime.sync_succeeded'' ''succeeded'' w)))))"

text \<open>\<^verbatim>\<open>TryLock\<close> and \<^verbatim>\<open>defer release()\<close>.\<close>

definition sync_exclusive ::
    "'w sync_ports \<Rightarrow> sync_input \<Rightarrow> runtime_connection \<Rightarrow> 'w adapter \<Rightarrow> 'w \<Rightarrow>
     (sync_run \<times> gerr option) \<times> 'w" where
  "sync_exclusive p input conn adapter w =
     (case sp_try_lock p (rc_id conn) w of
        (Inl e, w) \<Rightarrow> ((no_run, Some e), w)
      | (Inr acquired, w) \<Rightarrow>
          if \<not> acquired then ((no_run, Some (Sentinel SyncConflict)), w)
          else (case sync_locked p input conn adapter w of
                  (result, w) \<Rightarrow> (result, sp_release p (rc_id conn) w)))"

definition with_trigger :: "sync_input \<Rightarrow> sync_input" where
  "with_trigger input =
     (if si_trigger input = TriggerUnset then input\<lparr>si_trigger := TriggerManual\<rparr> else input)"

lemma with_trigger_simps [simp]:
  "si_conn (with_trigger i) = si_conn i" "si_actor (with_trigger i) = si_actor i"
  "si_reason (with_trigger i) = si_reason i"
  by (simp_all add: with_trigger_def)

definition sync :: "'w sync_ports \<Rightarrow> sync_input \<Rightarrow> 'w \<Rightarrow> (sync_run \<times> gerr option) \<times> 'w" where
  "sync p input w =
     (if trim_space (si_conn input) = ''''
      then ((no_run, Some (Text ''runtime connection id is required'')), w)
      else
        let input = with_trigger input
        in if si_trigger input = TriggerManual \<and>
              (trim_space (si_actor input) = '''' \<or> trim_space (si_reason input) = '''')
           then ((no_run, Some (Text ''actor and reason are required'')), w)
           else
             case sp_get_runtime p (si_conn input) w of
               (Inl e, w) \<Rightarrow> ((no_run, Some e), w)
             | (Inr conn, w) \<Rightarrow>
                (case map_of (sp_adapters p) (rc_kind conn) of
                   None \<Rightarrow>
                     ((no_run, Some (Text (''runtime adapter '' @ quoted (runtime_kind_text (rc_kind conn)) @
                        '' is not registered''))), w)
                 | Some adapter \<Rightarrow> sync_exclusive p input conn adapter w))"

text \<open>The pass-through reads, and \<^verbatim>\<open>ListAgentDelegations\<close>, which translates the agent's identifier
  and checks that the agent belongs to the runtime.\<close>

definition get_agent ::
    "(string \<Rightarrow> ('w, agent_detail) call) \<Rightarrow> string \<Rightarrow> ('w, agent_detail) call" where
  "get_agent get_persisted agent =
     (if trim_space agent = '''' then failing (Text ''agent id is required'') else get_persisted agent)"

definition service_agent_delegations ::
    "(string \<Rightarrow> ('w, agent_detail) call) \<Rightarrow> (string \<Rightarrow> string \<Rightarrow> ('w, delegation_row list) call) \<Rightarrow>
     string \<Rightarrow> string \<Rightarrow> ('w, delegation_row list) call" where
  "service_agent_delegations get_persisted list_delegations runtime agent =
     (if trim_space agent \<noteq> '''' then
        seq (get_agent get_persisted agent) (\<lambda>detail.
        if runtime \<noteq> '''' \<and> pa_conn (ad_agent detail) \<noteq> runtime
        then failing (Text ''agent does not belong to runtime instance'')
        else list_delegations (pa_conn (ad_agent detail)) (pa_runtime_agent (ad_agent detail)))
      else list_delegations runtime '''')"


section \<open>What a successful synchronisation did\<close>

lemma sync_locked_success:
  assumes "sync_locked p i conn ad w = ((run, None), w')"
  shows "\<exists>run0 sn w1 w2 w3.
    sp_create_run p (no_run\<lparr>run_conn := rc_id conn, run_trigger := si_trigger i\<rparr>) w = (Inr run0, w1) \<and>
    ad_collect ad conn w1 = (Inr sn, w2) \<and> snapshot_ok sn \<and>
    sp_persist p run0 sn (sp_threshold p) w2 = (Inr run, w3) \<and>
    w' = audit_sync p run i ''runtime.sync_succeeded'' ''succeeded'' w3"
  using assms
  by (auto simp: sync_locked_def fail_sync_def Let_def validate_None
      split: prod.splits sum.splits option.splits)

lemma sync_success:
  assumes "sync p i w = ((run, None), w')"
  shows "\<exists>conn ad w1 w2. map_of (sp_adapters p) (rc_kind conn) = Some ad \<and>
    sp_get_runtime p (si_conn i) w = (Inr conn, w1) \<and>
    (\<exists>w0. sp_try_lock p (rc_id conn) w1 = (Inr True, w0) \<and>
      sync_locked p (with_trigger i) conn ad w0 = ((run, None), w2)) \<and>
    w' = sp_release p (rc_id conn) w2"
  using assms
  by (fastforce simp: sync_def sync_exclusive_def Let_def split: prod.splits sum.splits option.splits if_splits)

lemma sync_cases:
  obtains (early) r where "sync p i w = (r, w)"
    | (unread) r x w0 where "sp_get_runtime p (si_conn i) w = (x, w0)" "sync p i w = (r, w0)"
    | (locking) conn ad w0 where "sp_get_runtime p (si_conn i) w = (Inr conn, w0)"
        "map_of (sp_adapters p) (rc_kind conn) = Some ad"
        "sync p i w = sync_exclusive p (with_trigger i) conn ad w0"
proof (cases "trim_space (si_conn i) = '''' \<or> si_trigger (with_trigger i) = TriggerManual \<and>
    (trim_space (si_actor i) = '''' \<or> trim_space (si_reason i) = '''')")
  case True
  then have "snd (sync p i w) = w"
    by (auto simp: sync_def Let_def)
  then show thesis
    using early by (metis prod.collapse)
next
  case False
  then have eq: "sync p i w = (case sp_get_runtime p (si_conn i) w of
      (Inl e, w) \<Rightarrow> ((no_run, Some e), w)
    | (Inr conn, w) \<Rightarrow>
       (case map_of (sp_adapters p) (rc_kind conn) of
          None \<Rightarrow>
            ((no_run, Some (Text (''runtime adapter '' @
               quoted (runtime_kind_text (rc_kind conn)) @ '' is not registered''))), w)
        | Some adapter \<Rightarrow> sync_exclusive p (with_trigger i) conn adapter w))"
    by (auto simp: sync_def Let_def)
  obtain x w0 where x: "sp_get_runtime p (si_conn i) w = (x, w0)"
    by (cases "sp_get_runtime p (si_conn i) w")
  show thesis
  proof (cases x)
    case (Inl e)
    then show thesis
      using x eq unread by simp
  next
    case (Inr conn)
    then show thesis
      using x eq unread locking by (cases "map_of (sp_adapters p) (rc_kind conn)") simp_all
  qed
qed

lemmas [eval_simps] = sync_def with_trigger_def sync_exclusive_def sync_locked_def fail_sync_def audit_sync_def
  sanitize_runtime_error_def missing_threshold_def


section \<open>The contract of the interfaces\<close>

text \<open>What the service relies on.  \<open>locks\<close> and \<open>stored\<close> observe the locks held and what earlier
  synchronisations stored; releasing an acquired lock restores the locks unless it fails, which leaves them,
  every other call leaves them too, and only a persist that succeeds changes what is stored.\<close>

definition keeps2 :: "('w \<Rightarrow> 'o) \<Rightarrow> ('w \<Rightarrow> 'p) \<Rightarrow> ('w, 'a) call \<Rightarrow> bool" where
  "keeps2 f g m \<longleftrightarrow> keeps (\<lambda>w. (f w, g w)) m"

locale sync_contract =
  fixes p :: "'w sync_ports"
    and locks :: "'w \<Rightarrow> 'l"
    and stored :: "'w \<Rightarrow> 's"
    and unlock_failed :: "'w \<Rightarrow> bool"
  assumes get_runtime: "keeps2 locks stored (sp_get_runtime p c)"
    and lock_refused: "sp_try_lock p c w = (r, w') \<Longrightarrow> r \<noteq> Inr True \<Longrightarrow> locks w' = locks w"
    and lock_stored: "keeps stored (sp_try_lock p c)"
    and lock_release:
      "sp_try_lock p c w = (Inr True, w') \<Longrightarrow> locks w'' = locks w' \<Longrightarrow>
       \<not> unlock_failed (sp_release p c w'') \<Longrightarrow> locks (sp_release p c w'') = locks w"
    and release_failed: "unlock_failed (sp_release p c w) \<Longrightarrow> locks (sp_release p c w) = locks w"
    and release_stored: "stored (sp_release p c w) = stored w"
    and create_run: "keeps2 locks stored (sp_create_run p run)"
    and fail_run: "locks (snd (sp_fail_run p run code msg w)) = locks w"
      "stored (snd (sp_fail_run p run code msg w)) = stored w"
    and audit: "sp_audit p = Some a \<Longrightarrow> keeps2 locks stored (a event)"
    and collect: "map_of (sp_adapters p) k = Some ad \<Longrightarrow> keeps2 locks stored (ad_collect ad conn)"
    and persist_locks: "keeps locks (sp_persist p run sn t)"
    and persist_error: "sp_persist p run sn t w = (Inl e, w') \<Longrightarrow> stored w' = stored w"
begin

lemma audit_sync_keeps:
  "locks (audit_sync p run i ev r w) = locks w" "stored (audit_sync p run i ev r w) = stored w"
  using audit by (auto simp: audit_sync_def keeps2_def keeps_def split: option.split)

lemma fail_sync_keeps:
  "locks (snd (fail_sync p i run code msg c e w)) = locks w"
  "stored (snd (fail_sync p i run code msg c e w)) = stored w"
  "snd (fst (fail_sync p i run code msg c e w)) \<noteq> None"
  using fail_run [of run code msg w]
  by (auto simp: fail_sync_def audit_sync_keeps split: prod.splits option.splits)

lemma keeps2D: "keeps2 locks stored m \<Longrightarrow> m w = (r, w') \<Longrightarrow> locks w' = locks w \<and> stored w' = stored w"
  unfolding keeps2_def by (drule (1) keepsD) simp

lemma sync_locked_locks:
  assumes "map_of (sp_adapters p) k = Some ad"
  shows "locks (snd (sync_locked p i conn ad w)) = locks w"
  by (auto simp: sync_locked_def fail_sync_keeps audit_sync_keeps
      split: prod.splits sum.splits option.splits dest!: keeps2D [OF create_run]
        keeps2D [OF collect [OF assms]] keepsD [OF persist_locks])

lemma sync_locked_error:
  assumes "map_of (sp_adapters p) k = Some ad"
    and "snd (fst (sync_locked p i conn ad w)) \<noteq> None"
  shows "stored (snd (sync_locked p i conn ad w)) = stored w"
  using assms(2) by (auto simp: sync_locked_def fail_sync_keeps audit_sync_keeps
      split: prod.splits sum.splits option.splits dest!: keeps2D [OF create_run]
        keeps2D [OF collect [OF assms(1)]] dest: persist_error)

text \<open>What a synchronisation leaves of the locks: what it found, or, when its unlock failed, what the
  acquisition left.\<close>

definition locks_left :: "string \<Rightarrow> 'w \<Rightarrow> 'w \<Rightarrow> bool" where
  "locks_left c w w' \<longleftrightarrow> locks w' = locks w \<or>
     unlock_failed w' \<and> (\<exists>w1. sp_try_lock p c w = (Inr True, w1) \<and> locks w' = locks w1)"

lemma sync_exclusive_locks:
  assumes "map_of (sp_adapters p) k = Some ad"
  shows "locks_left (rc_id conn) w (snd (sync_exclusive p i conn ad w))"
proof -
  obtain r w1 where l: "sp_try_lock p (rc_id conn) w = (r, w1)"
    by (cases "sp_try_lock p (rc_id conn) w")
  show ?thesis
  proof (cases "r = Inr True")
    case True
    obtain x w2 where s: "sync_locked p i conn ad w1 = (x, w2)"
      by (cases "sync_locked p i conn ad w1")
    have "locks w2 = locks w1"
      using sync_locked_locks [OF assms, of i conn w1] s by simp
    then show ?thesis
      using True l s lock_release [of "rc_id conn" w w1 w2] release_failed [of "rc_id conn" w2]
      by (cases "unlock_failed (sp_release p (rc_id conn) w2)")
        (simp_all add: sync_exclusive_def locks_left_def)
  next
    case False
    then show ?thesis
      using l lock_refused [OF l] by (cases r) (auto simp: sync_exclusive_def locks_left_def)
  qed
qed

lemma sync_exclusive_error:
  assumes "map_of (sp_adapters p) k = Some ad"
    and "snd (fst (sync_exclusive p i conn ad w)) \<noteq> None"
  shows "stored (snd (sync_exclusive p i conn ad w)) = stored w"
proof -
  obtain r w1 where l: "sp_try_lock p (rc_id conn) w = (r, w1)"
    by (cases "sp_try_lock p (rc_id conn) w")
  have s: "stored w1 = stored w"
    using lock_stored l by (rule keepsD)
  obtain x w2 where x: "sync_locked p i conn ad w1 = (x, w2)"
    by (cases "sync_locked p i conn ad w1")
  have "snd x \<noteq> None \<Longrightarrow> stored w2 = stored w1"
    using sync_locked_error [OF assms(1), of i conn w1] x by simp
  then show ?thesis
    using assms(2) l s x by (cases r) (auto simp: sync_exclusive_def release_stored)
qed

text \<open>The lock is released on every path on which the unlock statement works.\<close>

lemma sync_restores_locks:
  "locks (snd (sync p i w)) = locks w \<or>
   (\<exists>conn w0 w1. sp_get_runtime p (si_conn i) w = (Inr conn, w0) \<and>
      sp_try_lock p (rc_id conn) w0 = (Inr True, w1) \<and> unlock_failed (snd (sync p i w)) \<and>
      locks (snd (sync p i w)) = locks w1)"
proof (cases p i w rule: sync_cases)
  case (unread r x w0)
  then show ?thesis
    using keeps2D [OF get_runtime] by simp
next
  case (locking conn ad w0)
  then show ?thesis
    using keeps2D [OF get_runtime locking(1)] sync_exclusive_locks [OF locking(2), of conn w0 "with_trigger i"]
    by (auto simp: locks_left_def)
qed simp

text \<open>A synchronisation that reports an error has stored nothing.\<close>

lemma sync_error_keeps_stored:
  "snd (fst (sync p i w)) \<noteq> None \<Longrightarrow> stored (snd (sync p i w)) = stored w"
  by (auto simp: sync_def Let_def sync_exclusive_error dest!: keeps2D [OF get_runtime]
      split: prod.splits sum.splits option.splits if_splits)

end

section \<open>The contract holds for the repository\<close>

text \<open>A connector of a runtime seen from the service: its calls work on the runtimes outside.\<close>

definition lift_adapter :: "'x adapter \<Rightarrow> (db, 'x) world adapter" where
  "lift_adapter a =
     \<lparr>ad_check = (\<lambda>c. outside (ad_check a c)),
      ad_replace_access = (\<lambda>c i acc. outside (ad_replace_access a c i acc)),
      ad_set_status = (\<lambda>c i s. outside (ad_set_status a c i s)),
      ad_delete_agent = (\<lambda>c i. outside (ad_delete_agent a c i)),
      ad_cancel = (\<lambda>c x. outside (ad_cancel a c x)),
      ad_collect = (\<lambda>c. outside (ad_collect a c))\<rparr>"

definition store_sync_ports :: "env \<Rightarrow> 'x adapters \<Rightarrow> int \<Rightarrow> (db, 'x) world sync_ports" where
  "store_sync_ports env as threshold =
     \<lparr>sp_get_runtime = connection_get env, sp_try_lock = try_lock env, sp_release = release_lock env,
      sp_create_run = create_run env, sp_fail_run = fail_run env, sp_persist = persist_snapshot env,
      sp_audit = Some (audit_create env),
      sp_adapters = map (\<lambda>(k, a). (k, lift_adapter a)) as,
      sp_threshold = missing_threshold threshold\<rparr>"

lemma store_sync_ports_simps [simp]:
  "sp_get_runtime (store_sync_ports env as t) = connection_get env"
  "sp_try_lock (store_sync_ports env as t) = try_lock env"
  "sp_release (store_sync_ports env as t) = release_lock env"
  "sp_create_run (store_sync_ports env as t) = create_run env"
  "sp_fail_run (store_sync_ports env as t) = fail_run env"
  "sp_persist (store_sync_ports env as t) = persist_snapshot env"
  "sp_audit (store_sync_ports env as t) = Some (audit_create env)"
  "sp_threshold (store_sync_ports env as t) = missing_threshold t"
  "map_of (sp_adapters (store_sync_ports env as t)) k = map_option lift_adapter (map_of as k)"
  by (simp_all add: store_sync_ports_def map_of_map)

lemma lift_adapter_simps [simp]:
  "ad_check (lift_adapter a) c = outside (ad_check a c)"
  "ad_replace_access (lift_adapter a) c i acc = outside (ad_replace_access a c i acc)"
  "ad_set_status (lift_adapter a) c i s = outside (ad_set_status a c i s)"
  "ad_delete_agent (lift_adapter a) c i = outside (ad_delete_agent a c i)"
  "ad_cancel (lift_adapter a) c x = outside (ad_cancel a c x)"
  "ad_collect (lift_adapter a) c = outside (ad_collect a c)"
  by (simp_all add: lift_adapter_def)

text \<open>Everything synchronisations store: agents, bindings, skills, access documents, executions,
  diagnostics, inventory, capabilities and delegations.\<close>

definition stored_state :: "db \<Rightarrow> db" where
  "stored_state d = d\<lparr>db_conns := [], db_endpoints := [], db_runs := [], db_actions := [], db_audits := []\<rparr>"

lemma stored_state_updates [simp]:
  "stored_state (d\<lparr>db_conns := c\<rparr>) = stored_state d" "stored_state (d\<lparr>db_runs := r\<rparr>) = stored_state d"
  "stored_state (d\<lparr>db_endpoints := e\<rparr>) = stored_state d"
  "stored_state (d\<lparr>db_actions := a\<rparr>) = stored_state d" "stored_state (d\<lparr>db_audits := u\<rparr>) = stored_state d"
  "stored_state (update_conn cid f d) = stored_state d"
  by (simp_all add: stored_state_def update_conn_def)

abbreviation stored_of :: "(db, 'x) world \<Rightarrow> db" where
  "stored_of w \<equiv> stored_state (w_db w)"

lemma connection_get_keeps:
  "keeps w_locks (connection_get env c)" "keeps stored_of (connection_get env c)"
  unfolding connection_get_def list_endpoints_def by (intro keeps_intros)+

lemma create_run_keeps: "keeps w_locks (create_run env run)" "keeps stored_of (create_run env run)"
  unfolding create_run_def by (intro keeps_intros keeps_exec; simp split: option.split)+

lemma audit_create_keeps: "keeps w_locks (audit_create env e)" "keeps stored_of (audit_create env e)"
  unfolding audit_create_def by (intro keeps_intros keeps_exec; simp)+

lemma transaction_keeps:
  assumes "keeps (\<lambda>w. obs (w_db w)) body"
  shows "keeps (\<lambda>w. obs (w_db w)) (transaction env b c body)"
  using keepsD [OF assms]
  by (fastforce intro!: keepsI simp: transaction_def split: option.splits prod.splits sum.splits)

lemma store_failed_run_keeps:
  "keeps (\<lambda>w. (w_locks w, stored_of w)) (store_failed_run env run)"
  unfolding store_failed_run_def
  by (intro keeps_pair transaction_keeps keeps_intros keeps_exec; simp)

lemma fail_run_keeps:
  "w_locks (snd (fail_run env run code msg w)) = w_locks w"
  "stored_of (snd (fail_run env run code msg w)) = stored_of w"
  by (simp_all add: fail_run_def Let_def case_prod_beta
      store_failed_run_keeps [unfolded keeps_def prod.inject, rule_format])

lemma try_lock_result:
  "try_lock env c w = (r, w') \<Longrightarrow>
     w_db w' = w_db w \<and>
     (if r = Inr True then w_locks w' = e_hash env c # w_locks w else w_locks w' = w_locks w)"
  by (auto simp: try_lock_def Let_def split: option.splits if_splits)

lemma outside_keeps: "keeps2 w_locks stored_of (outside m)"
  by (auto simp: keeps2_def keeps_def outside_def split: prod.splits)

lemma persist_items_locks: "keeps w_locks (persist_items env run sn)"
  unfolding persist_items_def persist_agent_def upsert_snapshot_agent_def upsert_snapshot_skill_def
    upsert_actual_access_def upsert_runtime_execution_def upsert_runtime_diagnostic_def
    upsert_runtime_inventory_def upsert_runtime_capability_def upsert_agent_delegation_def
    upsert_subagent_execution_def
  by (intro keeps_intros; simp add: keeps_def exec_checked_def exec_def split: option.splits)

lemma persist_snapshot_locks: "keeps w_locks (persist_snapshot env run sn t)"
  unfolding persist_snapshot_def advance_missing_def finish_run_def
  by (intro keeps_intros persist_items_locks)

text \<open>The unlock is the last statement of a synchronisation that holds the lock.\<close>

abbreviation last_failed :: "env \<Rightarrow> ('d, 'x) world \<Rightarrow> bool" where
  "last_failed env w \<equiv> e_fault env (w_step w - 1) \<noteq> None"

lemma release_lock_stored [simp]: "w_db (release_lock env c w) = w_db w"
  by (simp add: release_lock_def split: option.split)

interpretation st: sync_contract "store_sync_ports env as t" w_locks stored_of "last_failed env"
proof (unfold_locales, goal_cases)
  case 1
  then show ?case
    by (simp add: keeps2_def keeps_pair connection_get_keeps)
next
  case (2 c w r w')
  then show ?case
    by (auto dest: try_lock_result)
next
  case (3 c)
  then show ?case
    by (auto intro!: keepsI dest: try_lock_result)
next
  case (4 c w w' w'')
  then show ?case
    by (auto simp: release_lock_def dest: try_lock_result split: option.splits)
next
  case (5 c w)
  then show ?case
    by (auto simp: release_lock_def split: option.splits)
next
  case (7 run)
  then show ?case
    by (simp add: keeps2_def keeps_pair create_run_keeps)
next
  case (10 a event)
  then show ?case
    by (auto simp: keeps2_def keeps_pair audit_create_keeps)
next
  case (11 k ad conn)
  then show ?case
    by (auto simp: outside_keeps)
next
  case (13 run sn t w e w')
  then show ?case
    by (auto simp: persist_snapshot_def dest: transaction_error_keeps_db)
qed (simp_all add: fail_run_keeps persist_snapshot_locks)

end
