(* ===== verification/Sync_Persist.thy ===== *)
theory Sync_Persist
  imports Sync_Store
begin

text \<open>What persisting a snapshot does to the bindings of agents: the identities of agents and bindings
  stay consistent, an agent the snapshot holds is bound and its missing counter is zero, an agent it
  does not hold has its counter advanced by one, and bindings of other runtimes are untouched.\<close>

section \<open>The invariant of agents and bindings\<close>

definition bindings_ok :: "db \<Rightarrow> bool" where
  "bindings_ok d \<longleftrightarrow>
     distinct (map ag_id (db_agents d)) \<and>
     distinct (map bd_agent (db_bindings d)) \<and>
     distinct (map (\<lambda>b. (bd_conn b, bd_runtime_agent b)) (db_bindings d)) \<and>
     set (map bd_agent (db_bindings d)) \<subseteq> set (map ag_id (db_agents d))"

text \<open>What the invariant depends on.\<close>

definition binding_view :: "db \<Rightarrow> string list \<times> binding_row list \<times> connection_row list" where
  "binding_view d = (map ag_id (db_agents d), db_bindings d, db_conns d)"

lemma bindings_ok_view: "binding_view d = binding_view d' \<Longrightarrow> bindings_ok d = bindings_ok d'"
  by (simp add: binding_view_def bindings_ok_def del: set_map)

lemma conn_visible_view: "binding_view d = binding_view d' \<Longrightarrow> conn_visible env d c = conn_visible env d' c"
  by (simp add: binding_view_def conn_visible_def conn_row_def)

abbreviation view_of :: "(db, 'x) world \<Rightarrow> string list \<times> binding_row list \<times> connection_row list" where
  "view_of w \<equiv> binding_view (w_db w)"

lemma binding_view_updates [simp]:
  "binding_view (d\<lparr>db_skills := a\<rparr>) = binding_view d"
  "binding_view (d\<lparr>db_skill_bindings := b\<rparr>) = binding_view d"
  "binding_view (d\<lparr>db_access := c\<rparr>) = binding_view d"
  "binding_view (d\<lparr>db_executions := e\<rparr>) = binding_view d"
  "binding_view (d\<lparr>db_subagents := f\<rparr>) = binding_view d"
  "binding_view (d\<lparr>db_diagnostics := g\<rparr>) = binding_view d"
  "binding_view (d\<lparr>db_inventory := h\<rparr>) = binding_view d"
  "binding_view (d\<lparr>db_catalog := i\<rparr>) = binding_view d"
  "binding_view (d\<lparr>db_delegations := j\<rparr>) = binding_view d"
  "binding_view (d\<lparr>db_runs := k\<rparr>) = binding_view d"
  by (simp_all add: binding_view_def)

lemma keeps_scan_row [keeps_intros]:
  "keeps obs (\<lambda>w. case g w of None \<Rightarrow> (Inl e, w) | Some r \<Rightarrow> (Inr (h r), w))"
  by (simp add: keeps_def split: option.splits)

lemma keeps_skill: "keeps view_of (upsert_snapshot_skill env run agent sk)"
  unfolding upsert_snapshot_skill_def by (intro keeps_intros keeps_exec_checked; simp)

lemma keeps_access: "keeps view_of (upsert_actual_access env run agent acc)"
  unfolding upsert_actual_access_def by (intro keeps_intros keeps_exec_checked; simp)

lemma keeps_items:
  "keeps view_of (upsert_runtime_execution env c x1)"
  "keeps view_of (upsert_runtime_diagnostic env c x2)"
  "keeps view_of (upsert_runtime_inventory env c x3)"
  "keeps view_of (upsert_runtime_capability env c x4)"
  "keeps view_of (upsert_agent_delegation env run x5)"
  "keeps view_of (upsert_subagent_execution env c x6)"
  unfolding upsert_runtime_execution_def upsert_runtime_diagnostic_def
    upsert_runtime_inventory_def upsert_runtime_capability_def upsert_agent_delegation_def
    upsert_subagent_execution_def
  by (intro keeps_intros keeps_exec_checked keeps_exec; simp add: store_delegation_def)+


section \<open>One agent\<close>

definition binding_for :: "string \<Rightarrow> string \<Rightarrow> binding_row \<Rightarrow> bool" where
  "binding_for c i b \<longleftrightarrow> bd_conn b = c \<and> bd_runtime_agent b = i"

definition seen_in :: "sync_run \<Rightarrow> binding_row \<Rightarrow> bool" where
  "seen_in run b \<longleftrightarrow> bd_last_run b = Some (run_id run) \<and> bd_missing b = 0"

text \<open>The bindings after the agents \<open>ids\<close> of a snapshot were stored.\<close>

definition stored_agents :: "sync_run \<Rightarrow> string set \<Rightarrow> binding_row list \<Rightarrow> binding_row list \<Rightarrow> bool" where
  "stored_agents run ids bs bs' \<longleftrightarrow>
     (\<forall>b. \<not> (bd_conn b = run_conn run \<and> bd_runtime_agent b \<in> ids) \<longrightarrow> (b \<in> set bs' \<longleftrightarrow> b \<in> set bs)) \<and>
     (\<forall>b\<in>set bs'. bd_conn b = run_conn run \<and> bd_runtime_agent b \<in> ids \<longrightarrow> seen_in run b) \<and>
     (\<forall>i\<in>ids. \<exists>b\<in>set bs'. binding_for (run_conn run) i b)"

lemma stored_agents_empty [simp]: "stored_agents run {} bs bs' \<longleftrightarrow> set bs' = set bs"
  by (auto simp: stored_agents_def)

lemma stored_agents_Un:
  assumes "stored_agents run A bs bs1" "stored_agents run B bs1 bs2"
  shows "stored_agents run (A \<union> B) bs bs2"
  unfolding stored_agents_def
proof (intro conjI allI impI ballI)
  fix b :: binding_row
  assume "\<not> (bd_conn b = run_conn run \<and> bd_runtime_agent b \<in> A \<union> B)"
  then show "b \<in> set bs2 \<longleftrightarrow> b \<in> set bs"
    using assms unfolding stored_agents_def by blast
next
  fix b
  assume "b \<in> set bs2" "bd_conn b = run_conn run \<and> bd_runtime_agent b \<in> A \<union> B"
  then show "seen_in run b"
    using assms unfolding stored_agents_def by (cases "bd_runtime_agent b \<in> B") blast+
next
  fix i
  assume i: "i \<in> A \<union> B"
  show "\<exists>b\<in>set bs2. binding_for (run_conn run) i b"
  proof (cases "i \<in> B")
    case True
    then show ?thesis
      using assms(2) unfolding stored_agents_def by blast
  next
    case False
    then obtain b where "b \<in> set bs1" "binding_for (run_conn run) i b"
      using i assms(1) unfolding stored_agents_def by blast
    then show ?thesis
      using False assms(2) unfolding stored_agents_def binding_for_def by blast
  qed
qed

definition consistent :: "env \<Rightarrow> sync_run \<Rightarrow> db \<Rightarrow> bool" where
  "consistent env run d \<longleftrightarrow> bindings_ok d \<and> conn_visible env d (run_conn run) \<noteq> None"

lemma consistent_view: "binding_view d = binding_view d' \<Longrightarrow> consistent env run d = consistent env run d'"
  using bindings_ok_view [of d d'] conn_visible_view [of d d'] by (simp add: consistent_def)

text \<open>Storing an agent without a binding.\<close>

lemma find_binding_None:
  "find_binding c i d = None \<longleftrightarrow> (\<forall>b\<in>set (db_bindings d). \<not> binding_for c i b)"
  by (auto simp: find_binding_def find_None_iff binding_for_def)

lemma find_binding_Some:
  assumes "find_binding c i d = Some agent"
  obtains b where "b \<in> set (db_bindings d)" "binding_for c i b" "bd_agent b = agent"
  using assms by (auto simp: find_binding_def find_Some_iff binding_for_def in_set_conv_nth)

lemma insert_agent_consistent:
  assumes "consistent env run d" and "insert_agent_check env run snap agent d = None"
    and "find_binding (run_conn run) (as_id snap) d = None"
    and "d1 = insert_agent env run snap agent t d"
    and "d2 = d1\<lparr>db_bindings := db_bindings d1 @ [new_binding run snap bid agent]\<rparr>"
  shows "consistent env run d2 \<and> stored_agents run {as_id snap} (db_bindings d) (db_bindings d2)"
proof -
  obtain c where c: "conn_visible env d (run_conn run) = Some c"
    using assms(1) by (auto simp: consistent_def)
  have fresh: "agent \<notin> ag_id ` set (db_agents d)"
    using assms(2) c by (auto simp: insert_agent_check_def)
  have unbound: "\<forall>b\<in>set (db_bindings d). \<not> binding_for (run_conn run) (as_id snap) b"
    using assms(3) by (simp add: find_binding_None)
  have "conn_visible env d2 (run_conn run) = Some c"
    using c assms(4,5) by (simp add: conn_visible_def conn_row_def insert_agent_def)
  moreover have "bindings_ok d2"
    using assms(1) c fresh unbound
    by (auto simp: assms(4,5) consistent_def bindings_ok_def insert_agent_def new_binding_def
        binding_for_def image_iff)
  moreover have "stored_agents run {as_id snap} (db_bindings d) (db_bindings d2)"
    using c unbound
    by (auto simp: assms(4,5) stored_agents_def insert_agent_def new_binding_def binding_for_def seen_in_def)
  ultimately show ?thesis
    by (simp add: consistent_def)
qed

text \<open>Storing an agent again.\<close>

lemma seen_binding_simps [simp]:
  "bd_conn (seen_binding run snap b) = bd_conn b" "bd_agent (seen_binding run snap b) = bd_agent b"
  "bd_runtime_agent (seen_binding run snap b) = bd_runtime_agent b" "bd_id (seen_binding run snap b) = bd_id b"
  "seen_in run (seen_binding run snap b)"
  by (simp_all add: seen_binding_def seen_in_def)

lemma update_agent_consistent:
  assumes "consistent env run d" and "find_binding (run_conn run) (as_id snap) d = Some agent"
    and "map ag_id (db_agents d2) = map ag_id (db_agents d)" and "db_conns d2 = db_conns d"
    and "db_bindings d2 = update_where (\<lambda>b. bd_agent b = agent) (seen_binding run snap) (db_bindings d)"
  shows "consistent env run d2 \<and> stored_agents run {as_id snap} (db_bindings d) (db_bindings d2)"
proof -
  obtain b0 where b0: "b0 \<in> set (db_bindings d)" "binding_for (run_conn run) (as_id snap) b0"
      "bd_agent b0 = agent"
    by (rule find_binding_Some [OF assms(2)])
  have only: "bd_agent b = agent \<longleftrightarrow> binding_for (run_conn run) (as_id snap) b"
    if "b \<in> set (db_bindings d)" for b
    using that b0 assms(1) unfolding consistent_def bindings_ok_def binding_for_def distinct_map inj_on_def
    by (metis (mono_tags, lifting) prod.inject)
  have keys: "map f (db_bindings d2) = map f (db_bindings d)"
    if "\<And>b. f (seen_binding run snap b) = f b" for f :: "binding_row \<Rightarrow> 'a"
    by (simp add: assms(5) map_update_where that)
  have "bindings_ok d2"
    using assms(1) keys [of bd_agent] keys [of "\<lambda>b. (bd_conn b, bd_runtime_agent b)"] assms(3)
    by (simp add: consistent_def bindings_ok_def del: set_map)
  moreover have "conn_visible env d2 (run_conn run) = conn_visible env d (run_conn run)"
    by (simp add: conn_visible_def conn_row_def assms(4))
  moreover have "stored_agents run {as_id snap} (db_bindings d) (db_bindings d2)"
    unfolding stored_agents_def
  proof (intro conjI allI impI ballI)
    fix b :: binding_row
    assume b: "\<not> (bd_conn b = run_conn run \<and> bd_runtime_agent b \<in> {as_id snap})"
    then show "b \<in> set (db_bindings d2) \<longleftrightarrow> b \<in> set (db_bindings d)"
      using only by (auto simp: assms(5) set_update_where binding_for_def image_iff split: if_splits)
  next
    fix b
    assume "b \<in> set (db_bindings d2)" "bd_conn b = run_conn run \<and> bd_runtime_agent b \<in> {as_id snap}"
    then show "seen_in run b"
      using only by (auto simp: assms(5) set_update_where binding_for_def split: if_splits)
  next
    fix i
    assume "i \<in> {as_id snap}"
    moreover have "seen_binding run snap b0 \<in> set (db_bindings d2)"
      using b0 by (auto simp: assms(5) set_update_where image_iff intro!: bexI [of _ b0])
    ultimately show "\<exists>b\<in>set (db_bindings d2). binding_for (run_conn run) i b"
      using b0 by (auto simp: binding_for_def intro!: bexI [of _ "seen_binding run snap b0"])
  qed
  ultimately show ?thesis
    using assms(1) by (simp add: consistent_def)
qed

section \<open>The statements of an agent\<close>

lemma upsert_snapshot_agent_effect:
  assumes "upsert_snapshot_agent env run snap w = (Inr agent, w')" and "consistent env run (w_db w)"
  shows "consistent env run (w_db w') \<and>
    stored_agents run {as_id snap} (db_bindings (w_db w)) (db_bindings (w_db w'))"
proof (cases "find_binding (run_conn run) (as_id snap) (w_db w)")
  case None
  from assms(1) None have "\<exists>t bid. insert_agent_check env run snap agent (w_db w) = None \<and>
      w_db w' = (insert_agent env run snap agent t (w_db w))\<lparr>db_bindings :=
        db_bindings (insert_agent env run snap agent t (w_db w)) @ [new_binding run snap bid agent]\<rparr>"
    by (clarsimp simp: upsert_snapshot_agent_def seq_Inr_iff wrapping_Inr_iff query_def new_id_def
        exec_checked_def exec_def split: option.splits sum.splits) (intro exI, rule refl)
  then show ?thesis
    using insert_agent_consistent [OF assms(2) _ None refl refl] by metis
next
  case (Some agent0)
  from assms(1) Some have
      "map ag_id (db_agents (w_db w')) = map ag_id (db_agents (w_db w))"
      "db_conns (w_db w') = db_conns (w_db w)"
      "db_bindings (w_db w') =
         update_where (\<lambda>b. bd_agent b = agent0) (seen_binding run snap) (db_bindings (w_db w))"
    by (auto simp: upsert_snapshot_agent_def seq_Inr_iff wrapping_Inr_iff query_def map_update_where
        exec_checked_def exec_def split: option.splits sum.splits)
  then show ?thesis
    by (rule update_agent_consistent [OF assms(2) Some])
qed

lemma persist_agent_effect:
  assumes "persist_agent env run item w = (Inr u, w')" and "consistent env run (w_db w)"
  shows "consistent env run (w_db w') \<and>
    stored_agents run {as_id (sa_agent item)} (db_bindings (w_db w)) (db_bindings (w_db w'))"
proof -
  from assms(1) obtain agent w1 where w1: "upsert_snapshot_agent env run (sa_agent item) w = (Inr agent, w1)"
      and rest: "seq (for_each (upsert_snapshot_skill env run agent) (sa_skills item)) (\<lambda>_.
        if acc_source (sa_access item) \<noteq> '''' then upsert_actual_access env run agent (sa_access item)
        else return ()) w1 = (Inr u, w')"
    by (auto simp: persist_agent_def seq_Inr_iff [where m = "upsert_snapshot_agent env run (sa_agent item)"])
  have "keeps view_of (seq (for_each (upsert_snapshot_skill env run agent) (sa_skills item)) (\<lambda>_.
        if acc_source (sa_access item) \<noteq> '''' then upsert_actual_access env run agent (sa_access item)
        else return ()))"
    by (intro keeps_intros keeps_skill keeps_access)
  then have "view_of w' = view_of w1"
    using rest by (rule keepsD)
  then show ?thesis
    using upsert_snapshot_agent_effect [OF w1 assms(2)] consistent_view [of "w_db w'" "w_db w1" env run]
    by (simp add: binding_view_def)
qed

lemma persist_agents_effect:
  assumes "for_each (persist_agent env run) items w = (Inr u, w')" and "consistent env run (w_db w)"
  shows "consistent env run (w_db w') \<and>
    stored_agents run (set (map (\<lambda>a. as_id (sa_agent a)) items)) (db_bindings (w_db w)) (db_bindings (w_db w'))"
  using assms
proof (induction items arbitrary: w)
  case Nil
  then show ?case
    by simp
next
  case (Cons item items)
  from Cons.prems(1) obtain v w1 where w1: "persist_agent env run item w = (Inr v, w1)"
      and rest: "for_each (persist_agent env run) items w1 = (Inr u, w')"
    by (auto simp: seq_Inr_iff)
  note one = persist_agent_effect [OF w1 Cons.prems(2)]
  note more = Cons.IH [OF rest conjunct1 [OF one]]
  show ?case
    using one more stored_agents_Un [of run "{as_id (sa_agent item)}" _ "db_bindings (w_db w1)"]
    by simp
qed

lemma persist_items_effect:
  assumes "persist_items env run sn w = (Inr u, w')" and "consistent env run (w_db w)"
  shows "consistent env run (w_db w') \<and>
    stored_agents run (set (map (\<lambda>a. as_id (sa_agent a)) (sn_agents sn)))
      (db_bindings (w_db w)) (db_bindings (w_db w'))"
proof -
  let ?rest = "\<lambda>_::unit. seq (for_each (upsert_runtime_execution env (run_conn run)) (sn_executions sn)) (\<lambda>_.
     seq (for_each (upsert_runtime_diagnostic env (run_conn run)) (sn_diagnostics sn)) (\<lambda>_.
     seq (for_each (upsert_runtime_inventory env (run_conn run)) (sn_inventory sn)) (\<lambda>_.
     seq (for_each (upsert_runtime_capability env (run_conn run)) (sn_catalog sn)) (\<lambda>_.
     seq (for_each (upsert_agent_delegation env run) (sn_delegations sn)) (\<lambda>_.
     for_each (upsert_subagent_execution env (run_conn run)) (sn_subagents sn))))))"
  from assms(1) obtain v w1 where w1: "for_each (persist_agent env run) (sn_agents sn) w = (Inr v, w1)"
      and rest: "?rest v w1 = (Inr u, w')"
    unfolding persist_items_def by (subst (asm) seq_Inr_iff) blast
  have "keeps view_of (?rest v)"
    by (intro keeps_intros keeps_items)
  then have "view_of w' = view_of w1"
    using rest by (rule keepsD)
  then show ?thesis
    using persist_agents_effect [OF w1 assms(2)] consistent_view [of "w_db w'" "w_db w1" env run]
    by (simp add: binding_view_def)
qed

section \<open>The whole transaction\<close>

text \<open>The counters and the status of the agents after the transaction.\<close>

lemma advance_missing_bindings:
  assumes "advance_missing env run t w = (Inr u, w')"
  shows "db_bindings (w_db w') = db_bindings (advance_missing_agents run (w_db w)) \<and>
    (\<exists>clk. db_agents (w_db w') = db_agents (mark_missing_stale run t clk (advance_missing_agents run (w_db w))))"
  using assms
  by (auto simp: advance_missing_def seq_Inr_iff wrapping_Inr_iff exec_def exec_now_def
      advance_missing_agents_def mark_missing_stale_def advance_skill_bindings_def advance_skills_def
      advance_delegations_def split: option.splits)

lemma finish_run_keeps:
  "keeps (\<lambda>w. db_bindings (w_db w)) (finish_run env run sn)"
  "keeps (\<lambda>w. db_agents (w_db w)) (finish_run env run sn)"
  unfolding finish_run_def Let_def by (intro keeps_intros keeps_exec; simp)+

text \<open>The agents a snapshot names.\<close>

definition snapshot_ids :: "runtime_snapshot \<Rightarrow> string set" where
  "snapshot_ids sn = set (map (\<lambda>a. as_id (sa_agent a)) (sn_agents sn))"

lemma persist_snapshot_phases:
  assumes "persist_snapshot env run sn t w = (Inr run', w')" and "consistent env run (w_db w)"
  obtains d1 d2 clk where "consistent env run d1"
    and "stored_agents run (snapshot_ids sn) (db_bindings (w_db w)) (db_bindings d1)"
    and "d2 = advance_missing_agents run d1"
    and "db_bindings (w_db w') = db_bindings d2"
    and "db_agents (w_db w') = db_agents (mark_missing_stale run t clk d2)"
proof -
  from transaction_commit [OF assms(1) [unfolded persist_snapshot_def]] obtain w1 w2 w3 u v where
      p: "persist_items env run sn (tick w) = (Inr u, w1)" and
      a: "advance_missing env run t w1 = (Inr v, w2)" and
      f: "finish_run env run sn w2 = (Inr run', w3)" and c: "w_db w' = w_db w3"
    by (auto simp: seq_Inr_iff)
  from advance_missing_bindings [OF a] obtain clk where
      n: "db_bindings (w_db w2) = db_bindings (advance_missing_agents run (w_db w1))"
        "db_agents (w_db w2) = db_agents (mark_missing_stale run t clk (advance_missing_agents run (w_db w1)))"
    by blast
  from persist_items_effect [OF p] assms(2) have
      "consistent env run (w_db w1)"
      "stored_agents run (snapshot_ids sn) (db_bindings (w_db w)) (db_bindings (w_db w1))"
    by (simp_all add: snapshot_ids_def)
  then show thesis
    using that [of "w_db w1" _ clk] n c keepsD [OF finish_run_keeps(1) f] keepsD [OF finish_run_keeps(2) f]
    by simp
qed

lemma missing_counts:
  assumes "stored_agents run ids bs (db_bindings d1)"
    and "\<forall>b\<in>set bs. bd_last_run b \<noteq> Some (run_id run)"
    and "b \<in> set (db_bindings (advance_missing_agents run d1))" and "bd_conn b = run_conn run"
  shows "if bd_runtime_agent b \<in> ids then seen_in run b
    else (\<exists>b0\<in>set bs. b = b0\<lparr>bd_missing := bd_missing b0 + 1\<rparr>)"
proof -
  obtain b0 where b0: "b0 \<in> set (db_bindings d1)"
      "b = (if bd_conn b0 = run_conn run \<and> bd_last_run b0 \<noteq> Some (run_id run)
            then b0\<lparr>bd_missing := bd_missing b0 + 1\<rparr> else b0)"
    using assms(3) by (auto simp: advance_missing_agents_def set_update_where)
  have same: "bd_conn b0 = run_conn run" "bd_runtime_agent b0 = bd_runtime_agent b"
    using b0(2) assms(4) by (auto split: if_splits)
  show ?thesis
  proof (cases "bd_runtime_agent b \<in> ids")
    case True
    then have "seen_in run b0"
      using assms(1) b0(1) same by (auto simp: stored_agents_def)
    then show ?thesis
      using True b0(2) by (simp add: seen_in_def)
  next
    case False
    then have "b0 \<in> set bs"
      using assms(1) b0(1) same by (auto simp: stored_agents_def)
    moreover from this have "b = b0\<lparr>bd_missing := bd_missing b0 + 1\<rparr>"
      using b0(2) same(1) assms(2) by simp
    ultimately have "\<exists>b0\<in>set bs. b = b0\<lparr>bd_missing := bd_missing b0 + 1\<rparr>"
      by (rule bexI [rotated])
    with False show ?thesis
      by (simp only: if_False)
  qed
qed

lemma stored_other_conn:
  assumes "stored_agents run ids bs (db_bindings d1)" and "bd_conn b \<noteq> run_conn run"
  shows "b \<in> set (db_bindings (advance_missing_agents run d1)) \<longleftrightarrow> b \<in> set bs"
  using assms by (auto simp: stored_agents_def advance_missing_agents_def set_update_where image_iff split: if_splits)

lemma bindings_ok_advance: "bindings_ok d \<Longrightarrow> bindings_ok (advance_missing_agents run d)"
  by (simp add: bindings_ok_def advance_missing_agents_def map_update_where del: set_map)

lemma bindings_ok_agents:
  "db_bindings d' = db_bindings d \<Longrightarrow> map ag_id (db_agents d') = map ag_id (db_agents d) \<Longrightarrow>
   bindings_ok d \<Longrightarrow> bindings_ok d'"
  by (simp add: bindings_ok_def del: set_map)

lemma mark_missing_stale_ids: "map ag_id (db_agents (mark_missing_stale run t clk d)) = map ag_id (db_agents d)"
  by (simp add: mark_missing_stale_def map_update_where)

lemma persist_snapshot_bindings_ok:
  assumes "persist_snapshot env run sn t w = (Inr run', w')" and "consistent env run (w_db w)"
  shows "bindings_ok (w_db w')"
  by (rule persist_snapshot_phases [OF assms])
     (simp add: bindings_ok_agents [OF _ _ bindings_ok_advance] consistent_def mark_missing_stale_ids)


end
