(* ===== verification/Samples.thy ===== *)
theory Samples
  imports Schema
begin

text \<open>Small concrete inputs on which the witnesses apply the properties: an environment without
  faults, one whose first statement fails, a connection, an agent, and worlds built from them.\<close>

definition zero_bytes :: string where
  "zero_bytes = replicate 16 (CHR 0x00)"

lemma zero_id [simp]: "format_id zero_bytes = ''00000000-0000-4000-8000-000000000000''"
  by code_simp

definition calm_env :: env where
  "calm_env = \<lparr>e_fault = (\<lambda>_. None), e_now = (\<lambda>n. 1000000000 * int n + 5000000000),
     e_random = (\<lambda>n. Inr zero_bytes), e_default_id = (\<lambda>n. ''d1''),
     e_hash = (\<lambda>_. 0), e_text = (\<lambda>_. True), e_context = None\<rparr>"

definition faulty_env :: "nat \<Rightarrow> env" where
  "faulty_env k = calm_env\<lparr>e_fault := (\<lambda>n. if n = k then Some (Text ''connection lost'') else None)\<rparr>"

lemma calm_env_simps [simp]:
  "e_fault calm_env = (\<lambda>_. None)" "e_now calm_env n = 1000000000 * int n + 5000000000"
  "e_random calm_env n = Inr zero_bytes" "e_default_id calm_env n = ''d1''" "e_hash calm_env s = 0"
  "e_text calm_env s"
  "e_context calm_env = None"
  by (simp_all add: calm_env_def)

lemma faulty_env_simps [simp]:
  "e_fault (faulty_env k) = (\<lambda>n. if n = k then Some (Text ''connection lost'') else None)"
  "e_now (faulty_env k) n = 1000000000 * int n + 5000000000"
  "e_random (faulty_env k) n = Inr zero_bytes" "e_default_id (faulty_env k) n = ''d1''"
  "e_hash (faulty_env k) s = 0" "e_text (faulty_env k) s" "e_context (faulty_env k) = None"
  by (simp_all add: faulty_env_def)

definition sample_conn :: runtime_connection where
  "sample_conn = \<lparr>rc_id = ''c1'', rc_org = ''o1'', rc_name = ''gantry-1'', rc_display_name = ''gantry-1'',
     rc_environment = ''dev'', rc_kind = KindGantry, rc_mode = ModeControlEnabled,
     rc_status = RuntimeActive, rc_base_url = ''http://localhost:9'', rc_auth_ref = '''', rc_metadata = [],
     rc_labels = [], rc_last_synced_at = None, rc_sync_enabled = True, rc_sync_interval = 60,
     rc_last_sync_status = SyncUnset, rc_last_sync_started = None, rc_last_sync_finished = None,
     rc_last_sync_duration = 0, rc_last_error = '''', rc_endpoints = []\<rparr>"

definition sample_row :: "runtime_connection \<Rightarrow> connection_row" where
  "sample_row c = \<lparr>cr_conn = c, cr_archived_at = None, cr_archived_by = '''', cr_archive_reason = '''',
     cr_archive_kind = '''', cr_merged_into = ''''\<rparr>"

definition sample_agent :: "string \<Rightarrow> agent_snapshot" where
  "sample_agent i = \<lparr>as_id = i, as_parent = '''', as_kind = AgentRegistered, as_name = i,
     as_status = AgentEnabled, as_metadata = [], as_observed_at = 7\<rparr>"

definition sample_snapshot :: "string list \<Rightarrow> runtime_snapshot" where
  "sample_snapshot is = \<lparr>sn_observed_at = 7,
     sn_agents = map (\<lambda>i. \<lparr>sa_agent = sample_agent i, sa_skills = [], sa_access = no_access\<rparr>) is,
     sn_diagnostics = [], sn_inventory = [], sn_catalog = [], sn_delegations = [], sn_executions = [],
     sn_subagents = [], sn_metadata = [], sn_capabilities = []\<rparr>"

definition sample_agent_row :: "string \<Rightarrow> agent_row" where
  "sample_agent_row i = \<lparr>ag_id = i, ag_org = ''o1'', ag_name = i, ag_status = AgentEnabled,
     ag_metadata = [], ag_updated_at = 3\<rparr>"

definition sample_binding :: "string \<Rightarrow> string \<Rightarrow> binding_row" where
  "sample_binding a i = \<lparr>bd_id = ''b'' @ a, bd_agent = a, bd_conn = ''c1'', bd_runtime_agent = i,
     bd_kind = AgentRegistered, bd_parent = '''', bd_last_seen = Some 3, bd_last_run = Some ''r0'',
     bd_missing = 1, bd_raw = []\<rparr>"

definition sample_run :: sync_run where
  "sample_run = no_run\<lparr>run_id := ''r1'', run_conn := ''c1'', run_trigger := TriggerManual,
     run_status := SyncRunning, run_started := 4000000000\<rparr>"

text \<open>One connection with two bound agents, and the runs \<open>r0\<close> and \<open>r1\<close>.\<close>

definition sample_db :: db where
  "sample_db = empty_db\<lparr>db_conns := [sample_row sample_conn],
     db_runs := [sample_run\<lparr>run_id := ''r0''\<rparr>, sample_run],
     db_agents := [sample_agent_row ''a1'', sample_agent_row ''a2''],
     db_bindings := [sample_binding ''a1'' ''old'', sample_binding ''a2'' ''kept'']\<rparr>"

definition sample_world :: "(db, unit) world" where
  "sample_world = \<lparr>w_db = sample_db, w_step = 0, w_locks = [], w_runtime = ()\<rparr>"

lemmas sample_defs = sample_conn_def sample_row_def sample_agent_def sample_snapshot_def
  sample_agent_row_def sample_binding_def sample_run_def sample_db_def sample_world_def empty_db_def
  no_run_def no_access_def

end
