(* ===== verification/Sync_Properties.thy ===== *)
theory Sync_Properties
  imports Sync_Service Sync_Persist Samples
begin

text \<open>The properties of the synchronisation component: validation, the lock, all-or-nothing storing,
  the counters of missing agents, and what the listings give.\<close>

section \<open>Inputs of the witnesses\<close>

definition failing_adapter :: "'w adapter" where
  "failing_adapter = \<lparr>ad_check = \<lambda>_. failing (Text ''down''),
     ad_replace_access = \<lambda>_ _ _. failing (Text ''down''), ad_set_status = \<lambda>_ _ _. failing (Text ''down''),
     ad_delete_agent = \<lambda>_ _. failing (Text ''down''), ad_cancel = \<lambda>_ _. failing (Text ''down''),
     ad_collect = \<lambda>_. failing (Text ''connection refused'')\<rparr>"

definition sample_input :: sync_input where
  "sample_input = \<lparr>si_conn = ''c1'', si_trigger = TriggerManual, si_actor = ''ops'', si_reason = ''check''\<rparr>"

text \<open>Ports on a world that only counts the calls that store something.\<close>

definition counting_ports :: "nat adapter \<Rightarrow> nat sync_ports" where
  "counting_ports a =
     \<lparr>sp_get_runtime = (\<lambda>_. return sample_conn), sp_try_lock = (\<lambda>_. return True), sp_release = (\<lambda>_ w. w),
      sp_create_run = (\<lambda>r. return (r\<lparr>run_id := ''r1''\<rparr>)),
      sp_fail_run = (\<lambda>r code msg w. ((r\<lparr>run_status := SyncFailed, run_error_code := code\<rparr>, None), w)),
      sp_persist = (\<lambda>r sn t w. (Inr (r\<lparr>run_status := SyncSucceeded\<rparr>), Suc w)),
      sp_audit = None, sp_adapters = [(KindGantry, a)], sp_threshold = 3\<rparr>"

lemmas sync_eval = eval_simps sample_defs connection_get_def list_endpoints_def find_active_def
  active_in_tenant_def endpoints_of_def sample_input_def failing_adapter_def


section \<open>Validation\<close>

text \<open>C21: a snapshot passes \<^verbatim>\<open>validateRuntimeSnapshot\<close> exactly when every item carries the
  identifiers the store keys it by, no two items of a list share their key, and every access document
  that names an agent names its own.\<close>

theorem snapshot_validation_exact: "validate_runtime_snapshot sn = None \<longleftrightarrow> snapshot_ok sn"
  by (rule validate_None)

text \<open>the keys of validation join two texts with a colon, so two inventory items that differ in
  kind and identifier are reported as duplicates when their joined texts agree.\<close>

theorem inventory_key_collision:
  "\<lbrakk>iv_kind x = a; iv_id x = b @ '':'' @ c; iv_kind y = a @ '':'' @ b; iv_id y = c;
    \<not> blank (iv_kind x); \<not> blank (iv_id x); \<not> blank (iv_kind y); \<not> blank (iv_id y)\<rbrakk> \<Longrightarrow>
   scan_unique inventory_key (duplicate ''inventory item'') no_more [] [x, y] =
     Some (duplicate ''inventory item'' (a @ '':'' @ b @ '':'' @ c))"
  by (simp add: inventory_key_def blank_def)

definition sample_item :: "string \<Rightarrow> string \<Rightarrow> inventory_snapshot" where
  "sample_item kind i = \<lparr>iv_id = i, iv_kind = kind, iv_name = ''n'', iv_status = ''ok'', iv_provider = '''',
     iv_source = '''', iv_observed_at = 1, iv_metadata = [], iv_raw = []\<rparr>"

theorem inventory_key_collision_witness:
  "scan_unique inventory_key (duplicate ''inventory item'') no_more []
     [sample_item ''a'' ''b:c'', sample_item ''a:b'' ''c''] =
   Some (duplicate ''inventory item'' ''a:b:c'')"
  using inventory_key_collision [of "sample_item ''a'' ''b:c''" "''a''" "''b''" "''c''" "sample_item ''a:b'' ''c''"]
  by (simp add: sample_item_def str_simps)


section \<open>The lock\<close>

text \<open>C6: whatever the runtime, the database or the snapshot do, \<^verbatim>\<open>Sync\<close> leaves the advisory locks
  as it found them, unless its last statement, the unlock, failed: then exactly the lock of the
  runtime it was asked for stays held.\<close>

theorem sync_releases_its_lock:
  "w_locks (snd (sync (store_sync_ports env as t) input w)) = w_locks w \<or>
   last_failed env (snd (sync (store_sync_ports env as t) input w)) \<and>
   w_locks (snd (sync (store_sync_ports env as t) input w)) = e_hash env (si_conn input) # w_locks w"
proof -
  have "w_locks w1 = e_hash env (si_conn input) # w_locks w"
    if c: "connection_get env (si_conn input) w = (Inr conn, w0)"
      and l: "try_lock env (rc_id conn) w0 = (Inr True, w1)" for conn w0 w1
    using connection_get_id [OF c] try_lock_result [OF l] keepsD [OF connection_get_keeps(1) c] by simp
  then show ?thesis
    using st.sync_restores_locks [of env as t input w] by auto
qed

theorem sync_releases_its_lock_witness:
  "w_locks (snd (sync (store_sync_ports calm_env [(KindGantry, failing_adapter :: unit adapter)] 3)
     sample_input sample_world)) = []"
  using sync_releases_its_lock [of calm_env "[(KindGantry, failing_adapter :: unit adapter)]" 3 sample_input sample_world]
  by (simp add: sample_world_def)

text \<open>The lock does stay held: with a connector that fails, the unlock is the statement of step 16.\<close>

theorem failed_unlock_keeps_lock:
  "w_locks (snd (sync (store_sync_ports (faulty_env 16) [(KindGantry, failing_adapter :: unit adapter)] 3)
     sample_input sample_world)) = [0]"
  by code_simp

text \<open>when another session holds the lock of the runtime, \<^verbatim>\<open>Sync\<close> reports the conflict, and
  the database is the one it started with.\<close>

theorem sync_conflict:
  assumes "e_fault env = (\<lambda>_. None)" and "find_active env (si_conn input) (w_db w) = Some conn"
    and "rc_id conn = si_conn input"
    and "map_of as (rc_kind conn) \<noteq> None" and "e_hash env (rc_id conn) \<in> set (w_locks w)"
    and "\<not> blank (si_conn input)" and "\<not> blank (si_actor input)" and "\<not> blank (si_reason input)"
  shows "fst (sync (store_sync_ports env as t) input w) = (no_run, Some (Sentinel SyncConflict)) \<and>
    w_db (snd (sync (store_sync_ports env as t) input w)) = w_db w"
proof -
  obtain a where "map_of as (rc_kind conn) = Some a"
    using assms(4) by blast
  then show ?thesis
    using assms
    by (simp add: sync_def Let_def sync_exclusive_def connection_get_def list_endpoints_def seq_def
        wrapping_def query_row_def query_def try_lock_def blank_def)
qed

theorem sync_conflict_witness:
  "fst (sync (store_sync_ports calm_env [(KindGantry, failing_adapter :: unit adapter)] 3) sample_input
     (sample_world\<lparr>w_locks := [0]\<rparr>)) = (no_run, Some (Sentinel SyncConflict)) \<and>
   w_db (snd (sync (store_sync_ports calm_env [(KindGantry, failing_adapter :: unit adapter)] 3) sample_input
     (sample_world\<lparr>w_locks := [0]\<rparr>))) = sample_db"
  using sync_conflict [of calm_env sample_input "sample_world\<lparr>w_locks := [0]\<rparr>" sample_conn
      "[(KindGantry, failing_adapter :: unit adapter)]" 3]
  by (simp add: sample_input_def find_active_def active_in_tenant_def sample_world_def sample_db_def
      sample_row_def sample_conn_def empty_db_def tenant_allows_def tenant_def organization_id_def
      principal_from_def str_simps)


section \<open>All or nothing\<close>

text \<open>C19: a synchronisation that returns an error, at whatever step it failed (collection, validation,
  any statement of the storing transaction, its commit), has left everything earlier
  synchronisations stored as it was.\<close>

theorem sync_error_stores_nothing:
  assumes "snd (fst (sync (store_sync_ports env as t) input w)) \<noteq> None"
  shows "stored_state (w_db (snd (sync (store_sync_ports env as t) input w))) = stored_state (w_db w)"
  by (rule st.sync_error_keeps_stored [OF assms])

theorem sync_error_stores_nothing_witness:
  "stored_state (w_db (snd (sync (store_sync_ports (faulty_env 2) [(KindGantry, failing_adapter :: unit adapter)] 3)
     sample_input sample_world))) = stored_state sample_db"
  using sync_error_stores_nothing [of "faulty_env 2" "[(KindGantry, failing_adapter :: unit adapter)]" 3
      sample_input sample_world]
  by (simp add: sync_eval str_simps cong: store_congs)

text \<open>C2: a synchronisation that succeeds is this chain of calls and no other, each on the state the
  one before it left: the connection asked for is read, its lock taken, a run created for it, its
  adapter collects a snapshot of it, which is valid, and that very snapshot is persisted under that
  run, whose result is the one returned; then only the audit event and the release follow.\<close>

theorem sync_success_stored_valid_snapshot:
  assumes "sync p input w = ((run, None), w')"
  shows "\<exists>conn ad run1 sn w0 w1 w2 w3 w4.
    sp_get_runtime p (si_conn input) w = (Inr conn, w0) \<and>
    map_of (sp_adapters p) (rc_kind conn) = Some ad \<and>
    sp_try_lock p (rc_id conn) w0 = (Inr True, w1) \<and>
    sp_create_run p (no_run\<lparr>run_conn := rc_id conn, run_trigger := si_trigger (with_trigger input)\<rparr>) w1
      = (Inr run1, w2) \<and>
    ad_collect ad conn w2 = (Inr sn, w3) \<and> snapshot_ok sn \<and>
    sp_persist p run1 sn (sp_threshold p) w3 = (Inr run, w4) \<and>
    w' = sp_release p (rc_id conn)
           (audit_sync p run (with_trigger input) ''runtime.sync_succeeded'' ''succeeded'' w4)"
proof -
  from sync_success [OF assms] obtain conn ad w1 w2 w0 where
      "map_of (sp_adapters p) (rc_kind conn) = Some ad" "sp_get_runtime p (si_conn input) w = (Inr conn, w1)"
      "sp_try_lock p (rc_id conn) w1 = (Inr True, w0)" "w' = sp_release p (rc_id conn) w2"
      "sync_locked p (with_trigger input) conn ad w0 = ((run, None), w2)"
    by blast
  with sync_locked_success [OF this(5)] show ?thesis
    by blast
qed

theorem sync_success_stored_valid_snapshot_witness:
  "\<exists>conn ad run1 sn w0 w1 w2 w3 w4.
    sp_get_runtime (counting_ports (failing_adapter\<lparr>ad_collect := \<lambda>_. return (sample_snapshot [''a''])\<rparr>))
      ''c1'' 0 = (Inr conn, w0) \<and>
    map_of (sp_adapters (counting_ports (failing_adapter\<lparr>ad_collect := \<lambda>_. return (sample_snapshot [''a''])\<rparr>)))
      (rc_kind conn) = Some ad \<and>
    sp_try_lock (counting_ports (failing_adapter\<lparr>ad_collect := \<lambda>_. return (sample_snapshot [''a''])\<rparr>))
      (rc_id conn) w0 = (Inr True, w1) \<and>
    sp_create_run (counting_ports (failing_adapter\<lparr>ad_collect := \<lambda>_. return (sample_snapshot [''a''])\<rparr>))
      (no_run\<lparr>run_conn := rc_id conn, run_trigger := TriggerManual\<rparr>) w1 = (Inr run1, w2) \<and>
    ad_collect ad conn w2 = (Inr sn, w3) \<and> snapshot_ok sn \<and>
    sp_persist (counting_ports (failing_adapter\<lparr>ad_collect := \<lambda>_. return (sample_snapshot [''a''])\<rparr>))
      run1 sn 3 w3 = (Inr (no_run\<lparr>run_conn := ''c1'', run_trigger := TriggerManual, run_id := ''r1'',
        run_status := SyncSucceeded\<rparr>), w4)"
proof -
  let ?p = "counting_ports (failing_adapter\<lparr>ad_collect := \<lambda>_. return (sample_snapshot [''a''])\<rparr>)"
  have "validate_runtime_snapshot (sample_snapshot [''a'']) = None"
    by (simp add: validate_None snapshot_ok_def sample_snapshot_def sample_agent_def agent_entry_ok_def
        no_access_def str_simps)
  then have "sync ?p sample_input 0 = ((no_run\<lparr>run_conn := ''c1'', run_trigger := TriggerManual,
      run_id := ''r1'', run_status := SyncSucceeded\<rparr>, None), 1)"
    by (simp add: sync_def with_trigger_def sync_exclusive_def sync_locked_def counting_ports_def
        sample_input_def sample_conn_def audit_sync_def str_simps)
  note s = sync_success_stored_valid_snapshot [OF this]
  have t: "sp_threshold ?p = 3" "si_conn sample_input = ''c1''"
      "si_trigger (with_trigger sample_input) = TriggerManual"
    by (simp_all add: counting_ports_def sample_input_def with_trigger_def)
  show ?thesis
    using s unfolding t by blast
qed

text \<open>when collecting fails and the database works, the run is recorded as failed with code
  \<^verbatim>\<open>adapter_error\<close>, and the runtime is marked degraded with the sanitized text of the error.\<close>

theorem collection_failure_degrades:
  assumes "e_fault env = (\<lambda>_. None)" and "conn_row (w_db w) (run_conn run) = Some c"
  shows "\<exists>w' c'. fail_run env run ''adapter_error'' (sanitize_runtime_error e) w =
      ((run\<lparr>run_status := SyncFailed, run_finished := Some (e_now env (w_step w)),
            run_duration := milliseconds (time_sub (e_now env (w_step w)) (run_started run)),
            run_error_code := ''adapter_error'', run_error_message := sanitize_runtime_error e\<rparr>, None), w') \<and>
    conn_row (w_db w') (run_conn run) = Some c' \<and> rc_status (cr_conn c') = RuntimeDegraded \<and>
    rc_last_error (cr_conn c') = sanitize_runtime_error e \<and>
    rc_last_sync_status (cr_conn c') = SyncFailed \<and>
    (\<forall>r\<in>set (db_runs (w_db w')). run_id r \<noteq> run_id run \<or> run_status r = SyncFailed)"
  using assms
  by (auto simp: fail_run_def store_failed_run_def Let_def transaction_def seq_def wrapping_def exec_def
      error_of_def conn_row_update conn_row_def [of "d\<lparr>db_runs := x\<rparr>" for d x] set_update_where
      conn_row_def [of "w_db w"])

theorem collection_failure_degrades_witness:
  "\<exists>w' c'. fail_run calm_env sample_run ''adapter_error'' ''down'' sample_world
      = ((sample_run\<lparr>run_status := SyncFailed, run_finished := Some 5000000000, run_duration := 1000,
         run_error_code := ''adapter_error'', run_error_message := ''down''\<rparr>, None), w') \<and>
    conn_row (w_db w') ''c1'' = Some c' \<and> rc_status (cr_conn c') = RuntimeDegraded"
proof -
  have "conn_row (w_db sample_world) (run_conn sample_run) = Some (sample_row sample_conn)"
    by (simp add: conn_row_def sample_world_def sample_db_def sample_run_def sample_row_def sample_conn_def
        empty_db_def)
  moreover have "sanitize_runtime_error (Text ''down'') = ''down''"
    by (simp add: sanitize_runtime_error_def str_simps)
  moreover have "milliseconds (time_sub (e_now calm_env (w_step sample_world)) (run_started sample_run)) = 1000"
      "e_now calm_env (w_step sample_world) = 5000000000" "run_conn sample_run = ''c1''"
    by (simp_all add: sample_world_def sample_run_def no_run_def time_sub_def milliseconds_def tquot_def
        max_int64_def min_int64_def)
  ultimately show ?thesis
    using collection_failure_degrades [of calm_env sample_world sample_run "sample_row sample_conn" "Text ''down''"]
    by auto
qed


section \<open>Missing agents\<close>

text \<open>C23: after a snapshot was stored, an agent binding of the runtime that the snapshot names has a
  zero counter and carries the run; one that it does not name has its counter advanced by exactly
  one.  (The run is new, the connection visible, agents and bindings consistent.)\<close>

theorem persist_counts_missing:
  assumes "persist_snapshot env run sn t w = (Inr run', w')" and "bindings_ok (w_db w)"
    and "conn_visible env (w_db w) (run_conn run) \<noteq> None"
    and "\<forall>b\<in>set (db_bindings (w_db w)). bd_last_run b \<noteq> Some (run_id run)"
    and "b \<in> set (db_bindings (w_db w'))" and "bd_conn b = run_conn run"
  shows "if bd_runtime_agent b \<in> snapshot_ids sn
    then bd_missing b = 0 \<and> bd_last_run b = Some (run_id run)
    else (\<exists>b0\<in>set (db_bindings (w_db w)). b = b0\<lparr>bd_missing := bd_missing b0 + 1\<rparr>)"
proof -
  have c: "consistent env run (w_db w)"
    using assms(2,3) by (simp add: consistent_def)
  obtain d1 where
      s: "stored_agents run (snapshot_ids sn) (db_bindings (w_db w)) (db_bindings d1)"
      and b: "b \<in> set (db_bindings (advance_missing_agents run d1))"
    using assms(5) by (metis persist_snapshot_phases [OF assms(1) c])
  show ?thesis
    using missing_counts [OF s assms(4) b assms(6)] unfolding seen_in_def by meson
qed

lemma sample_persisted:
  "\<exists>run' w'. persist_snapshot calm_env sample_run (sample_snapshot [''kept'']) 2 sample_world = (Inr run', w') \<and>
     db_bindings (w_db w') = [(sample_binding ''a1'' ''old'')\<lparr>bd_missing := 2\<rparr>,
       (sample_binding ''a2'' ''kept'')\<lparr>bd_missing := 0, bd_last_run := Some ''r1'', bd_last_seen := Some 7\<rparr>] \<and>
     map ag_status (db_agents (w_db w')) = [AgentStale, AgentEnabled]"
  by (simp add: eval_simps sample_defs cong: store_congs)

lemma sample_consistent:
  "bindings_ok sample_db" "conn_visible calm_env sample_db ''c1'' \<noteq> None"
  "\<forall>b\<in>set (db_bindings sample_db). bd_last_run b \<noteq> Some ''r1''"
  by (simp_all add: bindings_ok_def sample_defs eval_simps)

theorem persist_counts_missing_witness:
  "\<exists>run' w'. persist_snapshot calm_env sample_run (sample_snapshot [''kept'']) 2 sample_world = (Inr run', w') \<and>
     (\<exists>b0\<in>set (db_bindings sample_db).
        (sample_binding ''a1'' ''old'')\<lparr>bd_missing := 2\<rparr> = b0\<lparr>bd_missing := bd_missing b0 + 1\<rparr>)"
proof -
  obtain run' w' where p: "persist_snapshot calm_env sample_run (sample_snapshot [''kept'']) 2 sample_world
      = (Inr run', w')"
    and b: "(sample_binding ''a1'' ''old'')\<lparr>bd_missing := 2\<rparr> \<in> set (db_bindings (w_db w'))"
    using sample_persisted by auto
  have "''old'' \<notin> snapshot_ids (sample_snapshot [''kept''])"
    by (simp add: snapshot_ids_def sample_snapshot_def sample_agent_def)
  with persist_counts_missing [OF p _ _ _ b] sample_consistent p show ?thesis
    by (auto simp: sample_world_def sample_run_def sample_binding_def)
qed

text \<open>once the counter of a binding of the synchronised runtime has reached the threshold, its
  agent is stale, whatever status it had.\<close>

theorem persist_marks_stale:
  assumes "persist_snapshot env run sn t w = (Inr run', w')" and "bindings_ok (w_db w)"
    and "conn_visible env (w_db w) (run_conn run) \<noteq> None"
    and "a \<in> set (db_agents (w_db w'))" and "b \<in> set (db_bindings (w_db w'))"
    and "bd_agent b = ag_id a" and "bd_conn b = run_conn run" and "t \<le> int (bd_missing b)"
  shows "ag_status a = AgentStale"
proof -
  have c: "consistent env run (w_db w)"
    using assms(2,3) by (simp add: consistent_def)
  obtain d2 clk where d: "db_bindings (w_db w') = db_bindings d2"
      "db_agents (w_db w') = db_agents (mark_missing_stale run t clk d2)"
    by (metis persist_snapshot_phases [OF assms(1) c])
  then show ?thesis
    using assms(4-8) by (auto simp: mark_missing_stale_def set_update_where split: if_splits)
qed

theorem persist_marks_stale_witness:
  "\<exists>run' w' a. persist_snapshot calm_env sample_run (sample_snapshot [''kept'']) 2 sample_world = (Inr run', w') \<and>
     a \<in> set (db_agents (w_db w')) \<and> ag_id a = ''a1'' \<and> ag_status a = AgentStale"
proof -
  obtain run' w' where p: "persist_snapshot calm_env sample_run (sample_snapshot [''kept'']) 2 sample_world
      = (Inr run', w')"
    and b: "(sample_binding ''a1'' ''old'')\<lparr>bd_missing := 2\<rparr> \<in> set (db_bindings (w_db w'))"
    using sample_persisted by auto
  have "bindings_ok (w_db w')"
    by (rule persist_snapshot_bindings_ok [OF p])
       (use sample_consistent in \<open>simp add: consistent_def sample_world_def sample_run_def\<close>)
  then have "''a1'' \<in> set (map ag_id (db_agents (w_db w')))"
    using b by (auto simp: bindings_ok_def sample_binding_def)
  then obtain a where a: "a \<in> set (db_agents (w_db w'))" "ag_id a = ''a1''"
    by auto
  with persist_marks_stale [OF p _ _ a(1) b] sample_consistent p show ?thesis
    by (auto simp: sample_world_def sample_run_def sample_binding_def)
qed

text \<open>C26: storing a snapshot keeps agents and bindings consistent: identifiers of agents are
  unique, an agent has one binding, a runtime's agent is bound once, and every binding refers to an
  agent.\<close>

theorem persist_keeps_bindings_ok:
  assumes "persist_snapshot env run sn t w = (r, w')" and "bindings_ok (w_db w)"
    and "conn_visible env (w_db w) (run_conn run) \<noteq> None"
  shows "bindings_ok (w_db w')"
proof (cases r)
  case (Inl e)
  with assms(1,2) show ?thesis
    by (metis persist_snapshot_def transaction_error_keeps_db)
next
  case (Inr run')
  with assms show ?thesis
    by (auto intro!: persist_snapshot_bindings_ok simp: consistent_def)
qed

theorem persist_keeps_bindings_ok_witness:
  "bindings_ok (w_db (snd (persist_snapshot calm_env sample_run (sample_snapshot [''kept'', ''new'']) 2 sample_world)))"
  using persist_keeps_bindings_ok [OF prod.collapse [symmetric], of sample_world calm_env sample_run]
    sample_consistent
  by (simp add: sample_world_def sample_run_def)


section \<open>Delegations\<close>

text \<open>validation accepts two delegations of one orchestrator to different agents that carry no
  reference, but the store keys both by the empty reference: the second overwrites the first, and
  one row remains.\<close>

theorem delegations_without_reference_collapse:
  assumes "dl_orchestrator x = dl_orchestrator y" and "\<not> blank (dl_orchestrator x)"
    and "dl_ref x = ''''" and "dl_ref y = ''''" and "\<not> blank (dl_delegate x)" and "\<not> blank (dl_delegate y)"
    and "trim_space (dl_delegate x) \<noteq> trim_space (dl_delegate y)" and "db_delegations d = []"
  shows "scan_unique delegation_key dup no_more [] [x, y] = None \<and>
    map (\<lambda>r. dl_delegate (dr_snapshot r))
      (db_delegations (store_delegation run i2 y (store_delegation run i1 x d))) = [dl_delegate y]"
  using assms
  by (simp add: delegation_key_def blank_def Let_def store_delegation_def upsert_def delegation_same_def
      delegate_key_def)

definition sample_delegation :: "string \<Rightarrow> delegation_snapshot" where
  "sample_delegation to = \<lparr>dl_orchestrator = ''boss'', dl_delegate = to, dl_ref = '''', dl_tool = ''call'',
     dl_display = to, dl_persona = '''', dl_configured = True, dl_resolved = True, dl_revision = 1,
     dl_status = ''active'', dl_observed_at = 1, dl_metadata = [], dl_raw = []\<rparr>"

theorem delegations_without_reference_collapse_witness:
  "scan_unique delegation_key (duplicate ''agent delegation'') no_more []
     [sample_delegation ''a'', sample_delegation ''b''] = None \<and>
   map (\<lambda>r. dl_delegate (dr_snapshot r)) (db_delegations (store_delegation sample_run ''2'' (sample_delegation ''b'')
     (store_delegation sample_run ''1'' (sample_delegation ''a'') empty_db))) = [''b'']"
  using delegations_without_reference_collapse [of "sample_delegation ''a''" "sample_delegation ''b''" empty_db
      "duplicate ''agent delegation''" sample_run "''2''" "''1''"]
  by (simp add: sample_delegation_def empty_db_def str_simps)


section \<open>Listings\<close>

lemma persisted_agents_scoped:
  assumes "a \<in> set (persisted_agents env runtime t d)"
  shows "(\<exists>c\<in>set (db_conns d). rc_id (cr_conn c) = pa_conn a \<and> cr_archived_at c = None \<and>
      (tenant env = '''' \<or> rc_org (cr_conn c) = tenant env)) \<and> (runtime = '''' \<or> pa_conn a = runtime)"
proof -
  obtain r b c where "a = persisted_agent_of t r b (cr_conn c)" and c: "c \<in> set (db_conns d)"
      "rc_id (cr_conn c) = bd_conn b" "cr_archived_at c = None"
      "tenant_allows (tenant env) (rc_org (cr_conn c))" and b: "runtime = '''' \<or> bd_conn b = runtime"
    using assms by (auto simp: persisted_agents_def)
  then have "pa_conn a = bd_conn b"
    by (simp add: persisted_agent_of_def)
  with b c show ?thesis
    by (metis tenant_allows_def)
qed

text \<open>every agent a listing gives belongs to a runtime that is not archived and, for a tenant,
  is the tenant's own; the listing of one runtime gives agents of that runtime only.\<close>

theorem agent_listing_scoped:
  assumes "list_persisted_agents env runtime w = (Inr agents, w')" and "a \<in> set agents"
  shows "(\<exists>c\<in>set (db_conns (w_db w)). rc_id (cr_conn c) = pa_conn a \<and> cr_archived_at c = None \<and>
      (tenant env = '''' \<or> rc_org (cr_conn c) = tenant env)) \<and> (runtime = '''' \<or> pa_conn a = runtime)"
proof (rule persisted_agents_scoped)
  show "a \<in> set (persisted_agents env runtime (e_now env (w_step w)) (w_db w))"
    using assms by (auto simp: list_persisted_agents_def wrapping_Inr_iff query_now_def dest!: query_Inr)
qed

theorem agent_listing_scoped_witness:
  "\<exists>a w'. list_persisted_agents calm_env ''c1'' sample_world = (Inr [a, a\<lparr>pa_id := ''a2'', pa_name := ''a2'',
       pa_runtime_agent := ''kept''\<rparr>], w') \<and> pa_conn a = ''c1''"
proof -
  let ?l = "persisted_agents calm_env ''c1'' 5000000000 sample_db"
  let ?a = "persisted_agent_of 5000000000 (sample_agent_row ''a1'') (sample_binding ''a1'' ''old'') sample_conn"
  have l: "list_persisted_agents calm_env ''c1'' sample_world = (Inr ?l, tick sample_world)"
    by (simp add: list_persisted_agents_def wrapping_def query_now_def query_def sample_world_def)
  have e: "?l = [?a, ?a\<lparr>pa_id := ''a2'', pa_name := ''a2'', pa_runtime_agent := ''kept''\<rparr>]"
    by (simp add: persisted_agents_def persisted_agent_of_def freshness_of_def sample_defs tenant_allows_def
        tenant_def organization_id_def principal_from_def)
  then have "?a \<in> set ?l"
    by simp
  from agent_listing_scoped [OF l this] have "pa_conn ?a = ''c1''"
    by simp
  with l e show ?thesis
    by metis
qed

end
