(* ===== verification/Control_Store.thy ===== *)
theory Control_Store
  imports Schema
begin

text \<open>The repository of control actions (\<^verbatim>\<open>internal/store/control_repository.go\<close>).  \<^verbatim>\<open>Create\<close> and
  \<^verbatim>\<open>Update\<close> give the action also when they fail, so their result is the action and an optional
  error.\<close>

type_synonym 'w action_call = "'w \<Rightarrow> (control_action \<times> gerr option) \<times> 'w"

text \<open>The constraints of an insert: the agent identifier must be a uuid (an empty one is none) of a
  known agent, and the idempotency key is unique in an organisation.\<close>

definition invalid_uuid :: gerr where
  "invalid_uuid = PgError ''22P02'' ''invalid input syntax for type uuid''"

definition invalid_text :: gerr where
  "invalid_text = PgError ''22021'' ''invalid byte sequence for encoding UTF8''"

definition action_violation :: "env \<Rightarrow> control_action \<Rightarrow> db \<Rightarrow> gerr option" where
  "action_violation env a d =
     (if ca_agent a = '''' then Some invalid_uuid
      else case conn_visible env d (ca_conn a) of
        None \<Rightarrow> None
      | Some c \<Rightarrow> first_of
          [require_ok (ca_agent a \<in> set (map ag_id (db_agents d))) foreign_key_violation,
           require_ok (\<not> (\<exists>r\<in>set (db_actions d). cx_org r = rc_org c \<and> ca_key a \<noteq> '''' \<and>
              ca_key (cx_action r) = ca_key a)) unique_violation])"

definition insert_action :: "env \<Rightarrow> control_action \<Rightarrow> db \<Rightarrow> db" where
  "insert_action env a d =
     (case conn_visible env d (ca_conn a) of
        None \<Rightarrow> d
      | Some c \<Rightarrow> d\<lparr>db_actions := db_actions d @
          [\<lparr>cx_action = a\<lparr>ca_before := [], ca_result := []\<rparr>, cx_org = rc_org c, cx_request = [],
            cx_error = '''', cx_finished = None\<rparr>]\<rparr>)"

definition action_create :: "env \<Rightarrow> control_action \<Rightarrow> (db, 'x) world action_call" where
  "action_create env action w =
     (case (if ca_id action = '''' then new_id env w else (Inr (ca_id action), w)) of
        (Inl e, w) \<Rightarrow> ((action, Some e), w)
      | (Inr aid, w) \<Rightarrow>
          let action = action\<lparr>ca_id := aid\<rparr>;
              w = tick w
          in case wrapping ''create control action: ''
                    (exec_checked env (action_violation env action) (insert_action env action)) w of
               (Inl e, w) \<Rightarrow> ((action, Some e), w)
             | (Inr _, w) \<Rightarrow> ((action, None), w))"

text \<open>An action read back: \<^verbatim>\<open>Before\<close> is not stored, the error is merged into the result.\<close>

definition loaded_action :: "action_row \<Rightarrow> control_action" where
  "loaded_action r =
     (if cx_error r = '''' then cx_action r
      else (cx_action r)\<lparr>ca_result := mput ''error'' (GStr (cx_error r)) (ca_result (cx_action r))\<rparr>)"

definition has_key :: "env \<Rightarrow> string \<Rightarrow> db \<Rightarrow> action_row \<Rightarrow> bool" where
  "has_key env key d r \<longleftrightarrow>
     key \<noteq> '''' \<and> ca_key (cx_action r) = key \<and> conn_in_tenant env d (ca_conn (cx_action r))"

definition find_by_key :: "env \<Rightarrow> string \<Rightarrow> ((db, 'x) world, control_action) call" where
  "find_by_key env key = query_row env (\<lambda>d. map_option loaded_action (List.find (has_key env key d) (db_actions d)))"

definition terminal_status :: "control_action_status \<Rightarrow> bool" where
  "terminal_status s \<longleftrightarrow> s \<in> {ActionSucceeded, ActionFailed, ActionRejected}"

definition update_row ::
    "control_action \<Rightarrow> gmap \<Rightarrow> gmap \<Rightarrow> string \<Rightarrow> time option \<Rightarrow> action_row \<Rightarrow> action_row" where
  "update_row action request response error finished r =
     r\<lparr>cx_action := (cx_action r)\<lparr>ca_status := ca_status action, ca_result := response\<rparr>,
       cx_request := request, cx_error := error, cx_finished := finished\<rparr>"

text \<open>\<^verbatim>\<open>UPDATE .. RETURNING updated_at\<close> of an unknown identifier gives no row, and PostgreSQL
  refuses the statement when it does not take the error text.  On success the returned
  action carries the response map itself.\<close>

definition action_update ::
    "env \<Rightarrow> control_action \<Rightarrow> gmap \<Rightarrow> gmap \<Rightarrow> string \<Rightarrow> (db, 'x) world action_call" where
  "action_update env action request response error w =
     (let finished = (if terminal_status (ca_status action) then Some (e_now env (w_step w)) else None);
          w = tick w
      in case (if error \<noteq> '''' \<and> \<not> e_text env error then (Inl invalid_text, tick w)
               else exec_returning env
                (\<lambda>d. d\<lparr>db_actions := update_where (\<lambda>r. ca_id (cx_action r) = ca_id action)
                   (update_row action request response error finished) (db_actions d)\<rparr>)
                (\<lambda>d. \<exists>r\<in>set (db_actions d). ca_id (cx_action r) = ca_id action) w) of
           (Inl e, w) \<Rightarrow> ((action, Some (Wrapped ''update control action: '' e)), w)
         | (Inr known, w) \<Rightarrow>
             if known then ((action\<lparr>ca_result := response\<rparr>, None), w)
             else ((action, Some (Wrapped ''update control action: '' (Sentinel NoRows))), w))"

text \<open>Keys are unique in an organisation, as long as each row belongs to the organisation of its
  connection.\<close>

definition keys_unique :: "db \<Rightarrow> bool" where
  "keys_unique d \<longleftrightarrow> distinct (map (\<lambda>r. (cx_org r, ca_key (cx_action r)))
     (filter (\<lambda>r. ca_key (cx_action r) \<noteq> '''') (db_actions d)))"

lemma keys_unique_insert:
  "keys_unique d \<Longrightarrow> action_violation env a d = None \<Longrightarrow> keys_unique (insert_action env a d)"
  by (auto simp: keys_unique_def action_violation_def insert_action_def image_iff
      split: option.splits if_splits)

lemma keys_unique_create:
  "keys_unique (w_db w) \<Longrightarrow> action_create env a w = (r, w') \<Longrightarrow> keys_unique (w_db w')"
  by (auto simp: action_create_def new_id_def exec_checked_def exec_def wrapping_def Let_def
      keys_unique_insert split: option.splits sum.splits if_splits)

lemma keys_unique_update:
  assumes "keys_unique (w_db w)" and "action_update env a q s e w = (r, w')"
  shows "keys_unique (w_db w')"
proof -
  have "keys_unique (d\<lparr>db_actions := update_where p (update_row a q s e t) (db_actions d)\<rparr>) = keys_unique d" for d p t
  proof -
    have "map (\<lambda>r. (cx_org r, ca_key (cx_action r))) (filter (\<lambda>r. ca_key (cx_action r) \<noteq> '''')
          (update_where p (update_row a q s e t) rs)) =
        map (\<lambda>r. (cx_org r, ca_key (cx_action r))) (filter (\<lambda>r. ca_key (cx_action r) \<noteq> '''') rs)" for rs
      by (induction rs) (auto simp: update_where_def update_row_def)
    then show ?thesis
      by (simp add: keys_unique_def)
  qed
  then show ?thesis
    using assms by (auto simp: action_update_def exec_returning_def exec_def Let_def
        split: option.splits sum.splits prod.splits if_splits)
qed

end
