(* ===== verification/Control_Service.thy ===== *)
theory Control_Service
  imports Control_Store Sync_Service
begin

text \<open>The control action service (\<^verbatim>\<open>internal/services/control_actions.go\<close>): replacing an agent's access,
  enabling or disabling an agent, deleting an agent, cancelling an execution.  Every operation
  follows one protocol: guards, replay of a known idempotency key, loading, rejection, a queued
  action, a dry run or the call of the adapter, and the outcome, each step recorded in the action
  and in the audit trail.\<close>

section \<open>Ports and inputs\<close>

record 'w control_ports =
  kp_get_runtime :: "string \<Rightarrow> ('w, runtime_connection) call"
  kp_get_agent :: "string \<Rightarrow> ('w, agent_detail) call"
  kp_list_agents :: "string \<Rightarrow> ('w, persisted_agent list) call"
  kp_get_execution :: "string \<Rightarrow> ('w, persisted_execution) call"
  kp_mark_deleted :: "string \<Rightarrow> ('w, unit) call"
  kp_find_action :: "string \<Rightarrow> ('w, control_action) call"
  kp_create_action :: "control_action \<Rightarrow> 'w action_call"
  kp_update_action :: "control_action \<Rightarrow> gmap \<Rightarrow> gmap \<Rightarrow> string \<Rightarrow> 'w action_call"
  kp_audit :: "(audit_event \<Rightarrow> ('w, audit_event) call) option"
  kp_syncer :: "(sync_input \<Rightarrow> 'w \<Rightarrow> (sync_run \<times> gerr option) \<times> 'w) option"
  kp_adapters :: "'w adapters"

record action_request =
  rq_actor :: string
  rq_reason :: string
  rq_key :: string
  rq_dry_run :: bool

type_synonym 'w action_result = "'w \<Rightarrow> (control_action \<times> gerr option) \<times> 'w"


section \<open>Shared steps\<close>

definition action_audit_event ::
    "control_action \<Rightarrow> string \<Rightarrow> string \<Rightarrow> string \<Rightarrow> string \<Rightarrow> gmap \<Rightarrow> gmap \<Rightarrow> gmap \<Rightarrow> audit_event" where
  "action_audit_event action event result target_type target before after metadata =
     \<lparr>au_id = '''', au_conn = ca_conn action, au_agent = ca_agent action, au_action = ca_id action,
      au_actor = ca_actor action, au_event = event, au_target_type = target_type, au_target = target,
      au_reason = ca_reason action, au_before = before, au_after = after, au_result = result,
      au_metadata = metadata\<rparr>"

definition audit_control_action ::
    "'w control_ports \<Rightarrow> control_action \<Rightarrow> string \<Rightarrow> string \<Rightarrow> string \<Rightarrow> string \<Rightarrow> gmap \<Rightarrow> gmap \<Rightarrow>
     gmap \<Rightarrow> 'w \<Rightarrow> 'w" where
  "audit_control_action p action event result target_type target before after metadata w =
     (case kp_audit p of
        None \<Rightarrow> w
      | Some create \<Rightarrow>
          snd (create (action_audit_event action event result target_type target before after metadata) w))"

text \<open>What an operation fixes for its steps: the audited target (of the action at hand), the state
  before and the one requested, the result of a dry run, the prefix of the adapter's error, and the
  reason of the verifying synchronisation.\<close>

record action_plan =
  pl_target_type :: string
  pl_target :: "control_action \<Rightarrow> string"
  pl_before :: gmap
  pl_after :: gmap
  pl_dry_result :: gmap
  pl_prefix :: string
  pl_conn :: string
  pl_actor :: string
  pl_verify :: string

definition audit_plan ::
    "'w control_ports \<Rightarrow> action_plan \<Rightarrow> control_action \<Rightarrow> string \<Rightarrow> string \<Rightarrow> gmap \<Rightarrow> 'w \<Rightarrow> 'w" where
  "audit_plan p pl action event result metadata =
     audit_control_action p action event result (pl_target_type pl) (pl_target pl action)
       (pl_before pl) (pl_after pl) metadata"

text \<open>A rejection creates the action as rejected, stores the message and audits the reason.  The left
  value is the action and error of a failing \<^verbatim>\<open>Create\<close>; the error of \<^verbatim>\<open>Update\<close> is ignored.\<close>

definition reject_action ::
    "'w control_ports \<Rightarrow> action_plan \<Rightarrow> control_action \<Rightarrow> string \<Rightarrow> string \<Rightarrow> 'w \<Rightarrow>
     ((control_action \<times> gerr) + control_action) \<times> 'w" where
  "reject_action p pl action message reason w =
     (case kp_create_action p (action\<lparr>ca_status := ActionRejected\<rparr>) w of
        ((created, Some e), w) \<Rightarrow> (Inl (created, e), w)
      | ((created, None), w) \<Rightarrow>
          (case kp_update_action p created (pl_after pl) [] message w of
             ((updated, _), w) \<Rightarrow>
               (Inr updated,
                audit_plan p pl updated ''control_action.rejected'' ''rejected'' [(''reason'', GStr reason)] w)))"

text \<open>The three ways the operations report a rejection: \<^verbatim>\<open>ReconcileAccess\<close> (in line),
  \<^verbatim>\<open>rejectStatusAction\<close>, and \<^verbatim>\<open>rejectControlAction\<close> with \<^verbatim>\<open>actionFromError\<close>.  They differ in the
  action they give when it cannot be created.\<close>

definition reject_access ::
    "'w control_ports \<Rightarrow> action_plan \<Rightarrow> control_action \<Rightarrow> string \<Rightarrow> string \<Rightarrow> string \<Rightarrow> 'w action_result" where
  "reject_access p pl action stored returned reason w =
     (case reject_action p pl action stored reason w of
        (Inl (created, e), w) \<Rightarrow> ((created, Some e), w)
      | (Inr updated, w) \<Rightarrow> ((updated, Some (Text returned)), w))"

definition reject_status_action ::
    "'w control_ports \<Rightarrow> action_plan \<Rightarrow> control_action \<Rightarrow> string \<Rightarrow> string \<Rightarrow> 'w action_result" where
  "reject_status_action p pl action message reason w =
     (case reject_action p pl action message reason w of
        (Inl (created, e), w) \<Rightarrow> ((action\<lparr>ca_status := ActionRejected\<rparr>, Some e), w)
      | (Inr updated, w) \<Rightarrow> ((updated, Some (Text message)), w))"

definition reject_control_action ::
    "'w control_ports \<Rightarrow> action_plan \<Rightarrow> control_action \<Rightarrow> string \<Rightarrow> string \<Rightarrow> 'w action_result" where
  "reject_control_action p pl action message reason w =
     (case reject_action p pl action message reason w of
        (Inl (created, e), w) \<Rightarrow> ((action, Some e), w)
      | (Inr updated, w) \<Rightarrow> ((updated, Some (Text message)), w))"

text \<open>The verifying synchronisation adds its error to the result map.\<close>

definition run_verification_sync ::
    "'w control_ports \<Rightarrow> string \<Rightarrow> string \<Rightarrow> string \<Rightarrow> gmap \<Rightarrow> 'w \<Rightarrow> gmap \<times> 'w" where
  "run_verification_sync p conn actor reason result w =
     (case kp_syncer p of
        None \<Rightarrow> (result, w)
      | Some syncer \<Rightarrow>
          (case syncer \<lparr>si_conn = conn, si_trigger = TriggerPostAction, si_actor = actor, si_reason = reason\<rparr> w of
             ((_, Some e), w) \<Rightarrow>
               (mput ''verification_sync_error'' (GStr (sanitize_runtime_error e)) result, w)
           | ((_, None), w) \<Rightarrow> (result, w)))"

text \<open>From the queued action to its outcome; \<open>perform\<close> is the call of the adapter with the result map
  it gives.  \<^verbatim>\<open>Update\<close> keeps the result map in the action it
  returns, so the entry the verifying synchronisation adds is seen in that action as well.\<close>

definition complete_action ::
    "'w control_ports \<Rightarrow> action_plan \<Rightarrow> control_action \<Rightarrow> gmap \<Rightarrow> 'w action_result" where
  "complete_action p pl action result w =
     (case kp_update_action p (action\<lparr>ca_status := ActionSucceeded\<rparr>) (pl_after pl) result '''' w of
        ((action, Some e), w) \<Rightarrow> ((action, Some e), w)
      | ((action, None), w) \<Rightarrow>
          (case run_verification_sync p (pl_conn pl) (pl_actor pl) (pl_verify pl) result w of
             (result, w) \<Rightarrow>
               let action = action\<lparr>ca_result := result\<rparr> in
               ((action, None), audit_plan p pl action ''control_action.succeeded'' ''succeeded'' result w)))"

definition fail_control_action ::
    "'w control_ports \<Rightarrow> action_plan \<Rightarrow> control_action \<Rightarrow> gerr \<Rightarrow> 'w action_result" where
  "fail_control_action p pl action e w =
     (case kp_update_action p (action\<lparr>ca_status := ActionFailed\<rparr>) (pl_after pl) [] (sanitize_runtime_error e) w of
        ((action, _), w) \<Rightarrow>
          ((action, Some (Wrapped (pl_prefix pl) e)),
           audit_plan p pl action ''control_action.failed'' ''failed''
             [(''error'', GStr (sanitize_runtime_error e))] w))"

definition dry_run_action ::
    "'w control_ports \<Rightarrow> action_plan \<Rightarrow> control_action \<Rightarrow> 'w action_result" where
  "dry_run_action p pl action w =
     (case kp_update_action p (action\<lparr>ca_status := ActionSucceeded\<rparr>) (pl_after pl) (pl_dry_result pl) '''' w of
        ((action, err), w) \<Rightarrow>
          ((action, err),
           audit_plan p pl action ''control_action.dry_run_succeeded'' ''succeeded'' (pl_dry_result pl) w))"

definition execute_action ::
    "'w control_ports \<Rightarrow> action_plan \<Rightarrow> ('w, gmap) call \<Rightarrow> control_action \<Rightarrow> 'w action_result" where
  "execute_action p pl perform action w =
     (case kp_update_action p (action\<lparr>ca_status := ActionRunning\<rparr>) (pl_after pl) [] '''' w of
        ((action, Some e), w) \<Rightarrow> ((action, Some e), w)
      | ((action, None), w) \<Rightarrow>
          (case perform w of
             (Inl e, w) \<Rightarrow> fail_control_action p pl action e w
           | (Inr result, w) \<Rightarrow> complete_action p pl action result w))"

definition request_action ::
    "'w control_ports \<Rightarrow> action_plan \<Rightarrow> ('w, gmap) call \<Rightarrow> bool \<Rightarrow> control_action \<Rightarrow> 'w action_result" where
  "request_action p pl perform dry_run action w =
     (case kp_create_action p action w of
        ((action, Some e), w) \<Rightarrow> ((action, Some e), w)
      | ((action, None), w) \<Rightarrow>
          let w = audit_plan p pl action ''control_action.requested'' ''succeeded'' [] w in
          if dry_run then dry_run_action p pl action w else execute_action p pl perform action w)"

text \<open>The guards every operation begins with, and the replay of a known key: the action stored under
  the key is given back, whatever it was.\<close>

definition missing_request :: "string \<Rightarrow> action_request \<Rightarrow> bool" where
  "missing_request target rq \<longleftrightarrow>
     trim_space target = '''' \<or> trim_space (rq_actor rq) = '''' \<or> trim_space (rq_reason rq) = '''' \<or>
     trim_space (rq_key rq) = ''''"

definition replay_or ::
    "'w control_ports \<Rightarrow> action_request \<Rightarrow> 'w action_result \<Rightarrow> 'w action_result" where
  "replay_or p rq continue w =
     (case kp_find_action p (rq_key rq) w of
        (Inr existing, w) \<Rightarrow> ((existing, None), w)
      | (Inl e, w) \<Rightarrow> if e \<noteq> Sentinel NoRows then ((no_action, Some e), w) else continue w)"

definition or_return :: "('w, 'a) call \<Rightarrow> ('a \<Rightarrow> 'w action_result) \<Rightarrow> 'w action_result" where
  "or_return m f w = (case m w of (Inl e, w) \<Rightarrow> ((no_action, Some e), w) | (Inr x, w) \<Rightarrow> f x w)"

definition new_action ::
    "action_request \<Rightarrow> string \<Rightarrow> string \<Rightarrow> string \<Rightarrow> gmap \<Rightarrow> gmap \<Rightarrow> control_action" where
  "new_action rq conn agent type before after =
     no_action\<lparr>ca_conn := conn, ca_agent := agent, ca_type := type, ca_status := ActionQueued,
       ca_actor := trim_space (rq_actor rq), ca_reason := trim_space (rq_reason rq),
       ca_key := trim_space (rq_key rq), ca_before := before, ca_after := after\<rparr>"


section \<open>ReconcileAccess\<close>

text \<open>\<^verbatim>\<open>accessMap\<close>: the document through JSON and back.\<close>

definition selection_value :: "access_selection \<Rightarrow> gval" where
  "selection_value s = GMap [(''Kind'', GStr (sel_kind s)), (''ID'', GStr (sel_id s)),
     (''Name'', GStr (sel_name s)), (''Allowed'', GBool (sel_allowed s)),
     (''Attributes'', GMap (sel_attributes s))]"

definition access_map :: "access_document \<Rightarrow> gmap" where
  "access_map a =
     [(''AgentID'', GStr (acc_agent a)), (''Selections'', GList (map selection_value (acc_selections a))),
      (''Raw'', GMap (acc_raw a)), (''ObservedAt'', GTime (acc_observed_at a)),
      (''DesiredAt'', (case acc_desired_at a of None \<Rightarrow> GNil | Some t \<Rightarrow> GTime t)),
      (''Source'', GStr (acc_source a)), (''SourceRef'', GStr (acc_source_ref a)),
      (''SourceSHA256'', GStr (acc_source_sha a))]"

definition perform_access ::
    "'w adapter \<Rightarrow> runtime_connection \<Rightarrow> agent_detail \<Rightarrow> access_document \<Rightarrow> ('w, gmap) call" where
  "perform_access a conn detail access =
     seq (ad_replace_access a conn (pa_runtime_agent (ad_agent detail)) access)
       (\<lambda>observed. return (access_map observed))"

definition access_plan ::
    "runtime_connection \<Rightarrow> agent_detail \<Rightarrow> access_document \<Rightarrow> action_request \<Rightarrow> action_plan" where
  "access_plan conn detail access rq =
     \<lparr>pl_target_type = ''agent_access'', pl_target = ca_agent, pl_before = access_map (ad_access detail),
      pl_after = access_map access,
      pl_dry_result = [(''dry_run'', GBool True), (''validated'', GBool True)],
      pl_prefix = ''replace runtime access: '', pl_conn = rc_id conn, pl_actor = rq_actor rq,
      pl_verify = ''verify access reconciliation: '' @ rq_reason rq\<rparr>"

definition reconcile_access ::
    "'w control_ports \<Rightarrow> string \<Rightarrow> access_document \<Rightarrow> action_request \<Rightarrow> 'w action_result" where
  "reconcile_access p agent access rq w =
     (if missing_request agent rq
      then ((no_action, Some (Text ''agent id, actor, reason, and idempotency_key are required'')), w)
      else if \<exists>s\<in>set (acc_selections access). trim_space (sel_id s) = ''''
      then ((no_action, Some (Text ''every access selection requires an id'')), w)
      else replay_or p rq
        (or_return (kp_get_agent p agent) (\<lambda>detail.
         or_return (kp_get_runtime p (pa_conn (ad_agent detail))) (\<lambda>conn.
         let pl = access_plan conn detail access rq;
             action = new_action rq (rc_id conn) agent ''replace_agent_access'' (pl_before pl) (pl_after pl)
         in if rc_mode conn \<noteq> ModeControlEnabled
            then reject_access p pl action ''runtime connection is read-only''
                   ''runtime connection is read-only'' ''read_only_runtime''
            else case map_of (kp_adapters p) (rc_kind conn) of
              None \<Rightarrow> reject_access p pl action ''runtime adapter is not registered''
                   (''runtime adapter '' @ quoted (runtime_kind_text (rc_kind conn)) @ '' is not registered'')
                   ''adapter_unavailable''
            | Some a \<Rightarrow> request_action p pl (perform_access a conn detail access) (rq_dry_run rq) action))) w)"

section \<open>SetAgentStatus\<close>

definition perform_status ::
    "'w adapter \<Rightarrow> runtime_connection \<Rightarrow> agent_detail \<Rightarrow> agent_status \<Rightarrow> ('w, gmap) call" where
  "perform_status a conn detail status =
     seq (ad_set_status a conn (pa_runtime_agent (ad_agent detail)) status)
       (\<lambda>observed. return [(''status'', GStr (agent_status_text (as_status observed))),
          (''runtime_agent_id'', GStr (as_id observed))])"

definition status_plan ::
    "runtime_connection \<Rightarrow> agent_detail \<Rightarrow> agent_status \<Rightarrow> action_request \<Rightarrow> action_plan" where
  "status_plan conn detail status rq =
     \<lparr>pl_target_type = ''agent_status'', pl_target = ca_agent,
      pl_before = [(''status'', GStr (agent_status_text (pa_status (ad_agent detail))))],
      pl_after = [(''status'', GStr (agent_status_text status))],
      pl_dry_result = [(''dry_run'', GBool True), (''validated'', GBool True),
        (''status'', GStr (agent_status_text status))],
      pl_prefix = ''set runtime agent status: '', pl_conn = rc_id conn, pl_actor = rq_actor rq,
      pl_verify = ''verify agent status change: '' @ rq_reason rq\<rparr>"

definition status_action_type :: "agent_status \<Rightarrow> string" where
  "status_action_type status = (if status = AgentDisabled then ''disable_agent'' else ''enable_agent'')"

definition set_agent_status ::
    "'w control_ports \<Rightarrow> string \<Rightarrow> agent_status \<Rightarrow> action_request \<Rightarrow> 'w action_result" where
  "set_agent_status p agent status rq w =
     (if missing_request agent rq
      then ((no_action, Some (Text ''agent id, actor, reason, and idempotency_key are required'')), w)
      else if status \<noteq> AgentEnabled \<and> status \<noteq> AgentDisabled
      then ((no_action, Some (Text (''status must be '' @ quoted ''enabled'' @ '' or '' @ quoted ''disabled''))), w)
      else replay_or p rq
        (or_return (kp_get_agent p agent) (\<lambda>detail.
         or_return (kp_get_runtime p (pa_conn (ad_agent detail))) (\<lambda>conn w.
         let pl = status_plan conn detail status rq;
             action = new_action rq (rc_id conn) agent (status_action_type status) (pl_before pl) (pl_after pl)
         in if rc_mode conn \<noteq> ModeControlEnabled
            then reject_status_action p pl action ''runtime connection is read-only'' ''read_only_runtime'' w
            else case map_of (kp_adapters p) (rc_kind conn) of
              None \<Rightarrow> reject_status_action p pl action ''runtime adapter is not registered''
                        ''adapter_unavailable'' w
            | Some a \<Rightarrow>
                (case ad_check a conn w of
                   (Inl e, w) \<Rightarrow> reject_status_action p pl action (sanitize_runtime_error e)
                                   ''adapter_check_failed'' w
                 | (Inr check, w) \<Rightarrow>
                     if \<not> can_set_status (ck_capabilities check)
                     then reject_status_action p pl action
                            ''runtime adapter does not support agent status control'' ''unsupported_action'' w
                     else request_action p pl (perform_status a conn detail status) (rq_dry_run rq) action w)))) w)"


section \<open>DeleteAgent and CancelExecution\<close>

text \<open>\<^verbatim>\<open>validateCapability\<close>: the rejections that apply, or the connector.\<close>

definition with_capability ::
    "'w control_ports \<Rightarrow> action_plan \<Rightarrow> control_action \<Rightarrow> runtime_connection \<Rightarrow>
     (capabilities \<Rightarrow> bool) \<Rightarrow> string \<Rightarrow> ('w adapter \<Rightarrow> 'w action_result) \<Rightarrow> 'w action_result" where
  "with_capability p pl action conn supported unsupported continue w =
     (if rc_mode conn \<noteq> ModeControlEnabled
      then reject_control_action p pl action ''runtime connection is read-only'' ''read_only_runtime'' w
      else case map_of (kp_adapters p) (rc_kind conn) of
        None \<Rightarrow> reject_control_action p pl action ''runtime adapter is not registered'' ''adapter_unavailable'' w
      | Some a \<Rightarrow>
          (case ad_check a conn w of
             (Inl e, w) \<Rightarrow> reject_control_action p pl action (sanitize_runtime_error e) ''adapter_check_failed'' w
           | (Inr check, w) \<Rightarrow>
               if \<not> supported (ck_capabilities check)
               then reject_control_action p pl action unsupported ''unsupported_action'' w
               else continue a w))"

definition is_langgraph_system_managed :: "gmap \<Rightarrow> bool" where
  "is_langgraph_system_managed metadata =
     (case map_of metadata ''assistant_metadata'' of
        Some (GMap m) \<Rightarrow>
          (case map_of m ''created_by'' of
             Some (GStr s) \<Rightarrow> equal_fold (trim_space s) ''system''
           | _ \<Rightarrow> equal_fold (trim_space '''') ''system'')
      | _ \<Rightarrow> False)"

text \<open>The adapter's deletion, then the tombstone of the stored agent, whose error is only noted in
  the result.\<close>

definition perform_delete ::
    "'w control_ports \<Rightarrow> 'w adapter \<Rightarrow> runtime_connection \<Rightarrow> string \<Rightarrow> string \<Rightarrow> ('w, gmap) call" where
  "perform_delete p a conn agent runtime_agent w =
     (case ad_delete_agent a conn runtime_agent w of
        (Inl e, w) \<Rightarrow> (Inl e, w)
      | (Inr _, w) \<Rightarrow>
          let result = [(''deleted'', GBool True), (''runtime_agent_id'', GStr runtime_agent)]
          in case kp_mark_deleted p agent w of
               (Inl e, w) \<Rightarrow>
                 (Inr (mput ''local_tombstone_error'' (GStr (sanitize_runtime_error e)) result), w)
             | (Inr _, w) \<Rightarrow> (Inr result, w))"

definition delete_plan ::
    "runtime_connection \<Rightarrow> string \<Rightarrow> agent_detail \<Rightarrow> action_request \<Rightarrow> action_plan" where
  "delete_plan conn agent detail rq =
     \<lparr>pl_target_type = ''agent'', pl_target = (\<lambda>_. agent),
      pl_before = [(''runtime_agent_id'', GStr (pa_runtime_agent (ad_agent detail))),
        (''name'', GStr (pa_name (ad_agent detail))),
        (''status'', GStr (agent_status_text (pa_status (ad_agent detail))))],
      pl_after = [(''deleted'', GBool True)],
      pl_dry_result = [(''dry_run'', GBool True), (''validated'', GBool True),
        (''runtime_agent_id'', GStr (pa_runtime_agent (ad_agent detail)))],
      pl_prefix = ''delete runtime agent: '', pl_conn = rc_id conn, pl_actor = rq_actor rq,
      pl_verify = ''verify agent deletion: '' @ rq_reason rq\<rparr>"

definition delete_agent ::
    "'w control_ports \<Rightarrow> string \<Rightarrow> string \<Rightarrow> action_request \<Rightarrow> 'w action_result" where
  "delete_agent p agent confirmation rq w =
     (if missing_request agent rq
      then ((no_action, Some (Text ''agent id, actor, reason, and idempotency_key are required'')), w)
      else replay_or p rq
        (or_return (kp_get_agent p agent) (\<lambda>detail.
         or_return (kp_get_runtime p (pa_conn (ad_agent detail))) (\<lambda>conn.
         let pl = delete_plan conn agent detail rq;
             action = new_action rq (rc_id conn) agent ''delete_agent'' (pl_before pl) (pl_after pl);
             runtime_agent = pa_runtime_agent (ad_agent detail)
         in if trim_space confirmation \<noteq> runtime_agent
            then reject_control_action p pl action
                   (''confirmation must exactly match runtime agent id '' @ quoted runtime_agent)
                   ''confirmation_mismatch''
            else if rc_kind conn = KindLangGraph \<and> is_langgraph_system_managed (pa_metadata (ad_agent detail))
            then reject_control_action p pl action
                   ''LangGraph system-managed assistants are recreated from graph configuration and cannot be deleted through Capcom''
                   ''system_managed_agent''
            else with_capability p pl action conn can_delete_agent
                   ''runtime adapter does not support agent deletion''
                   (\<lambda>a. request_action p pl (perform_delete p a conn agent runtime_agent) (rq_dry_run rq) action)))) w)"

definition perform_cancel ::
    "'w adapter \<Rightarrow> runtime_connection \<Rightarrow> execution_snapshot \<Rightarrow> ('w, gmap) call" where
  "perform_cancel a conn x =
     seq (ad_cancel a conn x) (\<lambda>_. return [(''status'', GStr ''interrupted''),
       (''runtime_execution_id'', GStr (ex_id x))])"

definition cancel_plan ::
    "runtime_connection \<Rightarrow> string \<Rightarrow> execution_snapshot \<Rightarrow> action_request \<Rightarrow> action_plan" where
  "cancel_plan conn execution x rq =
     \<lparr>pl_target_type = ''runtime_execution'', pl_target = (\<lambda>_. execution),
      pl_before = [(''runtime_execution_id'', GStr (ex_id x)), (''thread_id'', GStr (ex_parent x)),
        (''status'', GStr (ex_status x))],
      pl_after = [(''status'', GStr ''interrupted'')],
      pl_dry_result = [(''dry_run'', GBool True), (''validated'', GBool True),
        (''runtime_execution_id'', GStr (ex_id x))],
      pl_prefix = ''cancel runtime execution: '', pl_conn = rc_id conn, pl_actor = rq_actor rq,
      pl_verify = ''verify execution cancellation: '' @ rq_reason rq\<rparr>"

text \<open>\<^verbatim>\<open>findExecutionAgentID\<close>: the first agent of the runtime with the execution's runtime agent, or
  the empty text.\<close>

definition find_execution_agent ::
    "'w control_ports \<Rightarrow> persisted_execution \<Rightarrow> 'w \<Rightarrow> string \<times> 'w" where
  "find_execution_agent p x w =
     (case kp_list_agents p (px_conn x) w of
        (Inl e, w) \<Rightarrow> ('''', w)
      | (Inr agents, w) \<Rightarrow>
          (case List.find (\<lambda>a. pa_runtime_agent a = ex_agent (px_snapshot x)) agents of
             None \<Rightarrow> ('''', w) | Some a \<Rightarrow> (pa_id a, w)))"

definition cancel_execution :: "'w control_ports \<Rightarrow> string \<Rightarrow> action_request \<Rightarrow> 'w action_result" where
  "cancel_execution p execution rq w =
     (if missing_request execution rq
      then ((no_action, Some (Text ''execution id, actor, reason, and idempotency_key are required'')), w)
      else replay_or p rq
        (or_return (kp_get_execution p execution) (\<lambda>px.
         or_return (kp_get_runtime p (px_conn px)) (\<lambda>conn w.
         case find_execution_agent p px w of (agent, w) \<Rightarrow>
         let x = px_snapshot px;
             pl = cancel_plan conn execution x rq;
             action = new_action rq (rc_id conn) agent ''cancel_execution'' (pl_before pl) (pl_after pl)
         in if ex_kind x \<noteq> ''run''
            then reject_control_action p pl action ''only run executions can be cancelled''
                   ''invalid_execution_kind'' w
            else if ex_status x \<noteq> ''pending'' \<and> ex_status x \<noteq> ''running''
            then reject_control_action p pl action
                   (''execution status '' @ quoted (ex_status x) @ '' cannot be cancelled'')
                   ''invalid_execution_status'' w
            else with_capability p pl action conn can_cancel
                   ''runtime adapter does not support execution cancellation''
                   (\<lambda>a. request_action p pl (perform_cancel a conn x) (rq_dry_run rq) action) w))) w)"

section \<open>The four operations\<close>

datatype control_operation = ReplaceAccess string access_document | SetStatus string agent_status
  | DeleteAgent string string | CancelExecution string

fun run_operation :: "'w control_ports \<Rightarrow> control_operation \<Rightarrow> action_request \<Rightarrow> 'w action_result" where
  "run_operation p (ReplaceAccess agent access) rq = reconcile_access p agent access rq"
| "run_operation p (SetStatus agent status) rq = set_agent_status p agent status rq"
| "run_operation p (DeleteAgent agent confirmation) rq = delete_agent p agent confirmation rq"
| "run_operation p (CancelExecution execution) rq = cancel_execution p execution rq"

text \<open>The arguments the operations refuse before they look at anything.\<close>

fun operation_target :: "control_operation \<Rightarrow> string" where
  "operation_target (ReplaceAccess agent access) = agent"
| "operation_target (SetStatus agent status) = agent"
| "operation_target (DeleteAgent agent confirmation) = agent"
| "operation_target (CancelExecution execution) = execution"

fun operation_arguments_ok :: "control_operation \<Rightarrow> bool" where
  "operation_arguments_ok (ReplaceAccess agent access) \<longleftrightarrow>
     (\<forall>s\<in>set (acc_selections access). \<not> blank (sel_id s))"
| "operation_arguments_ok (SetStatus agent status) \<longleftrightarrow> status \<in> {AgentEnabled, AgentDisabled}"
| "operation_arguments_ok _ \<longleftrightarrow> True"

lemma run_operation_replay:
  assumes "\<not> missing_request (operation_target op) rq" and "operation_arguments_ok op"
    and "kp_find_action p (rq_key rq) w = (Inr existing, w1)"
  shows "run_operation p op rq w = ((existing, None), w1)"
  using assms
  by (cases op) (auto simp: reconcile_access_def set_agent_status_def delete_agent_def cancel_execution_def
      replay_or_def blank_def)

lemma run_operation_refused:
  assumes "missing_request (operation_target op) rq \<or> \<not> operation_arguments_ok op"
  shows "\<exists>t. run_operation p op rq w = ((no_action, Some (Text t)), w)"
  using assms
  by (cases op) (auto simp: reconcile_access_def set_agent_status_def delete_agent_def cancel_execution_def
      blank_def)

text \<open>The ports on the repositories of the store.\<close>

definition store_control_ports :: "env \<Rightarrow> 'x adapters \<Rightarrow> int \<Rightarrow> (db, 'x) world control_ports" where
  "store_control_ports env as t =
     \<lparr>kp_get_runtime = connection_get env, kp_get_agent = get_persisted_agent env,
      kp_list_agents = list_persisted_agents env, kp_get_execution = get_runtime_execution env,
      kp_mark_deleted = mark_agent_deleted env, kp_find_action = find_by_key env,
      kp_create_action = action_create env, kp_update_action = action_update env,
      kp_audit = Some (audit_create env), kp_syncer = Some (sync (store_sync_ports env as t)),
      kp_adapters = map (\<lambda>(k, a). (k, lift_adapter a)) as\<rparr>"

lemma store_control_ports_simps [simp]:
  "kp_get_runtime (store_control_ports env as t) = connection_get env"
  "kp_get_agent (store_control_ports env as t) = get_persisted_agent env"
  "kp_list_agents (store_control_ports env as t) = list_persisted_agents env"
  "kp_get_execution (store_control_ports env as t) = get_runtime_execution env"
  "kp_mark_deleted (store_control_ports env as t) = mark_agent_deleted env"
  "kp_find_action (store_control_ports env as t) = find_by_key env"
  "kp_create_action (store_control_ports env as t) = action_create env"
  "kp_update_action (store_control_ports env as t) = action_update env"
  "kp_audit (store_control_ports env as t) = Some (audit_create env)"
  "kp_syncer (store_control_ports env as t) = Some (sync (store_sync_ports env as t))"
  "map_of (kp_adapters (store_control_ports env as t)) k = map_option lift_adapter (map_of as k)"
  by (simp_all add: store_control_ports_def map_of_map)

end
