(* ===== verification/Control_Contract.thy ===== *)
theory Control_Contract
  imports Control_Service
begin

text \<open>What the control action service guarantees over its interfaces: runtimes are only changed by an
  executed action (independence of the mutating calls), and every step of an action is in the audit
  trail (the locale \<open>audited_actions\<close>, interpreted on the repositories of the store).\<close>

section \<open>Independence of the calls that change a runtime\<close>

text \<open>Ports whose adapters are replaced by others and whose tombstone of a stored agent is another.\<close>

definition rewire ::
    "('w adapter \<Rightarrow> 'w adapter) \<Rightarrow> (string \<Rightarrow> ('w, unit) call) \<Rightarrow> 'w control_ports \<Rightarrow> 'w control_ports" where
  "rewire h m p = p\<lparr>kp_adapters := map (\<lambda>(k, a). (k, h a)) (kp_adapters p), kp_mark_deleted := m\<rparr>"

lemma rewire_simps [simp]:
  "kp_get_runtime (rewire h m p) = kp_get_runtime p"
  "kp_get_agent (rewire h m p) = kp_get_agent p"
  "kp_list_agents (rewire h m p) = kp_list_agents p"
  "kp_get_execution (rewire h m p) = kp_get_execution p"
  "kp_find_action (rewire h m p) = kp_find_action p"
  "kp_create_action (rewire h m p) = kp_create_action p"
  "kp_update_action (rewire h m p) = kp_update_action p"
  "kp_audit (rewire h m p) = kp_audit p"
  "kp_syncer (rewire h m p) = kp_syncer p"
  "kp_mark_deleted (rewire h m p) = m"
  "map_of (kp_adapters (rewire h m p)) k = map_option h (map_of (kp_adapters p) k)"
  by (simp_all add: rewire_def map_of_map)

lemmas deep_congs = prod.case_cong sum.case_cong option.case_cong if_cong

lemma audit_plan_rewire [simp]: "audit_plan (rewire h m p) = audit_plan p"
  by (intro ext) (simp add: audit_plan_def audit_control_action_def)

lemma reject_rewire [simp]:
  "reject_access (rewire h m p) = reject_access p"
  "reject_status_action (rewire h m p) = reject_status_action p"
  "reject_control_action (rewire h m p) = reject_control_action p"
  by (intro ext, simp add: reject_access_def reject_status_action_def reject_control_action_def
      reject_action_def cong: deep_congs)+

lemma request_rewire [simp]: "request_action (rewire h m p) = request_action p"
  by (intro ext) (simp add: request_action_def dry_run_action_def execute_action_def complete_action_def
      fail_control_action_def run_verification_sync_def Let_def cong: deep_congs)

text \<open>A dry run does not look at the call of the adapter.\<close>

definition dry_request :: "'w control_ports \<Rightarrow> action_plan \<Rightarrow> control_action \<Rightarrow> 'w action_result" where
  "dry_request p pl action w =
     (case kp_create_action p action w of
        ((action, Some e), w) \<Rightarrow> ((action, Some e), w)
      | ((action, None), w) \<Rightarrow>
          dry_run_action p pl action (audit_plan p pl action ''control_action.requested'' ''succeeded'' [] w))"

lemma request_dry: "request_action p pl perform True = dry_request p pl"
  by (intro ext) (simp add: request_action_def dry_request_def Let_def cong: deep_congs)

lemma replay_or_rewire [simp]: "replay_or (rewire h m p) = replay_or p"
  by (intro ext) (simp add: replay_or_def)

lemma find_execution_agent_rewire [simp]: "find_execution_agent (rewire h m p) = find_execution_agent p"
  by (intro ext) (simp add: find_execution_agent_def)

text \<open>The operations, with their loading steps unfolded.\<close>

lemmas operation_defs = reconcile_access_def set_agent_status_def delete_agent_def cancel_execution_def
  or_return_def replay_or_def Let_def

lemma with_capability_rewire:
  assumes "\<And>a. ad_check (h a) = ad_check a"
  shows "with_capability (rewire h m p) pl action conn supported msg k =
    with_capability p pl action conn supported msg (\<lambda>a. k (h a))"
  by (intro ext) (simp add: with_capability_def case_map_option comp_def assms cong: deep_congs)

text \<open>Two replacements: the mutating calls of every adapter; and those made with one connection,
  together with the tombstones of chosen agents.\<close>

definition override_adapter :: "'w adapter \<Rightarrow> 'w adapter \<Rightarrow> 'w adapter" where
  "override_adapter g a = a\<lparr>ad_replace_access := ad_replace_access g, ad_set_status := ad_set_status g,
     ad_delete_agent := ad_delete_agent g, ad_cancel := ad_cancel g\<rparr>"

definition override_ports ::
    "'w adapter \<Rightarrow> (string \<Rightarrow> ('w, unit) call) \<Rightarrow> 'w control_ports \<Rightarrow> 'w control_ports" where
  "override_ports g m p = rewire (override_adapter g) m p"

definition override_adapter_at :: "string \<Rightarrow> 'w adapter \<Rightarrow> 'w adapter \<Rightarrow> 'w adapter" where
  "override_adapter_at c g a =
     a\<lparr>ad_replace_access := (\<lambda>conn. ad_replace_access (if rc_id conn = c then g else a) conn),
       ad_set_status := (\<lambda>conn. ad_set_status (if rc_id conn = c then g else a) conn),
       ad_delete_agent := (\<lambda>conn. ad_delete_agent (if rc_id conn = c then g else a) conn),
       ad_cancel := (\<lambda>conn. ad_cancel (if rc_id conn = c then g else a) conn)\<rparr>"

definition override_ports_at ::
    "string \<Rightarrow> (string \<Rightarrow> bool) \<Rightarrow> 'w adapter \<Rightarrow> (string \<Rightarrow> ('w, unit) call) \<Rightarrow> 'w control_ports \<Rightarrow>
     'w control_ports" where
  "override_ports_at c agents g m p =
     rewire (override_adapter_at c g) (\<lambda>a. if agents a then m a else kp_mark_deleted p a) p"

lemma override_check [simp]:
  "ad_check (override_adapter g a) = ad_check a" "ad_check (override_adapter_at c g a) = ad_check a"
  by (simp_all add: override_adapter_def override_adapter_at_def)

lemmas with_capability_overrides [simp] = with_capability_rewire [of "override_adapter g" for g, OF override_check(1)]
  with_capability_rewire [of "override_adapter_at c g" for c g, OF override_check(2)]

lemma performs_elsewhere:
  assumes "rc_id conn \<noteq> c"
  shows "perform_access (override_adapter_at c g a) conn = perform_access a conn"
    "perform_status (override_adapter_at c g a) conn = perform_status a conn"
    "perform_cancel (override_adapter_at c g a) conn = perform_cancel a conn"
    "\<not> agents agent \<Longrightarrow>
       perform_delete (rewire (override_adapter_at c g) (\<lambda>a. if agents a then m a else kp_mark_deleted p a) p)
         (override_adapter_at c g a) conn agent = perform_delete p a conn agent"
  using assms
  by (auto simp: perform_access_def perform_status_def perform_cancel_def perform_delete_def
      override_adapter_at_def fun_eq_iff cong: deep_congs)

text \<open>Dry runs.\<close>

lemma dry_runs_independent:
  assumes "rq_dry_run rq"
  shows "run_operation (override_ports g m p) op rq w = run_operation p op rq w"
  using assms unfolding override_ports_def
  by (cases op) (simp_all add: operation_defs request_dry case_map_option comp_def cong: deep_congs)

text \<open>Runtimes that are not control-enabled.\<close>

lemma with_capability_read_only:
  "rc_mode conn \<noteq> ModeControlEnabled \<Longrightarrow> with_capability p pl action conn supported msg k =
     reject_control_action p pl action ''runtime connection is read-only'' ''read_only_runtime''"
  by (intro ext) (simp add: with_capability_def)

text \<open>A result without an error: no rejection, and every step before it succeeded.\<close>

lemma or_return_NoneE:
  assumes "or_return m f w = ((a, None), w')"
  obtains x w1 where "m w = (Inr x, w1)" and "f x w1 = ((a, None), w')"
  using assms by (auto simp: or_return_def split: prod.splits sum.splits)

lemma replay_or_NoneE:
  assumes "replay_or p rq k w = ((a, None), w')" and "kp_find_action p (rq_key rq) w = (Inl e, w0)"
  shows "k w0 = ((a, None), w')"
  using assms by (auto simp: replay_or_def split: prod.splits if_splits)

lemma reject_not_None [simp]:
  "reject_access p pl act st msg rs w \<noteq> ((a, None), w')"
  "reject_status_action p pl act msg rs w \<noteq> ((a, None), w')"
  "reject_control_action p pl act msg rs w \<noteq> ((a, None), w')"
  by (auto simp: reject_access_def reject_status_action_def reject_control_action_def
      split: prod.splits sum.splits)

lemma with_capability_NoneE:
  assumes "with_capability p pl act conn supported msg k w = ((a, None), w')"
  obtains x check w1 where "rc_mode conn = ModeControlEnabled" and "map_of (kp_adapters p) (rc_kind conn) = Some x"
    and "ad_check x conn w = (Inr check, w1)" and "supported (ck_capabilities check)"
    and "k x w1 = ((a, None), w')"
  using assms by (auto simp: with_capability_def split: prod.splits sum.splits option.splits if_splits)

text \<open>What the calls that only read keep: an invariant of the world, such as the contents of the
  database.  Under it an operation meets the runtimes and agents of that database.\<close>

definition stable :: "('w \<Rightarrow> bool) \<Rightarrow> ('w \<Rightarrow> 'a \<times> 'w) \<Rightarrow> bool" where
  "stable ok m \<longleftrightarrow> (\<forall>w. ok w \<longrightarrow> ok (snd (m w)))"

lemma stableD: "stable ok m \<Longrightarrow> ok w \<Longrightarrow> m w = (r, w') \<Longrightarrow> ok w'"
  by (metis snd_conv stable_def)

text \<open>The call of the adapter an operation stands for.\<close>

fun performs ::
    "'w control_ports \<Rightarrow> control_operation \<Rightarrow> 'w adapter \<Rightarrow> runtime_connection \<Rightarrow> ('w, gmap) call \<Rightarrow> bool" where
  "performs p (ReplaceAccess agent access) x conn f \<longleftrightarrow> (\<exists>d. f = perform_access x conn d access)"
| "performs p (SetStatus agent status) x conn f \<longleftrightarrow> (\<exists>d. f = perform_status x conn d status)"
| "performs p (DeleteAgent agent confirmation) x conn f \<longleftrightarrow>
     f = perform_delete p x conn agent (trim_space confirmation)"
| "performs p (CancelExecution execution) x conn f \<longleftrightarrow> (\<exists>ex. f = perform_cancel x conn ex)"

text \<open>What an operation plans from what it reads (all reads in worlds \<open>ok\<close>): the connection is the one
  of the agent or the execution it names, the call goes to that agent or execution, and the plan and
  the new action are the code's.\<close>

definition reads_agent ::
    "'w control_ports \<Rightarrow> ('w \<Rightarrow> bool) \<Rightarrow> string \<Rightarrow> agent_detail \<Rightarrow> runtime_connection \<Rightarrow> bool" where
  "reads_agent p ok agent d conn \<longleftrightarrow> (\<exists>w1 w2 w3 w4. ok w1 \<and> kp_get_agent p agent w1 = (Inr d, w2) \<and>
     ok w3 \<and> kp_get_runtime p (pa_conn (ad_agent d)) w3 = (Inr conn, w4))"

definition reads_execution ::
    "'w control_ports \<Rightarrow> ('w \<Rightarrow> bool) \<Rightarrow> string \<Rightarrow> persisted_execution \<Rightarrow> runtime_connection \<Rightarrow> string \<Rightarrow> bool" where
  "reads_execution p ok execution px conn agent \<longleftrightarrow> (\<exists>w1 w2 w3 w4 w5 w6.
     ok w1 \<and> kp_get_execution p execution w1 = (Inr px, w2) \<and>
     ok w3 \<and> kp_get_runtime p (px_conn px) w3 = (Inr conn, w4) \<and>
     ok w5 \<and> find_execution_agent p px w5 = (agent, w6))"

fun planned ::
    "'w control_ports \<Rightarrow> ('w \<Rightarrow> bool) \<Rightarrow> control_operation \<Rightarrow> action_request \<Rightarrow> 'w adapter \<Rightarrow> runtime_connection \<Rightarrow>
     action_plan \<Rightarrow> ('w, gmap) call \<Rightarrow> control_action \<Rightarrow> bool" where
  "planned p ok (ReplaceAccess agent access) rq x conn pl f act \<longleftrightarrow>
     (\<exists>d. reads_agent p ok agent d conn \<and> pl = access_plan conn d access rq \<and>
        f = perform_access x conn d access \<and>
        act = new_action rq (rc_id conn) agent ''replace_agent_access'' (pl_before pl) (pl_after pl))"
| "planned p ok (SetStatus agent status) rq x conn pl f act \<longleftrightarrow>
     (\<exists>d. reads_agent p ok agent d conn \<and> pl = status_plan conn d status rq \<and>
        f = perform_status x conn d status \<and>
        act = new_action rq (rc_id conn) agent (status_action_type status) (pl_before pl) (pl_after pl))"
| "planned p ok (DeleteAgent agent confirmation) rq x conn pl f act \<longleftrightarrow>
     (\<exists>d. reads_agent p ok agent d conn \<and> trim_space confirmation = pa_runtime_agent (ad_agent d) \<and>
        pl = delete_plan conn agent d rq \<and>
        f = perform_delete p x conn agent (pa_runtime_agent (ad_agent d)) \<and>
        act = new_action rq (rc_id conn) agent ''delete_agent'' (pl_before pl) (pl_after pl))"
| "planned p ok (CancelExecution execution) rq x conn pl f act \<longleftrightarrow>
     (\<exists>px agent. reads_execution p ok execution px conn agent \<and> pl = cancel_plan conn execution (px_snapshot px) rq \<and>
        f = perform_cancel x conn (px_snapshot px) \<and>
        act = new_action rq (rc_id conn) agent ''cancel_execution'' (pl_before pl) (pl_after pl))"

text \<open>The kind of target an operation has, and the state it asks for.\<close>

fun target_type :: "control_operation \<Rightarrow> string" where
  "target_type (ReplaceAccess _ _) = ''agent_access''"
| "target_type (SetStatus _ _) = ''agent_status''"
| "target_type (DeleteAgent _ _) = ''agent''"
| "target_type (CancelExecution _) = ''runtime_execution''"

fun requested_state :: "control_operation \<Rightarrow> gmap" where
  "requested_state (ReplaceAccess _ access) = access_map access"
| "requested_state (SetStatus _ status) = [(''status'', GStr (agent_status_text status))]"
| "requested_state (DeleteAgent _ _) = [(''deleted'', GBool True)]"
| "requested_state (CancelExecution _) = [(''status'', GStr ''interrupted'')]"

text \<open>The state an operation found its target in: of the agent or the execution as it is stored.\<close>

fun state_found :: "'w control_ports \<Rightarrow> ('w \<Rightarrow> bool) \<Rightarrow> control_operation \<Rightarrow> gmap \<Rightarrow> bool" where
  "state_found p ok (ReplaceAccess agent _) b \<longleftrightarrow>
     (\<exists>d v v'. ok v \<and> kp_get_agent p agent v = (Inr d, v') \<and> b = access_map (ad_access d))"
| "state_found p ok (SetStatus agent _) b \<longleftrightarrow>
     (\<exists>d v v'. ok v \<and> kp_get_agent p agent v = (Inr d, v') \<and>
        b = [(''status'', GStr (agent_status_text (pa_status (ad_agent d))))])"
| "state_found p ok (DeleteAgent agent _) b \<longleftrightarrow>
     (\<exists>d v v'. ok v \<and> kp_get_agent p agent v = (Inr d, v') \<and>
        b = [(''runtime_agent_id'', GStr (pa_runtime_agent (ad_agent d))),
             (''name'', GStr (pa_name (ad_agent d))),
             (''status'', GStr (agent_status_text (pa_status (ad_agent d))))])"
| "state_found p ok (CancelExecution execution) b \<longleftrightarrow>
     (\<exists>px v v'. ok v \<and> kp_get_execution p execution v = (Inr px, v') \<and>
        b = [(''runtime_execution_id'', GStr (ex_id (px_snapshot px))),
             (''thread_id'', GStr (ex_parent (px_snapshot px))),
             (''status'', GStr (ex_status (px_snapshot px)))])"

text \<open>The call on the target: the runtime's agent of a binding of the named agent to that connection, or
  the stored execution of that connection.\<close>

fun calls_target ::
    "'w control_ports \<Rightarrow> db \<Rightarrow> control_operation \<Rightarrow> 'w adapter \<Rightarrow> runtime_connection \<Rightarrow> ('w, gmap) call \<Rightarrow> bool" where
  "calls_target p d (ReplaceAccess agent access) x conn f \<longleftrightarrow>
     (\<exists>b\<in>set (db_bindings d). bd_agent b = agent \<and> bd_conn b = rc_id conn \<and>
        f = seq (ad_replace_access x conn (bd_runtime_agent b) access) (\<lambda>observed. return (access_map observed)))"
| "calls_target p d (SetStatus agent status) x conn f \<longleftrightarrow>
     (\<exists>b\<in>set (db_bindings d). bd_agent b = agent \<and> bd_conn b = rc_id conn \<and>
        f = seq (ad_set_status x conn (bd_runtime_agent b) status)
              (\<lambda>observed. return [(''status'', GStr (agent_status_text (as_status observed))),
                 (''runtime_agent_id'', GStr (as_id observed))]))"
| "calls_target p d (DeleteAgent agent confirmation) x conn f \<longleftrightarrow>
     (\<exists>b\<in>set (db_bindings d). bd_agent b = agent \<and> bd_conn b = rc_id conn \<and>
        bd_runtime_agent b = trim_space confirmation \<and>
        f = perform_delete p x conn agent (bd_runtime_agent b))"
| "calls_target p d (CancelExecution execution) x conn f \<longleftrightarrow>
     (\<exists>e\<in>set (db_executions d). xr_id e = execution \<and> xr_conn e = rc_id conn \<and>
        f = perform_cancel x conn (xr_snapshot e))"

lemma planned_runtime:
  "planned p ok op rq x conn pl f act \<Longrightarrow> \<exists>c v v'. ok v \<and> kp_get_runtime p c v = (Inr conn, v')"
  by (cases op) (auto simp: reads_agent_def reads_execution_def)

lemma planned_performs: "planned p ok op rq x conn pl f act \<Longrightarrow> performs p op x conn f"
  by (cases op) auto

lemmas plan_defs = access_plan_def status_plan_def delete_plan_def cancel_plan_def

lemma planned_fields:
  assumes "planned p ok op rq x conn pl f act"
  shows "ca_conn act = rc_id conn" "ca_key act = trim_space (rq_key rq)" "ca_status act = ActionQueued"
    "ca_actor act = trim_space (rq_actor rq)" "ca_reason act = trim_space (rq_reason rq)"
    "ca_before act = pl_before pl" "ca_after act = pl_after pl" "pl_after pl = requested_state op"
    "pl_target_type pl = target_type op"
    "ca_agent a = ca_agent act \<Longrightarrow> pl_target pl a = operation_target op"
  using assms by (cases op; auto simp: new_action_def plan_defs)+

lemma planned_found:
  assumes "planned p ok op rq x conn pl f act"
  shows "state_found p ok op (pl_before pl)"
proof -
  have "pl_before (access_plan conn d access rq) = access_map (ad_access d)" for d access
    by (simp add: access_plan_def)
  moreover have "pl_before (status_plan conn d status rq) =
      [(''status'', GStr (agent_status_text (pa_status (ad_agent d))))]" for d status
    by (simp add: status_plan_def)
  moreover have "pl_before (delete_plan conn agent d rq) =
      [(''runtime_agent_id'', GStr (pa_runtime_agent (ad_agent d))), (''name'', GStr (pa_name (ad_agent d))),
       (''status'', GStr (agent_status_text (pa_status (ad_agent d))))]" for agent d
    by (simp add: delete_plan_def)
  moreover have "pl_before (cancel_plan conn execution ex rq) =
      [(''runtime_execution_id'', GStr (ex_id ex)), (''thread_id'', GStr (ex_parent ex)),
       (''status'', GStr (ex_status ex))]" for execution ex
    by (simp add: cancel_plan_def)
  ultimately show ?thesis
    using assms unfolding reads_agent_def reads_execution_def
    by (cases op; simp only: planned.simps state_found.simps reads_agent_def reads_execution_def) metis+
qed

locale stable_reads =
  fixes p :: "'w control_ports" and ok :: "'w \<Rightarrow> bool"
  assumes reads: "stable ok (kp_find_action p key)" "stable ok (kp_get_agent p agent)"
      "stable ok (kp_get_runtime p conn_id)" "stable ok (kp_get_execution p execution)"
      "stable ok (kp_list_agents p conn_id)"
    and checks: "map_of (kp_adapters p) kind = Some ad \<Longrightarrow> stable ok (ad_check ad conn)"
begin

lemma or_return_eqI:
  assumes "ok w" and "stable ok m"
    and "\<And>x w'. m w = (Inr x, w') \<Longrightarrow> ok w' \<Longrightarrow> f x w' = g x w'"
  shows "or_return m f w = or_return m g w"
  using assms stableD by (fastforce simp: or_return_def split: prod.splits sum.splits)

lemma replay_or_eqI:
  assumes "ok w" and "\<And>w'. ok w' \<Longrightarrow> k w' = k' w'"
  shows "replay_or p rq k w = replay_or p rq k' w"
  using assms stableD [OF reads(1)] by (fastforce simp: replay_or_def split: prod.splits sum.splits)

lemmas eqIs = replay_or_eqI or_return_eqI [OF _ reads(2)] or_return_eqI [OF _ reads(3)]
  or_return_eqI [OF _ reads(4)]

text \<open>A runtime that is not control-enabled, and a deletion whose confirmation is not the runtime's
  identifier of the agent: nothing is called.\<close>

lemma read_only_independent:
  assumes "ok w"
    and "\<And>d v conn v'. ok v \<Longrightarrow> kp_get_runtime p d v = (Inr conn, v') \<Longrightarrow>
      rc_id conn = d \<and> (d = c \<longrightarrow> rc_mode conn \<noteq> ModeControlEnabled)"
    and "\<And>agent v d v'. ok v \<Longrightarrow> kp_get_agent p agent v = (Inr d, v') \<Longrightarrow> agents agent \<Longrightarrow>
      pa_conn (ad_agent d) = c"
  shows "run_operation (override_ports_at c agents g m p) op rq w = run_operation p op rq w"
proof -
  have runtime: "or_return (kp_get_runtime p d) f v = or_return (kp_get_runtime p d) h v"
    if "ok v" and "\<And>conn v'. d = c \<Longrightarrow> rc_mode conn \<noteq> ModeControlEnabled \<Longrightarrow> f conn v' = h conn v'"
      and "\<And>conn v'. d \<noteq> c \<Longrightarrow> rc_id conn \<noteq> c \<Longrightarrow> f conn v' = h conn v'" for d f h v
    using that or_return_eqI [OF \<open>ok v\<close> reads(3)] assms(2) by metis
  have agent: "or_return (kp_get_agent p agent) f v = or_return (kp_get_agent p agent) h v"
    if "ok v" and "\<And>d v'. ok v' \<Longrightarrow> (pa_conn (ad_agent d) \<noteq> c \<Longrightarrow> \<not> agents agent) \<Longrightarrow> f d v' = h d v'"
    for agent f h v
    using that or_return_eqI [OF \<open>ok v\<close> reads(2)] assms(3) by metis
  show ?thesis
    unfolding override_ports_at_def using assms(1)
    by (cases op)
       (auto simp: reconcile_access_def set_agent_status_def delete_agent_def cancel_execution_def Let_def
         with_capability_read_only performs_elsewhere case_map_option comp_def
         intro!: eqIs(1,4) runtime agent split: prod.splits cong: deep_congs)
qed

lemma unconfirmed_independent:
  assumes "ok w"
    and "\<And>w detail w'. ok w \<Longrightarrow> kp_get_agent p agent w = (Inr detail, w') \<Longrightarrow>
      pa_runtime_agent (ad_agent detail) \<noteq> trim_space confirmation"
  shows "delete_agent (override_ports g m p) agent confirmation rq w = delete_agent p agent confirmation rq w"
proof -
  have loaded: "or_return (kp_get_agent p agent) f w = or_return (kp_get_agent p agent) h w"
    if "ok w" and "\<And>d w'. ok w' \<Longrightarrow> pa_runtime_agent (ad_agent d) \<noteq> trim_space confirmation \<Longrightarrow> f d w' = h d w'"
    for f h and w
    using that or_return_eqI [OF \<open>ok w\<close> reads(2)] assms(2) by metis
  show ?thesis
    unfolding override_ports_def
    using assms(1) by (auto simp: delete_agent_def Let_def intro!: eqIs(1,3) loaded)
qed

text \<open>An operation that is not a replay and gives no error requested the action it planned, on a
  control-enabled runtime with a registered adapter.\<close>

definition requested ::
    "control_operation \<Rightarrow> action_request \<Rightarrow> control_action \<Rightarrow> 'w \<Rightarrow> bool" where
  "requested op rq a w' \<longleftrightarrow> (\<exists>x conn pl f act w1. ok w1 \<and> rc_mode conn = ModeControlEnabled \<and>
     map_of (kp_adapters p) (rc_kind conn) = Some x \<and> planned p ok op rq x conn pl f act \<and>
     request_action p pl f (rq_dry_run rq) act w1 = ((a, None), w'))"

lemma requestedI:
  assumes "request_action p pl f (rq_dry_run rq) act w1 = ((a, None), w')"
    and "ok w1" and "rc_mode conn = ModeControlEnabled" and "map_of (kp_adapters p) (rc_kind conn) = Some x"
    and "planned p ok op rq x conn pl f act"
  shows "requested op rq a w'"
  unfolding requested_def using assms by blast

lemma loadedE:
  assumes "or_return m f w = ((a, None), w')" and "ok w" and "stable ok m"
  obtains x w1 where "m w = (Inr x, w1)" and "ok w1" and "f x w1 = ((a, None), w')"
  using assms by (auto elim!: or_return_NoneE dest: stableD)

lemma replayedE:
  assumes "replay_or p rq k w = ((a, None), w')" and "kp_find_action p (rq_key rq) w = (Inl e, w0)" and "ok w"
  obtains w1 where "ok w1" and "k w1 = ((a, None), w')"
  using replay_or_NoneE [OF assms(1,2)] stableD [OF reads(1) assms(3,2)] by blast

text \<open>The two loading steps, and the three of a cancellation.\<close>

lemma agent_loadedE:
  assumes "or_return (kp_get_agent p agent) (\<lambda>d. or_return (kp_get_runtime p (pa_conn (ad_agent d))) (f d)) w =
      ((a, None), w')" and "ok w"
  obtains d conn w1 where "reads_agent p ok agent d conn" and "ok w1" and "f d conn w1 = ((a, None), w')"
proof -
  obtain d w1 where d: "kp_get_agent p agent w = (Inr d, w1)" "ok w1"
      "or_return (kp_get_runtime p (pa_conn (ad_agent d))) (f d) w1 = ((a, None), w')"
    using loadedE [OF assms reads(2)] by blast
  obtain conn w2 where "kp_get_runtime p (pa_conn (ad_agent d)) w1 = (Inr conn, w2)" "ok w2"
      "f d conn w2 = ((a, None), w')"
    using loadedE [OF d(3,2) reads(3)] by blast
  then show thesis
    using that d assms(2) unfolding reads_agent_def by blast
qed

lemma find_agent_stable: "find_execution_agent p px w = (agent, w1) \<Longrightarrow> ok w \<Longrightarrow> ok w1"
  by (auto simp: find_execution_agent_def split: prod.splits sum.splits option.splits dest: stableD [OF reads(5)])

lemma execution_loadedE:
  assumes "or_return (kp_get_execution p execution) (\<lambda>px. or_return (kp_get_runtime p (px_conn px))
      (\<lambda>conn w. case find_execution_agent p px w of (agent, w) \<Rightarrow> f px conn agent w)) w = ((a, None), w')" and "ok w"
  obtains px conn agent w1 where "reads_execution p ok execution px conn agent" and "ok w1"
    and "f px conn agent w1 = ((a, None), w')"
proof -
  obtain px w1 where px: "kp_get_execution p execution w = (Inr px, w1)" "ok w1"
      "or_return (kp_get_runtime p (px_conn px))
        (\<lambda>conn w. case find_execution_agent p px w of (agent, w) \<Rightarrow> f px conn agent w) w1 = ((a, None), w')"
    using loadedE [OF assms reads(4)] by blast
  obtain conn w2 where c: "kp_get_runtime p (px_conn px) w1 = (Inr conn, w2)" "ok w2"
      "(case find_execution_agent p px w2 of (agent, w) \<Rightarrow> f px conn agent w) = ((a, None), w')"
    using loadedE [OF px(3,2) reads(3)] by blast
  obtain agent w3 where "find_execution_agent p px w2 = (agent, w3)"
    by (cases "find_execution_agent p px w2")
  then show thesis
    using that px c assms(2) find_agent_stable unfolding reads_execution_def by (metis case_prod_conv)
qed

lemma checkedD: "ad_check x conn w = (r, w1) \<Longrightarrow> map_of (kp_adapters p) k = Some x \<Longrightarrow> ok w \<Longrightarrow> ok w1"
  by (rule stableD [OF checks])

lemma access_requested:
  assumes run: "reconcile_access p agent access rq w = ((a, None), w')"
    and new: "kp_find_action p (rq_key rq) w = (Inl e, w0)" and "ok w"
  shows "requested (ReplaceAccess agent access) rq a w'"
proof -
  from run [unfolded reconcile_access_def Let_def] show ?thesis
    apply (simp split: if_splits)
    apply (erule replayedE [OF _ new \<open>ok w\<close>], erule (1) agent_loadedE)
    apply (simp split: if_splits option.splits)
    by (erule requestedI, (assumption | (simp; fail) | (simp, blast))+)
qed

lemma status_requested:
  assumes run: "set_agent_status p agent status rq w = ((a, None), w')"
    and new: "kp_find_action p (rq_key rq) w = (Inl e, w0)" and "ok w"
  shows "requested (SetStatus agent status) rq a w'"
proof -
  from run [unfolded set_agent_status_def Let_def] show ?thesis
    apply (simp del: de_Morgan_conj split: if_split_asm)
    apply (erule replayedE [OF _ new \<open>ok w\<close>], erule (1) agent_loadedE)
    apply (simp split: if_splits option.splits prod.splits sum.splits)
    apply (frule checkedD, assumption, assumption)
    by (erule requestedI, (assumption | (simp; fail) | (simp, blast))+)
qed

lemma delete_requested:
  assumes run: "delete_agent p agent confirmation rq w = ((a, None), w')"
    and new: "kp_find_action p (rq_key rq) w = (Inl e, w0)" and "ok w"
  shows "requested (DeleteAgent agent confirmation) rq a w'"
proof -
  from run [unfolded delete_agent_def Let_def] show ?thesis
    apply (simp split: if_split_asm)
    apply (erule replayedE [OF _ new \<open>ok w\<close>], erule (1) agent_loadedE)
    apply (simp split: if_split_asm)
    apply (erule with_capability_NoneE)
    apply (frule checkedD, assumption, assumption)
    by (erule requestedI, (assumption | (simp; fail) | (simp, blast))+)
qed

lemma cancel_requested:
  assumes run: "cancel_execution p execution rq w = ((a, None), w')"
    and new: "kp_find_action p (rq_key rq) w = (Inl e, w0)" and "ok w"
  shows "requested (CancelExecution execution) rq a w'"
proof -
  from run [unfolded cancel_execution_def Let_def] show ?thesis
    apply (simp split: if_split_asm)
    apply (erule replayedE [OF _ new \<open>ok w\<close>], erule (1) execution_loadedE)
    apply (simp del: de_Morgan_conj split: if_split_asm)
    apply (erule with_capability_NoneE)
    apply (frule checkedD, assumption, assumption)
    by (erule requestedI, (assumption | (simp; fail) | (simp, blast))+)
qed

theorem operation_requested:
  assumes "run_operation p op rq w = ((a, None), w')"
    and "kp_find_action p (rq_key rq) w = (Inl e, w0)" and "ok w"
  shows "requested op rq a w'"
  using assms access_requested status_requested delete_requested cancel_requested by (cases op) auto

text \<open>How every operation ends: after reads alone, after a rejection, or after a request.\<close>

definition ends :: "control_operation \<Rightarrow> 'w \<Rightarrow> bool" where
  "ends op w' \<longleftrightarrow> (\<exists>w1. ok w1 \<and> (w' = w1 \<or>
     (\<exists>pl act msg reason. w' = snd (reject_action p pl act msg reason w1)) \<or>
     (\<exists>pl f dry act x k conn. map_of (kp_adapters p) k = Some x \<and> performs p op x conn f \<and>
        ca_status act = ActionQueued \<and> w' = snd (request_action p pl f dry act w1))))"

lemma ends_ok: "ok w \<Longrightarrow> ends op w"
  by (auto simp: ends_def)

lemma ends_rejects:
  assumes "ok w"
  shows "ends op (snd (reject_access p pl act st msg rs w))"
    "ends op (snd (reject_status_action p pl act msg rs w))"
    "ends op (snd (reject_control_action p pl act msg rs w))"
proof -
  have "ends op (snd (reject_action p pl act m rs w))" for m
    unfolding ends_def using assms by blast
  then show "ends op (snd (reject_access p pl act st msg rs w))"
    "ends op (snd (reject_status_action p pl act msg rs w))"
    "ends op (snd (reject_control_action p pl act msg rs w))"
    by (simp_all add: reject_access_def reject_status_action_def reject_control_action_def
        split: prod.split sum.split) (metis snd_conv)+
qed

lemma new_action_queued: "ca_status (new_action rq c ag ty b af) = ActionQueued"
  by (simp add: new_action_def)

lemma ends_request:
  assumes "ok w" and "map_of (kp_adapters p) k = Some x" and "performs p op x conn f"
  shows "ends op (snd (request_action p pl f dry (new_action rq c ag ty b af) w))"
  unfolding ends_def using assms by (metis new_action_queued)

lemma ends_requests:
  assumes "ok w" and "map_of (kp_adapters p) k = Some x"
  shows "ends (ReplaceAccess a acc)
      (snd (request_action p pl (perform_access x conn d acc) dry (new_action rq c ag ty b af) w))"
    "ends (SetStatus a st) (snd (request_action p pl (perform_status x conn d st) dry (new_action rq c ag ty b af) w))"
    "trim_space cf = ra \<Longrightarrow> ends (DeleteAgent a cf)
      (snd (request_action p pl (perform_delete p x conn a ra) dry (new_action rq c ag ty b af) w))"
    "ends (CancelExecution e) (snd (request_action p pl (perform_cancel x conn ex) dry (new_action rq c ag ty b af) w))"
  by (rule ends_request [OF assms]; simp; blast)+

lemma ends_or_return:
  assumes "ok w" and "stable ok m" and "\<And>x w1. ok w1 \<Longrightarrow> ends op (snd (f x w1))"
  shows "ends op (snd (or_return m f w))"
  using assms stableD [OF assms(2,1)] ends_ok by (auto simp: or_return_def split: prod.split sum.split)

lemma ends_replay_or:
  assumes "ok w" and "\<And>w1. ok w1 \<Longrightarrow> ends op (snd (k w1))"
  shows "ends op (snd (replay_or p rq k w))"
  using assms stableD [OF reads(1) assms(1)] ends_ok by (auto simp: replay_or_def split: prod.split sum.split)

lemma ends_with_capability:
  assumes "ok w" and "\<And>x w1. ok w1 \<Longrightarrow> map_of (kp_adapters p) (rc_kind conn) = Some x \<Longrightarrow> ends op (snd (k x w1))"
  shows "ends op (snd (with_capability p pl act conn supported msg k w))"
  using assms checkedD ends_rejects
  by (auto simp: with_capability_def split: prod.split sum.split option.split)

lemmas ends_intros = ends_replay_or ends_or_return reads ends_with_capability ends_rejects ends_requests

lemma access_ends: "ok w \<Longrightarrow> ends (ReplaceAccess agent access) (snd (reconcile_access p agent access rq w))"
  by (auto simp: reconcile_access_def Let_def ends_ok split: option.split intro!: ends_intros)

lemma status_ends: "ok w \<Longrightarrow> ends (SetStatus agent status) (snd (set_agent_status p agent status rq w))"
  by (auto simp: set_agent_status_def Let_def ends_ok split: option.split prod.split sum.split
      intro!: ends_intros intro: checkedD)

lemma delete_ends: "ok w \<Longrightarrow> ends (DeleteAgent agent confirmation) (snd (delete_agent p agent confirmation rq w))"
  by (auto simp: delete_agent_def Let_def ends_ok intro!: ends_intros)

lemma cancel_ends: "ok w \<Longrightarrow> ends (CancelExecution execution) (snd (cancel_execution p execution rq w))"
  by (auto simp: cancel_execution_def Let_def ends_ok split: prod.split
      intro!: ends_intros intro: find_agent_stable)

theorem operation_ends: "ok w \<Longrightarrow> ends op (snd (run_operation p op rq w))"
  by (cases op) (simp_all add: access_ends status_ends delete_ends cancel_ends)

end

section \<open>The audit trail\<close>

text \<open>What the trail relies on: the audit repository appends the event it is given (under an
  identifier of its own), and no other interface shortens the trail.\<close>

definition grows :: "('w \<Rightarrow> 'e list) \<Rightarrow> ('w \<Rightarrow> 'a \<times> 'w) \<Rightarrow> bool" where
  "grows trail m \<longleftrightarrow> (\<forall>w. prefix (trail w) (trail (snd (m w))))"

lemma growsD: "grows trail m \<Longrightarrow> m w = (r, w') \<Longrightarrow> prefix (trail w) (trail w')"
  by (metis grows_def snd_conv)

lemma grows_seq: "grows trail m \<Longrightarrow> (\<And>x. grows trail (f x)) \<Longrightarrow> grows trail (seq m f)"
  unfolding grows_def seq_def
  by (auto split: prod.splits sum.splits) (metis prefix_order.trans snd_conv)+

lemma grows_return: "grows trail (return x)"
  by (simp add: grows_def)

definition event_of :: "string \<Rightarrow> string \<Rightarrow> action_plan \<Rightarrow> control_action \<Rightarrow> audit_event \<Rightarrow> bool" where
  "event_of event result pl a e \<longleftrightarrow> au_event e = event \<and> au_result e = result \<and> au_action e = ca_id a \<and>
     au_conn e = ca_conn a \<and> au_agent e = ca_agent a \<and> au_actor e = ca_actor a \<and>
     au_reason e = ca_reason a \<and> au_target_type e = pl_target_type pl \<and>
     au_target e = pl_target pl a \<and> au_before e = pl_before pl \<and> au_after e = pl_after pl"

definition logged_in ::
    "('w \<Rightarrow> audit_event list) \<Rightarrow> 'w \<Rightarrow> 'w \<Rightarrow> string \<Rightarrow> string \<Rightarrow> action_plan \<Rightarrow> control_action \<Rightarrow> bool" where
  "logged_in trail w w' event result pl a \<longleftrightarrow>
     (\<exists>more. trail w' = trail w @ more \<and> (\<exists>e\<in>set more. event_of event result pl a e))"

definition outcome_event :: "action_request \<Rightarrow> string" where
  "outcome_event rq = (if rq_dry_run rq then ''control_action.dry_run_succeeded'' else ''control_action.succeeded'')"

locale audited_actions =
  fixes p :: "'w control_ports" and trail :: "'w \<Rightarrow> audit_event list"
  assumes audit: "\<exists>create. kp_audit p = Some create \<and>
      (\<forall>event w. \<exists>i. trail (snd (create event w)) = trail w @ [event\<lparr>au_id := i\<rparr>])"
    and writes: "grows trail (kp_mark_deleted p agent)" "grows trail (kp_create_action p act)"
      "grows trail (kp_update_action p act request response message)"
    and syncer: "kp_syncer p = Some sy \<Longrightarrow> grows trail (sy input)"
    and adapters: "map_of (kp_adapters p) kind = Some ad \<Longrightarrow>
      grows trail (ad_check ad conn) \<and> grows trail (ad_replace_access ad conn agent acc) \<and>
      grows trail (ad_set_status ad conn agent st) \<and> grows trail (ad_delete_agent ad conn agent) \<and>
      grows trail (ad_cancel ad conn ex)"
begin

text \<open>The trail between two worlds holds an event of an action and its plan.\<close>

abbreviation logged where "logged \<equiv> logged_in trail"

lemma logged_mono:
  "prefix (trail w0) (trail w) \<Longrightarrow> logged w w' ev r pl a \<Longrightarrow> prefix (trail w') (trail w1) \<Longrightarrow> logged w0 w1 ev r pl a"
  by (fastforce simp: logged_in_def prefix_def)

lemma audit_plan_logs: "logged w (audit_plan p pl a ev r md w) ev r pl a"
proof -
  obtain create where c: "kp_audit p = Some create"
      "\<And>e w. \<exists>i. trail (snd (create e w)) = trail w @ [e\<lparr>au_id := i\<rparr>]"
    using audit by blast
  show ?thesis
    using c(2) [of _ w]
    by (fastforce simp: logged_in_def event_of_def audit_plan_def audit_control_action_def c(1) action_audit_event_def)
qed

lemma audit_plan_grows: "prefix (trail w) (trail (audit_plan p pl a ev r md w))"
  using audit_plan_logs [of w pl a ev r md] by (auto simp: logged_in_def)

lemmas plan_logged = logged_mono [OF _ audit_plan_logs prefix_order.refl]

lemmas grown = growsD [OF writes(1)] growsD [OF writes(2)] growsD [OF writes(3)]

lemma reject_logs: "reject_action p pl a msg reason w = (Inr u, w') \<Longrightarrow> logged w w' ''control_action.rejected'' ''rejected'' pl u"
  by (auto simp: reject_action_def split: prod.splits option.splits
      intro!: plan_logged dest!: grown intro: prefix_order.trans)

lemma verification_grows:
  "run_verification_sync p c a r res w = (res', w') \<Longrightarrow> prefix (trail w) (trail w')"
  by (auto simp: run_verification_sync_def split: option.splits prod.splits dest!: growsD [OF syncer])

lemma complete_logs:
  "complete_action p pl a res w = ((a', None), w') \<Longrightarrow> logged w w' ''control_action.succeeded'' ''succeeded'' pl a'"
  by (auto simp: complete_action_def Let_def split: prod.splits option.splits
      intro!: plan_logged dest!: grown verification_grows intro: prefix_order.trans)

lemma fail_logs:
  "fail_control_action p pl a e w = ((a', r), w') \<Longrightarrow> logged w w' ''control_action.failed'' ''failed'' pl a'"
  by (auto simp: fail_control_action_def split: prod.splits
      intro!: plan_logged dest!: grown)

lemma dry_run_logs:
  "dry_run_action p pl a w = ((a', r), w') \<Longrightarrow> logged w w' ''control_action.dry_run_succeeded'' ''succeeded'' pl a'"
  by (auto simp: dry_run_action_def split: prod.splits intro!: plan_logged dest!: grown)

lemma logged_grows: "logged w w' ev r pl a \<Longrightarrow> prefix (trail w) (trail w')"
  by (auto simp: logged_in_def)

lemma execute_logs:
  assumes "grows trail perform" and "execute_action p pl perform a w = ((a', None), w')"
  shows "logged w w' ''control_action.succeeded'' ''succeeded'' pl a'"
proof -
  obtain a1 w1 res w2 where 1: "kp_update_action p (a\<lparr>ca_status := ActionRunning\<rparr>) (pl_after pl) [] '''' w = ((a1, None), w1)"
      and 2: "perform w1 = (Inr res, w2)" and 3: "complete_action p pl a1 res w2 = ((a', None), w')"
    using assms(2) by (auto simp: execute_action_def fail_control_action_def split: prod.splits option.splits sum.splits)
  show ?thesis
    using complete_logs [OF 3] growsD [OF writes(3) 1] growsD [OF assms(1) 2]
    by (meson logged_mono prefix_order.refl prefix_order.trans)
qed

lemma perform_grows:
  assumes "map_of (kp_adapters p) k = Some x"
  shows "grows trail (perform_access x conn d acc)" "grows trail (perform_status x conn d st)"
    "grows trail (perform_cancel x conn ex)"
  using adapters [OF assms]
  by (auto simp: perform_access_def perform_status_def perform_cancel_def intro!: grows_seq grows_return)

lemma perform_delete_grows:
  assumes "map_of (kp_adapters p) k = Some x"
  shows "grows trail (perform_delete p x conn a ra)"
proof -
  have g: "prefix (trail w) (trail w')" if "ad_delete_agent x conn ra w = (r, w')" for w r w'
    
  proof -
    have "grows trail (ad_delete_agent x conn ra)" using adapters [OF assms] by blast
    then show ?thesis using that by (rule growsD)
  qed
  show ?thesis
    unfolding grows_def
    by (auto simp: perform_delete_def Let_def split: prod.splits sum.splits
        dest!: g growsD [OF writes(1)] intro: prefix_order.trans)
qed

lemma performs_grows: "performs p op x conn f \<Longrightarrow> map_of (kp_adapters p) k = Some x \<Longrightarrow> grows trail f"
  by (cases op) (auto simp: perform_grows perform_delete_grows)

text \<open>A request without an error is requested and then succeeds in the trail.\<close>

lemma request_logs:
  assumes "grows trail perform" and "request_action p pl perform (rq_dry_run rq) a w = ((a', None), w')"
  shows "logged w w' (outcome_event rq) ''succeeded'' pl a'"
proof -
  obtain a1 w1 where 1: "kp_create_action p a w = ((a1, None), w1)"
    using assms(2) by (auto simp: request_action_def split: prod.splits option.splits)
  let ?w = "audit_plan p pl a1 ''control_action.requested'' ''succeeded'' [] w1"
  have "logged ?w w' (outcome_event rq) ''succeeded'' pl a'"
    using assms(2) execute_logs [OF assms(1)] dry_run_logs
    by (auto simp: request_action_def 1 Let_def outcome_event_def split: if_splits)
  moreover have "prefix (trail w) (trail ?w)"
    using growsD [OF writes(2) 1] audit_plan_grows by (blast intro: prefix_order.trans)
  ultimately show ?thesis
    by (blast intro: logged_mono)
qed

end

end
