(* ===== verification/Control_Properties.thy ===== *)
theory Control_Properties
  imports Control_Contract Sync_Persist Samples
begin

text \<open>The properties of the control action service on the repositories of the store: its contract
  discharged for them, and the claims about requests, replays, rejections, dry runs and the audit
  trail.\<close>

section \<open>The tables of the service\<close>

text \<open>Synchronisations and reads leave the actions and the audit trail alone.\<close>

definition log_view :: "db \<Rightarrow> audit_row list \<times> action_row list" where
  "log_view d = (db_audits d, db_actions d)"

abbreviation log_of :: "(db, 'x) world \<Rightarrow> audit_row list \<times> action_row list" where
  "log_of w \<equiv> log_view (w_db w)"

lemma log_view_updates [simp]:
  "log_view (d\<lparr>db_agents := ags\<rparr>) = log_view d" "log_view (d\<lparr>db_bindings := bs\<rparr>) = log_view d"
  "log_view (d\<lparr>db_skills := a\<rparr>) = log_view d" "log_view (d\<lparr>db_skill_bindings := b\<rparr>) = log_view d"
  "log_view (d\<lparr>db_access := c\<rparr>) = log_view d" "log_view (d\<lparr>db_executions := e\<rparr>) = log_view d"
  "log_view (d\<lparr>db_subagents := f\<rparr>) = log_view d" "log_view (d\<lparr>db_diagnostics := g\<rparr>) = log_view d"
  "log_view (d\<lparr>db_inventory := h\<rparr>) = log_view d" "log_view (d\<lparr>db_catalog := i\<rparr>) = log_view d"
  "log_view (d\<lparr>db_delegations := j\<rparr>) = log_view d" "log_view (d\<lparr>db_runs := k\<rparr>) = log_view d"
  "log_view (update_conn cid u d) = log_view d"
  by (simp_all add: log_view_def)

lemma keeps_checked_at:
  "(\<And>w d. obs (f w d) = obs d) \<Longrightarrow> keeps (\<lambda>w. obs (w_db w)) (\<lambda>w. exec_checked env (v w) (f w) w)"
  by (simp add: keeps_def exec_checked_def exec_def split: option.splits)

lemma keeps_returning_at:
  "(\<And>w d. obs (f w d) = obs d) \<Longrightarrow> keeps (\<lambda>w. obs (w_db w)) (\<lambda>w. exec_returning env (f w) q w)"
  by (simp add: keeps_def exec_returning_def exec_def split: option.splits)

lemma outside_log: "keeps log_of (outside m)"
  by (simp add: keeps_def outside_def split: prod.splits)

lemma reads_db:
  "keeps (\<lambda>w. obs (w_db w)) (connection_get env c)" "keeps (\<lambda>w. obs (w_db w)) (get_persisted_agent env a)"
  "keeps (\<lambda>w. obs (w_db w)) (list_persisted_agents env c)"
  "keeps (\<lambda>w. obs (w_db w)) (get_runtime_execution env x)" "keeps (\<lambda>w. obs (w_db w)) (find_by_key env k)"
  unfolding connection_get_def list_endpoints_def get_persisted_agent_def list_persisted_agents_def
    get_runtime_execution_def find_by_key_def
  by (intro keeps_intros keeps_query_now_db; simp)+

lemmas reads_log = reads_db [where obs = log_view]

lemma mark_agent_deleted_log: "keeps log_of (mark_agent_deleted env a)"
  unfolding mark_agent_deleted_def
  by (intro keeps_intros keeps_returning_at; simp add: mark_deleted_def)

lemma persist_items_log: "keeps log_of (persist_items env run sn)"
  unfolding persist_items_def persist_agent_def upsert_snapshot_agent_def upsert_snapshot_skill_def
    upsert_actual_access_def upsert_runtime_execution_def upsert_runtime_diagnostic_def
    upsert_runtime_inventory_def upsert_runtime_capability_def upsert_agent_delegation_def
    upsert_subagent_execution_def
  by (intro keeps_intros keeps_checked_at keeps_exec; simp add: store_delegation_def insert_agent_def Let_def
      split: option.split)

lemma persist_snapshot_log: "keeps log_of (persist_snapshot env run sn t)"
  unfolding persist_snapshot_def advance_missing_def finish_run_def
  by (intro transaction_keeps keeps_intros persist_items_log keeps_exec keeps_exec_now;
      simp add: advance_missing_agents_def mark_missing_stale_def advance_skill_bindings_def
        advance_skills_def advance_delegations_def)

lemma create_run_log: "keeps log_of (create_run env run)"
  unfolding create_run_def by (intro keeps_intros keeps_exec; simp split: option.split)

lemma store_failed_run_log: "keeps log_of (store_failed_run env run)"
  unfolding store_failed_run_def by (intro transaction_keeps keeps_intros keeps_exec; simp)

lemma fail_run_log: "log_of (snd (fail_run env run code msg w)) = log_of w"
  by (simp add: fail_run_def Let_def case_prod_beta store_failed_run_log [unfolded keeps_def, rule_format])

text \<open>Calls that only append to the trail, and the trail they leave.\<close>

definition trail_of :: "(db, 'x) world \<Rightarrow> audit_event list" where
  "trail_of w = map ur_event (db_audits (w_db w))"

lemma grows_keeps: "keeps log_of m \<Longrightarrow> grows trail_of m"
  by (simp add: keeps_def grows_def trail_of_def log_view_def)

lemma audit_create_grows: "grows trail_of (audit_create env e)"
  unfolding audit_create_def Let_def
  by (intro grows_seq; simp add: grows_def trail_of_def wrapping_def exec_def new_id_def now_def
      split: option.splits sum.splits prod.splits)

lemma action_create_grows: "grows trail_of (action_create env a)"
  by (auto simp: grows_def action_create_def Let_def new_id_def wrapping_def exec_checked_def exec_def
      insert_action_def trail_of_def split: option.splits sum.splits prod.splits)

lemma action_update_grows: "grows trail_of (action_update env a q s e)"
  by (auto simp: grows_def action_update_def Let_def exec_returning_def exec_def trail_of_def
      split: option.splits sum.splits prod.splits)

text \<open>A synchronisation only appends to the trail.\<close>

lemma audit_sync_grows:
  "prefix (trail_of w) (trail_of (audit_sync (store_sync_ports env as t) run i ev res w))"
  by (simp add: audit_sync_def audit_create_grows [unfolded grows_def, rule_format])

lemma fail_sync_grows:
  "fail_sync (store_sync_ports env as t) i run code msg c e w = (r, w') \<Longrightarrow> prefix (trail_of w) (trail_of w')"
  by (auto simp: fail_sync_def Let_def split: prod.splits)
     (metis audit_sync_grows fail_run_log fst_conv log_view_def snd_conv trail_of_def)

lemmas sync_steps_grow = growsD [OF grows_keeps [OF create_run_log]]
  growsD [OF grows_keeps [OF outside_log]] growsD [OF grows_keeps [OF persist_snapshot_log]]
  growsD [OF grows_keeps [OF reads_log(1)]] fail_sync_grows

lemma sync_locked_grows:
  assumes "sync_locked (store_sync_ports env as t) i conn (lift_adapter ad) w = (r, w')"
  shows "prefix (trail_of w) (trail_of w')"
  using assms
  by (auto simp: sync_locked_def split: prod.splits sum.splits option.splits dest!: sync_steps_grow
      intro: prefix_order.trans [OF _ audit_sync_grows] prefix_order.trans)

lemma sync_grows: "grows trail_of (sync (store_sync_ports env as t) i)"
proof -
  have exclusive: "prefix (trail_of w) (trail_of w')"
    if "sync_exclusive (store_sync_ports env as t) i conn (lift_adapter ad) w = (r, w')" for i conn ad w r w'
    using that
    by (auto simp: sync_exclusive_def trail_of_def split: prod.splits sum.splits if_splits
        dest!: try_lock_result sync_locked_grows)
  show ?thesis
    by (auto simp: grows_def sync_def Let_def split: prod.splits sum.splits option.splits
        dest!: sync_steps_grow(4) intro: prefix_order.trans [OF _ exclusive [OF prod.collapse [symmetric]]])
qed

text \<open>A database that answers, and a random source that delivers.\<close>

definition healthy :: "env \<Rightarrow> (nat \<Rightarrow> string) \<Rightarrow> env" where
  "healthy env bytes =
     env\<lparr>e_fault := (\<lambda>_. None), e_random := (\<lambda>n. Inr (bytes n)), e_text := (\<lambda>_. True)\<rparr>"

lemma healthy_simps [simp]:
  "e_fault (healthy env bytes) = (\<lambda>_. None)" "e_random (healthy env bytes) n = Inr (bytes n)"
  "e_text (healthy env bytes) s"
  "e_now (healthy env bytes) = e_now env" "e_context (healthy env bytes) = e_context env"
  "tenant (healthy env bytes) = tenant env" "organization_for_write (healthy env bytes) = organization_for_write env"
  by (simp_all add: healthy_def tenant_def organization_for_write_def)

lemma own_id: "\<exists>i. e = e\<lparr>au_id := i\<rparr>"
  by (rule exI [of _ "au_id e"]) simp

interpretation trail: audited_actions "store_control_ports (healthy env bytes) as t" trail_of
proof (unfold_locales, goal_cases)
  case 1
  show ?case
    by (auto simp: audit_create_def seq_def new_id_def now_def wrapping_def exec_def trail_of_def Let_def
        intro: own_id)
next
  case (5 sy input)
  then show ?case by (auto intro: sync_grows)
next
  case (6 kind ad)
  then show ?case by (auto intro!: grows_keeps outside_log)
qed (simp_all add: grows_keeps reads_log mark_agent_deleted_log action_create_grows action_update_grows)

text \<open>The reads leave the database alone, so an operation decides on the database it met.\<close>

lemma stable_keeps: "keeps w_db m \<Longrightarrow> stable (\<lambda>w. w_db w = d) m"
  by (simp add: keeps_def stable_def)

interpretation same_db: stable_reads "store_control_ports env as t" "\<lambda>w. w_db w = d"
proof (unfold_locales, goal_cases)
  case (6 kind ad)
  then show ?case
    by (auto simp: stable_def outside_def split: prod.splits)
qed (simp_all add: stable_keeps reads_db [where obs = "\<lambda>d. d", unfolded])

lemma persisted_agents_row:
  assumes "a \<in> set (persisted_agents env c t d)"
  shows "\<exists>b\<in>set (db_bindings d). bd_agent b = pa_id a \<and> pa_runtime_agent a = bd_runtime_agent b \<and>
    pa_conn a = bd_conn b"
  using assms by (force simp: persisted_agents_def persisted_agent_of_def)

lemma get_persisted_agent_result:
  assumes "get_persisted_agent env agent w = (Inr detail, w')"
  shows "\<exists>b\<in>set (db_bindings (w_db w)). bd_agent b = agent \<and>
    pa_runtime_agent (ad_agent detail) = bd_runtime_agent b \<and> pa_conn (ad_agent detail) = bd_conn b"
proof -
  obtain t where "ad_agent detail \<in> set (persisted_agents env '''' t (w_db w))" "pa_id (ad_agent detail) = agent"
    using assms
    by (auto simp: get_persisted_agent_def list_persisted_agents_def seq_Inr_iff wrapping_Inr_iff query_now_def
        split: option.splits dest!: query_Inr find_SomeD)
  then show ?thesis
    by (auto dest: persisted_agents_row)
qed

section \<open>When a runtime is touched\<close>

text \<open>C14: A dry run never reaches a runtime: whatever the adapters' mutating calls and the tombstone
  of the agent would do, the answer and the whole state after a dry run are the same.\<close>

theorem dry_run_touches_nothing:
  fixes as :: "'x adapters"
  assumes "rq_dry_run rq"
  shows "run_operation (override_ports g m (store_control_ports env as t)) op rq w =
    run_operation (store_control_ports env as t) op rq w"
  using dry_runs_independent [OF assms] by metis

text \<open>An agent that the database binds to one connection only.\<close>

definition only_at :: "db \<Rightarrow> string \<Rightarrow> string \<Rightarrow> bool" where
  "only_at d c agent \<longleftrightarrow> (\<forall>b\<in>set (db_bindings d). bd_agent b = agent \<longrightarrow> bd_conn b = c)"

text \<open>C8: A runtime whose connection is not control-enabled is never touched, whatever the other
  connections allow: every operation answers as if the adapters' mutating calls on that connection,
  and the tombstones of the agents bound to it alone, were any others.\<close>

theorem read_only_runtimes_untouched:
  fixes as :: "'x adapters"
  assumes "\<forall>r\<in>set (db_conns (w_db w)). rc_id (cr_conn r) = c \<longrightarrow> rc_mode (cr_conn r) \<noteq> ModeControlEnabled"
  shows "run_operation (override_ports_at c (only_at (w_db w) c) g m (store_control_ports env as t)) op rq w =
    run_operation (store_control_ports env as t) op rq w"
proof (rule same_db.read_only_independent [where d = "w_db w"])
  fix d and v v' :: "(db, 'x) world" and conn
  assume "w_db v = w_db w" and "kp_get_runtime (store_control_ports env as t) d v = (Inr conn, v')"
  then obtain stored where "find_active env d (w_db w) = Some stored" "rc_mode conn = rc_mode stored"
      "rc_id conn = rc_id stored"
    using connection_get_result [of env d v conn v'] by auto
  then show "rc_id conn = d \<and> (d = c \<longrightarrow> rc_mode conn \<noteq> ModeControlEnabled)"
    using assms find_active_Some by fastforce
next
  fix agent and v v' :: "(db, 'x) world" and d
  assume "w_db v = w_db w" and "kp_get_agent (store_control_ports env as t) agent v = (Inr d, v')"
    and "only_at (w_db w) c agent"
  then show "pa_conn (ad_agent d) = c"
    using get_persisted_agent_result [of env agent v d v'] by (auto simp: only_at_def)
qed simp

text \<open>An agent is not deleted unless the confirmation, trimmed, is the identifier the runtime knows
  it by: otherwise the answer does not depend on what the adapters' mutating calls do.\<close>

theorem unconfirmed_deletion_untouched:
  fixes as :: "'x adapters"
  assumes "\<forall>b\<in>set (db_bindings (w_db w)). bd_agent b = agent \<longrightarrow> bd_runtime_agent b \<noteq> trim_space confirmation"
  shows "delete_agent (override_ports g m (store_control_ports env as t)) agent confirmation rq w =
    delete_agent (store_control_ports env as t) agent confirmation rq w"
proof (rule same_db.unconfirmed_independent [where d = "w_db w"])
  fix w1 w2 :: "(db, 'x) world" and detail
  assume "w_db w1 = w_db w" and "kp_get_agent (store_control_ports env as t) agent w1 = (Inr detail, w2)"
  then show "pa_runtime_agent (ad_agent detail) \<noteq> trim_space confirmation"
    using assms by (auto dest!: get_persisted_agent_result)
qed simp

text \<open>A request that lacks a target, an actor, a reason or an idempotency key, an access document
  with a selection without an identifier, and a status other than enabled or disabled are refused
  before anything is read or written.\<close>

theorem malformed_request_refused:
  fixes as :: "'x adapters"
  assumes "missing_request (operation_target op) rq \<or> \<not> operation_arguments_ok op"
  shows "\<exists>message. run_operation (store_control_ports env as t) op rq w = ((no_action, Some (Text message)), w)"
  using assms by (rule run_operation_refused)

text \<open>C28: A request whose idempotency key is stored gives back the stored action, without an error,
  and only reads: the database, the locks and the runtimes stay as they were.\<close>

theorem known_key_replays:
  fixes as :: "'x adapters"
  assumes "\<not> missing_request (operation_target op) rq" and "operation_arguments_ok op"
    and "e_fault env (w_step w) = None"
    and "List.find (has_key env (rq_key rq) (w_db w)) (db_actions (w_db w)) = Some r"
  shows "run_operation (store_control_ports env as t) op rq w = ((loaded_action r, None), tick w)"
  by (rule run_operation_replay [OF assms(1,2)])
     (simp add: find_by_key_def query_row_def query_def seq_def assms(3,4))

section \<open>The actions an operation leaves\<close>

abbreviation actions_of :: "(db, 'x) world \<Rightarrow> action_row list" where
  "actions_of w \<equiv> db_actions (w_db w)"

lemma log_actions: "keeps log_of m \<Longrightarrow> m w = (r, w') \<Longrightarrow> actions_of w' = actions_of w"
  by (drule (1) keepsD) (simp add: log_view_def)

lemma keeps_audit_create_actions: "keeps actions_of (audit_create env e)"
  unfolding audit_create_def by (intro keeps_intros keeps_exec; simp)

lemmas audit_create_actions = keeps_audit_create_actions [unfolded keeps_def, rule_format]

lemma audit_sync_actions [simp]: "actions_of (audit_sync (store_sync_ports env as t) run i ev res w) = actions_of w"
  by (simp add: audit_sync_def audit_create_actions)

lemma fail_sync_actions [simp]:
  "actions_of (snd (fail_sync (store_sync_ports env as t) i run code msg c e w)) = actions_of w"
  using fail_run_log [of env run code msg w] by (simp add: fail_sync_def Let_def case_prod_beta log_view_def)

lemmas sync_steps_actions = log_actions [OF create_run_log] log_actions [OF outside_log]
  log_actions [OF persist_snapshot_log] log_actions [OF reads_log(1)]

lemma sync_locked_actions [simp]:
  "actions_of (snd (sync_locked (store_sync_ports env as t) i conn (lift_adapter ad) w)) = actions_of w"
  by (auto simp: sync_locked_def split: prod.split sum.split option.split dest!: sync_steps_actions)

lemma sync_exclusive_actions [simp]:
  "actions_of (snd (sync_exclusive (store_sync_ports env as t) i conn (lift_adapter ad) w)) = actions_of w"
  by (auto simp: sync_exclusive_def split: prod.split sum.split dest!: try_lock_result)
     (metis sync_locked_actions snd_conv)+

lemma sync_actions: "actions_of (snd (sync (store_sync_ports env as t) i w)) = actions_of w"
  by (auto simp: sync_def Let_def split: prod.split sum.split option.split dest!: sync_steps_actions(4))

lemma audit_plan_actions [simp]:
  "actions_of (audit_plan (store_control_ports env as t) pl a ev r md w) = actions_of w"
  by (simp add: audit_plan_def audit_control_action_def audit_create_actions)

lemma verification_actions:
  "run_verification_sync (store_control_ports env as t) c actor r res w = (res', w') \<Longrightarrow> actions_of w' = actions_of w"
  by (auto simp: run_verification_sync_def split: prod.splits option.splits) (metis sync_actions snd_conv)+

lemma performs_actions:
  assumes "map_of (kp_adapters (store_control_ports env as t)) k = Some x"
    and "performs (store_control_ports env as t) op x conn f"
  shows "keeps log_of f"
proof -
  have delete: "keeps log_of (perform_delete (store_control_ports env as t) (lift_adapter a) conn b ra)" for a b ra
    using keepsD [OF outside_log] keepsD [OF mark_agent_deleted_log]
    by (fastforce intro!: keepsI simp: perform_delete_def Let_def split: prod.splits sum.splits)
  show ?thesis
    using assms delete
    by (cases op) (auto simp: perform_access_def perform_status_def perform_cancel_def
        intro!: keeps_intros outside_log)
qed

text \<open>How an operation on the store ends, seen from the database it met.\<close>

lemma operation_outcome:
  fixes as :: "'x adapters" and t :: int and env :: env
  defines "p \<equiv> store_control_ports env as t"
  shows "\<exists>w1. w_db w1 = w_db w \<and> (snd (run_operation p op rq w) = w1 \<or>
     (\<exists>pl act msg reason. snd (run_operation p op rq w) = snd (reject_action p pl act msg reason w1)) \<or>
     (\<exists>pl f dry act. keeps log_of f \<and> snd (run_operation p op rq w) = snd (request_action p pl f dry act w1)))"
proof -
  have "same_db.ends env as t (w_db w) op (snd (run_operation p op rq w))"
    unfolding p_def by (rule same_db.operation_ends) simp
  then show ?thesis
    unfolding same_db.ends_def p_def by (metis performs_actions)
qed

text \<open>Rows with a final status, rows that were there before, and rows of one more action.\<close>

definition settled_but :: "string option \<Rightarrow> db \<Rightarrow> db \<Rightarrow> bool" where
  "settled_but i d d' \<longleftrightarrow> (\<forall>r\<in>set (db_actions d'). terminal_status (ca_status (cx_action r)) \<or>
     r \<in> set (db_actions d) \<or> Some (ca_id (cx_action r)) = i)"

lemma settled_refl [simp]: "settled_but i d d"
  by (simp add: settled_but_def)

lemma settled_weaken: "settled_but None d d' \<Longrightarrow> settled_but i d d'"
  by (auto simp: settled_but_def)

lemma settled_same: "db_actions d1 = db_actions d' \<Longrightarrow> settled_but i d d1 = settled_but i d d'"
  by (simp add: settled_but_def)

lemma create_settled:
  assumes "action_create env a w = ((a', err), w')"
  shows "settled_but (if err = None \<and> \<not> terminal_status (ca_status a) then Some (ca_id a') else None)
    (w_db w) (w_db w')"
  using assms
  by (auto simp: action_create_def Let_def new_id_def wrapping_def exec_checked_def exec_def insert_action_def
      settled_but_def split: option.splits sum.splits prod.splits if_splits)

lemma update_settled:
  assumes "action_update (healthy env bytes) a q s m w = ((a', err), w')"
    and "settled_but (Some (ca_id a)) d (w_db w)"
  shows "settled_but (if terminal_status (ca_status a) then None else Some (ca_id a)) d (w_db w')"
  using assms
  by (fastforce simp: action_update_def Let_def exec_returning_def exec_def settled_but_def set_update_where
      update_row_def split: if_splits)

lemma update_id: "action_update env a q s m w = ((a', err), w') \<Longrightarrow> ca_id a' = ca_id a"
  by (auto simp: action_update_def Let_def split: prod.splits sum.splits if_splits)

abbreviation (input) "healthy_ports env bytes as t \<equiv> store_control_ports (healthy env bytes) as t"

lemma create_status: "action_create env a w = ((a', err), w') \<Longrightarrow> ca_status a' = ca_status a"
  by (auto simp: action_create_def Let_def split: prod.splits sum.splits)

text \<open>The outcome steps of an action \<open>i\<close> leave nothing behind but rows with a final status.\<close>

lemma settled_audit [simp]:
  "settled_but i d (w_db (audit_plan (store_control_ports env as t) pl a ev r md w)) = settled_but i d (w_db w)"
  by (intro settled_same) simp

lemma final_update:
  assumes "action_update (healthy env bytes) a q s m w = ((a', err), w')" and "terminal_status (ca_status a)"
    and "settled_but (Some (ca_id a)) d (w_db w)"
  shows "settled_but None d (w_db w')"
  using update_settled [OF assms(1,3)] assms(2) by simp

lemma outcome_settled:
  assumes "settled_but (Some (ca_id a)) d (w_db w)"
  shows "settled_but None d (w_db (snd (fail_control_action (healthy_ports env bytes as t) pl a e w)))"
    "settled_but None d (w_db (snd (dry_run_action (healthy_ports env bytes as t) pl a w)))"
    "settled_but None d (w_db (snd (complete_action (healthy_ports env bytes as t) pl a res w)))"
proof -
  have up: "settled_but None d (w_db w')"
    if "action_update (healthy env bytes) (a\<lparr>ca_status := st\<rparr>) q s m w = (r, w')" "terminal_status st"
    for st q s m r w'
    using that assms by (cases r) (auto intro: final_update)
  show "settled_but None d (w_db (snd (fail_control_action (healthy_ports env bytes as t) pl a e w)))"
    "settled_but None d (w_db (snd (dry_run_action (healthy_ports env bytes as t) pl a w)))"
    by (auto simp: fail_control_action_def dry_run_action_def terminal_status_def split: prod.split dest!: up)
  have sync: "settled_but None d (w_db w2) = settled_but None d (w_db w1)"
    if "run_verification_sync (healthy_ports env bytes as t) c actor r res w1 = (res', w2)" for c actor r res w1 res' w2
    using verification_actions [OF that] by (rule settled_same)
  show "settled_but None d (w_db (snd (complete_action (healthy_ports env bytes as t) pl a res w)))"
    by (auto simp: complete_action_def Let_def terminal_status_def sync split: prod.split option.split dest!: up)
qed

lemma reject_settled: "settled_but None (w_db w) (w_db (snd (reject_action (healthy_ports env bytes as t) pl a msg rs w)))"
proof -
  have c: "settled_but None (w_db w) (w_db w1) \<and> terminal_status (ca_status a1)"
    if "action_create (healthy env bytes) (a\<lparr>ca_status := ActionRejected\<rparr>) w = ((a1, err), w1)" for a1 err w1
    using create_settled [OF that] create_status [OF that] by (simp add: terminal_status_def)
  show ?thesis
    by (auto simp: reject_action_def split: prod.split option.split dest!: c
        intro: final_update settled_weaken)
qed

lemma failed_update:
  assumes "action_update (healthy env bytes) a q s m w = ((a', Some e), w')"
  shows "\<forall>r\<in>set (actions_of w'). ca_id (cx_action r) \<noteq> ca_id a"
  using assms
  by (auto simp: action_update_def Let_def exec_returning_def exec_def set_update_where update_row_def
      split: if_splits)

lemma execute_settled:
  assumes "settled_but (Some (ca_id a)) d (w_db w)" and f: "keeps log_of f"
  shows "settled_but None d (w_db (snd (execute_action (healthy_ports env bytes as t) pl f a w)))"
proof -
  obtain a1 err w1 where u: "action_update (healthy env bytes) (a\<lparr>ca_status := ActionRunning\<rparr>) (pl_after pl) [] '''' w = ((a1, err), w1)"
    by (metis surj_pair)
  have s: "settled_but (Some (ca_id a)) d (w_db w1)" and i: "ca_id a1 = ca_id a"
    using update_settled [OF u] assms(1) update_id [OF u] by (auto simp: terminal_status_def)
  show ?thesis
  proof (cases err)
    case None
    obtain r w2 where r: "f w1 = (r, w2)"
      by (metis surj_pair)
    have "settled_but (Some (ca_id a1)) d (w_db w2)"
      using s i settled_same [OF log_actions [OF f r]] by simp
    then show ?thesis
      using outcome_settled u None r by (cases r) (simp_all add: execute_action_def)
  next
    case (Some e)
    then show ?thesis
      using failed_update [OF u [unfolded Some]] s u by (auto simp: execute_action_def settled_but_def)
  qed
qed

lemma request_settled:
  assumes "keeps log_of f"
  shows "settled_but None (w_db w) (w_db (snd (request_action (healthy_ports env bytes as t) pl f dry a w)))"
proof -
  obtain a1 err w1 where c: "action_create (healthy env bytes) a w = ((a1, err), w1)"
    by (metis surj_pair)
  note s = create_settled [OF c]
  show ?thesis
  proof (cases err)
    case None
    have "settled_but (Some (ca_id a1)) (w_db w) (w_db w1)"
      using s None settled_weaken by (auto split: if_splits)
    then show ?thesis
      using c None by (simp add: request_action_def Let_def outcome_settled execute_settled [OF _ assms])
  next
    case (Some e)
    then show ?thesis
      using s c by (simp add: request_action_def)
  qed
qed

text \<open>C29: As long as the database answers, no operation leaves an action queued or running behind: every
  row of the actions table that was not there before has a final status (succeeded, failed or
  rejected), whatever the adapters and the verifying synchronisation did.\<close>

theorem no_action_left_pending:
  fixes as :: "'x adapters"
  shows "set (filter (\<lambda>r. \<not> terminal_status (ca_status (cx_action r)))
      (db_actions (w_db (snd (run_operation (store_control_ports (healthy env bytes) as t) op rq w))))) \<subseteq>
    set (db_actions (w_db w))"
proof -
  have "settled_but None (w_db w) (w_db (snd (run_operation (healthy_ports env bytes as t) op rq w)))"
    using operation_outcome [of w "healthy env bytes" as t op rq]
    by (metis reject_settled request_settled settled_refl)
  then show ?thesis
    by (auto simp: settled_but_def)
qed

section \<open>Idempotency keys\<close>

lemma keys_same: "db_actions d = db_actions d' \<Longrightarrow> keys_unique d = keys_unique d'"
  by (simp add: keys_unique_def)

lemma keys_audit [simp]:
  "keys_unique (w_db (audit_plan (store_control_ports env as t) pl a ev r md w)) = keys_unique (w_db w)"
  by (intro keys_same) simp

lemma reject_keys:
  "keys_unique (w_db w) \<Longrightarrow> keys_unique (w_db (snd (reject_action (store_control_ports env as t) pl a msg rs w)))"
  by (auto simp: reject_action_def split: prod.split option.split dest: keys_unique_create keys_unique_update)

lemma outcome_keys:
  assumes "keys_unique (w_db w)"
  shows "keys_unique (w_db (snd (fail_control_action (store_control_ports env as t) pl a e w)))"
    "keys_unique (w_db (snd (dry_run_action (store_control_ports env as t) pl a w)))"
    "keys_unique (w_db (snd (complete_action (store_control_ports env as t) pl a res w)))"
proof -
  have sync: "keys_unique (w_db w2) = keys_unique (w_db w1)"
    if "run_verification_sync (store_control_ports env as t) c actor r res w1 = (res', w2)" for c actor r res w1 res' w2
    using verification_actions [OF that] by (rule keys_same)
  show "keys_unique (w_db (snd (fail_control_action (store_control_ports env as t) pl a e w)))"
    "keys_unique (w_db (snd (dry_run_action (store_control_ports env as t) pl a w)))"
    "keys_unique (w_db (snd (complete_action (store_control_ports env as t) pl a res w)))"
    using assms
    by (auto simp: fail_control_action_def dry_run_action_def complete_action_def Let_def sync
        split: prod.split option.split dest: keys_unique_update)
qed

lemma execute_keys:
  assumes "keys_unique (w_db w)" and f: "keeps log_of f"
  shows "keys_unique (w_db (snd (execute_action (store_control_ports env as t) pl f a w)))"
proof -
  have run: "f w1 = (r, w2) \<Longrightarrow> keys_unique (w_db w1) \<Longrightarrow> keys_unique (w_db w2)" for w1 r w2
    using log_actions [OF f] keys_same by metis
  show ?thesis
    using assms(1)
    by (auto simp: execute_action_def split: prod.split sum.split option.split
        intro!: outcome_keys dest: run keys_unique_update)
qed

lemma request_keys:
  assumes "keys_unique (w_db w)" and "keeps log_of f"
  shows "keys_unique (w_db (snd (request_action (store_control_ports env as t) pl f dry a w)))"
  using assms(1)
  by (auto simp: request_action_def Let_def split: prod.split option.split
      intro!: outcome_keys execute_keys [OF _ assms(2)] dest: keys_unique_create)

text \<open>In the actions table an idempotency key occurs at most once in an organisation, and every
  operation keeps it so, whatever statements fail on the way.\<close>

theorem idempotency_keys_stay_unique:
  fixes as :: "'x adapters"
  assumes "keys_unique (w_db w)"
  shows "keys_unique (w_db (snd (run_operation (store_control_ports env as t) op rq w)))"
  using operation_outcome [of w env as t op rq] assms by (metis reject_keys request_keys)

end

