(* ===== verification/Control_Claims.thy ===== *)
theory Control_Claims
  imports Control_Properties
begin

text \<open>What a successful control action proves about the past, where the idempotency protocol fails,
  and the concrete instances of the claims about control actions.\<close>

section \<open>Successful requests\<close>

lemma has_key_healthy [simp]: "has_key (healthy env bytes) = has_key env"
  by (intro ext) (simp add: has_key_def conn_in_tenant_def)

lemma unknown_key:
  assumes "List.find (has_key env key (w_db w)) (db_actions (w_db w)) = None"
  shows "\<exists>e w0. find_by_key env key w = (Inl e, w0)"
  using assms by (simp add: find_by_key_def query_row_def query_def seq_def split: option.split)

text \<open>What the request of an operation without an error was, over the repositories of the store.\<close>

abbreviation unchanged :: "(db, 'x) world \<Rightarrow> (db, 'x) world \<Rightarrow> bool" where
  "unchanged w v \<equiv> w_db v = w_db w"

lemma store_requested:
  fixes as :: "'x adapters"
  assumes "run_operation (store_control_ports env as t) op rq w = ((a, None), w')"
    and "List.find (has_key env (rq_key rq) (w_db w)) (db_actions (w_db w)) = None"
  obtains stored conn x f pl act and w1 :: "(db, 'x) world"
    where "find_active env (rc_id conn) (w_db w) = Some stored" and "conn = stored\<lparr>rc_endpoints := rc_endpoints conn\<rparr>"
      and "rc_mode stored = ModeControlEnabled" and "map_of as (rc_kind conn) = Some x"
      and "planned (store_control_ports env as t) (unchanged w) op rq (lift_adapter x) conn pl f act"
      and "w_db w1 = w_db w"
      and "request_action (store_control_ports env as t) pl f (rq_dry_run rq) act w1 = ((a, None), w')"
proof -
  let ?p = "store_control_ports env as t"
  obtain e w0 where "kp_find_action ?p (rq_key rq) w = (Inl e, w0)"
    using unknown_key [of env "rq_key rq" w] assms(2) by auto
  with assms(1) have "same_db.requested env as t (w_db w) op rq a w'"
    by (intro same_db.operation_requested) simp_all
  then obtain x conn pl f act and w1 :: "(db, 'x) world"
    where m: "rc_mode conn = ModeControlEnabled" and x: "map_of (kp_adapters ?p) (rc_kind conn) = Some x"
      and r: "planned ?p (unchanged w) op rq x conn pl f act" "w_db w1 = w_db w"
        "request_action ?p pl f (rq_dry_run rq) act w1 = ((a, None), w')"
    unfolding same_db.requested_def by blast
  obtain c and v v' :: "(db, 'x) world"
    where c: "w_db v = w_db w" "connection_get env c v = (Inr conn, v')"
    using planned_runtime [OF r(1)] by auto
  obtain stored where stored: "find_active env c (w_db w) = Some stored" "rc_mode conn = rc_mode stored"
      "conn = stored\<lparr>rc_endpoints := rc_endpoints conn\<rparr>"
    using connection_get_result [OF c(2)] c(1) by auto
  moreover have "rc_id conn = c"
    using connection_get_id [OF c(2)] .
  moreover obtain y where "map_of as (rc_kind conn) = Some y" "x = lift_adapter y"
    using x by auto
  ultimately show ?thesis
    using that [of conn stored y pl f act w1] m r by simp
qed

text \<open>The action a request gives back differs from the one it was made for in its identifier, status and
  result alone.\<close>

lemma created_fields:
  "action_create env act w = ((a, e), w') \<Longrightarrow> \<exists>i. a = act\<lparr>ca_id := i\<rparr>"
  by (auto simp: action_create_def Let_def split: prod.splits sum.splits if_splits
      intro: exI [of _ "ca_id act"])

lemma updated_fields:
  "action_update env act q s m w = ((a, e), w') \<Longrightarrow> \<exists>r. a = act\<lparr>ca_result := r\<rparr>"
  by (auto simp: action_update_def Let_def split: prod.splits sum.splits if_splits
      intro: exI [of _ "ca_result act"])

definition same_subject :: "control_action \<Rightarrow> control_action \<Rightarrow> bool" where
  "same_subject a b \<longleftrightarrow> ca_conn a = ca_conn b \<and> ca_agent a = ca_agent b \<and> ca_actor a = ca_actor b \<and>
     ca_reason a = ca_reason b \<and> ca_before a = ca_before b \<and> ca_after a = ca_after b"

lemma requested_fields:
  assumes "request_action (store_control_ports env as t) pl f dry act w = ((a, None), w')"
  shows "same_subject a act"
  using assms
  by (auto simp: request_action_def dry_run_action_def execute_action_def complete_action_def
      fail_control_action_def same_subject_def Let_def
      split: prod.splits option.splits sum.splits if_splits dest!: created_fields updated_fields)

text \<open>C15: While the database answers and random bytes are delivered, an operation that is not a replay
  of a stored key and gives no error leaves an event of it in the audit trail, after what was there:
  \<open>control_action.succeeded\<close> for an executed action, \<open>control_action.dry_run_succeeded\<close> for a dry run,
  with the identifier, runtime and agent of the action the caller gets, the actor and the reason of the
  request, the target of the operation, the state the target was stored in, and the state asked for.\<close>

theorem success_is_audited:
  fixes as :: "'x adapters"
  assumes "run_operation (store_control_ports (healthy env bytes) as t) op rq w = ((a, None), w')"
    and "List.find (has_key env (rq_key rq) (w_db w)) (db_actions (w_db w)) = None"
  shows "\<exists>more event. trail_of w' = trail_of w @ more \<and> event \<in> set more \<and>
    au_event event = outcome_event rq \<and> au_result event = ''succeeded'' \<and>
    au_action event = ca_id a \<and> au_conn event = ca_conn a \<and> au_agent event = ca_agent a \<and>
    au_actor event = trim_space (rq_actor rq) \<and> au_reason event = trim_space (rq_reason rq) \<and>
    au_target_type event = target_type op \<and> au_target event = operation_target op \<and>
    state_found (store_control_ports (healthy env bytes) as t) (unchanged w) op (au_before event) \<and>
    au_after event = requested_state op"
  using assms(1)
proof (rule store_requested)
  let ?p = "store_control_ports (healthy env bytes) as t"
  show "List.find (has_key (healthy env bytes) (rq_key rq) (w_db w)) (db_actions (w_db w)) = None"
    using assms(2) by simp
  fix stored conn x f pl act and w1 :: "(db, 'x) world"
  assume x: "map_of as (rc_kind conn) = Some x" and db: "w_db w1 = w_db w"
    and p: "planned ?p (unchanged w) op rq (lift_adapter x) conn pl f act"
    and r: "request_action ?p pl f (rq_dry_run rq) act w1 = ((a, None), w')"
  have "grows trail_of f"
    using trail.performs_grows [OF planned_performs [OF p], of "rc_kind conn"] x by simp
  from trail.request_logs [OF this r] obtain more event
    where e: "trail_of w' = trail_of w @ more" "event \<in> set more"
      "event_of (outcome_event rq) ''succeeded'' pl a event"
    unfolding logged_in_def by (auto simp: trail_of_def db)
  have "same_subject a act"
    by (rule requested_fields [OF r])
  then show ?thesis
    using e planned_fields [OF p] planned_found [OF p]
    by (intro exI [of _ more] exI [of _ event]) (simp add: event_of_def same_subject_def)
qed

lemma get_runtime_execution_result:
  assumes "get_runtime_execution env execution w = (Inr px, w')"
  shows "\<exists>r\<in>set (db_executions (w_db w)). xr_id r = execution \<and> xr_conn r = px_conn px \<and>
    px_snapshot px = xr_snapshot r"
  using assms
  by (auto simp: get_runtime_execution_def seq_Inr_iff wrapping_Inr_iff dest!: query_row_Inr find_SomeD)

lemma planned_agent:
  assumes "reads_agent (store_control_ports env as t) (unchanged w) agent d conn"
  shows "\<exists>b\<in>set (db_bindings (w_db w)). bd_agent b = agent \<and> bd_conn b = rc_id conn \<and>
    bd_runtime_agent b = pa_runtime_agent (ad_agent d)"
  using assms unfolding reads_agent_def
  by (auto dest!: get_persisted_agent_result connection_get_id)

lemma planned_calls_target:
  assumes "planned (store_control_ports env as t) (unchanged w) op rq x conn pl f act"
  shows "calls_target (store_control_ports env as t) (w_db w) op x conn f"
proof (cases op)
  case (CancelExecution execution)
  then show ?thesis
    using assms
    by (auto simp: reads_execution_def dest!: get_runtime_execution_result connection_get_id)
qed (use assms in \<open>auto simp: perform_access_def perform_status_def dest!: planned_agent\<close>)

text \<open>C16: An operation that is not a dry run, not a replay of a stored key and gives no error is this
  chain, from the database it met to the one it left: the action is created and marked running, the
  adapter registered for the kind of the target's runtime, a control-enabled one of the caller's
  tenant, makes the operation's call for the very agent or execution named (by the identifier the
  runtime knows it by), that call succeeds, and its result completes the action the caller gets.\<close>

theorem success_reached_the_runtime:
  fixes as :: "'x adapters"
  assumes "run_operation (store_control_ports env as t) op rq w = ((a, None), w')" and "\<not> rq_dry_run rq"
    and "List.find (has_key env (rq_key rq) (w_db w)) (db_actions (w_db w)) = None"
  shows "\<exists>stored conn x f pl act a1 a2 result w0 w1 w2 w3.
    find_active env (rc_id conn) (w_db w) = Some stored \<and> conn = stored\<lparr>rc_endpoints := rc_endpoints conn\<rparr> \<and>
    rc_mode stored = ModeControlEnabled \<and> map_of as (rc_kind conn) = Some x \<and>
    calls_target (store_control_ports env as t) (w_db w) op (lift_adapter x) conn f \<and>
    ca_conn act = rc_id conn \<and> ca_key act = trim_space (rq_key rq) \<and> w_db w0 = w_db w \<and>
    action_create env act w0 = ((a1, None), w1) \<and>
    action_update env (a1\<lparr>ca_status := ActionRunning\<rparr>) (requested_state op) [] ''''
      (audit_plan (store_control_ports env as t) pl a1 ''control_action.requested'' ''succeeded'' [] w1) =
        ((a2, None), w2) \<and>
    f w2 = (Inr result, w3) \<and>
    complete_action (store_control_ports env as t) pl a2 result w3 = ((a, None), w')"
  using assms(1,3)
proof (rule store_requested)
  let ?p = "store_control_ports env as t"
  fix stored conn x f pl act and w0 :: "(db, 'x) world"
  assume c: "find_active env (rc_id conn) (w_db w) = Some stored" "conn = stored\<lparr>rc_endpoints := rc_endpoints conn\<rparr>"
      "rc_mode stored = ModeControlEnabled" "map_of as (rc_kind conn) = Some x" "w_db w0 = w_db w"
    and p: "planned ?p (unchanged w) op rq (lift_adapter x) conn pl f act"
    and r: "request_action ?p pl f (rq_dry_run rq) act w0 = ((a, None), w')"
  obtain a1 w1 where 1: "action_create env act w0 = ((a1, None), w1)"
    using r by (auto simp: request_action_def split: prod.splits option.splits)
  let ?w = "audit_plan ?p pl a1 ''control_action.requested'' ''succeeded'' [] w1"
  have "execute_action ?p pl f a1 ?w = ((a, None), w')"
    using r assms(2) by (simp add: request_action_def 1 Let_def)
  then obtain a2 w2 result w3 where
      "action_update env (a1\<lparr>ca_status := ActionRunning\<rparr>) (pl_after pl) [] '''' ?w = ((a2, None), w2)"
      "f w2 = (Inr result, w3)" "complete_action ?p pl a2 result w3 = ((a, None), w')"
    by (auto simp: execute_action_def fail_control_action_def split: prod.splits option.splits sum.splits)
  then show ?thesis
    using c 1 planned_fields(1,2,8) [OF p] planned_calls_target [OF p] by metis
qed

text \<open>What a stored action met when it was inserted.\<close>

lemma action_violation_id [simp]: "action_violation env (act\<lparr>ca_id := i\<rparr>) d = action_violation env act d"
  by (simp add: action_violation_def split: option.split)

lemma created_inserted:
  assumes "action_create env act w = ((a, None), w')"
  shows "action_violation env act (w_db w) = None"
  using assms
  by (auto simp: action_create_def Let_def wrapping_def exec_checked_def new_id_def
      split: option.splits sum.splits if_splits)

lemma requested_inserted:
  assumes "request_action (store_control_ports env as t) pl f dry act w1 = ((a, None), w')"
  shows "action_violation env act (w_db w1) = None"
  using assms by (auto simp: request_action_def split: prod.splits option.splits dest: created_inserted)

lemma find_distinct: "distinct (map f xs) \<Longrightarrow> r \<in> set xs \<Longrightarrow> List.find (\<lambda>c. f c = f r) xs = Some r"
  by (induction xs) (auto simp: image_iff)

lemma find_active_visible:
  assumes "find_active env c d = Some conn" and "distinct (map (\<lambda>r. rc_id (cr_conn r)) (db_conns d))"
  shows "conn_visible env d (rc_id conn) = Some conn"
proof -
  obtain r where r: "r \<in> set (db_conns d)" "cr_conn r = conn" "active_in_tenant env r"
    using find_active_Some [OF assms(1)] by blast
  then have "conn_row d (rc_id conn) = Some r"
    using find_distinct [OF assms(2) r(1)] by (simp add: conn_row_def)
  then show ?thesis
    using r by (simp add: conn_visible_def active_in_tenant_def)
qed

section \<open>Where the protocol fails\<close>

text \<open>The lookup of the idempotency key uses the key of the request as it is, while the action is
  stored with the trimmed key.  A request whose key carries surrounding blanks therefore never
  replays the action stored for it: in a tenant that has it, the request is an error of the unique
  index, whatever the operation, although the same request with the trimmed key gives the stored
  action without an error.\<close>

theorem padded_key_not_replayed:
  fixes as :: "'x adapters"
  assumes "tenant env \<noteq> ''''" and "distinct (map (\<lambda>c. rc_id (cr_conn c)) (db_conns (w_db w)))"
    and "List.find (has_key env (trim_space (rq_key rq)) (w_db w)) (db_actions (w_db w)) = Some r"
    and "cx_org r = tenant env" and "\<forall>x\<in>set (db_actions (w_db w)). ca_key (cx_action x) \<noteq> rq_key rq"
    and "\<not> missing_request (operation_target op) rq" and "operation_arguments_ok op"
    and "e_fault env (w_step w) = None"
  shows "snd (fst (run_operation (store_control_ports env as t) op rq w)) \<noteq> None \<and>
    run_operation (store_control_ports env as t) op (rq\<lparr>rq_key := trim_space (rq_key rq)\<rparr>) w =
      ((loaded_action r, None), tick w)"
proof
  show "run_operation (store_control_ports env as t) op (rq\<lparr>rq_key := trim_space (rq_key rq)\<rparr>) w =
      ((loaded_action r, None), tick w)"
    by (rule run_operation_replay)
      (use assms in \<open>simp_all add: missing_request_def find_by_key_def query_row_def query_def seq_def\<close>)
  have new: "List.find (has_key env (rq_key rq) (w_db w)) (db_actions (w_db w)) = None"
    using assms(5) by (auto simp: find_None_iff has_key_def)
  have r: "r \<in> set (db_actions (w_db w))" "ca_key (cx_action r) = trim_space (rq_key rq)" "trim_space (rq_key rq) \<noteq> ''''"
    using find_SomeD [OF assms(3)] by (auto simp: has_key_def)
  show "snd (fst (run_operation (store_control_ports env as t) op rq w)) \<noteq> None"
  proof
    assume "snd (fst (run_operation (store_control_ports env as t) op rq w)) = None"
    then obtain a w' where "run_operation (store_control_ports env as t) op rq w = ((a, None), w')"
      by (metis prod.collapse)
    then show False
      using new
    proof (rule store_requested)
      fix stored conn x f pl act and w1 :: "(db, 'x) world"
      assume c: "find_active env (rc_id conn) (w_db w) = Some stored" and db: "w_db w1 = w_db w"
        and p: "planned (store_control_ports env as t) (unchanged w) op rq (lift_adapter x) conn pl f act"
        and q: "request_action (store_control_ports env as t) pl f (rq_dry_run rq) act w1 = ((a, None), w')"
      have "rc_org stored = tenant env" and i: "rc_id stored = rc_id conn"
        using find_active_Some [OF c] assms(1) by (auto simp: active_in_tenant_def tenant_allows_def)
      then have "action_violation env act (w_db w1) \<noteq> None"
        using find_active_visible [OF c assms(2)] planned_fields(1,2) [OF p] db r assms(4)
        by (auto simp: action_violation_def require_ok_def)
      then show False
        using requested_inserted [OF q] by blast
    qed
  qed
qed

lemma found_agent:
  assumes "find_execution_agent (store_control_ports env as t) px w = (agent, w')"
    and "\<forall>b\<in>set (db_bindings (w_db w)). bd_runtime_agent b \<noteq> ex_agent (px_snapshot px)"
  shows "agent = ''''"
proof (cases "list_persisted_agents env (px_conn px) w")
  case (Pair r w1)
  have "pa_runtime_agent a \<noteq> ex_agent (px_snapshot px)" if "r = Inr agents" and "a \<in> set agents" for agents a
  proof -
    have "list_persisted_agents env (px_conn px) w = (Inr agents, w1)"
      using Pair that(1) by simp
    then obtain t where "agents = persisted_agents env (px_conn px) t (w_db w)"
      by (auto simp: list_persisted_agents_def wrapping_Inr_iff query_now_def dest!: query_Inr)
    then show ?thesis
      using persisted_agents_row that(2) assms(2) by metis
  qed
  then show ?thesis
    using assms(1) Pair
    by (auto simp: find_execution_agent_def split: sum.splits option.splits dest: find_SomeD)
qed

text \<open>\<open>CancelExecution\<close> stores its action under the Capcom agent it finds for the execution.  When no
  synchronised agent has the execution's runtime agent (a runtime that reports runs of agents it does
  not list), the identifier is empty, the insert is refused, and the cancellation fails before the
  runtime is asked, although the execution itself is known and running.\<close>

theorem execution_of_unknown_agent_not_cancelled:
  fixes as :: "'x adapters"
  assumes "\<forall>x\<in>set (db_executions (w_db w)). xr_id x = execution \<longrightarrow>
      (\<forall>b\<in>set (db_bindings (w_db w)). bd_runtime_agent b \<noteq> ex_agent (xr_snapshot x))"
    and "List.find (has_key env (rq_key rq) (w_db w)) (db_actions (w_db w)) = None"
  shows "snd (fst (cancel_execution (store_control_ports env as t) execution rq w)) \<noteq> None"
proof
  let ?p = "store_control_ports env as t"
  assume "snd (fst (cancel_execution ?p execution rq w)) = None"
  then obtain a w' where "run_operation ?p (CancelExecution execution) rq w = ((a, None), w')"
    by (metis prod.collapse run_operation.simps(4))
  then show False
    using assms(2)
  proof (rule store_requested)
    fix stored conn x f pl act and w1 :: "(db, 'x) world"
    assume "planned ?p (unchanged w) (CancelExecution execution) rq (lift_adapter x) conn pl f act"
      and w1: "w_db w1 = w_db w"
      and q: "request_action ?p pl f (rq_dry_run rq) act w1 = ((a, None), w')"
    then obtain px and w2 w3 w4 w5 :: "(db, 'x) world"
      where x: "w_db w2 = w_db w" "get_runtime_execution env execution w2 = (Inr px, w3)" "w_db w4 = w_db w"
        "find_execution_agent ?p px w4 = (ca_agent act, w5)"
      by (auto simp: reads_execution_def new_action_def)
    have "\<exists>r\<in>set (db_executions (w_db w)). xr_id r = execution \<and> px_snapshot px = xr_snapshot r"
      using get_runtime_execution_result [OF x(2)] x(1) by auto
    then have "ca_agent act = ''''"
      using found_agent [OF x(4)] assms(1) x(3) by metis
    then show False
      using requested_inserted [OF q] by (simp add: action_violation_def)
  qed
qed

text \<open>A dry run whose result cannot be stored reports that error to the caller, leaves its action
  queued in the table, and still appends the event \<open>control_action.dry_run_succeeded\<close> with the result
  \<open>succeeded\<close> to the audit trail.\<close>

theorem failed_dry_run_audited_as_success:
  fixes as :: "'x adapters"
  assumes "e_fault env = (\<lambda>n. if n = Suc (w_step w) then Some e else None)"
    and "\<And>n. e_random env n = Inr (bytes n)"
  shows "\<exists>a w' event. dry_run_action (store_control_ports env as t) pl action w =
      ((a, Some (Wrapped ''update control action: '' e)), w') \<and> actions_of w' = actions_of w \<and>
    trail_of w' = trail_of w @ [event] \<and> au_event event = ''control_action.dry_run_succeeded'' \<and>
    au_result event = ''succeeded'' \<and> au_action event = ca_id action"
  using assms
  by (simp add: dry_run_action_def action_update_def Let_def exec_returning_def exec_def audit_plan_def
      audit_control_action_def audit_create_def seq_def new_id_def now_def wrapping_def trail_of_def
      action_audit_event_def)

text \<open>The text of a failed call is cut at 1000 bytes, which may leave half a character.  PostgreSQL refuses
  such a text, the error of that update is dropped, and the row of the action stays as it was, running,
  while the caller is told that it failed.\<close>

theorem refused_text_leaves_running:
  fixes as :: "'x adapters"
  assumes "\<not> e_text env (sanitize_runtime_error e)" and "sanitize_runtime_error e \<noteq> ''''"
  shows "\<exists>a' w'. fail_control_action (store_control_ports env as t) pl a e w =
      ((a', Some (Wrapped (pl_prefix pl) e)), w') \<and> ca_status a' = ActionFailed \<and> actions_of w' = actions_of w"
  using assms by (simp add: fail_control_action_def action_update_def Let_def)

section \<open>Instances\<close>

definition all_capabilities :: capabilities where
  "all_capabilities = \<lparr>can_read_agents = True, can_read_hierarchy = True, can_read_delegates = True,
     can_read_skills = True, can_read_access = True, can_replace_access = True, can_read_subagents = True,
     can_read_executions = True, can_read_diagnostics = True, can_read_inventory = True,
     can_read_catalog = True, can_set_status = True, can_delete_agent = True, can_cancel = True\<rparr>"

definition obliging_adapter :: "unit adapter" where
  "obliging_adapter =
     \<lparr>ad_check = (\<lambda>_. return \<lparr>ck_status = RuntimeActive, ck_message = '''', ck_capabilities = all_capabilities,
        ck_metadata = [], ck_diagnostics = []\<rparr>),
      ad_replace_access = (\<lambda>_ _ acc. return acc), ad_set_status = (\<lambda>_ i s. return ((sample_agent i)\<lparr>as_status := s\<rparr>)),
      ad_delete_agent = (\<lambda>_ _. return ()), ad_cancel = (\<lambda>_ _. return ()),
      ad_collect = (\<lambda>_. failing (Text ''gone''))\<rparr>"

definition sample_request :: "string \<Rightarrow> bool \<Rightarrow> action_request" where
  "sample_request key dry = \<lparr>rq_actor = ''ann'', rq_reason = ''why'', rq_key = key, rq_dry_run = dry\<rparr>"

definition sample_stored_action :: action_row where
  "sample_stored_action = \<lparr>cx_action = no_action\<lparr>ca_id := ''x1'', ca_conn := ''c1'', ca_agent := ''a1'',
     ca_key := ''k1''\<rparr>, cx_org = ''o1'', cx_request = [], cx_error = '''', cx_finished = Some 1\<rparr>"

definition acting_world :: "(db, unit) world" where
  "acting_world = sample_world\<lparr>w_db := sample_db\<lparr>db_actions := [sample_stored_action]\<rparr>, w_locks := [0]\<rparr>"

abbreviation sample_ports :: "(db, unit) world control_ports" where
  "sample_ports \<equiv> store_control_ports calm_env [(KindGantry, obliging_adapter)] 3"

lemma healthy_calm: "healthy calm_env (\<lambda>_. zero_bytes) = calm_env"
  by (simp add: healthy_def calm_env_def)

lemmas acting_defs = all_capabilities_def obliging_adapter_def sample_request_def sample_stored_action_def
  acting_world_def no_action_def

definition acting_conn :: runtime_connection where
  "acting_conn = sample_conn\<lparr>rc_endpoints := []\<rparr>"

definition acting_agent :: "time \<Rightarrow> persisted_agent" where
  "acting_agent t = persisted_agent_of t (sample_agent_row ''a1'') (sample_binding ''a1'' ''old'') sample_conn"

lemma acting_find:
  "w_db w = w_db acting_world \<Longrightarrow> find_by_key calm_env ''k2'' w = (Inl (Sentinel NoRows), tick w)"
  by (simp add: find_by_key_def query_row_def query_def seq_def acting_defs has_key_def)

lemma acting_get_runtime:
  "w_db w = w_db acting_world \<Longrightarrow> connection_get calm_env ''c1'' w = (Inr acting_conn, tick (tick w))"
  by (simp add: connection_get_def list_endpoints_def endpoints_of_def wrapping_def query_row_def query_def seq_def acting_defs find_active_def
      active_in_tenant_def sample_defs tenant_allows_def tenant_def organization_id_def principal_from_def acting_conn_def)

lemma acting_get_agent:
  "w_db w = w_db acting_world \<Longrightarrow> get_persisted_agent calm_env ''a1'' w =
     (Inr \<lparr>ad_agent = acting_agent (e_now calm_env (w_step w)), ad_skills = [], ad_access = no_access\<rparr>, tick (tick (tick w)))"
  by (simp add: get_persisted_agent_def list_persisted_agents_def persisted_agents_def query_now_def wrapping_def query_def seq_def acting_defs
      sample_defs tenant_allows_def tenant_def organization_id_def principal_from_def acting_agent_def agent_skills_def persisted_agent_of_def)

lemma acting_agent_simps [simp]:
  "pa_conn (acting_agent t) = ''c1''" "pa_runtime_agent (acting_agent t) = ''old''"
  "rc_mode acting_conn = ModeControlEnabled" "rc_kind acting_conn = KindGantry" "rc_id acting_conn = ''c1''"
  by (simp_all add: acting_agent_def persisted_agent_of_def acting_conn_def sample_defs)

lemma acting_check:
  "outside (ad_check obliging_adapter c) w = (Inr \<lparr>ck_status = RuntimeActive, ck_message = '''',
     ck_capabilities = all_capabilities, ck_metadata = [], ck_diagnostics = []\<rparr>, w)"
  by (simp add: outside_def obliging_adapter_def)

definition known_action :: "string \<Rightarrow> (db, unit) world \<Rightarrow> bool" where
  "known_action i w \<longleftrightarrow> i \<in> set (map (\<lambda>r. ca_id (cx_action r)) (actions_of w))"

lemma acting_create:
  assumes "w_db w = w_db acting_world"
  shows "\<exists>a w1. action_create calm_env (new_action (sample_request ''k2'' dry) ''c1'' ''a1'' type b af) w = ((a, None), w1) \<and>
    known_action (ca_id a) w1"
  using assms
  by (simp add: action_create_def new_id_def wrapping_def exec_checked_def exec_def Let_def known_action_def
      new_action_def action_violation_def insert_action_def conn_visible_def conn_row_def
      require_ok_def acting_defs sample_defs str_simps tenant_allows_def tenant_def organization_id_def principal_from_def)

lemma acting_update:
  assumes "known_action (ca_id a) w"
  shows "\<exists>a' w1. action_update calm_env a q s m w = ((a', None), w1) \<and> known_action (ca_id a') w1"
proof -
  have "map (\<lambda>r. ca_id (cx_action r)) (update_where p (update_row a q s m f) rs) = map (\<lambda>r. ca_id (cx_action r)) rs" for p f rs
    by (rule map_update_where) (simp add: update_row_def)
  then have "known_action (ca_id a) (w\<lparr>w_step := k, w_db := (w_db w)\<lparr>db_actions := update_where p (update_row a q s m f) (actions_of w)\<rparr>\<rparr>)"
    for p f k
    using assms by (simp add: known_action_def del: set_map)
  then show ?thesis
    using assms by (auto simp: action_update_def exec_returning_def exec_def Let_def tick_def known_action_def)
qed

lemma acting_dry_run:
  assumes "known_action (ca_id a) w"
  shows "\<exists>a' w1. dry_run_action sample_ports pl a w = ((a', None), w1)"
proof -
  obtain a1 w1 where "action_update calm_env (a\<lparr>ca_status := ActionSucceeded\<rparr>) (pl_after pl) (pl_dry_result pl) '''' w = ((a1, None), w1)"
    using acting_update [of "a\<lparr>ca_status := ActionSucceeded\<rparr>" w] assms by fastforce
  then show ?thesis
    by (simp add: dry_run_action_def)
qed

lemma acting_audit: "known_action i (audit_plan sample_ports pl a ev r md w) = known_action i w"
  by (simp add: known_action_def)

lemma acting_execute:
  assumes "known_action (ca_id a) w" and "\<And>w. \<exists>r. f w = (Inr r, w)"
  shows "\<exists>a' w1. execute_action sample_ports pl f a w = ((a', None), w1)"
proof -
  obtain a1 w1 where 1: "action_update calm_env (a\<lparr>ca_status := ActionRunning\<rparr>) (pl_after pl) [] '''' w = ((a1, None), w1)"
      "known_action (ca_id a1) w1"
    using acting_update [of "a\<lparr>ca_status := ActionRunning\<rparr>" w] assms(1) by fastforce
  obtain r where r: "f w1 = (Inr r, w1)"
    using assms(2) by blast
  obtain a2 w2 where 2: "action_update calm_env (a1\<lparr>ca_status := ActionSucceeded\<rparr>) (pl_after pl) r '''' w1 = ((a2, None), w2)"
    using acting_update [of "a1\<lparr>ca_status := ActionSucceeded\<rparr>" w1] 1(2) by fastforce
  show ?thesis
    using 1 2 r by (simp add: execute_action_def complete_action_def Let_def split: prod.split)
qed

lemma acting_request:
  assumes "w_db w = w_db acting_world" and "dry \<or> (\<forall>w. \<exists>r. f w = (Inr r, w))"
  shows "\<exists>a' w1. request_action sample_ports pl f dry
    (new_action (sample_request ''k2'' dry) ''c1'' ''a1'' type b af) w = ((a', None), w1)"
proof -
  obtain a w1 where c: "action_create calm_env (new_action (sample_request ''k2'' dry) ''c1'' ''a1'' type b af) w = ((a, None), w1)"
      "known_action (ca_id a) w1"
    using acting_create [OF assms(1)] by blast
  then show ?thesis
    using acting_dry_run acting_execute assms(2) by (cases dry) (simp_all add: request_action_def Let_def acting_audit)
qed

lemma perform_status_obliging: "\<exists>r. perform_status (lift_adapter obliging_adapter) conn d st w = (Inr r, w)"
  by (simp add: perform_status_def seq_def outside_def obliging_adapter_def)

lemma acting_status:
  "\<exists>a w'. run_operation sample_ports (SetStatus ''a1'' AgentDisabled) (sample_request ''k2'' dry) acting_world = ((a, None), w')"
proof -
  have m: "\<not> missing_request ''a1'' (sample_request ''k2'' dry)"
    by (simp add: missing_request_def sample_request_def str_simps)
  have k: "rq_key (sample_request ''k2'' dry) = ''k2''" "rq_dry_run (sample_request ''k2'' dry) = dry"
    by (simp_all add: sample_request_def)
  show ?thesis
    by (simp add: set_agent_status_def m k replay_or_def or_return_def Let_def acting_find acting_get_agent
        acting_get_runtime acting_check all_capabilities_def acting_request perform_status_obliging cong: store_congs)
qed

lemma acting_unknown: "List.find (has_key calm_env ''k2'' (w_db acting_world)) (db_actions (w_db acting_world)) = None"
  by (simp add: acting_defs has_key_def)

theorem success_is_audited_witness:
  "\<exists>a w' more event.
    run_operation sample_ports (SetStatus ''a1'' AgentDisabled) (sample_request ''k2'' True) acting_world = ((a, None), w') \<and>
    trail_of w' = trail_of acting_world @ more \<and> event \<in> set more \<and>
    au_event event = ''control_action.dry_run_succeeded'' \<and> au_actor event = ''ann'' \<and>
    au_target_type event = ''agent_status'' \<and> au_target event = ''a1'' \<and>
    au_after event = [(''status'', GStr ''disabled'')]"
proof -
  obtain a w' where r: "run_operation sample_ports (SetStatus ''a1'' AgentDisabled) (sample_request ''k2'' True) acting_world = ((a, None), w')"
    using acting_status by blast
  have "trim_space (rq_actor (sample_request ''k2'' True)) = ''ann''"
      "outcome_event (sample_request ''k2'' True) = ''control_action.dry_run_succeeded''"
      "rq_key (sample_request ''k2'' True) = ''k2''"
    by (simp_all add: sample_request_def outcome_event_def str_simps)
  then show ?thesis
    using success_is_audited [of calm_env "\<lambda>_. zero_bytes" "[(KindGantry, obliging_adapter)]" 3
        "SetStatus ''a1'' AgentDisabled" "sample_request ''k2'' True" acting_world a w'] acting_unknown r
    unfolding healthy_calm by simp blast
qed

theorem success_reached_the_runtime_witness:
  "\<exists>a w' conn f w2 result w3.
    run_operation sample_ports (SetStatus ''a1'' AgentDisabled) (sample_request ''k2'' False)
      acting_world = ((a, None), w') \<and>
    calls_target sample_ports (w_db acting_world) (SetStatus ''a1'' AgentDisabled) (lift_adapter obliging_adapter)
      conn f \<and> f w2 = (Inr result, w3)"
proof -
  obtain a w' where r: "run_operation sample_ports (SetStatus ''a1'' AgentDisabled) (sample_request ''k2'' False) acting_world = ((a, None), w')"
    using acting_status by blast
  have k: "\<not> rq_dry_run (sample_request ''k2'' False)" "rq_key (sample_request ''k2'' False) = ''k2''"
    by (simp_all add: sample_request_def)
  have "x = obliging_adapter" if "map_of [(KindGantry, obliging_adapter)] y = Some x" for x y
    using that by (simp split: if_splits)
  then show ?thesis
    using success_reached_the_runtime [OF r k(1)] acting_unknown r unfolding k(2) by blast
qed

definition tenant_env :: env where
  "tenant_env = calm_env\<lparr>e_context := Some \<lparr>p_user = ''u1'', p_email = ''ann'', p_org = ''o1'',
     p_organization = \<lparr>org_id = ''o1'', org_name = ''O'', org_slug = ''o''\<rparr>, p_role = ''owner'', p_session = ''s1'',
     p_csrf_hash = '''', p_platform_admin = False\<rparr>\<rparr>"

lemma tenant_env_simps [simp]: "tenant tenant_env = ''o1''" "e_fault tenant_env = (\<lambda>_. None)"
  by (simp_all add: tenant_env_def tenant_def organization_id_def principal_from_def)

lemma tenant_stored_key:
  "List.find (has_key tenant_env ''k1'' (w_db acting_world)) (db_actions (w_db acting_world)) = Some sample_stored_action"
  by (simp add: acting_defs has_key_def conn_in_tenant_def sample_defs)

theorem known_key_replays_witness:
  "run_operation (store_control_ports tenant_env [(KindGantry, obliging_adapter)] 3) (CancelExecution ''e1'')
     (sample_request ''k1'' False) acting_world = ((loaded_action sample_stored_action, None), tick acting_world)"
  by (rule known_key_replays) (use tenant_stored_key in \<open>simp_all add: missing_request_def sample_request_def str_simps\<close>)

theorem padded_key_not_replayed_witness:
  "snd (fst (run_operation (store_control_ports tenant_env [(KindGantry, obliging_adapter)] 3)
      (CancelExecution ''e1'') (sample_request '' k1'' False) acting_world)) \<noteq> None \<and>
   run_operation (store_control_ports tenant_env [(KindGantry, obliging_adapter)] 3)
      (CancelExecution ''e1'') (sample_request ''k1'' False) acting_world =
     ((loaded_action sample_stored_action, None), tick acting_world)"
proof -
  let ?rq = "sample_request '' k1'' False"
  have k: "trim_space (rq_key ?rq) = ''k1''" "?rq\<lparr>rq_key := ''k1''\<rparr> = sample_request ''k1'' False"
    by (simp_all add: sample_request_def str_simps)
  show ?thesis
    using padded_key_not_replayed [of tenant_env acting_world ?rq sample_stored_action
        "CancelExecution ''e1''" "[(KindGantry, obliging_adapter)]" 3] tenant_stored_key
    by (simp add: k) (simp add: acting_defs sample_defs missing_request_def str_simps)
qed

theorem execution_of_unknown_agent_not_cancelled_witness:
  "snd (fst (cancel_execution sample_ports ''e1'' (sample_request ''k2'' False) acting_world)) \<noteq> None"
  by (rule execution_of_unknown_agent_not_cancelled)
     (use acting_unknown in \<open>simp_all add: acting_defs sample_defs\<close>)

theorem failed_dry_run_audited_as_success_witness:
  "\<exists>a w' event. dry_run_action (store_control_ports (faulty_env 1) [(KindGantry, obliging_adapter)] 3)
      (status_plan sample_conn \<lparr>ad_agent = acting_agent 0, ad_skills = [], ad_access = no_access\<rparr> AgentDisabled
        (sample_request ''k1'' True)) (cx_action sample_stored_action) acting_world =
      ((a, Some (Wrapped ''update control action: '' (Text ''connection lost''))), w') \<and>
    actions_of w' = actions_of acting_world \<and> trail_of w' = trail_of acting_world @ [event] \<and>
    au_event event = ''control_action.dry_run_succeeded'' \<and> au_result event = ''succeeded''"
proof -
  have f: "e_fault (faulty_env 1) = (\<lambda>n. if n = Suc (w_step acting_world) then Some (Text ''connection lost'') else None)"
    by (simp add: acting_world_def sample_world_def)
  show ?thesis
    using failed_dry_run_audited_as_success [OF f, of "\<lambda>_. zero_bytes"] by (simp del: One_nat_def) blast
qed

theorem dry_run_touches_nothing_witness:
  "run_operation (override_ports (lift_adapter obliging_adapter) (\<lambda>_. failing (Text ''x'')) sample_ports)
     (DeleteAgent ''a1'' ''old'') (sample_request ''k2'' True) acting_world =
   run_operation sample_ports (DeleteAgent ''a1'' ''old'') (sample_request ''k2'' True) acting_world"
  by (rule dry_run_touches_nothing) (simp add: sample_request_def)

definition mixed_world :: "(db, unit) world" where
  "mixed_world = acting_world\<lparr>w_db := sample_db\<lparr>db_conns := [sample_row (sample_conn\<lparr>rc_mode := ModeReadOnly\<rparr>),
     sample_row (sample_conn\<lparr>rc_id := ''c2''\<rparr>)]\<rparr>\<rparr>"

theorem read_only_runtimes_untouched_witness:
  "run_operation (override_ports_at ''c1'' (only_at (w_db mixed_world) ''c1'') (lift_adapter obliging_adapter)
       (\<lambda>_. failing (Text ''x'')) sample_ports)
     (DeleteAgent ''a1'' ''old'') (sample_request ''k2'' False) mixed_world =
   run_operation sample_ports (DeleteAgent ''a1'' ''old'') (sample_request ''k2'' False) mixed_world"
  by (rule read_only_runtimes_untouched) (simp add: mixed_world_def sample_row_def)

theorem unconfirmed_deletion_untouched_witness:
  "delete_agent (override_ports (lift_adapter obliging_adapter) (\<lambda>_. failing (Text ''x'')) sample_ports)
     ''a1'' ''kept'' (sample_request ''k2'' False) acting_world =
   delete_agent sample_ports ''a1'' ''kept'' (sample_request ''k2'' False) acting_world"
  by (rule unconfirmed_deletion_untouched) (simp add: acting_defs sample_defs str_simps)

theorem malformed_request_refused_witness:
  "\<exists>message. run_operation sample_ports (SetStatus ''a1'' AgentStale) (sample_request ''k2'' False) acting_world =
     ((no_action, Some (Text message)), acting_world)"
  by (rule malformed_request_refused) simp

theorem idempotency_keys_stay_unique_witness:
  "keys_unique (w_db (snd (run_operation sample_ports (DeleteAgent ''a1'' ''old'') (sample_request ''k2'' False) acting_world)))"
  by (rule idempotency_keys_stay_unique) (simp add: acting_defs sample_defs keys_unique_def)

end
