(* ===== verification/Secrets.thy ===== *)
theory Secrets
  imports Connection_Store
begin

text \<open>Stored credentials: the payload format around AES-GCM (\<^verbatim>\<open>internal/secrets/cipher.go\<close>), the
  repository (\<^verbatim>\<open>SecretRepository\<close> in \<^verbatim>\<open>internal/store/repositories.go\<close>) and the service that
  stores, rotates and resolves secrets (\<^verbatim>\<open>internal/services/secrets.go\<close>).\<close>

section \<open>The payload\<close>

text \<open>The AEAD of a 32 byte key is a parameter: its nonce size and overhead, \<^verbatim>\<open>Seal\<close> (nonce, plaintext,
  additional data) and \<^verbatim>\<open>Open\<close> (nonce, ciphertext, additional data).\<close>

record aead =
  ae_nonce_size :: nat
  ae_overhead :: nat
  ae_seal :: "string \<Rightarrow> string \<Rightarrow> string \<Rightarrow> string"
  ae_open :: "string \<Rightarrow> string \<Rightarrow> string \<Rightarrow> string option"

text \<open>What \<^verbatim>\<open>cipher.AEAD\<close> documents: \<^verbatim>\<open>Open\<close> inverts \<^verbatim>\<open>Seal\<close>, and a ciphertext is longer than its
  plaintext by the overhead.\<close>

definition aead_ok :: "aead \<Rightarrow> bool" where
  "aead_ok a \<longleftrightarrow>
     (\<forall>n p d. length n = ae_nonce_size a \<longrightarrow> ae_open a n (ae_seal a n p d) d = Some p) \<and>
     (\<forall>n p d. length n = ae_nonce_size a \<longrightarrow> length (ae_seal a n p d) = length p + ae_overhead a)"

definition new_cipher :: "(string \<Rightarrow> aead) \<Rightarrow> string \<Rightarrow> aead res" where
  "new_cipher gcm key =
     (if length key \<noteq> 32 then Inl (Text ''secret key must be exactly 32 bytes'') else Inr (gcm key))"

definition ciphertext_version :: char where
  "ciphertext_version = CHR 0x01"

text \<open>\<^verbatim>\<open>Encrypt\<close> and \<^verbatim>\<open>Decrypt\<close>; a cipher that is not configured is \<^term>\<open>None\<close>, \<open>random n\<close> is
  \<^verbatim>\<open>io.ReadFull\<close> of \<open>n\<close> bytes.\<close>

definition encrypt ::
    "aead option \<Rightarrow> (nat \<Rightarrow> ('w, string) call) \<Rightarrow> string \<Rightarrow> string \<Rightarrow> ('w, string) call" where
  "encrypt c random name plaintext =
     (case c of
        None \<Rightarrow> failing (Text ''secret cipher is not configured'')
      | Some a \<Rightarrow>
          seq (wrapping ''generate secret nonce: '' (random (ae_nonce_size a))) (\<lambda>nonce.
          return (ciphertext_version # nonce @ ae_seal a nonce plaintext name)))"

definition decrypt :: "aead option \<Rightarrow> string \<Rightarrow> string \<Rightarrow> string res" where
  "decrypt c name payload =
     (case c of
        None \<Rightarrow> Inl (Text ''secret cipher is not configured'')
      | Some a \<Rightarrow>
          if length payload < 1 + ae_nonce_size a + ae_overhead a \<or> hd payload \<noteq> ciphertext_version
          then Inl (Text ''invalid encrypted secret payload'')
          else case ae_open a (take (ae_nonce_size a) (tl payload)) (drop (ae_nonce_size a) (tl payload)) name of
                 None \<Rightarrow> Inl (Wrapped ''decrypt secret: '' (Text ''cipher: message authentication failed''))
               | Some plaintext \<Rightarrow> Inr plaintext)"

lemma decrypt_encrypt:
  assumes "aead_ok a" and "length nonce = ae_nonce_size a"
  shows "decrypt (Some a) name (ciphertext_version # nonce @ ae_seal a nonce plaintext name) = Inr plaintext"
  using assms by (simp add: decrypt_def aead_ok_def)


section \<open>The repository\<close>

definition secret_name_ok :: "string \<Rightarrow> bool" where
  "secret_name_ok s \<longleftrightarrow>
     (case s of [] \<Rightarrow> False
      | c # t \<Rightarrow> (byte_in 65 90 c \<or> byte_in 97 122 c) \<and> length t \<le> 127 \<and>
          list_all (\<lambda>b. byte_in 65 90 b \<or> byte_in 97 122 b \<or> byte_in 48 57 b \<or>
            b = CHR 0x2E \<or> b = CHR 0x5F \<or> b = CHR 0x2D) t)"

definition has_secret :: "env \<Rightarrow> string \<Rightarrow> secret_row \<Rightarrow> bool" where
  "has_secret env name r \<longleftrightarrow> sc_name (st_secret r) = name \<and> st_org r = organization_for_write env"

definition secret_insert :: "env \<Rightarrow> secret \<Rightarrow> string \<Rightarrow> ((db, 'x) world, secret) call" where
  "secret_insert env s ciphertext =
     seq (if sc_id s = '''' then new_id env else return (sc_id s)) (\<lambda>sid.
     seq (now env) (\<lambda>created.
     let s = s\<lparr>sc_id := sid, sc_created_at := created, sc_updated_at := created\<rparr> in
     seq (wrapping ''create secret: '' (exec_checked env
            (\<lambda>d. first_of [require_ok (secret_name_ok (sc_name s)) check_violation,
               require_ok (\<not> (\<exists>r\<in>set (db_secrets d). has_secret env (sc_name s) r)) unique_violation])
            (\<lambda>d. d\<lparr>db_secrets := db_secrets d @
               [\<lparr>st_secret = s, st_cipher = ciphertext, st_org = organization_for_write env\<rparr>]\<rparr>))) (\<lambda>_.
     return s)))"

text \<open>\<^verbatim>\<open>UPDATE .. RETURNING\<close> of a name that is not there gives no row.\<close>

definition rotated_row :: "string \<Rightarrow> time \<Rightarrow> secret_row \<Rightarrow> secret_row" where
  "rotated_row ciphertext t r =
     r\<lparr>st_cipher := ciphertext, st_secret := (st_secret r)\<lparr>sc_updated_at := t\<rparr>\<rparr>"

definition secret_rotate :: "env \<Rightarrow> string \<Rightarrow> string \<Rightarrow> ((db, 'x) world, secret) call" where
  "secret_rotate env name ciphertext =
     wrapping ''rotate secret: '' (seq (\<lambda>w.
       exec_returning env
         (\<lambda>d. d\<lparr>db_secrets := update_where (has_secret env name) (rotated_row ciphertext (e_now env (w_step w)))
                (db_secrets d)\<rparr>)
         (\<lambda>d. map_option (rotated_row ciphertext (e_now env (w_step w)))
                (List.find (has_secret env name) (db_secrets d))) w)
       (\<lambda>r. case r of None \<Rightarrow> failing (Sentinel NoRows) | Some row \<Rightarrow> return (st_secret row)))"

definition secret_ciphertext :: "env \<Rightarrow> string \<Rightarrow> ((db, 'x) world, string) call" where
  "secret_ciphertext env name =
     wrapping ''get secret ciphertext: '' (query_row env (\<lambda>d.
       map_option st_cipher (List.find (has_secret env name) (db_secrets d))))"


section \<open>The service\<close>

record 'w secret_ports =
  tp_create :: "secret \<Rightarrow> string \<Rightarrow> ('w, secret) call"
  tp_rotate :: "string \<Rightarrow> string \<Rightarrow> ('w, secret) call"
  tp_ciphertext :: "string \<Rightarrow> ('w, string) call"
  tp_audit :: "(audit_event \<Rightarrow> ('w, audit_event) call) option"
  tp_encrypt :: "string \<Rightarrow> string \<Rightarrow> ('w, string) call"
  tp_decrypt :: "string \<Rightarrow> string \<Rightarrow> string res"

record store_secret_input =
  ss_name :: string
  ss_value :: string
  ss_actor :: string
  ss_reason :: string

definition normalize_store_secret :: "store_secret_input \<Rightarrow> store_secret_input" where
  "normalize_store_secret i = i\<lparr>ss_name := trim_space (ss_name i), ss_actor := trim_space (ss_actor i),
     ss_reason := trim_space (ss_reason i)\<rparr>"

definition validate_store_secret :: "store_secret_input \<Rightarrow> gerr option" where
  "validate_store_secret i =
     (if \<not> secret_name_ok (ss_name i) then Some (Text
        ''name must start with a letter and contain only letters, numbers, dot, underscore, or hyphen'')
      else if ss_value i = '''' then Some (Text ''value is required'')
      else if ss_actor i = '''' then Some (Text ''actor is required'')
      else if ss_reason i = '''' then Some (Text ''reason is required'')
      else None)"

definition secret_audit_event :: "secret \<Rightarrow> string \<Rightarrow> string \<Rightarrow> string \<Rightarrow> audit_event" where
  "secret_audit_event s actor reason event =
     \<lparr>au_id = '''', au_conn = '''', au_agent = '''', au_action = '''', au_actor = actor, au_event = event,
      au_target_type = ''secret'', au_target = sc_name s, au_reason = reason, au_before = [],
      au_after = [(''name'', GStr (sc_name s)), (''updated_at'', GTime (sc_updated_at s))],
      au_result = ''succeeded'', au_metadata = []\<rparr>"

definition audit_secret ::
    "'w secret_ports \<Rightarrow> secret \<Rightarrow> string \<Rightarrow> string \<Rightarrow> string \<Rightarrow> ('w, unit) call" where
  "audit_secret p s actor reason event =
     (case tp_audit p of
        None \<Rightarrow> failing (Text ''audit repository is required'')
      | Some create \<Rightarrow>
          seq (wrapping (''audit '' @ event @ '': '') (create (secret_audit_event s actor reason event)))
            (\<lambda>_. return ()))"

text \<open>An error of the repository that is \<^verbatim>\<open>sql.ErrNoRows\<close> is reported as an unknown secret.\<close>

definition not_found :: "('w, 'a) call \<Rightarrow> ('w, 'a) call" where
  "not_found m w =
     (case m w of
        (Inl e, w) \<Rightarrow> (Inl (if err_is e NoRows then Sentinel SecretNotFound else e), w)
      | (Inr x, w) \<Rightarrow> (Inr x, w))"

definition secret_create :: "'w secret_ports \<Rightarrow> store_secret_input \<Rightarrow> ('w, secret) call" where
  "secret_create p input =
     (let i = normalize_store_secret input in
      case validate_store_secret i of
        Some e \<Rightarrow> failing e
      | None \<Rightarrow>
          seq (wrapping ''encrypt secret: '' (tp_encrypt p (ss_name i) (ss_value i))) (\<lambda>ciphertext.
          seq (tp_create p \<lparr>sc_id = '''', sc_name = ss_name i, sc_created_at = 0, sc_updated_at = 0\<rparr> ciphertext) (\<lambda>s.
          seq (audit_secret p s (ss_actor i) (ss_reason i) ''secret.created'') (\<lambda>_.
          return s))))"

definition secret_rotate_value :: "'w secret_ports \<Rightarrow> store_secret_input \<Rightarrow> ('w, secret) call" where
  "secret_rotate_value p input =
     (let i = normalize_store_secret input in
      case validate_store_secret i of
        Some e \<Rightarrow> failing e
      | None \<Rightarrow>
          seq (wrapping ''encrypt secret: '' (tp_encrypt p (ss_name i) (ss_value i))) (\<lambda>ciphertext.
          seq (not_found (tp_rotate p (ss_name i) ciphertext)) (\<lambda>s.
          seq (audit_secret p s (ss_actor i) (ss_reason i) ''secret.rotated'') (\<lambda>_.
          return s))))"

definition resolve_secret :: "'w secret_ports \<Rightarrow> string \<Rightarrow> ('w, string) call" where
  "resolve_secret p ref =
     (let name = trim_space ref in
      if \<not> secret_name_ok name then failing (Text ''invalid secret reference'')
      else seq (not_found (tp_ciphertext p name)) (\<lambda>ciphertext.
           case tp_decrypt p name ciphertext of Inl e \<Rightarrow> failing e | Inr plaintext \<Rightarrow> return plaintext))"

section \<open>The service on the store\<close>

text \<open>\<^verbatim>\<open>io.ReadFull(rand.Reader, nonce)\<close>: the first bytes of what the random source delivers.\<close>

definition read_random :: "env \<Rightarrow> nat \<Rightarrow> (('d, 'x) world, string) call" where
  "read_random env n w =
     (case e_random env (w_step w) of
        Inl e \<Rightarrow> (Inl e, tick w)
      | Inr bytes \<Rightarrow> (Inr (take n bytes), tick w))"

definition random_ok :: "env \<Rightarrow> nat \<Rightarrow> bool" where
  "random_ok env n \<longleftrightarrow> (\<forall>k bytes. e_random env k = Inr bytes \<longrightarrow> n \<le> length bytes)"

definition secret_store_ports :: "env \<Rightarrow> aead option \<Rightarrow> (db, 'x) world secret_ports" where
  "secret_store_ports env c =
     \<lparr>tp_create = secret_insert env, tp_rotate = secret_rotate env, tp_ciphertext = secret_ciphertext env,
      tp_audit = Some (audit_create env), tp_encrypt = encrypt c (read_random env), tp_decrypt = decrypt c\<rparr>"

lemma secret_store_ports_simps [simp]:
  "tp_create (secret_store_ports env c) = secret_insert env"
  "tp_rotate (secret_store_ports env c) = secret_rotate env"
  "tp_ciphertext (secret_store_ports env c) = secret_ciphertext env"
  "tp_audit (secret_store_ports env c) = Some (audit_create env)"
  "tp_encrypt (secret_store_ports env c) = encrypt c (read_random env)"
  "tp_decrypt (secret_store_ports env c) = decrypt c"
  by (simp_all add: secret_store_ports_def)

abbreviation secrets_of :: "(db, 'x) world \<Rightarrow> secret_row list" where
  "secrets_of w \<equiv> db_secrets (w_db w)"

lemma keeps_audit_create_secrets: "keeps secrets_of (audit_create env e)"
  unfolding audit_create_def by (intro keeps_intros keeps_exec; simp)

lemma keeps_read_random: "keeps secrets_of (read_random env n)"
  by (simp add: keeps_def read_random_def split: sum.split)

lemmas keeps_secrets = keeps_audit_create_secrets keeps_read_random

lemma keeps_audit_secret: "keeps secrets_of (audit_secret (secret_store_ports env c) s a r ev)"
  unfolding audit_secret_def by (auto intro!: keeps_intros keeps_secrets)

lemma keeps_encrypt: "keeps secrets_of (encrypt c (read_random env) name plain)"
  unfolding encrypt_def by (auto intro!: keeps_intros keeps_secrets split: option.split)

text \<open>What the lookup of the name gives, and what every other lookup gives, after the statements.\<close>

lemma encrypt_result:
  assumes "encrypt (Some a) (read_random env) name plain w = (Inr ct, w')"
    and "aead_ok a" and "random_ok env (ae_nonce_size a)"
  shows "decrypt (Some a) name ct = Inr plain"
proof -
  obtain bytes where "e_random env (w_step w) = Inr bytes"
      and ct: "ct = ciphertext_version # take (ae_nonce_size a) bytes @ ae_seal a (take (ae_nonce_size a) bytes) plain name"
    using assms(1) by (auto simp: encrypt_def seq_Inr_iff wrapping_Inr_iff read_random_def split: sum.splits)
  then have "length (take (ae_nonce_size a) bytes) = ae_nonce_size a"
    using assms(3) by (auto simp: random_ok_def)
  then show ?thesis
    unfolding ct by (rule decrypt_encrypt [OF assms(2)])
qed

lemma secret_insert_lookup:
  assumes "secret_insert env s ct w = (Inr s', w')"
  shows "sc_name s' = sc_name s \<and>
    map_option st_cipher (List.find (has_secret env (sc_name s)) (secrets_of w')) = Some ct"
proof -
  have append: "List.find P (xs @ [x]) = Some x" if "List.find P xs = None" "P x" for P :: "secret_row \<Rightarrow> bool" and xs x
    using that by (induction xs) (auto split: if_splits)
  show ?thesis
    using assms
    by (auto simp: secret_insert_def Let_def seq_Inr_iff wrapping_Inr_iff exec_checked_def exec_def new_id_def now_def
        append find_None_iff has_secret_def split: option.splits sum.splits if_splits)
qed

lemma has_secret_rotated [simp]: "has_secret env name (rotated_row ct t r) = has_secret env name r"
  by (simp add: has_secret_def rotated_row_def)

lemma secret_rotate_lookup:
  assumes "secret_rotate env name ct w = (Inr s, w')"
  shows "sc_name s = name \<and>
    map_option st_cipher (List.find (has_secret env name) (secrets_of w')) = Some ct"
  using assms
proof -
  obtain r t where r: "List.find (has_secret env name) (secrets_of w) = Some r"
      and s: "s = st_secret (rotated_row ct t r)"
      and w': "secrets_of w' = update_where (has_secret env name) (rotated_row ct t) (secrets_of w)"
    using assms by (auto simp: secret_rotate_def seq_Inr_iff wrapping_Inr_iff exec_returning_def exec_def
        split: option.splits sum.splits)
  have n: "has_secret env name r"
    using find_SomeD [OF r] by simp
  then show ?thesis
    using r by (simp add: w' find_update_where s) (simp add: rotated_row_def has_secret_def)
qed

end

