(* ===== verification/Secret_Claims.thy ===== *)
theory Secret_Claims
  imports Secrets Samples
begin

text \<open>The claims about stored credentials: what was stored is what is resolved, other secrets are not
  touched, and where storing and auditing come apart.\<close>

lemma secret_lookup_resolves:
  assumes "aead_ok a" and "decrypt (Some a) name ct = Inr value" and "secret_name_ok name"
    and "map_option st_cipher (List.find (has_secret env name) (secrets_of w)) = Some ct"
    and "trim_space ref = name" and "e_fault env (w_step w) = None"
  shows "resolve_secret (secret_store_ports env (Some a)) ref w = (Inr value, tick w)"
  using assms
  by (auto simp: resolve_secret_def not_found_def secret_ciphertext_def query_row_def query_def seq_def
      wrapping_def)

lemma validated_name:
  "validate_store_secret (normalize_store_secret i) = None \<Longrightarrow> secret_name_ok (trim_space (ss_name i))"
  by (auto simp: validate_store_secret_def normalize_store_secret_def split: if_splits)

lemma normalized_value [simp]:
  "ss_value (normalize_store_secret i) = ss_value i" "ss_name (normalize_store_secret i) = trim_space (ss_name i)"
  by (simp_all add: normalize_store_secret_def)

text \<open>What a successful create or rotation leaves in the table.\<close>

definition stores :: "env \<Rightarrow> aead \<Rightarrow> store_secret_input \<Rightarrow> (db, 'x) world \<Rightarrow> bool" where
  "stores env a i w \<longleftrightarrow> (\<exists>ct. decrypt (Some a) (trim_space (ss_name i)) ct = Inr (ss_value i) \<and>
     secret_name_ok (trim_space (ss_name i)) \<and>
     map_option st_cipher (List.find (has_secret env (trim_space (ss_name i))) (secrets_of w)) = Some ct)"

lemma stored_after_audit:
  "audit_secret (secret_store_ports env c) s ac r ev w = (u, w') \<Longrightarrow> stores env a i w \<Longrightarrow> stores env a i w'"
  using keepsD [OF keeps_audit_secret] by (fastforce simp: stores_def)

lemma create_stores:
  assumes "secret_create (secret_store_ports env (Some a)) i w = (Inr s, w')"
    and "aead_ok a" and "random_ok env (ae_nonce_size a)"
  shows "stores env a i w'"
proof -
  have v: "validate_store_secret (normalize_store_secret i) = None"
    using assms(1) by (auto simp: secret_create_def Let_def split: option.splits)
  obtain ct w1 w2 ac r ev where e: "encrypt (Some a) (read_random env) (trim_space (ss_name i)) (ss_value i) w = (Inr ct, w1)"
      and s: "secret_insert env \<lparr>sc_id = '''', sc_name = trim_space (ss_name i), sc_created_at = 0, sc_updated_at = 0\<rparr> ct w1 = (Inr s, w2)"
      and au: "audit_secret (secret_store_ports env (Some a)) s ac r ev w2 = (Inr (), w')"
    using assms(1) v by (auto simp: secret_create_def Let_def seq_Inr_iff wrapping_Inr_iff)
  have "stores env a i w2"
    using encrypt_result [OF e assms(2,3)] secret_insert_lookup [OF s] validated_name [OF v]
    by (auto simp: stores_def)
  then show ?thesis
    by (rule stored_after_audit [OF au])
qed

lemma not_found_Inr_iff: "not_found m w = (Inr x, w') \<longleftrightarrow> m w = (Inr x, w')"
  by (auto simp: not_found_def split: prod.splits sum.splits)

lemma rotate_stores:
  assumes "secret_rotate_value (secret_store_ports env (Some a)) i w = (Inr s, w')"
    and "aead_ok a" and "random_ok env (ae_nonce_size a)"
  shows "stores env a i w'"
proof -
  have v: "validate_store_secret (normalize_store_secret i) = None"
    using assms(1) by (auto simp: secret_rotate_value_def Let_def split: option.splits)
  obtain ct w1 w2 ac r ev where e: "encrypt (Some a) (read_random env) (trim_space (ss_name i)) (ss_value i) w = (Inr ct, w1)"
      and s: "secret_rotate env (trim_space (ss_name i)) ct w1 = (Inr s, w2)"
      and au: "audit_secret (secret_store_ports env (Some a)) s ac r ev w2 = (Inr (), w')"
    using assms(1) v by (auto simp: secret_rotate_value_def Let_def seq_Inr_iff wrapping_Inr_iff not_found_Inr_iff)
  have "stores env a i w2"
    using encrypt_result [OF e assms(2,3)] secret_rotate_lookup [OF s] validated_name [OF v]
    by (auto simp: stores_def)
  then show ?thesis
    by (rule stored_after_audit [OF au])
qed

text \<open>C10: Resolving a reference gives the value that the last successful create or rotation stored under
  its trimmed name, under the same key, as long as no statement touched the secrets since and the
  query is answered.\<close>

theorem stored_secret_resolves:
  assumes "store \<in> {secret_create, secret_rotate_value}"
    and "store (secret_store_ports env (Some a)) i w = (Inr s, w')"
    and "aead_ok a" and "random_ok env (ae_nonce_size a)"
    and "db_secrets (w_db v) = db_secrets (w_db w')" and "trim_space ref = trim_space (ss_name i)"
    and "e_fault env (w_step v) = None"
  shows "resolve_secret (secret_store_ports env (Some a)) ref v = (Inr (ss_value i), tick v)"
proof -
  have "stores env a i w'"
    using assms(1-4) create_stores rotate_stores by blast
  then show ?thesis
    using assms(3,5-7) by (auto simp: stores_def intro: secret_lookup_resolves)
qed

lemma find_append_other: "\<not> P x \<Longrightarrow> List.find P (xs @ [x]) = List.find P xs"
  by (induction xs) auto

text \<open>The statements on one name and organisation, seen from the lookup of another.\<close>

definition other_secret :: "env \<Rightarrow> string \<Rightarrow> env \<Rightarrow> string \<Rightarrow> bool" where
  "other_secret env name env' other \<longleftrightarrow>
     other \<noteq> name \<or> organization_for_write env' \<noteq> organization_for_write env"

abbreviation lookup_of :: "env \<Rightarrow> string \<Rightarrow> (db, 'x) world \<Rightarrow> secret_row option" where
  "lookup_of env name w \<equiv> List.find (has_secret env name) (secrets_of w)"

lemma keeps_lookup: "keeps secrets_of m \<Longrightarrow> keeps (lookup_of env name) m"
  by (simp add: keeps_def)

lemma keeps_insert_other:
  assumes "other_secret env (sc_name s) env' other"
  shows "keeps (lookup_of env' other) (secret_insert env s ct)"
proof -
  have "has_secret env' other r = False" if "sc_name (st_secret r) = sc_name s" "st_org r = organization_for_write env" for r
    using assms that by (auto simp: other_secret_def has_secret_def)
  then show ?thesis
    unfolding secret_insert_def Let_def
    by (intro keeps_intros keeps_exec_checked [where obs = "\<lambda>d. List.find (has_secret env' other) (db_secrets d)"];
        simp add: find_append_other)
qed

lemma keeps_rotate_other:
  assumes "other_secret env name env' other"
  shows "keeps (lookup_of env' other) (secret_rotate env name ct)"
proof -
  have "List.find (has_secret env' other) (update_where (has_secret env name) (rotated_row ct t) rs) =
      List.find (has_secret env' other) rs" for t rs
    using assms by (induction rs) (auto simp: update_where_def other_secret_def, auto simp: has_secret_def)
  then show ?thesis
    unfolding secret_rotate_def
    by (intro keeps_intros; simp add: keeps_def exec_returning_def exec_def split: option.split)
qed

lemma keeps_not_found: "keeps obs m \<Longrightarrow> keeps obs (not_found m)"
  by (fastforce intro!: keepsI simp: not_found_def split: prod.splits sum.splits dest: keepsD)

text \<open>Creating or rotating a secret, successful or not, leaves what every other name and every other
  organisation resolves to as it was.\<close>

theorem other_secrets_untouched:
  assumes "store \<in> {secret_create, secret_rotate_value}"
    and "other \<noteq> trim_space (ss_name i) \<or> organization_for_write env' \<noteq> organization_for_write env"
  shows "List.find (has_secret env' other) (db_secrets (w_db (snd (store (secret_store_ports env c) i w)))) =
    List.find (has_secret env' other) (db_secrets (w_db w))"
proof -
  have o: "other_secret env (trim_space (ss_name i)) env' other"
    using assms(2) by (simp add: other_secret_def)
  have "keeps (lookup_of env' other) (store (secret_store_ports env c) i)"
    using assms(1) o
    by (auto simp: secret_create_def secret_rotate_value_def Let_def split: option.split
        intro!: keeps_intros keeps_not_found keeps_insert_other keeps_rotate_other
          keeps_lookup [OF keeps_encrypt] keeps_lookup [OF keeps_audit_secret])
  then show ?thesis
    by (simp add: keeps_def)
qed

text \<open>Storing and auditing are separate statements: when the audit event of a new secret cannot be
  written, \<open>Create\<close> reports an error although the secret is stored, and the next \<open>Create\<close> of the name
  is refused by the unique index.\<close>

theorem unaudited_secret_stays:
  assumes "e_fault env = (\<lambda>n. if n = w_step w + 6 then Some e else None)"
    and "\<And>n. e_random env n = Inr (bytes n)"
    and "validate_store_secret (normalize_store_secret i) = None"
    and "List.find (has_secret env (trim_space (ss_name i))) (db_secrets (w_db w)) = None"
  shows "\<exists>w' w''. secret_create (secret_store_ports env (Some a)) i w =
      (Inl (Wrapped ''audit secret.created: '' (Wrapped ''create audit event: '' e)), w') \<and>
    List.find (has_secret env (trim_space (ss_name i))) (db_secrets (w_db w')) \<noteq> None \<and>
    db_audits (w_db w') = db_audits (w_db w) \<and>
    secret_create (secret_store_ports env (Some a)) i w' =
      (Inl (Wrapped ''create secret: '' unique_violation), w'')"
proof -
  have v: "secret_name_ok (trim_space (ss_name i))"
    by (rule validated_name [OF assms(3)])
  have n: "\<not> (\<exists>r\<in>set (secrets_of w). has_secret env (trim_space (ss_name i)) r)"
    using assms(4) by (auto simp: find_None_iff)
  show ?thesis
    using n
    by (simp add: secret_create_def assms(1,2,3) v encrypt_def seq_def wrapping_def read_random_def secret_insert_def
        new_id_def now_def exec_checked_def exec_def Let_def audit_secret_def audit_create_def require_ok_def
        secret_audit_event_def has_secret_def find_None_iff cong: store_congs)
       (rule exI, rule conjI [OF _ conjI [OF disjI1 [OF refl]]]; simp)
qed

section \<open>Instances\<close>

definition padding_aead :: aead where
  "padding_aead = \<lparr>ae_nonce_size = 12, ae_overhead = 16,
     ae_seal = (\<lambda>n p d. p @ replicate 16 (CHR 0x00)),
     ae_open = (\<lambda>n c d. if length c < 16 then None else Some (take (length c - 16) c))\<rparr>"

lemma padding_aead_ok: "aead_ok padding_aead"
  by (simp add: aead_ok_def padding_aead_def)

lemma calm_random_ok: "random_ok calm_env (ae_nonce_size padding_aead)"
  by (simp add: random_ok_def padding_aead_def zero_bytes_def)

definition sample_secret :: store_secret_input where
  "sample_secret = \<lparr>ss_name = '' tok'', ss_value = ''v'', ss_actor = ''ann'', ss_reason = ''why''\<rparr>"

lemma sample_secret_simps [simp]:
  "trim_space (ss_name sample_secret) = ''tok''" "ss_value sample_secret = ''v''"
  "validate_store_secret (normalize_store_secret sample_secret) = None"
  by (simp_all add: sample_secret_def normalize_store_secret_def validate_store_secret_def secret_name_ok_def str_simps)

lemma sample_secret_created:
  "\<exists>s w'. secret_create (secret_store_ports calm_env (Some padding_aead)) sample_secret sample_world = (Inr s, w')"
proof -
  have "secret_name_ok ''tok''"
    using validated_name [of sample_secret] by simp
  then show ?thesis
    by (simp add: secret_create_def encrypt_def seq_def wrapping_def read_random_def secret_insert_def
        new_id_def now_def exec_checked_def exec_def Let_def audit_secret_def audit_create_def require_ok_def
        secret_audit_event_def sample_world_def sample_db_def empty_db_def cong: store_congs)
qed

theorem stored_secret_resolves_witness:
  "\<exists>s w'. secret_create (secret_store_ports calm_env (Some padding_aead)) sample_secret sample_world = (Inr s, w') \<and>
    resolve_secret (secret_store_ports calm_env (Some padding_aead)) ''tok '' w' = (Inr ''v'', tick w')"
proof -
  obtain s w' where c: "secret_create (secret_store_ports calm_env (Some padding_aead)) sample_secret sample_world = (Inr s, w')"
    using sample_secret_created by blast
  have "trim_space ''tok '' = ''tok''"
    by (simp add: str_simps)
  then show ?thesis
    using stored_secret_resolves [of secret_create calm_env padding_aead sample_secret sample_world s w' w' "''tok ''"]
      c padding_aead_ok calm_random_ok by fastforce
qed

theorem other_secrets_untouched_witness:
  "List.find (has_secret calm_env ''other'')
     (db_secrets (w_db (snd (secret_create (secret_store_ports calm_env (Some padding_aead)) sample_secret sample_world)))) =
   List.find (has_secret calm_env ''other'') (db_secrets (w_db sample_world))"
  by (rule other_secrets_untouched) simp_all

theorem unaudited_secret_stays_witness:
  "\<exists>w' w''. secret_create (secret_store_ports (faulty_env 6) (Some padding_aead)) sample_secret sample_world =
      (Inl (Wrapped ''audit secret.created: '' (Wrapped ''create audit event: '' (Text ''connection lost''))), w') \<and>
    List.find (has_secret (faulty_env 6) ''tok'') (db_secrets (w_db w')) \<noteq> None \<and>
    secret_create (secret_store_ports (faulty_env 6) (Some padding_aead)) sample_secret w' =
      (Inl (Wrapped ''create secret: '' unique_violation), w'')"
proof -
  have f: "e_fault (faulty_env 6) = (\<lambda>n. if n = w_step sample_world + 6 then Some (Text ''connection lost'') else None)"
    by (simp add: sample_world_def)
  show ?thesis
    using unaudited_secret_stays [OF f, of "\<lambda>_. zero_bytes" sample_secret padding_aead]
    by (simp add: sample_world_def sample_db_def empty_db_def) blast
qed

end
