(* ===== verification/Connection_Service.thy ===== *)
theory Connection_Service
  imports Secrets
begin

text \<open>The runtime connection service (\<^verbatim>\<open>internal/services/runtime_connections.go\<close>): registering a
  runtime, changing its settings, removing it, merging a duplicate into it, and the calls that read a
  runtime through its adapter.\<close>

section \<open>Inputs\<close>

record create_input =
  ci_name :: string
  ci_display_name :: string
  ci_environment :: string
  ci_labels :: "(string \<times> string) list"
  ci_kind :: runtime_kind
  ci_mode :: runtime_mode
  ci_endpoint :: string
  ci_actor :: string
  ci_reason :: string
  ci_description :: string
  ci_auth_ref :: string

record settings_input =
  ui_id :: string
  ui_display_name :: string
  ui_environment :: string
  ui_labels :: "(string \<times> string) list"
  ui_mode :: runtime_mode
  ui_endpoint :: string
  ui_auth_ref :: string
  ui_description :: string
  ui_sync_enabled :: bool
  ui_sync_interval :: int
  ui_actor :: string
  ui_reason :: string

record remove_input =
  ri_id :: string
  ri_confirmation :: string
  ri_actor :: string
  ri_reason :: string

record consolidate_input =
  oi_canonical :: string
  oi_duplicate :: string
  oi_kind :: endpoint_kind
  oi_confirmation :: string
  oi_actor :: string
  oi_reason :: string

text \<open>\<^verbatim>\<open>net/url\<close> is a parameter: \<^verbatim>\<open>url.Parse\<close>, and \<^verbatim>\<open>String\<close> of the parts the code writes (the rest
  of the parsed value, such as the user information, is carried along).\<close>

record 'u url =
  url_scheme :: string
  url_host :: string
  url_path :: string
  url_query :: string
  url_fragment :: string
  url_rest :: 'u

record 'u url_library =
  ul_parse :: "string \<Rightarrow> 'u url option"
  ul_string :: "'u url \<Rightarrow> string"

record ('w, 'u) connection_ports =
  np_present :: bool
  np_create :: "runtime_connection \<Rightarrow> ('w, runtime_connection) call"
  np_update :: "runtime_connection \<Rightarrow> ('w, runtime_connection) call"
  np_get :: "string \<Rightarrow> ('w, runtime_connection) call"
  np_list :: "('w, runtime_connection list) call"
  np_archive :: "(string \<Rightarrow> string \<Rightarrow> string \<Rightarrow> ('w, unit) call) option"
  np_consolidate :: "(string \<Rightarrow> string \<Rightarrow> endpoint_kind \<Rightarrow> string \<Rightarrow> string \<Rightarrow> ('w, unit) call) option"
  np_audit :: "(audit_event \<Rightarrow> ('w, audit_event) call) option"
  np_resolve :: "(string \<Rightarrow> ('w, string) call) option"
  np_adapters :: "'w adapters"
  np_url :: "'u url_library"


section \<open>Normalisation and validation\<close>

text \<open>\<^verbatim>\<open>normalizeLabels\<close> over the order in which the map is iterated: the last of several keys that
  become equal wins.\<close>

definition normalize_label :: "string \<times> string \<Rightarrow> (string \<times> string) list \<Rightarrow> (string \<times> string) list" where
  "normalize_label kv m =
     (let key = to_lower (trim_space (fst kv)); value = trim_space (snd kv) in
      if key \<noteq> '''' \<and> value \<noteq> '''' then mput key value m else m)"

definition normalize_labels :: "(string \<times> string) list \<Rightarrow> (string \<times> string) list" where
  "normalize_labels labels = fold normalize_label labels []"

definition endpoint_error :: gerr where
  "endpoint_error = Text ''endpoint must be an absolute http or https URL''"

definition normalize_endpoint :: "'u url_library \<Rightarrow> string \<Rightarrow> string res" where
  "normalize_endpoint lib raw =
     (case ul_parse lib (trim_space raw) of
        None \<Rightarrow> Inl endpoint_error
      | Some u \<Rightarrow>
          if (url_scheme u \<noteq> ''http'' \<and> url_scheme u \<noteq> ''https'') \<or> url_host u = '''' then Inl endpoint_error
          else Inr (trim_right_char (CHR 0x2F) (ul_string lib
                 (u\<lparr>url_scheme := to_lower (url_scheme u), url_host := to_lower (url_host u),
                    url_path := trim_right_char (CHR 0x2F) (url_path u), url_query := '''',
                    url_fragment := ''''\<rparr>))))"

definition environment_error :: gerr where
  "environment_error = Text ''environment must start with a letter and contain only lowercase letters, digits, underscores, or hyphens''"

definition mode_error :: gerr where
  "mode_error = Text (''mode must be one of '' @ quoted ''read_only'' @ '', '' @ quoted ''control_enabled'')"

definition validate_create :: "create_input \<Rightarrow> gerr option" where
  "validate_create i =
     (let environment = to_lower (trim_space (ci_environment i)) in
      if blank (ci_name i) then Some (Text ''name is required'')
      else if ci_kind i \<noteq> KindGantry \<and> ci_kind i \<noteq> KindLangGraph
      then Some (Text (''runtime_type must be one of '' @ quoted ''gantry'' @ '', '' @ quoted ''langgraph''))
      else if ci_mode i \<noteq> ModeReadOnly \<and> ci_mode i \<noteq> ModeControlEnabled then Some mode_error
      else if blank (ci_endpoint i) then Some (Text ''endpoint is required'')
      else if environment \<noteq> '''' \<and> \<not> environment_text_ok environment then Some environment_error
      else if blank (ci_auth_ref i) then Some (Text ''auth_ref is required'')
      else if blank (ci_actor i) then Some (Text ''actor is required'')
      else if blank (ci_reason i) then Some (Text ''reason is required'')
      else None)"

definition connection_event ::
    "string \<Rightarrow> string \<Rightarrow> string \<Rightarrow> string \<Rightarrow> string \<Rightarrow> string \<Rightarrow> gmap \<Rightarrow> gmap \<Rightarrow> audit_event" where
  "connection_event conn actor event target_type target reason before after =
     \<lparr>au_id = '''', au_conn = conn, au_agent = '''', au_action = '''', au_actor = actor, au_event = event,
      au_target_type = target_type, au_target = target, au_reason = reason, au_before = before,
      au_after = after, au_result = ''succeeded'', au_metadata = []\<rparr>"

text \<open>\<^verbatim>\<open>if s.audit != nil\<close> the event is written, and its error ends the operation.\<close>

definition audited ::
    "('w, 'u) connection_ports \<Rightarrow> string \<Rightarrow> audit_event \<Rightarrow> ('w, unit) call" where
  "audited p msg event =
     (case np_audit p of
        None \<Rightarrow> return ()
      | Some create \<Rightarrow> seq (wrapping msg (create event)) (\<lambda>_. return ()))"


section \<open>Create\<close>

definition new_connection :: "create_input \<Rightarrow> string \<Rightarrow> runtime_connection" where
  "new_connection i endpoint =
     (let display = trim_space (ci_display_name i);
          environment = to_lower (trim_space (ci_environment i)) in
      \<lparr>rc_id = '''', rc_org = '''', rc_name = trim_space (ci_name i),
       rc_display_name = (if display = '''' then trim_space (ci_name i) else display),
       rc_environment = (if environment = '''' then ''unspecified'' else environment),
       rc_kind = ci_kind i, rc_mode = ci_mode i, rc_status = RuntimePending, rc_base_url = endpoint,
       rc_auth_ref = trim_space (ci_auth_ref i),
       rc_metadata = [(''description'', GStr (trim_space (ci_description i)))],
       rc_labels = normalize_labels (ci_labels i), rc_last_synced_at = None, rc_sync_enabled = False,
       rc_sync_interval = 0, rc_last_sync_status = SyncUnset, rc_last_sync_started = None,
       rc_last_sync_finished = None, rc_last_sync_duration = 0, rc_last_error = '''', rc_endpoints = []\<rparr>)"

definition created_event :: "create_input \<Rightarrow> runtime_connection \<Rightarrow> audit_event" where
  "created_event i conn =
     connection_event (rc_id conn) (trim_space (ci_actor i)) ''runtime_connection.created'' ''runtime_connection''
       (rc_id conn) (trim_space (ci_reason i)) []
       [(''id'', GStr (rc_id conn)), (''name'', GStr (rc_name conn)),
        (''display_name'', GStr (rc_display_name conn)), (''environment'', GStr (rc_environment conn)),
        (''runtime_type'', GStr (runtime_kind_text (rc_kind conn))),
        (''mode'', GStr (runtime_mode_text (rc_mode conn))),
        (''status'', GStr (runtime_status_text (rc_status conn))), (''endpoint'', GStr (rc_base_url conn)),
        (''auth_ref'', GStr (rc_auth_ref conn))]"

text \<open>The reference is resolved as it was given and stored trimmed.\<close>

definition create_connection ::
    "('w, 'u) connection_ports \<Rightarrow> create_input \<Rightarrow> ('w, runtime_connection) call" where
  "create_connection p i =
     (if \<not> np_present p then failing (Text ''runtime repository is required'')
      else case validate_create i of
        Some e \<Rightarrow> failing e
      | None \<Rightarrow>
          case np_resolve p of
            None \<Rightarrow> failing (Text ''credential resolver is required'')
          | Some resolve \<Rightarrow>
              seq (wrapping ''resolve auth_ref: '' (resolve (ci_auth_ref i))) (\<lambda>_.
              case normalize_endpoint (np_url p) (ci_endpoint i) of
                Inl e \<Rightarrow> failing e
              | Inr endpoint \<Rightarrow>
                  seq (np_create p (new_connection i endpoint)) (\<lambda>conn.
                  seq (if \<not> blank (ci_actor i) \<and> \<not> blank (ci_reason i)
                       then audited p ''audit runtime connection creation: '' (created_event i conn)
                       else return ()) (\<lambda>_.
                  return conn))))"

definition get_connection :: "('w, 'u) connection_ports \<Rightarrow> string \<Rightarrow> ('w, runtime_connection) call" where
  "get_connection p cid =
     (if blank cid then failing (Text ''id is required'') else np_get p (trim_space cid))"


section \<open>UpdateSettings\<close>

text \<open>\<^verbatim>\<open>instanceSettingsAudit\<close>.\<close>

definition settings_audit :: "runtime_connection \<Rightarrow> gmap" where
  "settings_audit c =
     [(''name'', GStr (rc_name c)), (''display_name'', GStr (rc_display_name c)),
      (''environment'', GStr (rc_environment c)),
      (''labels'', GMap (map (\<lambda>(k, v). (k, GStr v)) (rc_labels c))),
      (''description'', (case map_of (rc_metadata c) ''description'' of Some v \<Rightarrow> v | None \<Rightarrow> GNil)),
      (''endpoint'', GStr (rc_base_url c)), (''runtime_type'', GStr (runtime_kind_text (rc_kind c))),
      (''mode'', GStr (runtime_mode_text (rc_mode c))), (''auth_ref'', GStr (rc_auth_ref c)),
      (''sync_enabled'', GBool (rc_sync_enabled c)), (''sync_interval_seconds'', GInt (rc_sync_interval c))]"

definition validate_settings :: "'u url_library \<Rightarrow> settings_input \<Rightarrow> string res" where
  "validate_settings lib i =
     (if blank (ui_id i) \<or> blank (ui_display_name i) then Inl (Text ''id and display_name are required'')
      else if \<not> environment_text_ok (to_lower (trim_space (ui_environment i))) then Inl environment_error
      else if blank (ui_actor i) \<or> blank (ui_reason i) then Inl (Text ''actor and reason are required'')
      else if ui_mode i \<noteq> ModeReadOnly \<and> ui_mode i \<noteq> ModeControlEnabled then Inl mode_error
      else case normalize_endpoint lib (ui_endpoint i) of
        Inl e \<Rightarrow> Inl e
      | Inr endpoint \<Rightarrow>
          if blank (ui_auth_ref i) then Inl (Text ''auth_ref is required'')
          else if ui_sync_interval i < 15 \<or> 86400 < ui_sync_interval i
          then Inl (Text ''sync_interval_seconds must be between 15 and 86400'')
          else Inr endpoint)"

text \<open>\<^verbatim>\<open>updated := before\<close> copies the struct and shares its metadata map: writing the description
  through \<open>updated\<close> writes it into \<open>before\<close> as well (the repository gives a map, never nil).\<close>

definition with_description :: "settings_input \<Rightarrow> runtime_connection \<Rightarrow> runtime_connection" where
  "with_description i c =
     c\<lparr>rc_metadata := mput ''description'' (GStr (trim_space (ui_description i))) (rc_metadata c)\<rparr>"

definition with_settings :: "settings_input \<Rightarrow> string \<Rightarrow> runtime_connection \<Rightarrow> runtime_connection" where
  "with_settings i endpoint c =
     c\<lparr>rc_display_name := trim_space (ui_display_name i),
       rc_environment := to_lower (trim_space (ui_environment i)),
       rc_labels := normalize_labels (ui_labels i), rc_mode := ui_mode i, rc_base_url := endpoint,
       rc_auth_ref := trim_space (ui_auth_ref i), rc_sync_enabled := ui_sync_enabled i,
       rc_sync_interval := ui_sync_interval i\<rparr>"

definition update_settings ::
    "('w, 'u) connection_ports \<Rightarrow> settings_input \<Rightarrow> ('w, runtime_connection) call" where
  "update_settings p i =
     (case validate_settings (np_url p) i of
        Inl e \<Rightarrow> failing e
      | Inr endpoint \<Rightarrow>
          case np_resolve p of
            None \<Rightarrow> failing (Text ''credential resolver is required'')
          | Some resolve \<Rightarrow>
              seq (wrapping ''resolve auth_ref: '' (resolve (trim_space (ui_auth_ref i)))) (\<lambda>_.
              seq (np_get p (trim_space (ui_id i))) (\<lambda>loaded.
              let before = with_description i loaded in
              seq (np_update p (with_settings i endpoint before)) (\<lambda>updated.
              seq (audited p ''audit runtime instance settings update: ''
                     (connection_event (rc_id updated) (trim_space (ui_actor i))
                        ''runtime_instance.settings_updated'' ''runtime_instance'' (rc_id updated)
                        (trim_space (ui_reason i)) (settings_audit before) (settings_audit updated))) (\<lambda>_.
              return updated)))))"


section \<open>Remove and ConsolidateEndpoint\<close>

definition remove_connection :: "('w, 'u) connection_ports \<Rightarrow> remove_input \<Rightarrow> ('w, unit) call" where
  "remove_connection p i =
     (let cid = trim_space (ri_id i); actor = trim_space (ri_actor i); reason = trim_space (ri_reason i) in
      if cid = '''' \<or> actor = '''' \<or> reason = '''' then failing (Text ''id, actor, and reason are required'')
      else seq (np_get p cid) (\<lambda>before.
        if trim_space (ri_confirmation i) \<noteq> rc_name before
        then failing (Text (''confirmation must exactly match the stable key '' @ quoted (rc_name before)))
        else case np_archive p of
          None \<Rightarrow> failing (Text ''runtime repository does not support removal'')
        | Some archive \<Rightarrow>
            seq (archive cid actor reason) (\<lambda>_.
            audited p ''audit runtime instance removal: ''
              (connection_event (rc_id before) actor ''runtime_instance.removed'' ''runtime_instance''
                 (rc_id before) reason (settings_audit before)
                 [(''archived'', GBool True), (''sync_enabled'', GBool False), (''status'', GStr ''disabled'')]))))"

definition consolidated_event ::
    "runtime_connection \<Rightarrow> runtime_connection \<Rightarrow> endpoint_kind \<Rightarrow> string \<Rightarrow> string \<Rightarrow> audit_event" where
  "consolidated_event canonical duplicate kind actor reason =
     connection_event (rc_id canonical) actor ''runtime_endpoint.consolidated'' ''runtime_endpoint''
       (rc_id duplicate) reason
       [(''runtime_instance_id'', GStr (rc_id duplicate)), (''name'', GStr (rc_name duplicate)),
        (''endpoint'', GStr (rc_base_url duplicate))]
       [(''canonical_runtime_instance_id'', GStr (rc_id canonical)),
        (''endpoint'', GStr (rc_base_url duplicate)), (''kind'', GStr (endpoint_kind_text kind))]"

definition consolidate_connection ::
    "('w, 'u) connection_ports \<Rightarrow> consolidate_input \<Rightarrow> ('w, runtime_connection) call" where
  "consolidate_connection p i =
     (let canonical_id = trim_space (oi_canonical i); duplicate_id = trim_space (oi_duplicate i);
          actor = trim_space (oi_actor i); reason = trim_space (oi_reason i) in
      if canonical_id = '''' \<or> duplicate_id = '''' \<or> actor = '''' \<or> reason = ''''
      then failing (Text ''canonical_id, duplicate_id, actor, and reason are required'')
      else if canonical_id = duplicate_id
      then failing (Text ''canonical and duplicate runtime instances must be different'')
      else if oi_kind i \<noteq> EndpointAlias \<and> oi_kind i \<noteq> EndpointRelay
      then failing (Text (''kind must be one of '' @ quoted ''alias'' @ '' or '' @ quoted ''relay''))
      else seq (np_get p canonical_id) (\<lambda>canonical.
        seq (np_get p duplicate_id) (\<lambda>duplicate.
        if rc_kind canonical \<noteq> rc_kind duplicate then failing (Text ''runtime types must match'')
        else if trim_space (oi_confirmation i) \<noteq> rc_name duplicate
        then failing (Text (''confirmation must exactly match the duplicate stable key '' @
               quoted (rc_name duplicate)))
        else case np_consolidate p of
          None \<Rightarrow> failing (Text ''runtime repository does not support endpoint consolidation'')
        | Some consolidate \<Rightarrow>
            seq (consolidate canonical_id duplicate_id (oi_kind i) actor reason) (\<lambda>_.
            seq (np_get p canonical_id) (\<lambda>updated.
            seq (audited p ''audit endpoint consolidation: ''
                   (consolidated_event canonical duplicate (oi_kind i) actor reason)) (\<lambda>_.
            return updated))))))"


section \<open>Reading a runtime\<close>

definition connection_adapter ::
    "('w, 'u) connection_ports \<Rightarrow> string \<Rightarrow> ('w, runtime_connection \<times> 'w adapter) call" where
  "connection_adapter p cid =
     seq (get_connection p cid) (\<lambda>conn.
     case map_of (np_adapters p) (rc_kind conn) of
       None \<Rightarrow> failing (Text (''runtime adapter '' @ quoted (runtime_kind_text (rc_kind conn)) @ '' is not registered''))
     | Some a \<Rightarrow> return (conn, a))"

definition test_connection :: "('w, 'u) connection_ports \<Rightarrow> string \<Rightarrow> ('w, check_result) call" where
  "test_connection p cid = seq (connection_adapter p cid) (\<lambda>(conn, a). ad_check a conn)"

text \<open>\<^verbatim>\<open>ListAgents\<close>, and \<^verbatim>\<open>GetAgentAccess\<close> and \<^verbatim>\<open>ListAgentSkills\<close> of one agent; \<open>read\<close> is the call of
  the adapter.\<close>

definition list_live_agents ::
    "('w, 'u) connection_ports \<Rightarrow> ('w adapter \<Rightarrow> runtime_connection \<Rightarrow> ('w, 'a) call) \<Rightarrow> string \<Rightarrow> ('w, 'a) call" where
  "list_live_agents p read cid = seq (connection_adapter p cid) (\<lambda>(conn, a). read a conn)"

definition read_live_agent ::
    "('w, 'u) connection_ports \<Rightarrow> ('w adapter \<Rightarrow> runtime_connection \<Rightarrow> string \<Rightarrow> ('w, 'a) call) \<Rightarrow>
     string \<Rightarrow> string \<Rightarrow> ('w, 'a) call" where
  "read_live_agent p read cid agent =
     (if blank agent then failing (Text ''runtime agent id is required'')
      else seq (connection_adapter p cid) (\<lambda>(conn, a). read a conn (trim_space agent)))"

text \<open>The ports on the repositories of the store and the secret service.\<close>

definition store_connection_ports ::
    "env \<Rightarrow> aead option \<Rightarrow> 'x adapters \<Rightarrow> ('x adapter \<Rightarrow> (db, 'x) world adapter) \<Rightarrow> 'u url_library \<Rightarrow>
     ((db, 'x) world, 'u) connection_ports" where
  "store_connection_ports env c as lift lib =
     \<lparr>np_present = True, np_create = connection_create env, np_update = connection_update_settings env,
      np_get = connection_get env, np_list = connection_list env, np_archive = Some (connection_archive env),
      np_consolidate = Some (consolidate_endpoint env), np_audit = Some (audit_create env),
      np_resolve = Some (resolve_secret (secret_store_ports env c)),
      np_adapters = map (\<lambda>(k, a). (k, lift a)) as, np_url = lib\<rparr>"

lemma store_connection_ports_simps [simp]:
  "np_present (store_connection_ports env c as lift lib)"
  "np_create (store_connection_ports env c as lift lib) = connection_create env"
  "np_update (store_connection_ports env c as lift lib) = connection_update_settings env"
  "np_get (store_connection_ports env c as lift lib) = connection_get env"
  "np_list (store_connection_ports env c as lift lib) = connection_list env"
  "np_archive (store_connection_ports env c as lift lib) = Some (connection_archive env)"
  "np_consolidate (store_connection_ports env c as lift lib) = Some (consolidate_endpoint env)"
  "np_audit (store_connection_ports env c as lift lib) = Some (audit_create env)"
  "np_resolve (store_connection_ports env c as lift lib) = Some (resolve_secret (secret_store_ports env c))"
  "np_url (store_connection_ports env c as lift lib) = lib"
  by (simp_all add: store_connection_ports_def)

end
