(* ===== verification/Connection_Claims.thy ===== *)
theory Connection_Claims
  imports Connection_Service Samples
begin

text \<open>The claims about the connection service: labels, the confirmation that a removal and a merge
  need, what a removal leaves, and what the audit event of a settings update shows.\<close>

section \<open>Labels\<close>

definition clean_label :: "string \<times> string \<Rightarrow> string \<times> string" where
  "clean_label kv = (to_lower (trim_space (fst kv)), trim_space (snd kv))"

definition label_kept :: "string \<times> string \<Rightarrow> bool" where
  "label_kept kv \<longleftrightarrow> fst (clean_label kv) \<noteq> '''' \<and> snd (clean_label kv) \<noteq> ''''"

lemma normalize_label_alt:
  "normalize_label kv m = (if label_kept kv then mput (fst (clean_label kv)) (snd (clean_label kv)) m else m)"
  by (simp add: normalize_label_def label_kept_def clean_label_def Let_def)

text \<open>The last label of a key wins, over what was there before.\<close>

lemma fold_labels_lookup:
  "map_of (fold normalize_label kvs m) k =
     (case map_of (rev (map clean_label (filter label_kept kvs))) k of Some v \<Rightarrow> Some v | None \<Rightarrow> map_of m k)"
proof (induction kvs arbitrary: m)
  case Nil
  then show ?case
    by simp
next
  case (Cons kv kvs)
  show ?case
    unfolding fold_Cons o_apply Cons.IH
    by (cases "clean_label kv") (auto simp: normalize_label_alt map_add_def split: option.split)
qed

lemma normalize_labels_lookup:
  "map_of (normalize_labels kvs) = map_of (rev (map clean_label (filter label_kept kvs)))"
  by (rule ext) (simp add: normalize_labels_def fold_labels_lookup split: option.split)

text \<open>What \<open>normalizeLabels\<close> gives is independent of the order in which Go iterates the map exactly
  as long as the kept labels have different keys once trimmed and lowered; two labels whose keys
  become equal and whose values differ give different results in the two orders.\<close>

theorem label_order:
  assumes "set kvs = set kvs'"
    and "\<And>a b. a \<in> set kvs \<Longrightarrow> b \<in> set kvs \<Longrightarrow> label_kept a \<Longrightarrow> label_kept b \<Longrightarrow>
      fst (clean_label a) = fst (clean_label b) \<Longrightarrow> snd (clean_label a) = snd (clean_label b)"
    and "label_kept a" and "label_kept b" and "fst (clean_label a) = fst (clean_label b)"
    and "snd (clean_label a) \<noteq> snd (clean_label b)"
  shows "map_of (normalize_labels kvs) = map_of (normalize_labels kvs') \<and>
    map_of (normalize_labels [a, b]) \<noteq> map_of (normalize_labels [b, a])"
proof -
  let ?c = "\<lambda>kvs. map clean_label (filter label_kept kvs)"
  have func: "v = v'" if "(k, v) \<in> set (?c kvs)" "(k, v') \<in> set (?c kvs)" for k v v'
    using that assms(2) by auto (metis fst_conv snd_conv)
  have same: "set (?c kvs) = set (?c kvs')"
    using assms(1) by auto
  have "map_of (rev (?c kvs)) k = map_of (rev (?c kvs')) k" for k
  proof (cases "map_of (rev (?c kvs)) k")
    case None
    then have "k \<notin> fst ` set (?c kvs')"
      unfolding map_of_eq_None_iff set_rev same .
    then have "map_of (rev (?c kvs')) k = None"
      unfolding map_of_eq_None_iff set_rev .
    then show ?thesis
      using None by simp
  next
    case (Some v)
    then have v: "(k, v) \<in> set (?c kvs)"
      by (metis map_of_SomeD set_rev)
    have "k \<in> fst ` set (?c kvs')"
      using v unfolding same by (rule rev_image_eqI) simp
    then have "map_of (rev (?c kvs')) k \<noteq> None"
      unfolding map_of_eq_None_iff set_rev by simp
    then obtain v' where v': "map_of (rev (?c kvs')) k = Some v'"
      by blast
    then have "(k, v') \<in> set (?c kvs)"
      unfolding same by (auto dest: map_of_SomeD)
    then show ?thesis
      using func [OF v] Some v' by simp
  qed
  then have "map_of (normalize_labels kvs) = map_of (normalize_labels kvs')"
    by (simp add: normalize_labels_lookup fun_eq_iff)
  moreover have "map_of (normalize_labels [a, b]) (fst (clean_label a)) = Some (snd (clean_label b))"
      and "map_of (normalize_labels [b, a]) (fst (clean_label a)) = Some (snd (clean_label a))"
    using assms(3-5) by (simp_all add: normalize_labels_def normalize_label_alt)
  ultimately show ?thesis
    using assms(6) by (metis option.inject)
qed

theorem label_order_witness:
  "map_of (normalize_labels [(''Env'', ''a''), (''team'', '' b'')]) =
     map_of (normalize_labels [(''team'', '' b''), (''Env'', ''a'')]) \<and>
   map_of (normalize_labels [(''Env'', ''a''), (''env '', ''b'')]) \<noteq>
     map_of (normalize_labels [(''env '', ''b''), (''Env'', ''a'')])"
proof -
  have "clean_label (''Env'', ''a'') = (''env'', ''a'')" "clean_label (''env '', ''b'') = (''env'', ''b'')"
    "clean_label (''team'', '' b'') = (''team'', ''b'')"
    by code_simp+
  then show ?thesis
    by (intro label_order) (auto simp: label_kept_def)
qed


section \<open>Confirmations\<close>

lemma keeps_connection_get: "keeps w_db (connection_get env cid)"
  unfolding connection_get_def list_endpoints_def
  by (intro keeps_intros keeps_query_db [where obs = "\<lambda>d. d"] keeps_query_row_db [where obs = "\<lambda>d. d"])

lemma connection_get_Inr:
  assumes "connection_get env cid w = (Inr c, w')"
  shows "\<exists>c0 es. find_active env cid (w_db w) = Some c0 \<and> c = c0\<lparr>rc_endpoints := es\<rparr> \<and> w_db w' = w_db w"
  using assms keepsD [OF keeps_connection_get assms]
  by (auto simp: connection_get_def seq_Inr_iff wrapping_Inr_iff query_row_def query_def
      split: option.splits)

text \<open>Without the exact key of the runtime as its confirmation a removal changes nothing, and
  neither does a merge without the key of the duplicate.\<close>

theorem unconfirmed_change_untouched:
  assumes "map_option rc_name (find_active env (trim_space (ri_id i)) (w_db w)) \<noteq> Some (trim_space (ri_confirmation i))"
    and "map_option rc_name (find_active env (trim_space (oi_duplicate j)) (w_db w)) \<noteq>
      Some (trim_space (oi_confirmation j))"
  shows "w_db (snd (remove_connection (store_connection_ports env c as lift lib) i w)) = w_db w \<and>
    w_db (snd (consolidate_connection (store_connection_ports env c as lift lib) j w)) = w_db w"
proof
  let ?p = "store_connection_ports env c as lift lib"
  have get: "w_db w'' = w_db w'" if "connection_get env cid w' = (r, w'')" for cid w' w'' and r
    using keepsD [OF keeps_connection_get that] .
  show "w_db (snd (remove_connection ?p i w)) = w_db w"
  proof (cases "connection_get env (trim_space (ri_id i)) w")
    case (Pair r w')
    show ?thesis
    proof (cases r)
      case (Inl e)
      then show ?thesis
        using Pair get [OF Pair] by (simp add: remove_connection_def Let_def)
    next
      case (Inr b)
      then show ?thesis
        using Pair get [OF Pair] connection_get_Inr [of env "trim_space (ri_id i)" w b w'] assms(1)
        by (auto simp: remove_connection_def Let_def)
    qed
  qed
  show "w_db (snd (consolidate_connection ?p j w)) = w_db w"
  proof (cases "connection_get env (trim_space (oi_canonical j)) w")
    case (Pair r w')
    show ?thesis
    proof (cases r)
      case (Inl e)
      then show ?thesis
        using Pair get [OF Pair] by (simp add: consolidate_connection_def Let_def)
    next
      case canon: (Inr b)
      obtain r2 w2 where two: "connection_get env (trim_space (oi_duplicate j)) w' = (r2, w2)"
        by fastforce
      have db: "w_db w' = w_db w" "w_db w2 = w_db w"
        using get [OF Pair] get [OF two] by simp_all
      show ?thesis
      proof (cases r2)
        case (Inl e)
        then show ?thesis
          using Pair canon two db by (simp add: consolidate_connection_def Let_def)
      next
        case (Inr d)
        then have "rc_name d \<noteq> trim_space (oi_confirmation j)"
          using connection_get_Inr [of env "trim_space (oi_duplicate j)" w' d w2] two db assms(2) by auto
        then show ?thesis
          using Pair canon two db Inr by (simp add: consolidate_connection_def Let_def)
      qed
    qed
  qed
qed

definition removal_event :: "remove_input \<Rightarrow> runtime_connection \<Rightarrow> audit_event" where
  "removal_event i c =
     connection_event (rc_id c) (trim_space (ri_actor i)) ''runtime_instance.removed'' ''runtime_instance'' (rc_id c)
       (trim_space (ri_reason i)) (settings_audit c)
       [(''archived'', GBool True), (''sync_enabled'', GBool False), (''status'', GStr ''disabled'')]"

lemma audited_Inr:
  assumes "audited (store_connection_ports env c as lift lib) m event w = (Inr (), w')" and "au_id event = ''''"
  shows "\<exists>aid t. w_db w' = (w_db w)\<lparr>db_audits := db_audits (w_db w) @
      [\<lparr>ur_event = event\<lparr>au_id := aid\<rparr>, ur_org = organization_for_write env, ur_created_at = t\<rparr>]\<rparr>"
  using assms
  by (auto simp: audited_def audit_create_def seq_Inr_iff wrapping_Inr_iff Let_def exec_def now_def new_id_def
      split: option.splits sum.splits if_splits) (intro exI, rule refl)

lemma archive_Inr:
  assumes "connection_archive env cid actor reason w = (Inr (), w')"
  shows "\<exists>t. w_db w' = (w_db w)\<lparr>db_conns := update_where (\<lambda>r. rc_id (cr_conn r) = cid \<and> active_in_tenant env r)
      (archived_row t actor reason ''removed'') (db_conns (w_db w))\<rparr>"
  using assms
  by (auto simp: connection_archive_def seq_Inr_iff wrapping_Inr_iff exec_returning_def exec_def
      split: option.splits sum.splits if_splits)

lemma archived_row_inactive [simp]: "\<not> active_in_tenant env (archived_row t a r k row)"
  by (simp add: active_in_tenant_def archived_row_def)

text \<open>C27: A removal that succeeds was confirmed with the name of an active runtime of the tenant, by a named
  actor with a reason.  It archives exactly the active rows of the tenant with that id, which are
  disabled and no longer synchronised, and appends one audit event with the settings before it; every
  other row of every table is as it was, and the tenant has no active runtime with the id any more.\<close>

theorem removal_archives:
  assumes "remove_connection (store_connection_ports env c as lift lib) i w = (Inr (), w')"
  shows "\<exists>c0 t aid t'. find_active env (trim_space (ri_id i)) (w_db w) = Some c0 \<and>
      rc_name c0 = trim_space (ri_confirmation i) \<and> trim_space (ri_actor i) \<noteq> '''' \<and> trim_space (ri_reason i) \<noteq> '''' \<and>
      w_db w' = (w_db w)\<lparr>
        db_conns := update_where (\<lambda>r. rc_id (cr_conn r) = trim_space (ri_id i) \<and> active_in_tenant env r)
          (\<lambda>r. r\<lparr>cr_archived_at := Some t, cr_archived_by := trim_space (ri_actor i),
             cr_archive_reason := trim_space (ri_reason i), cr_archive_kind := ''removed'',
             cr_conn := (cr_conn r)\<lparr>rc_sync_enabled := False, rc_status := RuntimeDisabled\<rparr>\<rparr>) (db_conns (w_db w)),
        db_audits := db_audits (w_db w) @ [\<lparr>ur_event = (removal_event i c0)\<lparr>au_id := aid\<rparr>,
          ur_org = organization_for_write env, ur_created_at = t'\<rparr>]\<rparr> \<and>
      find_active env (trim_space (ri_id i)) (w_db w') = None"
proof -
  let ?p = "store_connection_ports env c as lift lib" and ?id = "trim_space (ri_id i)"
  let ?actor = "trim_space (ri_actor i)" and ?reason = "trim_space (ri_reason i)"
  let ?gone = "\<lambda>t. update_where (\<lambda>r. rc_id (cr_conn r) = ?id \<and> active_in_tenant env r)
    (archived_row t ?actor ?reason ''removed'')"
  obtain b w1 w2 where g: "connection_get env ?id w = (Inr b, w1)" and n: "trim_space (ri_confirmation i) = rc_name b"
      and ar: "connection_archive env ?id ?actor ?reason w1 = (Inr (), w2)" and ne: "?actor \<noteq> ''''" "?reason \<noteq> ''''"
      and au: "audited ?p ''audit runtime instance removal: '' (removal_event i b) w2 = (Inr (), w')"
    using assms by (auto simp: remove_connection_def Let_def seq_Inr_iff removal_event_def split: if_splits)
  obtain c0 es where c0: "find_active env ?id (w_db w) = Some c0" "b = c0\<lparr>rc_endpoints := es\<rparr>" "w_db w1 = w_db w"
    using connection_get_Inr [OF g] by blast
  have e: "removal_event i b = removal_event i c0"
    by (simp add: c0(2) removal_event_def settings_audit_def)
  obtain t where t: "w_db w2 = (w_db w)\<lparr>db_conns := ?gone t (db_conns (w_db w))\<rparr>"
    using archive_Inr [OF ar] c0(3) by auto
  have "au_id (removal_event i b) = ''''"
    by (simp add: removal_event_def connection_event_def)
  from audited_Inr [OF au this] obtain aid t' where a: "w_db w' = (w_db w2)\<lparr>db_audits := db_audits (w_db w2) @
      [\<lparr>ur_event = (removal_event i c0)\<lparr>au_id := aid\<rparr>, ur_org = organization_for_write env, ur_created_at = t'\<rparr>]\<rparr>"
    by (auto simp: e)
  have "find_active env ?id (w_db w') = None"
    by (auto simp: find_active_def a t find_None_iff set_update_where)
  then show ?thesis
    using c0 n ne a t by (auto simp: archived_row_def [abs_def])
qed


section \<open>The audit event of a settings update\<close>

text \<open>The audit event of a successful settings update shows the new description as the one before the
  update as well, whatever the stored description was: \<^verbatim>\<open>updated\<close> and \<^verbatim>\<open>before\<close> share one metadata
  map.\<close>

theorem settings_audit_loses_description:
  assumes "update_settings p i w = (Inr updated, w')" and "np_audit p = Some audit"
  shows "\<exists>event w1 w2. map_of (au_before event) ''description'' = Some (GStr (trim_space (ui_description i))) \<and>
    au_event event = ''runtime_instance.settings_updated'' \<and> audit event w1 = (Inr w2, w')"
proof -
  obtain endpoint where v: "validate_settings (np_url p) i = Inr endpoint"
    using assms(1) by (auto simp: update_settings_def split: sum.splits)
  obtain resolve where r: "np_resolve p = Some resolve"
    using assms(1) v by (auto simp: update_settings_def split: option.splits)
  obtain loaded w1 w2 e where u: "np_update p (with_settings i endpoint (with_description i loaded)) w1 = (Inr updated, w2)"
      and a: "audit (connection_event (rc_id updated) (trim_space (ui_actor i)) ''runtime_instance.settings_updated''
        ''runtime_instance'' (rc_id updated) (trim_space (ui_reason i))
        (settings_audit (with_description i loaded)) (settings_audit updated)) w2 = (Inr e, w')"
    using assms(1)
    by (auto simp: update_settings_def v r Let_def seq_Inr_iff wrapping_Inr_iff audited_def assms(2))
  show ?thesis
    by (rule exI, rule exI, rule exI, rule conjI [OF _ conjI [OF _ a]])
       (simp_all add: connection_event_def settings_audit_def with_description_def)
qed

section \<open>Instances\<close>

definition sample_removal :: remove_input where
  "sample_removal = \<lparr>ri_id = ''c1'', ri_confirmation = ''gantry-1'', ri_actor = ''ann'', ri_reason = ''retired''\<rparr>"

definition wrong_merge :: consolidate_input where
  "wrong_merge = \<lparr>oi_canonical = ''c1'', oi_duplicate = ''c2'', oi_kind = EndpointAlias,
     oi_confirmation = ''gantry-1'', oi_actor = ''ann'', oi_reason = ''same runtime''\<rparr>"

definition plain_urls :: "unit url_library" where
  "plain_urls = \<lparr>ul_parse = (\<lambda>s. Some \<lparr>url_scheme = ''http'', url_host = s, url_path = '''', url_query = '''',
       url_fragment = '''', url_rest = ()\<rparr>), ul_string = (\<lambda>u. ''http://'' @ url_host u)\<rparr>"

lemma sample_texts [simp]:
  "trim_space ''c1'' = ''c1''" "trim_space ''c2'' = ''c2''" "trim_space ''gantry-1'' = ''gantry-1''"
  "trim_space ''Gantry-1'' = ''Gantry-1''" "trim_space ''ann'' = ''ann''" "trim_space ''retired'' = ''retired''"
  by (simp_all add: str_simps)

abbreviation sample_ports :: "((db, unit) world, unit) connection_ports" where
  "sample_ports \<equiv> store_connection_ports calm_env None [] (\<lambda>a. undefined) plain_urls"

theorem unconfirmed_change_untouched_witness:
  "w_db (snd (remove_connection sample_ports (sample_removal\<lparr>ri_confirmation := ''Gantry-1''\<rparr>) sample_world)) =
     w_db sample_world \<and>
   w_db (snd (consolidate_connection sample_ports wrong_merge sample_world)) = w_db sample_world"
  by (rule unconfirmed_change_untouched)
     (simp_all add: sample_removal_def wrong_merge_def sample_defs find_active_def active_in_tenant_def
       tenant_allows_def tenant_def organization_id_def principal_from_def)

theorem removal_archives_witness:
  "\<exists>w'. remove_connection sample_ports sample_removal sample_world = (Inr (), w') \<and>
     find_active calm_env ''c1'' (w_db w') = None"
proof -
  have t: "tenant calm_env = ''''"
    by (simp add: tenant_def organization_id_def principal_from_def)
  have "fst (remove_connection sample_ports sample_removal sample_world) = Inr ()"
    by (simp add: remove_connection_def sample_removal_def connection_get_def list_endpoints_def query_row_def query_def
        seq_def wrapping_def find_active_def active_in_tenant_def t tenant_allows_def sample_defs Let_def
        connection_archive_def exec_returning_def exec_def audited_def audit_create_def connection_event_def
        new_id_def now_def cong: store_congs)
  then obtain w' where w': "remove_connection sample_ports sample_removal sample_world = (Inr (), w')"
    by (cases "remove_connection sample_ports sample_removal sample_world") auto
  have "trim_space (ri_id sample_removal) = ''c1''"
    by (simp add: sample_removal_def)
  then show ?thesis
    using removal_archives [OF w'] w' by auto
qed

definition sample_settings :: settings_input where
  "sample_settings = \<lparr>ui_id = ''c1'', ui_display_name = ''c1'', ui_environment = ''c1'', ui_labels = [],
     ui_mode = ModeReadOnly, ui_endpoint = ''c1'', ui_auth_ref = ''c1'', ui_description = ''retired'',
     ui_sync_enabled = True, ui_sync_interval = 60, ui_actor = ''ann'', ui_reason = ''retired''\<rparr>"

definition plain_ports :: "(audit_event list, unit) connection_ports" where
  "plain_ports = \<lparr>np_present = True, np_create = return, np_update = return,
     np_get = (\<lambda>_. return (sample_conn\<lparr>rc_metadata := [(''description'', GStr ''old'')]\<rparr>)),
     np_list = return [], np_archive = None, np_consolidate = None,
     np_audit = Some (\<lambda>e w. (Inr e, w @ [e])), np_resolve = Some return, np_adapters = [],
     np_url = plain_urls\<rparr>"

theorem settings_audit_loses_description_witness:
  "\<exists>c event. update_settings plain_ports sample_settings [] = (Inr c, [event]) \<and>
     map_of (au_before event) ''description'' = Some (GStr ''retired'')"
proof -
  have v: "validate_settings (np_url plain_ports) sample_settings = Inr ''http://c1''"
  proof -
    have l: "to_lower ''c1'' = ''c1''" "trim_right_char (CHR 0x2F) ''http://c1'' = ''http://c1''"
      by code_simp+
    have l3: "lower_byte CHR ''c'' = CHR ''c''" "lower_byte CHR ''1'' = CHR ''1''" "lower_byte CHR ''h'' = CHR ''h''"
      "lower_byte CHR ''t'' = CHR ''t''" "lower_byte CHR ''p'' = CHR ''p''"
      by code_simp+
    have l2: "to_lower ''http'' = ''http''" "trim_right_char (CHR 0x2F) [] = []" "environment_text_ok ''c1''"
      by code_simp+
    show ?thesis
      by (simp add: validate_settings_def sample_settings_def plain_ports_def normalize_endpoint_def plain_urls_def
          blank_def l l2 l3)
  qed
  obtain c event where u: "update_settings plain_ports sample_settings [] = (Inr c, [event])"
    by (simp add: update_settings_def v) (simp add: plain_ports_def seq_def wrapping_def audited_def Let_def)
  have d: "trim_space (ui_description sample_settings) = ''retired''"
    by (simp add: sample_settings_def)
  have "np_audit plain_ports = Some (\<lambda>e w. (Inr e, w @ [e]))"
    by (simp add: plain_ports_def)
  then obtain event' w1 w2 where e: "map_of (au_before event') ''description'' = Some (GStr ''retired'')"
      "((Inr event', w1 @ [event'])::audit_event res \<times> audit_event list) = (Inr w2, [event])"
    using settings_audit_loses_description [OF u] unfolding d by auto
  then show ?thesis
    using u by auto
qed

end
