(* ===== verification/Decimals.thy ===== *)
theory Decimals
  imports Go_Base "HOL-Library.Log_Nat"
begin

text \<open>Numbers as \<^verbatim>\<open>internal/services/telemetry.go\<close> computes with them: decimals parsed into and
  printed from \<^verbatim>\<open>big.Rat\<close>, and the rounding of \<^verbatim>\<open>float64\<close>.\<close>

section \<open>Splitting\<close>

text \<open>\<^verbatim>\<open>strings.Split\<close> at a one byte separator.\<close>

fun split_on :: "char \<Rightarrow> string \<Rightarrow> string list" where
  "split_on c [] = [[]]"
| "split_on c (x # xs) =
     (if x = c then [] # split_on c xs
      else case split_on c xs of [] \<Rightarrow> [[x]] | y # ys \<Rightarrow> (x # y) # ys)"

lemma split_on_append [simp]: "c \<notin> set a \<Longrightarrow> split_on c (a @ c # b) = a # split_on c b"
  by (induction a) auto

lemma split_on_none [simp]: "c \<notin> set a \<Longrightarrow> split_on c a = [a]"
  by (induction a) auto


section \<open>Digits\<close>

definition digit :: "char \<Rightarrow> bool" where
  "digit c \<longleftrightarrow> byte_in 48 57 c"

definition digit_value :: "char \<Rightarrow> nat" where
  "digit_value c = of_char c - 48"

definition digits_value :: "string \<Rightarrow> nat" where
  "digits_value s = foldl (\<lambda>n c. 10 * n + digit_value c) 0 s"

lemma digits_value_snoc [simp]: "digits_value (s @ [c]) = 10 * digits_value s + digit_value c"
  by (simp add: digits_value_def)

lemma digits_value_Nil [simp]: "digits_value [] = 0"
  by (simp add: digits_value_def)

lemma digits_value_append: "digits_value (s @ t) = digits_value s * 10 ^ length t + digits_value t"
  by (induction t rule: rev_induct) (simp_all flip: append_assoc add: algebra_simps)

lemma digits_value_zeros [simp]: "digits_value (replicate n (CHR 0x30)) = 0"
proof (induction n)
  case (Suc n)
  have "replicate (Suc n) (CHR 0x30) = replicate n (CHR 0x30) @ [CHR 0x30]"
    by (simp add: replicate_append_same)
  then show ?case
    using Suc by (simp only: digits_value_snoc) (simp add: digit_value_def)
qed simp

lemma digit_char [simp]: "n < 10 \<Longrightarrow> digit (char_of (48 + n)) \<and> digit_value (char_of (48 + n)) = n"
  by (simp add: digit_def byte_in_def digit_value_def)

lemma show_nat_digits: "list_all digit (show_nat n) \<and> digits_value (show_nat n) = n \<and> show_nat n \<noteq> []"
proof (induction n rule: show_nat.induct)
  case (1 n)
  then show ?case
    using digit_char [of n] digit_char [of "n mod 10"] digits_value_snoc [of "[]"]
    by (auto simp: show_nat.simps [of n])
qed

lemma show_nat_length: "n < 10 ^ Suc k \<Longrightarrow> length (show_nat n) \<le> Suc k"
proof (induction k arbitrary: n)
  case 0
  then show ?case
    by (simp add: show_nat.simps [of n])
next
  case (Suc k)
  then have "n div 10 < 10 ^ Suc k"
    by (simp add: less_mult_imp_div_less mult.commute)
  then show ?case
    using Suc.IH [of "n div 10"] by (simp add: show_nat.simps [of n])
qed


section \<open>\<^verbatim>\<open>big.Rat.SetString\<close> and \<^verbatim>\<open>FloatString\<close>\<close>

text \<open>The accepted texts: a sign, digits with at most one point, a decimal exponent.  Fractions
  \<open>a/b\<close>, base prefixes and underscores, which no catalog or connector of the program writes, are left
  out.\<close>

definition with_sign :: "(string \<Rightarrow> 'a::uminus option) \<Rightarrow> string \<Rightarrow> 'a option" where
  "with_sign f s =
     (case s of
        [] \<Rightarrow> f []
      | c # t \<Rightarrow> if c = CHR 0x2D then map_option uminus (f t) else if c = CHR 0x2B then f t else f s)"

definition parse_nat :: "string \<Rightarrow> int option" where
  "parse_nat s = (if s \<noteq> [] \<and> list_all digit s then Some (int (digits_value s)) else None)"

definition parse_exponent :: "string \<Rightarrow> int option" where
  "parse_exponent s =
     (case s of
        [] \<Rightarrow> Some 0
      | c # t \<Rightarrow> if c = CHR 0x65 \<or> c = CHR 0x45 then with_sign parse_nat t else None)"

definition parse_mantissa :: "string \<Rightarrow> rat option" where
  "parse_mantissa s =
     (let whole = takeWhile digit s; rest = dropWhile digit s;
          point = rest \<noteq> [] \<and> hd rest = CHR 0x2E;
          frac = (if point then takeWhile digit (tl rest) else []);
          exponent = (if point then dropWhile digit (tl rest) else rest)
      in if whole @ frac = [] then None
         else map_option (\<lambda>e. of_nat (digits_value (whole @ frac)) * 10 powi (e - int (length frac)))
                (parse_exponent exponent))"

definition parse_rat :: "string \<Rightarrow> rat option" where
  "parse_rat s = with_sign parse_mantissa s"

text \<open>\<^verbatim>\<open>FloatString(n)\<close> rounds half away from zero.\<close>

definition pad_zeros :: "nat \<Rightarrow> string \<Rightarrow> string" where
  "pad_zeros n s = replicate (n - length s) (CHR 0x30) @ s"

definition scaled :: "nat \<Rightarrow> rat \<Rightarrow> nat" where
  "scaled n q = nat \<lfloor>\<bar>q\<bar> * 10 ^ n + 1 / 2\<rfloor>"

definition float_string :: "nat \<Rightarrow> rat \<Rightarrow> string" where
  "float_string n q =
     (if q < 0 then ''-'' else '''') @ show_nat (scaled n q div 10 ^ n) @ ''.'' @
     pad_zeros n (show_nat (scaled n q mod 10 ^ n))"

definition decimal_from_rat :: "rat \<Rightarrow> string" where
  "decimal_from_rat q =
     (let text = trim_right_char (CHR 0x2E) (trim_right_char (CHR 0x30) (float_string 10 q))
      in if text = '''' then ''0'' else text)"

text \<open>What the printed decimal stands for: the rational rounded to ten places.\<close>

definition round10 :: "rat \<Rightarrow> rat" where
  "round10 q = (if q < 0 then - of_nat (scaled 10 q) else of_nat (scaled 10 q)) / 10 ^ 10"

lemma trim_right_char_append:
  "s \<noteq> [] \<Longrightarrow> last s \<noteq> c \<Longrightarrow> trim_right_char c (s @ replicate n c) = s"
proof (cases s rule: rev_cases)
  case (snoc ys y)
  moreover have "dropWhile (\<lambda>d. d = c) (replicate n c @ t) = dropWhile (\<lambda>d. d = c) t" for t
    by (induction n) auto
  moreover assume "last s \<noteq> c"
  ultimately show ?thesis
    by (simp add: trim_right_char_def)
qed simp

lemma trim_right_char_split:
  "\<exists>t n. s = t @ replicate n c \<and> (t = [] \<or> last t \<noteq> c)"
proof (induction s rule: rev_induct)
  case (snoc x xs)
  then obtain t n where t: "xs = t @ replicate n c" "t = [] \<or> last t \<noteq> c"
    by blast
  show ?case
  proof (cases "x = c")
    case True
    then have "xs @ [x] = t @ replicate (Suc n) c"
      using t(1) by (simp add: replicate_append_same)
    then show ?thesis
      using t(2) by blast
  next
    case False
    then have "xs @ [x] = (xs @ [x]) @ replicate 0 c \<and> (xs @ [x] = [] \<or> last (xs @ [x]) \<noteq> c)"
      by simp
    then show ?thesis
      by blast
  qed
qed simp

lemma digit_not_sign: "digit c \<Longrightarrow> c \<noteq> CHR 0x2D \<and> c \<noteq> CHR 0x2B \<and> c \<noteq> CHR 0x2E \<and> c \<noteq> CHR 0x65 \<and> c \<noteq> CHR 0x45"
  by (auto simp: digit_def byte_in_def)

lemma parse_mantissa_plain:
  assumes "list_all digit a" "a \<noteq> []" "list_all digit f"
  shows "parse_mantissa (a @ CHR 0x2E # f) = Some (of_nat (digits_value (a @ f)) / 10 ^ length f)"
    and "parse_mantissa a = Some (of_nat (digits_value a))"
proof -
  have d: "\<not> digit (CHR 0x2E)"
    by (simp add: digit_def byte_in_def)
  have t: "takeWhile digit a = a" "dropWhile digit a = []" "takeWhile digit f = f" "dropWhile digit f = []"
    using assms by (simp_all add: list_all_iff)
  have ta: "takeWhile digit (a @ CHR 0x2E # f) = a" "dropWhile digit (a @ CHR 0x2E # f) = CHR 0x2E # f"
    using assms d by (simp_all add: list_all_iff)
  show "parse_mantissa (a @ CHR 0x2E # f) = Some (of_nat (digits_value (a @ f)) / 10 ^ length f)"
    using assms(2) by (simp add: parse_mantissa_def ta t Let_def parse_exponent_def power_int_minus divide_inverse)
  show "parse_mantissa a = Some (of_nat (digits_value a))"
    using assms(2) by (simp add: parse_mantissa_def t Let_def parse_exponent_def)
qed

lemma with_sign_digits:
  assumes "digit c" and "f (c # s) = Some (v::rat)"
  shows "with_sign f ((if neg then ''-'' else '''') @ c # s) = Some (if neg then - v else v)"
  using assms digit_not_sign [OF assms(1)] by (simp add: with_sign_def)

lemma parse_decimal_from_rat: "parse_rat (decimal_from_rat q) = Some (round10 q)"
proof -
  define sg where "sg = (if q < 0 then ''-'' else '''')"
  define a where "a = show_nat (scaled 10 q div 10 ^ 10)"
  define f where "f = pad_zeros 10 (show_nat (scaled 10 q mod 10 ^ 10))"
  have fl: "length f = 10" "list_all digit f" "digits_value f = scaled 10 q mod 10 ^ 10"
  proof -
    have "length (show_nat (scaled 10 q mod 10 ^ 10)) \<le> 10"
      using show_nat_length [of "scaled 10 q mod 10 ^ 10" 9] by simp
    then show "length f = 10"
      by (simp add: f_def pad_zeros_def)
    show "list_all digit f"
      using show_nat_digits [of "scaled 10 q mod 10 ^ 10"]
      by (auto simp: f_def pad_zeros_def list_all_iff digit_def byte_in_def)
    show "digits_value f = scaled 10 q mod 10 ^ 10"
      using show_nat_digits by (simp add: f_def pad_zeros_def digits_value_append)
  qed
  have al: "list_all digit a" "a \<noteq> []" "digits_value a = scaled 10 q div 10 ^ 10"
    using show_nat_digits by (simp_all add: a_def)
  have val: "digits_value (a @ f) = scaled 10 q"
    by (simp add: digits_value_append al(3) fl)
  have fs: "float_string 10 q = sg @ a @ CHR 0x2E # f"
    by (simp add: float_string_def sg_def a_def f_def)
  obtain g n where g: "f = g @ replicate n (CHR 0x30)" "g = [] \<or> last g \<noteq> CHR 0x30"
    using trim_right_char_split [of f "CHR 0x30"] by auto
  have t1: "trim_right_char (CHR 0x30) (float_string 10 q) = sg @ a @ CHR 0x2E # g"
    using trim_right_char_append [of "sg @ a @ CHR 0x2E # g" "CHR 0x30" n] g by (auto simp: fs)
  have v: "of_nat (scaled 10 q) / 10 ^ 10 = (of_nat (digits_value (a @ g)) / 10 ^ length g :: rat)"
  proof -
    have n: "length g + n = 10"
      using fl(1) g(1) by simp
    have "scaled 10 q = digits_value (a @ g) * 10 ^ n"
      using val g(1) by (simp add: digits_value_append flip: append_assoc)
    then show ?thesis
      using n by (simp add: field_simps flip: power_add)
  qed
  have gd: "list_all digit g"
    using fl(2) g(1) by simp
  obtain c s where cs: "a = c # s" "digit c"
    using al(1,2) by (cases a) auto
  show ?thesis
  proof (cases "g = []")
    case True
    have "last (sg @ a) \<noteq> CHR 0x2E"
      using al(1,2) digit_not_sign [of "last a"] by (simp add: list_all_iff)
    then have "decimal_from_rat q = sg @ a"
      using trim_right_char_append [of "sg @ a" "CHR 0x2E" 1] t1 True al(2) by (simp add: decimal_from_rat_def)
    then show ?thesis
      using with_sign_digits [OF cs(2), of parse_mantissa s _ "q < 0"] parse_mantissa_plain(2) [OF al(1,2)] gd v True
      unfolding cs(1) parse_rat_def sg_def round10_def by simp
  next
    case False
    then have "last (sg @ a @ CHR 0x2E # g) \<noteq> CHR 0x2E"
      using gd digit_not_sign [of "last g"] by (simp add: list_all_iff)
    then have "decimal_from_rat q = sg @ a @ CHR 0x2E # g"
      using trim_right_char_append [of "sg @ a @ CHR 0x2E # g" "CHR 0x2E" 0] t1 by (simp add: decimal_from_rat_def)
    then show ?thesis
      using with_sign_digits [OF cs(2), of parse_mantissa "s @ CHR 0x2E # g" _ "q < 0"]
        parse_mantissa_plain(1) [OF al(1,2) gd] v
      unfolding cs(1) parse_rat_def sg_def round10_def by simp
  qed
qed


section \<open>\<^verbatim>\<open>float64\<close>\<close>

text \<open>Rounding to 53 significant bits, ties to even.  The quotients of \<^verbatim>\<open>int64\<close> values stay far from
  the bounds of the exponent.\<close>

definition round_even :: "rat \<Rightarrow> int" where
  "round_even q =
     (let f = \<lfloor>q\<rfloor>; d = q - of_int f in
      if d < 1 / 2 then f else if 1 / 2 < d then f + 1 else if even f then f else f + 1)"

definition rat_exponent :: "rat \<Rightarrow> int" where
  "rat_exponent q =
     (let (a, b) = quotient_of q; k = bitlen a - bitlen b in if 2 powi k \<le> q then k else k - 1)"

definition f64 :: "rat \<Rightarrow> rat" where
  "f64 q =
     (if q = 0 then 0
      else let e = rat_exponent \<bar>q\<bar> - 52; m = of_int (round_even (\<bar>q\<bar> / 2 powi e)) * 2 powi e
           in if q < 0 then - m else m)"

lemma f64_0 [simp]: "f64 0 = 0"
  by (simp add: f64_def)

end
