(* ===== verification/Telemetry_Store.thy ===== *)
theory Telemetry_Store
  imports Connection_Store Decimals
begin

text \<open>The telemetry repository (\<^verbatim>\<open>internal/store/telemetry_repository.go\<close>): observations, ingestion
  runs and the summaries over them.  Averages, rates and percentiles are exact rationals; the order of
  equal keys in a sorted result is the order of the table.\<close>

section \<open>Observations\<close>

definition not_null_violation :: gerr where
  "not_null_violation = PgError ''23502'' ''null value violates not-null constraint''"

definition invalid_number :: gerr where
  "invalid_number = PgError ''22P02'' ''invalid input syntax for type numeric''"

definition usage_counts :: "usage_observation \<Rightarrow> int list" where
  "usage_counts u = [uo_requests u, uo_input u, uo_output u, uo_cached u, uo_cache_creation u,
     uo_reasoning u, uo_total u, uo_errors u]"

definition usage_costs :: "usage_observation \<Rightarrow> string list" where
  "usage_costs u = List.map_filter (\<lambda>c. c) [uo_input_cost u, uo_output_cost u, uo_total_cost u]"

definition same_observation :: "usage_observation \<Rightarrow> usage_row \<Rightarrow> bool" where
  "same_observation u r \<longleftrightarrow>
     uo_source (ug_observation r) = uo_source u \<and> uo_conn (ug_observation r) = uo_conn u \<and>
     uo_source_id (ug_observation r) = uo_source_id u"

text \<open>The subselect of the organisation gives \<^verbatim>\<open>NULL\<close> for a connection that is not there or belongs
  to another tenant, and PostgreSQL checks \<^verbatim>\<open>NOT NULL\<close> before the foreign key.\<close>

definition observation_violation :: "env \<Rightarrow> usage_observation \<Rightarrow> db \<Rightarrow> gerr option" where
  "observation_violation env u d = first_of
     [require_ok (list_all (\<lambda>c. parse_rat c \<noteq> None) (usage_costs u)) invalid_number,
      require_ok (conn_visible env d (uo_conn u) \<noteq> None) not_null_violation,
      require_ok (list_all (\<lambda>n. 0 \<le> n) (usage_counts u)) check_violation]"

definition store_observation :: "env \<Rightarrow> usage_observation \<Rightarrow> db \<Rightarrow> db" where
  "store_observation env u d =
     (case conn_visible env d (uo_conn u) of
        None \<Rightarrow> d
      | Some c \<Rightarrow> d\<lparr>db_usage := upsert (same_observation u) (\<lambda>r. r\<lparr>ug_observation := u\<rparr>)
          \<lparr>ug_observation = u, ug_org = rc_org c\<rparr> (db_usage d)\<rparr>)"

definition upsert_observation :: "env \<Rightarrow> usage_observation \<Rightarrow> ((db, 'x) world, bool) call" where
  "upsert_observation env u w =
     (case exec_checked env (observation_violation env u) (store_observation env u) w of
        (Inl e, w') \<Rightarrow>
          (Inl (if err_pg_code e = Some ''23503''
             then Annotated (Sentinel UnknownRuntimeConnection) ('': '' @ uo_conn u)
             else Wrapped ''upsert usage observation: '' e), w')
      | (Inr _, w') \<Rightarrow> (Inr (\<not> (\<exists>r\<in>set (db_usage (w_db w)). same_observation u r)), w'))"


section \<open>Ingestion runs\<close>

definition no_ingestion :: ingestion_run where
  "no_ingestion = \<lparr>ti_id = '''', ti_conn = '''', ti_source = '''', ti_status = TelemetryUnset,
     ti_cursor = None, ti_schema = '''', ti_started = 0, ti_finished = None, ti_last_success = None,
     ti_accepted = 0, ti_rejected = 0, ti_deduplicated = 0, ti_error = ''''\<rparr>"

definition insert_ingestion :: "env \<Rightarrow> ingestion_run \<Rightarrow> db \<Rightarrow> db" where
  "insert_ingestion env run d =
     (case conn_visible env d (ti_conn run) of
        None \<Rightarrow> d
      | Some c \<Rightarrow> d\<lparr>db_ingestions := db_ingestions d @
          [\<lparr>tr_run = run\<lparr>ti_finished := None, ti_last_success := None, ti_accepted := 0, ti_rejected := 0,
              ti_deduplicated := 0, ti_error := ''''\<rparr>, tr_org = rc_org c\<rparr>]\<rparr>)"

definition create_ingestion_run :: "env \<Rightarrow> ingestion_run \<Rightarrow> ((db, 'x) world, ingestion_run) call" where
  "create_ingestion_run env run =
     seq (if ti_id run = '''' then new_id env else return (ti_id run)) (\<lambda>rid.
     seq (if ti_started run = 0 then now env else return (ti_started run)) (\<lambda>started.
     let run = run\<lparr>ti_id := rid, ti_started := started, ti_status := TelemetryRunning\<rparr> in
     seq (wrapping ''create telemetry ingestion run: '' (exec_checked env
            (\<lambda>d. if conn_visible env d (ti_conn run) = None then None
                 else require_ok (rid \<notin> set (map (\<lambda>r. ti_id (tr_run r)) (db_ingestions d))) unique_violation)
            (insert_ingestion env run))) (\<lambda>_.
     return run)))"

definition finished_run :: "time \<Rightarrow> gerr option \<Rightarrow> ingestion_run \<Rightarrow> ingestion_run" where
  "finished_run t err run =
     (let run = run\<lparr>ti_finished := Some t\<rparr> in
      case err of
        Some e \<Rightarrow> run\<lparr>ti_status := TelemetryFailed, ti_error := err_text e\<rparr>
      | None \<Rightarrow> run\<lparr>ti_status := TelemetrySucceeded, ti_last_success := Some t\<rparr>)"

definition store_finished :: "ingestion_run \<Rightarrow> ingestion_run \<Rightarrow> ingestion_run" where
  "store_finished run r =
     r\<lparr>ti_status := ti_status run, ti_cursor := ti_cursor run, ti_finished := ti_finished run,
       ti_last_success := (if ti_status run = TelemetrySucceeded then ti_finished run else ti_last_success r),
       ti_accepted := ti_accepted run, ti_rejected := ti_rejected run,
       ti_deduplicated := ti_deduplicated run, ti_error := ti_error run\<rparr>"

definition finish_ingestion_run ::
    "env \<Rightarrow> ingestion_run \<Rightarrow> gerr option \<Rightarrow> ((db, 'x) world, ingestion_run) call" where
  "finish_ingestion_run env run err =
     seq (now env) (\<lambda>t.
     let run = finished_run t err run in
     seq (wrapping ''finish telemetry ingestion run: '' (exec env (\<lambda>d. d\<lparr>db_ingestions := update_where
            (\<lambda>r. ti_id (tr_run r) = ti_id run \<and> tenant_allows (tenant env) (tr_org r))
            (\<lambda>r. r\<lparr>tr_run := store_finished run (tr_run r)\<rparr>) (db_ingestions d)\<rparr>))) (\<lambda>_.
     return run))"

text \<open>The preference among sources, and the latest run of a runtime; without one, the health is derived
  from the observations.\<close>

definition source_rank :: "usage_source \<Rightarrow> int" where
  "source_rank s = (case s of SourceGantryNative \<Rightarrow> 1 | SourceLangSmith \<Rightarrow> 2 | SourceOTEL \<Rightarrow> 3 | SourceOther _ \<Rightarrow> 99)"

definition best_source :: "usage_observation list \<Rightarrow> usage_source" where
  "best_source us = hd (sort_key source_rank (map uo_source us))"

definition latest_run :: "env \<Rightarrow> string \<Rightarrow> db \<Rightarrow> ingestion_run option" where
  "latest_run env cid d =
     (case sort_key (\<lambda>r. - ti_started r) (map tr_run (filter (\<lambda>r. ti_conn (tr_run r) = cid \<and>
             tenant_allows (tenant env) (tr_org r)) (db_ingestions d))) of
        [] \<Rightarrow> None | r # _ \<Rightarrow> Some r)"

definition observed_health :: "env \<Rightarrow> string \<Rightarrow> db \<Rightarrow> (usage_source \<times> time) option" where
  "observed_health env cid d =
     (let us = map ug_observation (filter (\<lambda>r. uo_conn (ug_observation r) = cid \<and>
             tenant_allows (tenant env) (ug_org r)) (db_usage d));
          s = best_source us
      in if us = [] then None
         else Some (s, Max (set (map uo_observed (filter (\<lambda>u. uo_source u = s) us)))))"

definition derived_run :: "string \<Rightarrow> usage_source \<Rightarrow> time \<Rightarrow> ingestion_run" where
  "derived_run cid s t = no_ingestion\<lparr>ti_id := ''observation-derived'', ti_conn := cid,
     ti_source := usage_source_text s, ti_status := TelemetrySucceeded, ti_schema := ''usage-v1'',
     ti_started := t, ti_finished := Some t, ti_last_success := Some t\<rparr>"

definition latest_ingestion_run :: "env \<Rightarrow> string \<Rightarrow> ((db, 'x) world, ingestion_run) call" where
  "latest_ingestion_run env cid =
     seq (wrapping ''get telemetry health: '' (query env (latest_run env cid))) (\<lambda>found.
     case found of
       Some run \<Rightarrow> return run
     | None \<Rightarrow>
         seq (wrapping ''get observation-derived telemetry health: '' (query env (observed_health env cid))) (\<lambda>h.
         case h of None \<Rightarrow> return no_ingestion | Some (s, t) \<Rightarrow> return (derived_run cid s t)))"


section \<open>Summaries\<close>

text \<open>The common table expressions of the three queries: the observations of the query, each once per
  binding of its agent (once when there is none), and among them those of the chosen source of their
  runtime.\<close>

definition joined_bindings :: "db \<Rightarrow> usage_observation \<Rightarrow> binding_row option list" where
  "joined_bindings d u =
     (case filter (\<lambda>b. bd_conn b = uo_conn u \<and> bd_runtime_agent b = uo_agent u) (db_bindings d) of
        [] \<Rightarrow> [None]
      | bs \<Rightarrow> map Some bs)"

definition bound_to :: "string \<Rightarrow> binding_row option \<Rightarrow> bool" where
  "bound_to agent b \<longleftrightarrow> agent = '''' \<or> (case b of None \<Rightarrow> False | Some b \<Rightarrow> bd_agent b = agent)"

definition in_scope :: "env \<Rightarrow> usage_query \<Rightarrow> db \<Rightarrow> usage_observation \<Rightarrow> bool" where
  "in_scope env q d u \<longleftrightarrow>
     uq_from q \<le> uo_observed u \<and> uo_observed u < uq_to q \<and>
     (uq_conn q = '''' \<or> uo_conn u = uq_conn q) \<and> (uq_model q = '''' \<or> uo_model u = uq_model q) \<and>
     (uq_execution q = '''' \<or> uo_execution u = uq_execution q) \<and> conn_visible env d (uo_conn u) \<noteq> None"

definition scoped :: "env \<Rightarrow> usage_query \<Rightarrow> db \<Rightarrow> usage_observation list" where
  "scoped env q d = concat (map (\<lambda>u. map (\<lambda>_. u) (filter (bound_to (uq_agent q)) (joined_bindings d u)))
     (filter (in_scope env q d) (map ug_observation (db_usage d))))"

definition chosen_source :: "usage_query \<Rightarrow> usage_observation list \<Rightarrow> string \<Rightarrow> string" where
  "chosen_source q us cid =
     (if uq_source q \<noteq> '''' then uq_source q
      else usage_source_text (best_source (filter (\<lambda>u. uo_conn u = cid) us)))"

definition selected :: "env \<Rightarrow> usage_query \<Rightarrow> db \<Rightarrow> usage_observation list" where
  "selected env q d = filter (\<lambda>u. usage_source_text (uo_source u) = chosen_source q (scoped env q d) (uo_conn u))
     (scoped env q d)"

definition total_of :: "(usage_observation \<Rightarrow> int) \<Rightarrow> usage_observation list \<Rightarrow> int" where
  "total_of f us = sum_list (map f us)"

definition average_of :: "rat list \<Rightarrow> rat option" where
  "average_of vs = (if vs = [] then None else Some (sum_list vs / of_nat (length vs)))"

definition percentile :: "rat \<Rightarrow> rat list \<Rightarrow> rat option" where
  "percentile p vs =
     (if vs = [] then None
      else let s = sort vs; r = p * of_nat (length vs - 1); lo = s ! nat \<lfloor>r\<rfloor>; hi = s ! nat \<lceil>r\<rceil>
           in Some (lo + (r - of_int \<lfloor>r\<rfloor>) * (hi - lo)))"

definition cost_value :: "string \<Rightarrow> rat" where
  "cost_value c = (case parse_rat c of None \<Rightarrow> 0 | Some q \<Rightarrow> round10 q)"

definition cost_of :: "usage_observation list \<Rightarrow> string option" where
  "cost_of us =
     (let costs = List.map_filter uo_total_cost us in
      if costs = [] then None else Some (float_string 10 (sum_list (map cost_value costs))))"

definition single_source :: "usage_observation list \<Rightarrow> string option" where
  "single_source us =
     (case remdups (map (\<lambda>u. usage_source_text (uo_source u)) us) of [s] \<Rightarrow> Some s | _ \<Rightarrow> None)"

definition summary_row :: "usage_query \<Rightarrow> usage_observation list \<Rightarrow> usage_summary" where
  "summary_row q us =
     \<lparr>us_conn = uq_conn q, us_agent = uq_agent q, us_from = uq_from q, us_to = uq_to q,
      us_source = (case single_source us of Some s \<Rightarrow> s | None \<Rightarrow> uq_source q),
      us_available = single_source us \<noteq> None, us_configured = single_source us \<noteq> None,
      us_last_observed = (if us = [] then None else Some (Max (set (map uo_observed us)))),
      us_requests = total_of uo_requests us, us_input = total_of uo_input us,
      us_output = total_of uo_output us, us_cached = total_of uo_cached us,
      us_cache_creation = total_of uo_cache_creation us, us_reasoning = total_of uo_reasoning us,
      us_total = total_of uo_total us, us_cost = cost_of us,
      us_average_duration = average_of (map of_int (List.map_filter uo_duration us)),
      us_p95_duration = percentile (95 / 100) (map of_int (List.map_filter uo_duration us)),
      us_error_rate = (if 0 < total_of uo_requests us
        then Some (of_int (total_of uo_errors us) / of_int (total_of uo_requests us)) else None),
      us_utilization = average_of (List.map_filter uo_utilization us), us_models = [], us_series = []\<rparr>"

text \<open>A sum is a \<^verbatim>\<open>numeric\<close>; scanning it into an \<^verbatim>\<open>int64\<close> fails out of range.  The sums of a group are
  at most those of the summary, which was scanned before.\<close>

definition scannable :: "usage_summary \<Rightarrow> bool" where
  "scannable s \<longleftrightarrow> list_all (\<lambda>n. n \<le> max_int64) [us_requests s, us_input s, us_output s, us_cached s,
     us_cache_creation s, us_reasoning s, us_total s]"

definition model_row :: "usage_observation list \<Rightarrow> string \<Rightarrow> model_usage" where
  "model_row us m = (let g = filter (\<lambda>u. uo_model u = m) us in
     \<lparr>mu_model = m, mu_requests = total_of uo_requests g, mu_input = total_of uo_input g,
      mu_output = total_of uo_output g, mu_total = total_of uo_total g\<rparr>)"

definition model_rows :: "usage_observation list \<Rightarrow> model_usage list" where
  "model_rows us = take 50 (sort_key (\<lambda>m. - mu_total m) (map (model_row us) (remdups (map uo_model us))))"

definition model_breakdown :: "env \<Rightarrow> usage_query \<Rightarrow> ((db, 'x) world, model_usage list) call" where
  "model_breakdown env q =
     wrapping ''summarize telemetry by model: '' (query env (\<lambda>d. model_rows (selected env q d)))"

definition telemetry_interval :: "int \<Rightarrow> int" where
  "telemetry_interval i =
     (if i = 5 * minute then 5 * minute else if i = 15 * minute then 15 * minute
      else if i = 6 * hour then 6 * hour else if i = 24 * hour then 24 * hour else hour)"

definition bin_origin :: time where
  "bin_origin = 730119 * 24 * hour"

definition date_bin :: "int \<Rightarrow> time \<Rightarrow> time" where
  "date_bin stride t = bin_origin + (t - bin_origin) div stride * stride"

definition bucket_row :: "int \<Rightarrow> usage_observation list \<Rightarrow> time \<Rightarrow> usage_bucket" where
  "bucket_row stride us t = (let g = filter (\<lambda>u. date_bin stride (uo_observed u) = t) us in
     \<lparr>ub_started = t, ub_requests = total_of uo_requests g, ub_input = total_of uo_input g,
      ub_output = total_of uo_output g, ub_total = total_of uo_total g\<rparr>)"

definition series_rows :: "int \<Rightarrow> usage_observation list \<Rightarrow> usage_bucket list" where
  "series_rows stride us =
     map (bucket_row stride us) (sort (remdups (map (\<lambda>u. date_bin stride (uo_observed u)) us)))"

definition time_series :: "env \<Rightarrow> usage_query \<Rightarrow> ((db, 'x) world, usage_bucket list) call" where
  "time_series env q =
     wrapping ''summarize telemetry time series: ''
       (query env (\<lambda>d. series_rows (telemetry_interval (uq_interval q)) (selected env q d)))"

text \<open>The scalar subquery over the bindings of the agent fails when there are several.\<close>

definition configured_row :: "env \<Rightarrow> usage_query \<Rightarrow> db \<Rightarrow> ingestion_row \<Rightarrow> bool" where
  "configured_row env q d r \<longleftrightarrow>
     (uq_conn q = '''' \<or> ti_conn (tr_run r) = uq_conn q) \<and>
     (uq_agent q = '''' \<or> (\<exists>b\<in>set (db_bindings d). bd_agent b = uq_agent q \<and> bd_conn b = ti_conn (tr_run r))) \<and>
     (uq_source q = '''' \<or> ti_source (tr_run r) = uq_source q) \<and>
     conn_in_tenant env d (ti_conn (tr_run r))"

definition several_bindings :: "usage_query \<Rightarrow> db \<Rightarrow> bool" where
  "several_bindings q d \<longleftrightarrow> uq_agent q \<noteq> '''' \<and>
     1 < length (filter (\<lambda>b. bd_agent b = uq_agent q) (db_bindings d)) \<and>
     (\<exists>r\<in>set (db_ingestions d). uq_conn q = '''' \<or> ti_conn (tr_run r) = uq_conn q)"

definition telemetry_configured :: "env \<Rightarrow> usage_query \<Rightarrow> ((db, 'x) world, bool) call" where
  "telemetry_configured env q =
     wrapping ''check telemetry configuration: ''
       (seq (query env (\<lambda>d. (several_bindings q d, \<exists>r\<in>set (db_ingestions d). configured_row env q d r)))
         (\<lambda>(several, configured).
           if several then failing (PgError ''21000'' ''more than one row returned by a subquery used as an expression'')
           else return configured))"

definition usage_summary_of :: "env \<Rightarrow> usage_query \<Rightarrow> ((db, 'x) world, usage_summary) call" where
  "usage_summary_of env q =
     seq (wrapping ''summarize telemetry: '' (query env (\<lambda>d. summary_row q (selected env q d)))) (\<lambda>s.
     if \<not> scannable s
     then failing (Wrapped ''summarize telemetry: '' (Text ''sql: Scan error: value out of range''))
     else seq (telemetry_configured env q) (\<lambda>configured.
       let s = s\<lparr>us_configured := configured \<or> us_available s\<rparr> in
       if \<not> us_available s then return s
       else seq (model_breakdown env q) (\<lambda>models.
            seq (time_series env q) (\<lambda>series.
            return (s\<lparr>us_models := models, us_series := series\<rparr>)))))"

end
