(* ===== verification/Telemetry_Service.thy ===== *)
theory Telemetry_Service
  imports Telemetry_Store
begin

text \<open>The telemetry service with its model catalog (\<^verbatim>\<open>internal/services/telemetry.go\<close>,
  \<^verbatim>\<open>internal/services/model_catalog.go\<close>) and the polling worker (\<^verbatim>\<open>internal/workers/telemetry.go\<close>).\<close>

section \<open>The model catalog\<close>

record model_metadata =
  mm_provider :: string
  mm_model :: string
  mm_window :: int
  mm_input_price :: "string option"
  mm_output_price :: "string option"
  mm_version :: string

definition model_key :: "string \<Rightarrow> string \<Rightarrow> string" where
  "model_key provider model = to_lower (trim_space provider) @ CHR 0x00 # to_lower (trim_space model)"

definition new_catalog :: "model_metadata list \<Rightarrow> (string \<times> model_metadata) list" where
  "new_catalog items = fold (\<lambda>i. mput (model_key (mm_provider i) (mm_model i)) i) items []"

definition catalog_resolve :: "(string \<times> model_metadata) list \<Rightarrow> string \<Rightarrow> string \<Rightarrow> model_metadata option" where
  "catalog_resolve c provider model =
     (case map_of c (model_key provider model) of
        Some i \<Rightarrow> Some i
      | None \<Rightarrow> if provider \<noteq> '''' then map_of c (model_key '''' model) else None)"


section \<open>Costs\<close>

definition estimated_token_cost :: "int \<Rightarrow> string \<Rightarrow> string res" where
  "estimated_token_cost tokens price =
     (case parse_rat price of
        None \<Rightarrow> Inl (Text (''invalid catalog decimal '' @ quoted price))
      | Some p \<Rightarrow> Inr (decimal_from_rat (p * of_int tokens / 1000000)))"

fun sum_rats :: "string option list \<Rightarrow> rat \<Rightarrow> bool \<Rightarrow> (rat option) res" where
  "sum_rats [] acc found = Inr (if found then Some acc else None)"
| "sum_rats (None # vs) acc found = sum_rats vs acc found"
| "sum_rats (Some v # vs) acc found =
     (case parse_rat v of
        None \<Rightarrow> Inl (Text (''invalid decimal '' @ quoted v))
      | Some q \<Rightarrow> sum_rats vs (acc + q) True)"

definition sum_decimals :: "string option list \<Rightarrow> (string option) res" where
  "sum_decimals vs = map_sum (\<lambda>e. e) (map_option decimal_from_rat) (sum_rats vs 0 False)"


section \<open>Normalisation\<close>

record 'w telemetry_ports =
  yp_upsert :: "usage_observation \<Rightarrow> ('w, bool) call"
  yp_latest :: "string \<Rightarrow> ('w, ingestion_run) call"
  yp_summary :: "usage_query \<Rightarrow> ('w, usage_summary) call"
  yp_models :: "(string \<Rightarrow> string \<Rightarrow> ('w, model_metadata option) call) option"
  yp_now :: "('w, time) call"

definition invalid_observation :: "string \<Rightarrow> gerr" where
  "invalid_observation t = Annotated (Sentinel InvalidUsageObservation) ('': '' @ t)"

definition invalid_query :: "string \<Rightarrow> gerr" where
  "invalid_query t = Annotated (Sentinel InvalidUsageQuery) ('': '' @ t)"

definition without_content :: "gmap \<Rightarrow> gmap" where
  "without_content m = AList.delete ''output'' (AList.delete ''input'' (AList.delete ''completion''
     (AList.delete ''prompt'' m)))"

definition check_observation :: "usage_observation \<Rightarrow> gerr option" where
  "check_observation u =
     (if usage_source_text (uo_source u) = '''' \<or> blank (uo_source_id u) \<or> blank (uo_conn u)
      then Some (invalid_observation ''source, source observation id, and runtime connection id are required'')
      else if list_ex (\<lambda>n. n < 0) (usage_counts u)
      then Some (invalid_observation ''token and request counts cannot be negative'')
      else None)"

text \<open>The fields filled in before the model is looked up; the sum of tokens wraps.\<close>

definition with_defaults :: "time \<Rightarrow> usage_observation \<Rightarrow> usage_observation" where
  "with_defaults t u =
     u\<lparr>uo_total := (if uo_total u = 0 then wrap64 (uo_input u + uo_output u) else uo_total u),
       uo_observed := (if uo_observed u = 0 then t else uo_observed u),
       uo_attributes := without_content (uo_attributes u)\<rparr>"

definition estimate_missing :: "string \<Rightarrow> string option \<Rightarrow> string option \<Rightarrow> int \<Rightarrow> (string option) res" where
  "estimate_missing msg cost price tokens =
     (case (cost, price) of
        (None, Some p) \<Rightarrow> (case estimated_token_cost tokens p of
           Inl e \<Rightarrow> Inl (Wrapped msg e) | Inr c \<Rightarrow> Inr (Some c))
      | _ \<Rightarrow> Inr cost)"

definition estimate_total :: "usage_observation \<Rightarrow> (string option) res" where
  "estimate_total u =
     (if uo_total_cost u \<noteq> None then Inr (uo_total_cost u)
      else case sum_decimals [uo_input_cost u, uo_output_cost u] of
        Inl e \<Rightarrow> Inl (Wrapped ''estimate total cost: '' e) | Inr c \<Rightarrow> Inr c)"

definition with_savings :: "model_metadata \<Rightarrow> usage_observation \<Rightarrow> usage_observation res" where
  "with_savings m u =
     (case mm_input_price m of
        Some p \<Rightarrow>
          if 0 < uo_cached u then
            (case estimated_token_cost (uo_cached u) p of
               Inl e \<Rightarrow> Inl (Wrapped ''estimate cache savings: '' e)
             | Inr c \<Rightarrow> Inr (u\<lparr>uo_attributes := mput ''estimated_cache_savings_usd'' (GStr c) (uo_attributes u)\<rparr>))
          else Inr u
      | None \<Rightarrow> Inr u)"

definition mark_estimated :: "model_metadata \<Rightarrow> usage_observation \<Rightarrow> usage_observation" where
  "mark_estimated m u =
     (if uo_input_cost u \<noteq> None \<or> uo_output_cost u \<noteq> None
      then u\<lparr>uo_attributes := mput ''model_metadata_version'' (GStr (mm_version m))
             (mput ''cost_quality'' (GStr ''estimated'') (uo_attributes u))\<rparr>
      else u)"

definition with_model :: "model_metadata \<Rightarrow> usage_observation \<Rightarrow> usage_observation res" where
  "with_model m u0 =
     (let u = u0\<lparr>uo_metadata_version := mm_version m,
            uo_window := (if uo_window u0 = None \<and> 0 < mm_window m then Some (mm_window m) else uo_window u0)\<rparr> in
      case estimate_missing ''estimate input cost: '' (uo_input_cost u) (mm_input_price m) (uo_input u) of
        Inl e \<Rightarrow> Inl e
      | Inr input \<Rightarrow>
      (case estimate_missing ''estimate output cost: '' (uo_output_cost u) (mm_output_price m) (uo_output u) of
        Inl e \<Rightarrow> Inl e
      | Inr output \<Rightarrow>
      (let u = u\<lparr>uo_input_cost := input, uo_output_cost := output\<rparr> in
       case estimate_total u of
         Inl e \<Rightarrow> Inl e
       | Inr tot \<Rightarrow> with_savings m (mark_estimated m (u\<lparr>uo_total_cost := tot\<rparr>)))))"

text \<open>The quotient of two \<^verbatim>\<open>float64\<close> conversions, compared with the literals of the code.\<close>

definition context_utilization :: "int \<Rightarrow> int \<Rightarrow> rat" where
  "context_utilization input window = f64 (f64 (of_int input) / f64 (of_int window))"

definition with_utilization :: "usage_observation \<Rightarrow> usage_observation" where
  "with_utilization u =
     (case uo_window u of
        None \<Rightarrow> u
      | Some window \<Rightarrow>
          if 0 < window then
            (let x = context_utilization (uo_input u) window;
                 m = mput ''context_utilization_quality'' (GStr ''estimated'') (uo_attributes u);
                 m = (if f64 (9 / 10) \<le> x then mput ''context_pressure'' (GStr ''critical'') m
                      else if f64 (8 / 10) \<le> x then mput ''context_pressure'' (GStr ''high'') m else m)
             in u\<lparr>uo_utilization := Some x, uo_attributes := m\<rparr>)
          else u)"

definition normalize_observation ::
    "'w telemetry_ports \<Rightarrow> usage_observation \<Rightarrow> ('w, usage_observation) call" where
  "normalize_observation p u =
     (case check_observation u of
        Some e \<Rightarrow> failing e
      | None \<Rightarrow>
          seq (if uo_observed u = 0 then yp_now p else return 0) (\<lambda>t.
          let u = with_defaults t u in
          seq (case yp_models p of
                 Some resolve \<Rightarrow>
                   if uo_model u = '''' then return u
                   else seq (wrapping ''resolve model metadata: '' (resolve (uo_provider u) (uo_model u))) (\<lambda>found.
                     case found of
                       None \<Rightarrow> return u
                     | Some m \<Rightarrow> (case with_model m u of Inl e \<Rightarrow> failing e | Inr u \<Rightarrow> return u))
               | None \<Rightarrow> return u) (\<lambda>u.
          return (with_utilization u))))"


section \<open>Ingest, Summary, Health\<close>

text \<open>The counters and the first error; an error of the store that is not an unknown runtime ends the
  batch.\<close>

record ingest_result =
  ig_accepted :: int
  ig_rejected :: int
  ig_deduplicated :: int
  ig_error :: "gerr option"

definition nothing_ingested :: ingest_result where
  "nothing_ingested = \<lparr>ig_accepted = 0, ig_rejected = 0, ig_deduplicated = 0, ig_error = None\<rparr>"

definition reject_observation :: "gerr \<Rightarrow> ingest_result \<Rightarrow> ingest_result" where
  "reject_observation e r =
     r\<lparr>ig_rejected := ig_rejected r + 1, ig_error := (if ig_error r = None then Some e else ig_error r)\<rparr>"

definition count_stored :: "bool \<Rightarrow> ingest_result \<Rightarrow> ingest_result" where
  "count_stored inserted r =
     (if inserted then r\<lparr>ig_accepted := ig_accepted r + 1\<rparr> else r\<lparr>ig_deduplicated := ig_deduplicated r + 1\<rparr>)"

fun ingest_from ::
    "'w telemetry_ports \<Rightarrow> usage_observation list \<Rightarrow> ingest_result \<Rightarrow> 'w \<Rightarrow> ingest_result \<times> 'w" where
  "ingest_from p [] r w = (r, w)"
| "ingest_from p (u # us) r w =
     (case normalize_observation p u w of
        (Inl e, w) \<Rightarrow> ingest_from p us (reject_observation e r) w
      | (Inr u, w) \<Rightarrow>
          (case yp_upsert p u w of
             (Inl e, w) \<Rightarrow>
               if err_is e UnknownRuntimeConnection then ingest_from p us (reject_observation e r) w
               else (r\<lparr>ig_error := Some e\<rparr>, w)
           | (Inr inserted, w) \<Rightarrow> ingest_from p us (count_stored inserted r) w))"

definition ingest :: "'w telemetry_ports \<Rightarrow> usage_observation list \<Rightarrow> 'w \<Rightarrow> ingest_result \<times> 'w" where
  "ingest p us w = ingest_from p us nothing_ingested w"

definition ninety_days :: int where
  "ninety_days = 90 * 24 * hour"

definition summary :: "'w telemetry_ports \<Rightarrow> usage_query \<Rightarrow> ('w, usage_summary) call" where
  "summary p q =
     seq (if uq_to q = 0 then yp_now p else return (uq_to q)) (\<lambda>upto.
     let since = (if uq_from q = 0 then upto - 24 * hour else uq_from q);
         q = q\<lparr>uq_from := since, uq_to := upto\<rparr> in
     if \<not> since < upto \<or> ninety_days < time_sub upto since
     then failing (invalid_query ''from must precede to and range must not exceed 90 days'')
     else yp_summary p q)"

definition telemetry_health :: "'w telemetry_ports \<Rightarrow> string \<Rightarrow> ('w, ingestion_run) call" where
  "telemetry_health p cid =
     (if blank cid then failing (invalid_query ''runtime id is required'') else yp_latest p cid)"

definition telemetry_store_ports ::
    "env \<Rightarrow> (string \<times> model_metadata) list option \<Rightarrow> (db, 'x) world telemetry_ports" where
  "telemetry_store_ports env catalog =
     \<lparr>yp_upsert = upsert_observation env, yp_latest = latest_ingestion_run env,
      yp_summary = usage_summary_of env,
      yp_models = map_option (\<lambda>c provider model. return (catalog_resolve c provider model)) catalog,
      yp_now = now env\<rparr>"

lemma telemetry_store_ports_simps [simp]:
  "yp_upsert (telemetry_store_ports env c) = upsert_observation env"
  "yp_latest (telemetry_store_ports env c) = latest_ingestion_run env"
  "yp_summary (telemetry_store_ports env c) = usage_summary_of env"
  "yp_models (telemetry_store_ports env c) =
     map_option (\<lambda>c provider model. return (catalog_resolve c provider model)) c"
  "yp_now (telemetry_store_ports env c) = now env"
  by (simp_all add: telemetry_store_ports_def)


section \<open>The worker\<close>

record 'w usage_reader =
  rd_query :: "runtime_connection \<Rightarrow> usage_query \<Rightarrow> ('w, usage_observation list) call"
  rd_configured :: "(runtime_connection \<Rightarrow> bool) option"

text \<open>The operations of the worker; those on one runtime run in the context of its organisation.  A
  request that exceeds its time limit is one that gives an error.\<close>

record 'w telemetry_worker =
  tw_list :: "('w, runtime_connection list) call"
  tw_create :: "req_context \<Rightarrow> ingestion_run \<Rightarrow> ('w, ingestion_run) call"
  tw_finish :: "req_context \<Rightarrow> ingestion_run \<Rightarrow> gerr option \<Rightarrow> ('w, ingestion_run) call"
  tw_ingest :: "req_context \<Rightarrow> usage_observation list \<Rightarrow> 'w \<Rightarrow> ingest_result \<times> 'w"
  tw_readers :: "(runtime_kind \<times> 'w usage_reader) list"
  tw_now :: "('w, time) call"

definition system_principal :: "runtime_connection \<Rightarrow> principal" where
  "system_principal c =
     \<lparr>p_user = '''', p_email = '''', p_org = rc_org c,
      p_organization = \<lparr>org_id = rc_org c, org_name = '''', org_slug = ''''\<rparr>, p_role = ''system'',
      p_session = '''', p_csrf_hash = '''', p_platform_admin = False\<rparr>"

definition source_for_runtime :: "runtime_kind \<Rightarrow> usage_source" where
  "source_for_runtime k = (if k = KindGantry then SourceGantryNative else SourceLangSmith)"

definition telemetry_window :: int where "telemetry_window = 5 * minute"
definition telemetry_overlap :: int where "telemetry_overlap = minute"

definition truncate_time :: "int \<Rightarrow> time \<Rightarrow> time" where
  "truncate_time d t = t - t mod d"

definition window_query :: "runtime_connection \<Rightarrow> time \<Rightarrow> usage_query" where
  "window_query c t =
     \<lparr>uq_from = truncate_time telemetry_window t - telemetry_window - telemetry_overlap,
      uq_to = truncate_time telemetry_window t, uq_interval = telemetry_window, uq_conn = rc_id c,
      uq_agent = '''', uq_runtime_agent = '''', uq_execution = '''', uq_job = '''', uq_grouping = '''',
      uq_model = '''', uq_source = ''''\<rparr>"

definition new_ingestion :: "runtime_connection \<Rightarrow> time \<Rightarrow> ingestion_run" where
  "new_ingestion c t = no_ingestion\<lparr>ti_conn := rc_id c,
     ti_source := usage_source_text (source_for_runtime (rc_kind c)), ti_schema := ''usage-v1'',
     ti_cursor := Some (truncate_time telemetry_window t), ti_started := t\<rparr>"

definition with_counts :: "ingest_result \<Rightarrow> ingestion_run \<Rightarrow> ingestion_run" where
  "with_counts r run = run\<lparr>ti_accepted := ig_accepted r, ti_rejected := ig_rejected r,
     ti_deduplicated := ig_deduplicated r\<rparr>"

definition collect_one ::
    "'w telemetry_worker \<Rightarrow> req_context \<Rightarrow> runtime_connection \<Rightarrow> 'w usage_reader \<Rightarrow> ('w, unit) call" where
  "collect_one p ctx c reader =
     (let ctx = with_principal ctx (system_principal c) in
      seq (tw_now p) (\<lambda>t.
      seq (tw_create p ctx (new_ingestion c t)) (\<lambda>run w.
      case rd_query reader c (window_query c t) w of
        (Inl e, w) \<Rightarrow> seq (tw_finish p ctx run (Some e)) (\<lambda>_. return ()) w
      | (Inr us, w) \<Rightarrow>
          (case tw_ingest p ctx us w of
             (r, w) \<Rightarrow> seq (tw_finish p ctx (with_counts r run) (ig_error r)) (\<lambda>_. return ()) w))))"

definition polled_reader ::
    "'w telemetry_worker \<Rightarrow> runtime_connection \<Rightarrow> 'w usage_reader option" where
  "polled_reader p c =
     (case map_of (tw_readers p) (rc_kind c) of
        None \<Rightarrow> None
      | Some r \<Rightarrow>
          if \<not> rc_sync_enabled c \<or> rc_status c = RuntimeDisabled then None
          else case rd_configured r of
                 Some f \<Rightarrow> if f c then Some r else None
               | None \<Rightarrow> Some r)"

text \<open>An error of \<open>collect_one\<close> is logged and dropped.  The goroutines of one round, which work on
  runtimes of their own, are run one after the other.\<close>

fun collect_each ::
    "'w telemetry_worker \<Rightarrow> req_context \<Rightarrow> runtime_connection list \<Rightarrow> 'w \<Rightarrow> 'w" where
  "collect_each p ctx [] w = w"
| "collect_each p ctx (c # cs) w =
     collect_each p ctx cs
       (case polled_reader p c of None \<Rightarrow> w | Some r \<Rightarrow> snd (collect_one p ctx c r w))"

definition collect_all :: "'w telemetry_worker \<Rightarrow> req_context \<Rightarrow> 'w \<Rightarrow> 'w" where
  "collect_all p ctx w =
     (case tw_list p w of (Inl e, w) \<Rightarrow> w | (Inr cs, w) \<Rightarrow> collect_each p ctx cs w)"

end
