(* ===== verification/Telemetry_Claims.thy ===== *)
theory Telemetry_Claims
  imports Telemetry_Service Samples
begin

text \<open>The claims about telemetry: exact costs, what ends a batch, content that is never stored, and what
  a summary adds up.\<close>

section \<open>Costs\<close>

lemma round10_error: "\<bar>round10 q - q\<bar> \<le> 1 / (2 * 10 ^ 10)"
proof -
  have "\<bar>rat_of_nat (scaled 10 q) - \<bar>q\<bar> * 10 ^ 10\<bar> \<le> 1 / 2"
  proof -
    have "0 \<le> \<lfloor>\<bar>q\<bar> * 10 ^ 10 + 1 / 2\<rfloor>"
      by simp
    then have "rat_of_nat (scaled 10 q) = of_int \<lfloor>\<bar>q\<bar> * 10 ^ 10 + 1 / 2\<rfloor>"
      by (simp add: scaled_def)
    moreover have "of_int \<lfloor>\<bar>q\<bar> * 10 ^ 10 + 1 / 2\<rfloor> \<le> \<bar>q\<bar> * 10 ^ 10 + 1 / 2"
        and "\<bar>q\<bar> * 10 ^ 10 + 1 / 2 < of_int \<lfloor>\<bar>q\<bar> * 10 ^ 10 + 1 / 2\<rfloor> + 1"
      by linarith+
    ultimately show ?thesis
      by linarith
  qed
  then show ?thesis
    by (simp add: round10_def abs_if field_simps split: if_splits)
qed

text \<open>C35: A cost estimate is the exact product of tokens and price rounded to ten decimal places: its text
  parses back to that rational, which is within half a unit of the last place.\<close>

theorem cost_estimate_exact:
  assumes "parse_rat price = Some p"
  shows "\<exists>c. estimated_token_cost tokens price = Inr c \<and>
    parse_rat c = Some (round10 (p * of_int tokens / 1000000)) \<and>
    \<bar>round10 (p * of_int tokens / 1000000) - p * of_int tokens / 1000000\<bar> \<le> 1 / (2 * 10 ^ 10)"
  unfolding estimated_token_cost_def assms
  using round10_error [of "p * of_int tokens / 1000000"] by (simp add: parse_decimal_from_rat)


section \<open>What ends a batch\<close>

lemma with_utilization_keeps [simp]:
  "uo_conn (with_utilization u) = uo_conn u" "usage_costs (with_utilization u) = usage_costs u"
  "usage_counts (with_utilization u) = usage_counts u" "uo_total (with_utilization u) = uo_total u"
  by (simp_all add: with_utilization_def usage_costs_def usage_counts_def Let_def split: option.split)

lemma with_defaults_keeps [simp]:
  "uo_conn (with_defaults t u) = uo_conn u" "usage_costs (with_defaults t u) = usage_costs u"
  by (simp_all add: with_defaults_def usage_costs_def)

lemma normalize_without_catalog:
  assumes "check_observation u = None"
  shows "\<exists>t w'. normalize_observation (telemetry_store_ports env None) u w =
      (Inr (with_utilization (with_defaults t u)), w') \<and> w_db w' = w_db w"
  using assms by (auto simp: normalize_observation_def now_def seq_def Let_def)

lemma ingest_stops:
  assumes "check_observation u = None" and "e_fault env = (\<lambda>_. None)"
    and "\<And>t. observation_violation env (with_utilization (with_defaults t u)) (w_db w) = Some e"
    and "err_pg_code e \<noteq> Some ''23503''" and "\<not> err_is e UnknownRuntimeConnection"
  shows "\<exists>w'. ingest (telemetry_store_ports env None) (u # us) w =
    (nothing_ingested\<lparr>ig_error := Some (Wrapped ''upsert usage observation: '' e)\<rparr>, w') \<and> w_db w' = w_db w"
proof -
  obtain t w1 where n: "normalize_observation (telemetry_store_ports env None) u w =
      (Inr (with_utilization (with_defaults t u)), w1)" "w_db w1 = w_db w"
    using normalize_without_catalog [OF assms(1)] by blast
  show ?thesis
    using assms(4,5) n by (simp add: ingest_def upsert_observation_def exec_checked_def assms(3))
qed

text \<open>An observation of a runtime that is unknown, or of another tenant, is not rejected and skipped:
  the missing organisation violates a not-null constraint, which the repository does not recognise as
  an unknown runtime, so the rest of the batch is dropped.\<close>

theorem unknown_runtime_ends_batch:
  assumes "e_fault env = (\<lambda>_. None)" and "check_observation u = None"
    and "list_all (\<lambda>c. parse_rat c \<noteq> None) (usage_costs u)"
    and "conn_visible env (w_db w) (uo_conn u) = None"
  shows "\<exists>w'. ingest (telemetry_store_ports env None) (u # us) w =
      (nothing_ingested\<lparr>ig_error := Some (Wrapped ''upsert usage observation: '' not_null_violation)\<rparr>, w') \<and>
    w_db w' = w_db w \<and> \<not> err_is (Wrapped ''upsert usage observation: '' not_null_violation) UnknownRuntimeConnection"
proof -
  have "observation_violation env (with_utilization (with_defaults t u)) (w_db w) = Some not_null_violation" for t
    using assms(3,4) by (simp add: observation_violation_def require_ok_def)
  then show ?thesis
    using ingest_stops [OF assms(2,1), of w not_null_violation us] by (simp add: not_null_violation_def)
qed

lemma check_counts:
  "check_observation u = None \<Longrightarrow> 0 \<le> uo_input u \<and> 0 \<le> uo_output u"
  by (auto simp: check_observation_def usage_counts_def split: if_splits)

text \<open>When the tokens of an observation without a total add up past the range of \<^verbatim>\<open>int64\<close>, the computed
  total is negative, the check of the table refuses it, and the rest of the batch is dropped.\<close>

theorem token_sum_overflow_ends_batch:
  assumes "e_fault env = (\<lambda>_. None)" and "check_observation u = None"
    and "list_all (\<lambda>c. parse_rat c \<noteq> None) (usage_costs u)"
    and "conn_visible env (w_db w) (uo_conn u) \<noteq> None" and "uo_total u = 0"
    and "uo_input u \<le> max_int64" and "uo_output u \<le> max_int64" and "max_int64 < uo_input u + uo_output u"
  shows "uo_total (with_defaults t u) = uo_input u + uo_output u - 2 ^ 64 \<and> uo_total (with_defaults t u) < 0 \<and>
    (\<exists>w'. ingest (telemetry_store_ports env None) (u # us) w =
      (nothing_ingested\<lparr>ig_error := Some (Wrapped ''upsert usage observation: '' check_violation)\<rparr>, w') \<and>
    w_db w' = w_db w)"
proof -
  let ?n = "uo_input u + uo_output u"
  have r: "0 \<le> ?n - 2 ^ 63" "?n - 2 ^ 63 < 2 ^ 63"
    using assms(6-8) by (simp_all add: max_int64_def)
  have "(?n + 2 ^ 63) mod 2 ^ 64 = (?n + 2 ^ 63 - 2 ^ 64) mod 2 ^ 64"
    by (rule minus_mod_self2 [symmetric])
  also have "\<dots> = ?n + 2 ^ 63 - 2 ^ 64"
    using r by (intro mod_pos_pos_trivial) simp_all
  finally have "(?n + 2 ^ 63) mod 2 ^ 64 = ?n + 2 ^ 63 - 2 ^ 64" .
  then have wrap: "wrap64 ?n = ?n - 2 ^ 64"
    by (simp add: wrap64_def)
  then have tot: "uo_total (with_defaults t u) = ?n - 2 ^ 64" "uo_total (with_defaults t u) < 0" for t
    using r assms(5) by (simp_all add: with_defaults_def)
  have "observation_violation env (with_utilization (with_defaults t u)) (w_db w) = Some check_violation" for t
    using assms(3,4) tot(2) [of t] by (simp add: observation_violation_def require_ok_def usage_counts_def)
  then show ?thesis
    using ingest_stops [OF assms(2,1), of w check_violation us] tot by (simp add: check_violation_def)
qed


section \<open>No content\<close>

definition content_free :: "usage_row \<Rightarrow> bool" where
  "content_free r \<longleftrightarrow> list_all (\<lambda>k. map_of (uo_attributes (ug_observation r)) k = None)
     [''prompt'', ''completion'', ''input'', ''output'']"

definition clean_attributes :: "gmap \<Rightarrow> bool" where
  "clean_attributes m \<longleftrightarrow> list_all (\<lambda>k. map_of m k = None) [''prompt'', ''completion'', ''input'', ''output'']"

lemma content_free_alt: "content_free r = clean_attributes (uo_attributes (ug_observation r))"
  by (simp add: content_free_def clean_attributes_def)

lemma clean_without_content: "clean_attributes (without_content m)"
  by (simp add: clean_attributes_def without_content_def delete_conv')

lemma clean_mput:
  "clean_attributes m \<Longrightarrow> k \<notin> {''prompt'', ''completion'', ''input'', ''output''} \<Longrightarrow> clean_attributes (mput k v m)"
  by (auto simp: clean_attributes_def)

lemma clean_with_model:
  "with_model m u = Inr u' \<Longrightarrow> clean_attributes (uo_attributes u) \<Longrightarrow> clean_attributes (uo_attributes u')"
  by (auto simp: with_model_def with_savings_def mark_estimated_def Let_def intro!: clean_mput
      split: sum.splits option.splits if_splits)

lemma clean_with_utilization:
  "clean_attributes (uo_attributes u) \<Longrightarrow> clean_attributes (uo_attributes (with_utilization u))"
  by (auto simp: with_utilization_def Let_def intro!: clean_mput split: option.splits)

lemma lift_result_Inr:
  "(case r of Inl e \<Rightarrow> failing e | Inr u \<Rightarrow> return u) w = (Inr x, w') \<longleftrightarrow> r = Inr x \<and> w' = w"
  by (cases r) auto

lemma normalized_clean:
  assumes "normalize_observation p u w = (Inr u', w')"
  shows "clean_attributes (uo_attributes u')"
proof -
  have d: "clean_attributes (uo_attributes (with_defaults t u))" for t
    by (simp add: with_defaults_def clean_without_content)
  have c: "check_observation u = None"
    using assms by (simp add: normalize_observation_def split: option.splits)
  obtain t x w1 w2 where x: "(case yp_models p of
        Some resolve \<Rightarrow>
          if uo_model (with_defaults t u) = '''' then return (with_defaults t u)
          else seq (wrapping ''resolve model metadata: '' (resolve (uo_provider (with_defaults t u))
                 (uo_model (with_defaults t u)))) (\<lambda>found.
            case found of
              None \<Rightarrow> return (with_defaults t u)
            | Some m \<Rightarrow> (case with_model m (with_defaults t u) of Inl e \<Rightarrow> failing e | Inr u \<Rightarrow> return u))
      | None \<Rightarrow> return (with_defaults t u)) w1 = (Inr x, w2)"
      and u': "u' = with_utilization x"
    using assms unfolding normalize_observation_def c option.case Let_def seq_Inr_iff
    by (simp only: return_apply prod.inject sum.inject) blast
  have "x = with_defaults t u \<or> (\<exists>m. with_model m (with_defaults t u) = Inr x)"
    using x by (auto simp: seq_Inr_iff lift_result_Inr split: option.splits if_splits)
  then show ?thesis
    using clean_with_model [OF _ d] d unfolding u' by (blast intro: clean_with_utilization)
qed

lemma normalize_keeps_db: "keeps w_db (normalize_observation (telemetry_store_ports env c) u)"
  unfolding normalize_observation_def
  by (auto simp: Let_def intro!: keeps_intros keeps_now_db [where obs = "\<lambda>d. d"] split: option.split sum.split)

lemma upsert_clean:
  assumes "upsert_observation env u w = (r, w')" and "clean_attributes (uo_attributes u)"
    and "list_all content_free (db_usage (w_db w))"
  shows "list_all content_free (db_usage (w_db w'))"
proof -
  have "list_all content_free (db_usage (store_observation env u (w_db w)))"
    using assms(2,3)
    by (auto simp: store_observation_def upsert_def list_all_iff content_free_alt split: option.splits)
  then show ?thesis
    using assms(1,3)
    by (auto simp: upsert_observation_def exec_checked_def exec_def split: option.splits)
qed

text \<open>C18: Ingestion stores no prompts or completions: when no stored observation has an attribute
  \<open>prompt\<close>, \<open>completion\<close>, \<open>input\<close> or \<open>output\<close>, none has one after any batch, however it ends.\<close>

theorem content_never_stored:
  assumes "list_all content_free (db_usage (w_db w))"
  shows "list_all content_free (db_usage (w_db (snd (ingest (telemetry_store_ports env catalog) us w))))"
proof -
  have "list_all content_free (db_usage (w_db (snd (ingest_from (telemetry_store_ports env catalog) us r w))))"
    if "list_all content_free (db_usage (w_db w))" for us r and w :: "(db, 'a) world"
    using that
  proof (induction us arbitrary: r w)
    case (Cons u us)
    obtain n w1 where n: "normalize_observation (telemetry_store_ports env catalog) u w = (n, w1)"
      by fastforce
    have d: "w_db w1 = w_db w"
      by (rule keepsD [OF normalize_keeps_db n])
    show ?case
    proof (cases n)
      case (Inl e)
      then show ?thesis
        using Cons d n by simp
    next
      case (Inr u')
      obtain x w2 where x: "upsert_observation env u' w1 = (x, w2)"
        by fastforce
      have "list_all content_free (db_usage (w_db w2))"
        using upsert_clean [OF x] normalized_clean [of _ u w u' w1] n Inr Cons.prems d by simp
      then show ?thesis
        using Cons.IH n Inr x by (auto split: sum.split)
    qed
  qed simp
  then show ?thesis
    using assms by (simp add: ingest_def)
qed


section \<open>Summaries\<close>







lemma single_source_None:
  assumes "u \<in> set us" and "v \<in> set us" and "usage_source_text (uo_source u) \<noteq> usage_source_text (uo_source v)"
  shows "single_source us = None"
proof -
  have "remdups (map (\<lambda>u. usage_source_text (uo_source u)) us) \<noteq> [x]" for x
  proof
    assume "remdups (map (\<lambda>u. usage_source_text (uo_source u)) us) = [x]"
    then have "(\<lambda>u. usage_source_text (uo_source u)) ` set us = {x}"
      by (metis list.set(1) list.set(2) list.set_map set_remdups)
    then show False
      using assms by (metis imageI singletonD)
  qed
  then show ?thesis
    by (auto simp: single_source_def split: list.split)
qed

text \<open>A summary over runtimes whose preferred sources differ is reported as not available, without models
  and without a time series, although its totals are those of the selected observations.\<close>

theorem mixed_sources_unavailable:
  assumes "e_fault env = (\<lambda>_. None)" and "u \<in> set (selected env q (w_db w))" and "v \<in> set (selected env q (w_db w))"
    and "usage_source_text (uo_source u) \<noteq> usage_source_text (uo_source v)"
    and "scannable (summary_row q (selected env q (w_db w)))" and "\<not> several_bindings q (w_db w)"
  shows "\<exists>s w'. usage_summary_of env q w = (Inr s, w') \<and> \<not> us_available s \<and> us_models s = [] \<and> us_series s = [] \<and>
    us_total s = total_of uo_total (selected env q (w_db w))"
  using single_source_None [OF assms(2-4)] assms(5,6)
  by (simp add: usage_summary_of_def seq_def wrapping_def query_def assms(1) telemetry_configured_def Let_def
      summary_row_def)

section \<open>Instances\<close>

definition sample_usage :: usage_observation where
  "sample_usage = \<lparr>uo_source = SourceGantryNative, uo_source_id = ''o1'', uo_conn = ''c1'', uo_agent = '''',
     uo_execution = '''', uo_parent = '''', uo_thread = '''', uo_model = '''', uo_provider = '''', uo_requests = 1,
     uo_input = 100, uo_output = 20, uo_cached = 0, uo_cache_creation = 0, uo_reasoning = 0, uo_total = 120,
     uo_window = None, uo_utilization = None, uo_input_cost = None, uo_output_cost = None, uo_total_cost = None,
     uo_duration = None, uo_first_token = None, uo_errors = 0, uo_started = None, uo_ended = None,
     uo_observed = 10, uo_metadata_version = '''', uo_attributes = []\<rparr>"

definition other_usage :: usage_observation where
  "other_usage = sample_usage\<lparr>uo_source := SourceLangSmith, uo_source_id := ''r1'', uo_conn := ''c2'', uo_observed := 20\<rparr>"

definition usage_world :: "(db, unit) world" where
  "usage_world = sample_world\<lparr>w_db := sample_db\<lparr>
     db_conns := [sample_row sample_conn, sample_row (sample_conn\<lparr>rc_id := ''c2''\<rparr>)],
     db_usage := [\<lparr>ug_observation = sample_usage, ug_org = ''o1''\<rparr>, \<lparr>ug_observation = other_usage, ug_org = ''o1''\<rparr>]\<rparr>\<rparr>"

definition usage_query_of :: "string \<Rightarrow> usage_query" where
  "usage_query_of cid = \<lparr>uq_from = 0, uq_to = 100, uq_interval = 0, uq_conn = cid, uq_agent = '''',
     uq_runtime_agent = '''', uq_execution = '''', uq_job = '''', uq_grouping = '''', uq_model = '''', uq_source = ''''\<rparr>"

lemma calm_tenant [simp]: "tenant calm_env = ''''"
  by (simp add: tenant_def organization_id_def principal_from_def)

lemma usage_selected:
  "selected calm_env (usage_query_of ''c1'') (w_db usage_world) = [sample_usage]"
  "selected calm_env (usage_query_of '''') (w_db usage_world) = [sample_usage, other_usage]"
  by (simp_all add: selected_def scoped_def in_scope_def usage_world_def usage_query_of_def sample_usage_def
      other_usage_def sample_defs conn_visible_def conn_row_def tenant_allows_def joined_bindings_def bound_to_def
      chosen_source_def best_source_def)

lemma sample_usage_ok:
  "check_observation sample_usage = None" "usage_costs sample_usage = []"
  "check_observation (sample_usage\<lparr>uo_conn := ''c9''\<rparr>) = None"
  "check_observation (sample_usage\<lparr>uo_input := 2 ^ 62, uo_output := 2 ^ 62, uo_total := 0\<rparr>) = None"
  by (simp_all add: check_observation_def sample_usage_def usage_counts_def usage_costs_def str_simps map_filter_def)

theorem cost_estimate_exact_witness:
  "\<exists>c. estimated_token_cost 3 ''2.5'' = Inr c \<and> parse_rat c = Some (round10 (15 / 2000000))"
proof -
  have "parse_rat ''2.5'' = Some (5 / 2)"
    by (simp add: parse_rat_def with_sign_def parse_mantissa_def digit_def byte_in_def digits_value_def digit_value_def
        parse_exponent_def power_int_minus)
  then show ?thesis
    using cost_estimate_exact [of "''2.5''" "5 / 2" 3] by auto
qed

theorem unknown_runtime_ends_batch_witness:
  "\<exists>w'. ingest (telemetry_store_ports calm_env None) [sample_usage\<lparr>uo_conn := ''c9''\<rparr>, sample_usage] usage_world =
      (nothing_ingested\<lparr>ig_error := Some (Wrapped ''upsert usage observation: '' not_null_violation)\<rparr>, w') \<and>
    w_db w' = w_db usage_world"
proof -
  have "conn_visible calm_env (w_db usage_world) (uo_conn (sample_usage\<lparr>uo_conn := ''c9''\<rparr>)) = None"
    by (simp add: usage_world_def sample_defs conn_visible_def conn_row_def)
  moreover have "list_all (\<lambda>c. parse_rat c \<noteq> None) (usage_costs (sample_usage\<lparr>uo_conn := ''c9''\<rparr>))"
    using sample_usage_ok(2) by (simp add: usage_costs_def)
  ultimately show ?thesis
    using unknown_runtime_ends_batch [of calm_env "sample_usage\<lparr>uo_conn := ''c9''\<rparr>" usage_world "[sample_usage]"]
      sample_usage_ok(3) by auto
qed

theorem token_sum_overflow_ends_batch_witness:
  "\<exists>w'. ingest (telemetry_store_ports calm_env None)
      [sample_usage\<lparr>uo_input := 2 ^ 62, uo_output := 2 ^ 62, uo_total := 0\<rparr>, sample_usage] usage_world =
      (nothing_ingested\<lparr>ig_error := Some (Wrapped ''upsert usage observation: '' check_violation)\<rparr>, w') \<and>
    w_db w' = w_db usage_world"
proof -
  let ?u = "sample_usage\<lparr>uo_input := 2 ^ 62, uo_output := 2 ^ 62, uo_total := 0\<rparr>"
  have "conn_visible calm_env (w_db usage_world) (uo_conn ?u) \<noteq> None"
    by (simp add: usage_world_def sample_defs conn_visible_def conn_row_def tenant_allows_def sample_usage_def)
  moreover have "list_all (\<lambda>c. parse_rat c \<noteq> None) (usage_costs ?u)"
    using sample_usage_ok(2) by (simp add: usage_costs_def)
  ultimately show ?thesis
    using token_sum_overflow_ends_batch [of calm_env ?u usage_world 0 "[sample_usage]"] sample_usage_ok(4)
    by (simp add: max_int64_def)
qed

theorem content_never_stored_witness:
  "list_all content_free (db_usage (w_db (snd (ingest (telemetry_store_ports calm_env None)
     [sample_usage\<lparr>uo_attributes := [(''prompt'', GStr ''hello'')]\<rparr>] usage_world))))"
  by (rule content_never_stored) (simp add: usage_world_def content_free_def sample_usage_def other_usage_def)



theorem mixed_sources_unavailable_witness:
  "\<exists>s w'. usage_summary_of calm_env (usage_query_of '''') usage_world = (Inr s, w') \<and> \<not> us_available s \<and>
     us_series s = [] \<and> us_total s = 240"
proof -
  have "scannable (summary_row (usage_query_of '''') [sample_usage, other_usage])"
    by (simp add: scannable_def summary_row_def total_of_def sample_usage_def other_usage_def max_int64_def)
  moreover have "\<not> several_bindings (usage_query_of '''') d" for d
    by (simp add: several_bindings_def usage_query_of_def)
  moreover have "usage_source_text (uo_source sample_usage) \<noteq> usage_source_text (uo_source other_usage)"
    by (simp add: sample_usage_def other_usage_def)
  moreover have "total_of uo_total [sample_usage, other_usage] = 240"
    by (simp add: total_of_def sample_usage_def other_usage_def)
  ultimately show ?thesis
    using mixed_sources_unavailable [of calm_env sample_usage "usage_query_of ''''" usage_world other_usage]
    unfolding usage_selected by auto
qed

end
