(* ===== verification/Sync_Worker.thy ===== *)
theory Sync_Worker
  imports Telemetry_Service Sync_Service Samples
begin

text \<open>The scheduler of runtime synchronisations (\<^verbatim>\<open>internal/workers/runtime_sync.go\<close>): a round visits
  the runtimes in order and starts a goroutine for each that is due while the semaphore has a free
  slot.  Goroutines end at any time, also in the middle of a round; a synchronisation is one step.\<close>

section \<open>The configuration and a round\<close>

record worker_config =
  wk_tick :: int
  wk_capacity :: int
  wk_timeout :: int

definition new_worker :: "int \<Rightarrow> int \<Rightarrow> int \<Rightarrow> worker_config" where
  "new_worker period slots timeout =
     \<lparr>wk_tick = (if period \<le> 0 then 5 * second else period),
      wk_capacity = (if slots \<le> 0 then 4 else slots),
      wk_timeout = (if timeout \<le> 0 then 30 * second else timeout)\<rparr>"

definition schedulable :: "runtime_connection \<Rightarrow> bool" where
  "schedulable c \<longleftrightarrow> rc_sync_enabled c \<and> rc_status c \<noteq> RuntimeDisabled \<and> rc_auth_ref c \<noteq> ''''"

definition sync_interval :: "runtime_connection \<Rightarrow> int" where
  "sync_interval c =
     (let i = wrap64 (rc_sync_interval c * second) in if i \<le> 0 then 60 * second else i)"

definition due :: "time \<Rightarrow> runtime_connection \<Rightarrow> bool" where
  "due t c \<longleftrightarrow> schedulable c \<and>
     (case rc_last_sync_started c of None \<Rightarrow> True | Some s \<Rightarrow> sync_interval c \<le> time_sub t s)"

definition scheduled_input :: "runtime_connection \<Rightarrow> sync_input" where
  "scheduled_input c = \<lparr>si_conn = rc_id c, si_trigger = TriggerScheduled, si_actor = ''capcom-sync-worker'',
     si_reason = ''scheduled runtime synchronization''\<rparr>"

text \<open>The goroutine: the synchronisation in the context of the organisation of the runtime, its result
  logged at most.\<close>

record 'w sync_worker =
  sk_config :: worker_config
  sk_list :: "('w, runtime_connection list) call"
  sk_now :: "('w, time) call"
  sk_sync :: "req_context \<Rightarrow> sync_input \<Rightarrow> 'w \<Rightarrow> (sync_run \<times> gerr option) \<times> 'w"

definition run_scheduled :: "'w sync_worker \<Rightarrow> req_context \<Rightarrow> runtime_connection \<Rightarrow> 'w \<Rightarrow> 'w" where
  "run_scheduled p ctx c w =
     snd (sk_sync p (with_principal ctx (system_principal c)) (scheduled_input c) w)"

section \<open>The worker as a state machine\<close>

record 'w worker_state =
  wn_world :: 'w
  wn_time :: time
  wn_round :: "runtime_connection list"
  wn_running :: "runtime_connection list"
  wn_stopping :: bool

definition capacity :: "'w sync_worker \<Rightarrow> nat" where
  "capacity p = nat (wk_capacity (sk_config p))"

definition begin_round :: "'w sync_worker \<Rightarrow> 'w worker_state \<Rightarrow> 'w worker_state" where
  "begin_round p s =
     (case sk_list p (wn_world s) of
        (Inl e, w) \<Rightarrow> s\<lparr>wn_world := w\<rparr>
      | (Inr cs, w) \<Rightarrow>
          (case sk_now p w of
             (Inl e, w) \<Rightarrow> s\<lparr>wn_world := w\<rparr>
           | (Inr t, w) \<Rightarrow> s\<lparr>wn_world := w, wn_time := t, wn_round := cs\<rparr>))"

text \<open>One iteration of the loop over the runtimes.\<close>

definition visit :: "'w sync_worker \<Rightarrow> runtime_connection \<Rightarrow> 'w worker_state \<Rightarrow> 'w worker_state" where
  "visit p c s =
     (if \<not> due (wn_time s) c then s
      else if length (wn_running s) < capacity p then s\<lparr>wn_running := c # wn_running s\<rparr>
      else s\<lparr>wn_round := []\<rparr>)"

inductive worker_step ::
    "'w sync_worker \<Rightarrow> req_context \<Rightarrow> 'w worker_state \<Rightarrow> 'w worker_state \<Rightarrow> bool" for p ctx where
  tick: "wn_round s = [] \<Longrightarrow> \<not> wn_stopping s \<Longrightarrow> worker_step p ctx s (begin_round p s)"
| visit: "wn_round s = c # cs \<Longrightarrow> worker_step p ctx s (visit p c (s\<lparr>wn_round := cs\<rparr>))"
| finish: "c \<in> set (wn_running s) \<Longrightarrow>
    worker_step p ctx s (s\<lparr>wn_world := run_scheduled p ctx c (wn_world s), wn_running := remove1 c (wn_running s)\<rparr>)"
| stop: "wn_round s = [] \<Longrightarrow> \<not> wn_stopping s \<Longrightarrow> worker_step p ctx s (s\<lparr>wn_stopping := True\<rparr>)"

definition worker_start :: "'w \<Rightarrow> 'w worker_state" where
  "worker_start w = \<lparr>wn_world = w, wn_time = 0, wn_round = [], wn_running = [], wn_stopping = False\<rparr>"

inductive_cases worker_step_elim: "worker_step p ctx s s'"

abbreviation worker_reaches :: "'w sync_worker \<Rightarrow> req_context \<Rightarrow> 'w worker_state \<Rightarrow> 'w worker_state \<Rightarrow> bool" where
  "worker_reaches p ctx \<equiv> (worker_step p ctx)\<^sup>*\<^sup>*"

lemma begin_round_keeps [simp]:
  "wn_running (begin_round p s) = wn_running s" "wn_stopping (begin_round p s) = wn_stopping s"
  by (simp_all add: begin_round_def split: prod.split sum.split)

lemma visit_keeps [simp]: "wn_stopping (visit p c s) = wn_stopping s" "wn_world (visit p c s) = wn_world s"
  by (simp_all add: visit_def)

text \<open>What holds of the worker at any time: the slots, what runs, and the round that is over once the
  worker stops.\<close>

definition worker_ok :: "'w sync_worker \<Rightarrow> 'w worker_state \<Rightarrow> bool" where
  "worker_ok p s \<longleftrightarrow> length (wn_running s) \<le> capacity p \<and> list_all schedulable (wn_running s) \<and>
     (wn_stopping s \<longrightarrow> wn_round s = [])"

lemma worker_step_ok: "worker_step p ctx s s' \<Longrightarrow> worker_ok p s \<Longrightarrow> worker_ok p s'"
proof (induction rule: worker_step.induct)
  case (finish c s)
  then show ?case
    by (auto simp: worker_ok_def list_all_iff length_remove1 dest: notin_set_remove1)
qed (auto simp: worker_ok_def visit_def due_def)

lemma worker_reaches_ok: "worker_reaches p ctx s s' \<Longrightarrow> worker_ok p s \<Longrightarrow> worker_ok p s'"
  by (induction rule: rtranclp_induct) (auto intro: worker_step_ok)

text \<open>C25: At every moment, in every interleaving of rounds and ending goroutines, at most as many
  synchronisations run as the semaphore has slots, all of them of runtimes that are enabled for
  synchronisation, not disabled and have a credential reference.\<close>

theorem worker_capacity:
  assumes "worker_reaches p ctx (worker_start w) s"
  shows "length (wn_running s) \<le> capacity p \<and> set (filter schedulable (wn_running s)) = set (wn_running s)"
proof -
  have "worker_ok p s"
    by (rule worker_reaches_ok [OF assms]) (simp add: worker_ok_def worker_start_def)
  then show ?thesis
    by (auto simp: worker_ok_def list_all_iff)
qed

text \<open>Once it stops, the worker drains: no further step starts a synchronisation, each takes one off,
  and a step is possible as long as one runs.\<close>

theorem worker_drains:
  assumes "worker_reaches p ctx (worker_start w) s" and "wn_stopping s"
  shows "{s'. worker_step p ctx s s'} \<subseteq> {s'. wn_stopping s' \<and> Suc (length (wn_running s')) = length (wn_running s)} \<and>
    ((\<exists>s'. worker_step p ctx s s') = (wn_running s \<noteq> []))"
proof -
  have ok: "worker_ok p s"
    by (rule worker_reaches_ok [OF assms(1)]) (simp add: worker_ok_def worker_start_def)
  have "wn_stopping s' \<and> Suc (length (wn_running s')) = length (wn_running s)" if "worker_step p ctx s s'" for s'
    using that ok assms(2)
    by (cases rule: worker_step.cases) (auto simp: worker_ok_def length_remove1 neq_Nil_conv in_set_conv_decomp)
  moreover have "\<exists>s'. worker_step p ctx s s'" if "wn_running s \<noteq> []"
    using that worker_step.finish [of "hd (wn_running s)" s p ctx] by (auto simp: hd_in_set)
  ultimately show ?thesis
    by fastforce
qed


section \<open>Instances\<close>

definition sample_worker :: "unit sync_worker" where
  "sample_worker = \<lparr>sk_config = new_worker 0 1 0, sk_list = return [sample_conn\<lparr>rc_auth_ref := ''k''\<rparr>],
     sk_now = return 7, sk_sync = (\<lambda>ctx i w. ((no_run, None), w))\<rparr>"

lemma sample_worker_runs:
  "worker_reaches sample_worker None (worker_start ()) \<lparr>wn_world = (), wn_time = 7, wn_round = [],
     wn_running = [sample_conn\<lparr>rc_auth_ref := ''k''\<rparr>], wn_stopping = True\<rparr>"
proof -
  let ?c = "sample_conn\<lparr>rc_auth_ref := ''k''\<rparr>"
  let ?s1 = "\<lparr>wn_world = (), wn_time = 7, wn_round = [?c], wn_running = [], wn_stopping = False\<rparr>"
  let ?s2 = "\<lparr>wn_world = (), wn_time = 7, wn_round = [], wn_running = [?c], wn_stopping = False\<rparr>"
  have "worker_step sample_worker None (worker_start ()) ?s1"
    using worker_step.tick [of "worker_start ()" sample_worker None]
    by (simp add: worker_start_def begin_round_def sample_worker_def)
  moreover have "worker_step sample_worker None ?s1 ?s2"
    using worker_step.visit [of ?s1 ?c "[]" sample_worker None]
    by (simp add: visit_def due_def schedulable_def sample_conn_def capacity_def sample_worker_def new_worker_def)
  moreover have "worker_step sample_worker None ?s2 (?s2\<lparr>wn_stopping := True\<rparr>)"
    using worker_step.stop [of ?s2 sample_worker None] by simp
  ultimately show ?thesis
    by (simp add: rtranclp.rtrancl_into_rtrancl)
qed

theorem worker_capacity_witness: "length [sample_conn\<lparr>rc_auth_ref := ''k''\<rparr>] \<le> capacity sample_worker"
  using worker_capacity [OF sample_worker_runs] by simp

theorem worker_drains_witness:
  "\<exists>s s'. worker_reaches sample_worker None (worker_start ()) s \<and> worker_step sample_worker None s s' \<and>
     wn_running s' = []"
proof -
  note r = sample_worker_runs
  obtain s' where "worker_step sample_worker None \<lparr>wn_world = (), wn_time = 7, wn_round = [],
     wn_running = [sample_conn\<lparr>rc_auth_ref := ''k''\<rparr>], wn_stopping = True\<rparr> s'"
    using worker_drains [OF r] by auto
  then show ?thesis
    using worker_drains [OF r] r by auto
qed

end
