(* ===== verification/Auth_Store.thy ===== *)
theory Auth_Store
  imports Connection_Store
begin

text \<open>The identity repository (\<^verbatim>\<open>internal/store/auth_repository.go\<close>): accounts, organisations,
  memberships and sessions.  A user row holds its row of \<^verbatim>\<open>password_credentials\<close>.\<close>

record new_account =
  na_email :: string
  na_normalized :: string
  na_hash :: string
  na_token_hash :: string
  na_csrf_hash :: string
  na_absolute :: time
  na_idle :: time

record login_identity =
  li_user :: user
  li_organization :: organization
  li_role :: string
  li_hash :: string

record new_session =
  ns_user :: string
  ns_org :: string
  ns_token_hash :: string
  ns_csrf_hash :: string
  ns_absolute :: time
  ns_idle :: time


section \<open>Runes and slugs\<close>

text \<open>UTF-8 as Go decodes it: the width of the first rune and whether it is valid; an invalid byte is a
  rune of its own.\<close>

definition second_byte_ok :: "char \<Rightarrow> char \<Rightarrow> bool" where
  "second_byte_ok a b \<longleftrightarrow>
     (if a = CHR 0xE0 then byte_in 0xA0 0xBF b
      else if a = CHR 0xED then byte_in 0x80 0x9F b
      else if a = CHR 0xF0 then byte_in 0x90 0xBF b
      else if a = CHR 0xF4 then byte_in 0x80 0x8F b
      else byte_in 0x80 0xBF b)"

definition rune_size :: "char \<Rightarrow> nat" where
  "rune_size a =
     (if byte_in 0xC2 0xDF a then 2 else if byte_in 0xE0 0xEF a then 3 else if byte_in 0xF0 0xF4 a then 4
      else if byte_in 0 0x7F a then 1 else 0)"

definition rune_ok :: "string \<Rightarrow> bool" where
  "rune_ok s \<longleftrightarrow>
     (case s of
        [] \<Rightarrow> False
      | a # t \<Rightarrow>
          rune_size a = 1 \<or>
          1 < rune_size a \<and> rune_size a \<le> length s \<and> second_byte_ok a (hd t) \<and>
          list_all (byte_in 0x80 0xBF) (take (rune_size a - 2) (tl t)))"

definition rune_width :: "string \<Rightarrow> nat" where
  "rune_width s = (if rune_ok s then rune_size (hd s) else 1)"

lemma rune_width_pos: "0 < rune_width s"
  by (auto simp: rune_width_def rune_ok_def split: list.splits)

function runes :: "string \<Rightarrow> string list" where
  "runes s = (if s = [] then [] else take (rune_width s) s # runes (drop (rune_width s) s))"
  by auto
termination
  by (relation "measure length") (auto simp: rune_width_pos)

declare runes.simps [simp del]

lemma runes_concat: "concat (runes s) = s"
  by (induction s rule: runes.induct) (simp add: runes.simps)

definition utf8_valid :: "string \<Rightarrow> bool" where
  "utf8_valid s \<longleftrightarrow> list_all rune_ok (runes s)"

definition slug_rune :: "string \<Rightarrow> char" where
  "slug_rune r = (case r of [c] \<Rightarrow> if byte_in 97 122 c \<or> byte_in 48 57 c then c else CHR 0x2D | _ \<Rightarrow> CHR 0x2D)"

definition organization_slug :: "string \<Rightarrow> string \<Rightarrow> string" where
  "organization_slug email org =
     map slug_rune (runes (to_lower (take 32 (takeWhile (\<lambda>c. c \<noteq> CHR 0x40) email)))) @ ''-'' @ take 8 org"


section \<open>CreateAccount\<close>

definition auth_event :: "string \<Rightarrow> string \<Rightarrow> string \<Rightarrow> string \<Rightarrow> string \<Rightarrow> string \<Rightarrow> audit_event" where
  "auth_event aid actor event target_type target reason =
     \<lparr>au_id = aid, au_conn = '''', au_agent = '''', au_action = '''', au_actor = actor, au_event = event,
      au_target_type = target_type, au_target = target, au_reason = reason, au_before = [], au_after = [],
      au_result = ''succeeded'', au_metadata = []\<rparr>"

definition append_audit :: "audit_event \<Rightarrow> string \<Rightarrow> time \<Rightarrow> db \<Rightarrow> db" where
  "append_audit e org t d = d\<lparr>db_audits := db_audits d @ [\<lparr>ur_event = e, ur_org = org, ur_created_at = t\<rparr>]\<rparr>"

definition insert_organization :: "env \<Rightarrow> organization \<Rightarrow> ((db, 'x) world, unit) call" where
  "insert_organization env g = exec_checked env
     (\<lambda>d. require_ok (\<not> (\<exists>r\<in>set (db_organizations d). org_id (og_organization r) = org_id g \<or>
        org_slug (og_organization r) = org_slug g)) unique_violation)
     (\<lambda>d. d\<lparr>db_organizations := db_organizations d @ [\<lparr>og_organization = g, og_active = True\<rparr>]\<rparr>)"

definition insert_user :: "env \<Rightarrow> user \<Rightarrow> string \<Rightarrow> ((db, 'x) world, unit) call" where
  "insert_user env u normalized = exec_checked env
     (\<lambda>d. require_ok (\<not> (\<exists>r\<in>set (db_users d). u_id (us_row_user r) = u_id u \<or> us_row_email r = normalized))
        unique_violation)
     (\<lambda>d. d\<lparr>db_users := db_users d @
        [\<lparr>us_row_user = u, us_row_email = normalized, us_row_active = True, us_row_hash = None\<rparr>]\<rparr>)"

definition has_user :: "db \<Rightarrow> string \<Rightarrow> bool" where
  "has_user d uid \<longleftrightarrow> uid \<in> set (map (\<lambda>r. u_id (us_row_user r)) (db_users d))"

definition has_organization :: "db \<Rightarrow> string \<Rightarrow> bool" where
  "has_organization d oid \<longleftrightarrow> oid \<in> set (map (\<lambda>r. org_id (og_organization r)) (db_organizations d))"

definition insert_credentials :: "env \<Rightarrow> string \<Rightarrow> string \<Rightarrow> ((db, 'x) world, unit) call" where
  "insert_credentials env uid hash = exec_checked env
     (\<lambda>d. first_of [require_ok (has_user d uid) foreign_key_violation,
        require_ok (\<not> (\<exists>r\<in>set (db_users d). u_id (us_row_user r) = uid \<and> us_row_hash r \<noteq> None)) unique_violation])
     (\<lambda>d. d\<lparr>db_users := update_where (\<lambda>r. u_id (us_row_user r) = uid) (\<lambda>r. r\<lparr>us_row_hash := Some hash\<rparr>)
        (db_users d)\<rparr>)"

definition insert_member :: "env \<Rightarrow> string \<Rightarrow> string \<Rightarrow> ((db, 'x) world, unit) call" where
  "insert_member env oid uid w = exec_checked env
     (\<lambda>d. first_of [require_ok (has_user d uid \<and> has_organization d oid) foreign_key_violation,
        require_ok (\<not> (\<exists>m\<in>set (db_members d). mb_org m = oid \<and> mb_user m = uid)) unique_violation])
     (\<lambda>d. d\<lparr>db_members := db_members d @ [\<lparr>mb_org = oid, mb_user = uid, mb_role = ''owner'', mb_active = True,
        mb_created = e_now env (w_step w)\<rparr>]\<rparr>) w"

definition insert_session :: "env \<Rightarrow> string \<Rightarrow> new_session \<Rightarrow> ((db, 'x) world, unit) call" where
  "insert_session env sid n w = exec_checked env
     (\<lambda>d. first_of [require_ok (has_user d (ns_user n) \<and> has_organization d (ns_org n)) foreign_key_violation,
        require_ok (\<not> (\<exists>s\<in>set (db_sessions d). sv_id s = sid \<or> sv_token_hash s = ns_token_hash n)) unique_violation])
     (\<lambda>d. d\<lparr>db_sessions := db_sessions d @ [\<lparr>sv_id = sid, sv_user = ns_user n, sv_org = ns_org n,
        sv_token_hash = ns_token_hash n, sv_csrf_hash = ns_csrf_hash n, sv_absolute = ns_absolute n,
        sv_idle = ns_idle n, sv_last_seen = e_now env (w_step w), sv_revoked = None\<rparr>]\<rparr>) w"

text \<open>The organisation of a new account: the bootstrap organisation while it has no member, otherwise a
  new one.\<close>

definition local_organization :: organization where
  "local_organization = \<lparr>org_id = bootstrap_organization, org_name = ''Capcom Local'', org_slug = ''capcom-local''\<rparr>"

definition account_organization :: "env \<Rightarrow> new_account \<Rightarrow> ((db, 'x) world, organization) call" where
  "account_organization env n =
     seq (wrapping ''check bootstrap organization: ''
            (query env (\<lambda>d. length (filter (\<lambda>m. mb_org m = bootstrap_organization) (db_members d))))) (\<lambda>members.
     if members = 0 then return local_organization
     else seq (new_id env) (\<lambda>oid.
       let g = \<lparr>org_id = oid, org_name = na_email n @ '' workspace'',
                org_slug = organization_slug (na_normalized n) oid\<rparr> in
       seq (wrapping ''create organization: '' (insert_organization env g)) (\<lambda>_.
       return g)))"

text \<open>The transaction lock serialises signups; in the sequence of statements of one session it is a
  statement without an effect.\<close>

definition create_account :: "env \<Rightarrow> new_account \<Rightarrow> ((db, 'x) world, auth_session) call" where
  "create_account env n = transaction env ''begin signup: '' ''commit signup: ''
     (seq (wrapping ''lock signup: '' (exec env (\<lambda>d. d))) (\<lambda>_.
      seq (wrapping ''check signup email: ''
             (query env (\<lambda>d. \<exists>r\<in>set (db_users d). us_row_email r = na_normalized n))) (\<lambda>exists.
      if exists then failing (Sentinel EmailExists)
      else
      seq (new_id env) (\<lambda>uid.
      seq (account_organization env n) (\<lambda>g.
      seq (now env) (\<lambda>t.
      let u = \<lparr>u_id = uid, u_email = na_email n, u_created = t\<rparr> in
      seq (wrapping ''create user: '' (insert_user env u (na_normalized n))) (\<lambda>_.
      seq (wrapping ''create credentials: '' (insert_credentials env uid (na_hash n))) (\<lambda>_.
      seq (wrapping ''create membership: '' (insert_member env (org_id g) uid)) (\<lambda>_.
      seq (new_id env) (\<lambda>sid.
      seq (wrapping ''create signup session: '' (insert_session env sid
             \<lparr>ns_user = uid, ns_org = org_id g, ns_token_hash = na_token_hash n, ns_csrf_hash = na_csrf_hash n,
              ns_absolute = na_absolute n, ns_idle = na_idle n\<rparr>)) (\<lambda>_.
      seq (default_id env) (\<lambda>aid.
      seq (wrapping ''audit signup: '' (exec_now env (append_audit (auth_event aid (na_normalized n) ''user.signup''
             ''user'' uid ''Self-service account creation'') (org_id g)))) (\<lambda>_.
      return \<lparr>se_user = u, se_organization = g, se_role = ''owner'', se_token = '''', se_csrf = '''',
        se_absolute = na_absolute n, se_idle = na_idle n\<rparr>)))))))))))))"


section \<open>Login identities and sessions\<close>

definition login_rows :: "string \<Rightarrow> db \<Rightarrow> (member_row \<times> login_identity) list" where
  "login_rows email d =
     concat (map (\<lambda>u. concat (map (\<lambda>m. concat (map (\<lambda>g.
         if us_row_email u = email \<and> us_row_active u \<and> us_row_hash u \<noteq> None \<and>
            mb_user m = u_id (us_row_user u) \<and> mb_active m \<and>
            org_id (og_organization g) = mb_org m \<and> og_active g
         then [(m, \<lparr>li_user = us_row_user u, li_organization = og_organization g, li_role = mb_role m,
                li_hash = the (us_row_hash u)\<rparr>)]
         else []) (db_organizations d))) (db_members d))) (db_users d))"

definition find_login_identity :: "env \<Rightarrow> string \<Rightarrow> ((db, 'x) world, login_identity) call" where
  "find_login_identity env email =
     seq (wrapping ''find login identity: ''
            (query env (\<lambda>d. map snd (sort_key (\<lambda>r. mb_created (fst r)) (login_rows email d))))) (\<lambda>rows.
     case rows of [] \<Rightarrow> failing (Sentinel IdentityNotFound) | i # _ \<Rightarrow> return i)"

definition login_audits :: "string \<Rightarrow> string \<Rightarrow> string \<Rightarrow> string \<Rightarrow> time \<Rightarrow> db \<Rightarrow> db" where
  "login_audits aid oid sid uid t d =
     fold (\<lambda>r. append_audit (auth_event aid (u_email (us_row_user r)) ''user.login'' ''session'' sid
              ''Password authentication'') oid t)
       (filter (\<lambda>r. u_id (us_row_user r) = uid) (db_users d)) d"

definition create_session :: "env \<Rightarrow> new_session \<Rightarrow> ((db, 'x) world, unit) call" where
  "create_session env n =
     seq (new_id env) (\<lambda>sid.
     transaction env ''begin session creation: '' ''commit session creation: ''
       (seq (wrapping ''create session: '' (insert_session env sid n)) (\<lambda>_.
        seq (default_id env) (\<lambda>aid.
        wrapping ''audit login: '' (exec_now env (login_audits aid (ns_org n) sid (ns_user n)))))))"

definition session_live :: "time \<Rightarrow> session_row \<Rightarrow> bool" where
  "session_live t s \<longleftrightarrow> sv_revoked s = None \<and> t < sv_absolute s \<and> t < sv_idle s"

definition session_rows :: "string \<Rightarrow> time \<Rightarrow> db \<Rightarrow> principal list" where
  "session_rows hash t d =
     concat (map (\<lambda>s. concat (map (\<lambda>u. concat (map (\<lambda>g. concat (map (\<lambda>m.
         if sv_token_hash s = hash \<and> session_live t s \<and>
            u_id (us_row_user u) = sv_user s \<and> us_row_active u \<and>
            org_id (og_organization g) = sv_org s \<and> og_active g \<and>
            mb_user m = u_id (us_row_user u) \<and> mb_org m = org_id (og_organization g) \<and> mb_active m
         then [\<lparr>p_user = u_id (us_row_user u), p_email = u_email (us_row_user u),
                p_org = org_id (og_organization g), p_organization = og_organization g, p_role = mb_role m,
                p_session = sv_id s, p_csrf_hash = sv_csrf_hash s, p_platform_admin = False\<rparr>]
         else []) (db_members d))) (db_organizations d))) (db_users d))) (db_sessions d))"

text \<open>The idle expiry slides at most every five minutes and never past the absolute one; an error of
  this update is ignored.\<close>

definition touch_session :: "string \<Rightarrow> time \<Rightarrow> db \<Rightarrow> db" where
  "touch_session sid t d = d\<lparr>db_sessions := update_where
     (\<lambda>s. sv_id s = sid \<and> sv_last_seen s < t - 5 * minute)
     (\<lambda>s. s\<lparr>sv_last_seen := t, sv_idle := min (sv_absolute s) (t + 12 * hour)\<rparr>) (db_sessions d)\<rparr>"

definition find_session :: "env \<Rightarrow> string \<Rightarrow> ((db, 'x) world, principal) call" where
  "find_session env hash =
     seq (wrapping ''find session: '' (query_now env (session_rows hash))) (\<lambda>rows.
     case rows of
       [] \<Rightarrow> failing (Sentinel IdentityNotFound)
     | p # _ \<Rightarrow> (\<lambda>w. (Inr p, snd (exec_now env (touch_session (p_session p)) w))))"

definition revoke :: "string \<Rightarrow> string \<Rightarrow> time \<Rightarrow> db \<Rightarrow> db" where
  "revoke aid sid t d =
     fold (\<lambda>s d. fold (\<lambda>r. append_audit (auth_event aid (u_email (us_row_user r)) ''user.logout'' ''session''
                  (sv_id s) ''User initiated logout'') (sv_org s) t)
                (filter (\<lambda>r. u_id (us_row_user r) = sv_user s) (db_users d)) d)
       (filter (\<lambda>s. sv_id s = sid \<and> sv_revoked s = None) (db_sessions d))
       (d\<lparr>db_sessions := update_where (\<lambda>s. sv_id s = sid \<and> sv_revoked s = None) (\<lambda>s. s\<lparr>sv_revoked := Some t\<rparr>)
          (db_sessions d)\<rparr>)"

definition revoke_session :: "env \<Rightarrow> string \<Rightarrow> ((db, 'x) world, unit) call" where
  "revoke_session env sid =
     seq (default_id env) (\<lambda>aid. wrapping ''revoke session: '' (exec_now env (revoke aid sid)))"

end
