(* ===== verification/Auth_Service.thy ===== *)
theory Auth_Service
  imports Auth_Store Decimals
begin

text \<open>The authentication service (\<^verbatim>\<open>internal/services/auth.go\<close>): addresses and passwords, the login
  limiter, signup, login, sessions and the CSRF check.\<close>

section \<open>Libraries\<close>

text \<open>Parameters: Unicode normalisation and Argon2id (packages outside the repository), and of the
  standard library \<^verbatim>\<open>mail.ParseAddress\<close> (the address it finds), SHA-256 and the two base64 alphabets.\<close>

record auth_library =
  al_nfc :: "string \<Rightarrow> string"
  al_address :: "string \<Rightarrow> string option"
  al_sha256 :: "string \<Rightarrow> string"
  al_argon2 :: "string \<Rightarrow> string \<Rightarrow> nat \<Rightarrow> nat \<Rightarrow> nat \<Rightarrow> nat \<Rightarrow> string"
  al_encode :: "string \<Rightarrow> string"
  al_decode :: "string \<Rightarrow> string option"
  al_encode_url :: "string \<Rightarrow> string"

text \<open>What they document: base64 decodes what it encodes and has no dollar sign in its alphabet, a key has
  the requested length.\<close>

definition auth_library_ok :: "auth_library \<Rightarrow> bool" where
  "auth_library_ok l \<longleftrightarrow>
     (\<forall>s. al_decode l (al_encode l s) = Some s \<and> CHR 0x24 \<notin> set (al_encode l s)) \<and>
     (\<forall>p s i m q n. length (al_argon2 l p s i m q n) = n)"


section \<open>Addresses and passwords\<close>

definition normalize_email :: "auth_library \<Rightarrow> string \<Rightarrow> (string \<times> string) res" where
  "normalize_email l raw =
     (let display = trim_space (al_nfc l raw) in
      if 254 < length display then Inl (Text ''email too long'')
      else if al_address l display \<noteq> Some display \<or> \<not> str_contains display ''@''
      then Inl (Text ''invalid email'')
      else Inr (display, to_lower display))"

definition common_passwords :: "string list" where
  "common_passwords =
     [''password'', ''password123'', ''123456789012345'', ''qwertyuiopasdfg'', ''letmeinletmeinlet'']"

definition validate_password :: "string \<Rightarrow> gerr option" where
  "validate_password p =
     (if \<not> utf8_valid p then Some (Sentinel WeakPassword)
      else if length (runes p) < 15 \<or> 128 < length (runes p) then Some (Sentinel WeakPassword)
      else if List.member common_passwords (to_lower p) then Some (Sentinel WeakPassword)
      else None)"

definition encode_password :: "auth_library \<Rightarrow> string \<Rightarrow> string \<Rightarrow> string" where
  "encode_password l password salt =
     ''$argon2id$v=19$m=19456,t=2,p=1$'' @ al_encode l salt @ ''$'' @
     al_encode l (al_argon2 l password salt 2 (19 * 1024) 1 32)"

text \<open>\<^verbatim>\<open>fmt.Sscanf(s, "m=%d,t=%d,p=%d", ..)\<close> into 32, 32 and 8 bits: spaces before a number are
  skipped, what follows the last number is ignored.\<close>

definition scan_uint :: "nat \<Rightarrow> string \<Rightarrow> (nat \<times> string) option" where
  "scan_uint bits s =
     (let t = dropWhile (\<lambda>c. c = CHR 0x20) s; ds = takeWhile digit t in
      if ds = [] \<or> 2 ^ bits \<le> digits_value ds then None else Some (digits_value ds, dropWhile digit t))"

definition scan_text :: "string \<Rightarrow> string \<Rightarrow> string option" where
  "scan_text t s = (if has_prefix s t then Some (drop (length t) s) else None)"

definition scan_parameters :: "string \<Rightarrow> (nat \<times> nat \<times> nat) option" where
  "scan_parameters s =
     Option.bind (scan_text ''m='' s) (\<lambda>s.
     Option.bind (scan_uint 32 s) (\<lambda>(memory, s).
     Option.bind (scan_text '',t='' s) (\<lambda>s.
     Option.bind (scan_uint 32 s) (\<lambda>(iterations, s).
     Option.bind (scan_text '',p='' s) (\<lambda>s.
     Option.bind (scan_uint 8 s) (\<lambda>(parallelism, s).
     Some (memory, iterations, parallelism)))))))"

definition verify_password :: "auth_library \<Rightarrow> string \<Rightarrow> string \<Rightarrow> bool" where
  "verify_password l password encoded =
     (let parts = split_on (CHR 0x24) encoded in
      if length parts \<noteq> 6 \<or> parts ! 1 \<noteq> ''argon2id'' then False
      else case scan_parameters (parts ! 3) of
        None \<Rightarrow> False
      | Some (memory, iterations, parallelism) \<Rightarrow>
          if memory < 8 * 1024 \<or> 1024 * 1024 < memory \<or> iterations < 1 \<or> 10 < iterations \<or>
             parallelism < 1 \<or> 16 < parallelism then False
          else case (al_decode l (parts ! 4), al_decode l (parts ! 5)) of
                 (Some salt, Some want) \<Rightarrow>
                   al_argon2 l password salt iterations memory parallelism (length want) = want
               | _ \<Rightarrow> False)"


section \<open>The limiter\<close>

record login_attempt =
  at_failures :: nat
  at_blocked :: time
  at_updated :: time

type_synonym limiter = "(string \<times> login_attempt) list"

definition no_attempt :: login_attempt where
  "no_attempt = \<lparr>at_failures = 0, at_blocked = 0, at_updated = 0\<rparr>"

definition attempt_of :: "limiter \<Rightarrow> string \<Rightarrow> login_attempt" where
  "attempt_of l key = (case map_of l key of Some a \<Rightarrow> a | None \<Rightarrow> no_attempt)"

definition limiter_allow :: "string \<Rightarrow> time \<Rightarrow> limiter \<Rightarrow> bool \<times> limiter" where
  "limiter_allow key t l =
     (let a = attempt_of l key in
      if at_updated a \<noteq> 0 \<and> 15 * minute \<le> time_sub t (at_updated a) then (True, AList.delete key l)
      else (at_blocked a \<le> t, l))"

text \<open>The eviction: the first of the least recently updated entries in the order of the iteration; the
  empty key marks that none was seen.\<close>

definition older :: "string \<times> login_attempt \<Rightarrow> string \<times> time \<Rightarrow> string \<times> time" where
  "older c best =
     (if fst best = '''' \<or> at_updated (snd c) < snd best then (fst c, at_updated (snd c)) else best)"

definition oldest_key :: "limiter \<Rightarrow> string" where
  "oldest_key l = fst (fold older l ('''', 0))"

definition max_attempts :: nat where
  "max_attempts = 10000"

definition evict :: "limiter \<Rightarrow> limiter" where
  "evict l = (if max_attempts \<le> length l then AList.delete (oldest_key l) l else l)"

definition failed_attempt :: "nat \<Rightarrow> time \<Rightarrow> login_attempt \<Rightarrow> login_attempt" where
  "failed_attempt threshold t a =
     \<lparr>at_failures = at_failures a + 1,
      at_blocked = (if threshold \<le> at_failures a + 1 then t + 5 * minute else at_blocked a),
      at_updated = t\<rparr>"

definition limiter_fail :: "string \<Rightarrow> nat \<Rightarrow> time \<Rightarrow> limiter \<Rightarrow> limiter" where
  "limiter_fail key threshold t l =
     (let l = evict l in mput key (failed_attempt threshold t (attempt_of l key)) l)"

definition limiter_success :: "string \<Rightarrow> limiter \<Rightarrow> limiter" where
  "limiter_success key l = AList.delete key l"


section \<open>The service\<close>

record 'w auth_ports =
  ap_library :: auth_library
  ap_dummy_hash :: string
  ap_create_account :: "new_account \<Rightarrow> ('w, auth_session) call"
  ap_find_login :: "string \<Rightarrow> ('w, login_identity) call"
  ap_create_session :: "new_session \<Rightarrow> ('w, unit) call"
  ap_find_session :: "string \<Rightarrow> ('w, principal) call"
  ap_revoke :: "string \<Rightarrow> ('w, unit) call"
  ap_random :: "nat \<Rightarrow> ('w, string) call"
  ap_now :: "('w, time) call"

definition hash_password :: "'w auth_ports \<Rightarrow> string \<Rightarrow> ('w, string) call" where
  "hash_password p password =
     seq (wrapping ''generate password salt: '' (ap_random p 16)) (\<lambda>salt.
     return (encode_password (ap_library p) password salt))"

definition random_token :: "'w auth_ports \<Rightarrow> ('w, string \<times> string) call" where
  "random_token p =
     seq (wrapping ''generate session token: '' (ap_random p 32)) (\<lambda>raw.
     let token = al_encode_url (ap_library p) raw in
     return (token, al_sha256 (ap_library p) token))"

definition session_lifetime :: int where "session_lifetime = 7 * 24 * hour"
definition idle_lifetime :: int where "idle_lifetime = 12 * hour"

definition email_taken :: "('w, 'a) call \<Rightarrow> ('w, 'a) call" where
  "email_taken m w =
     (case m w of
        (Inl e, w) \<Rightarrow> (Inl (if err_is e EmailExists then Sentinel EmailUnavailable else e), w)
      | (Inr x, w) \<Rightarrow> (Inr x, w))"

definition signup :: "'w auth_ports \<Rightarrow> string \<Rightarrow> string \<Rightarrow> ('w, auth_session) call" where
  "signup p email password =
     (case normalize_email (ap_library p) email of
        Inl e \<Rightarrow> failing (Sentinel EmailUnavailable)
      | Inr (display, normalized) \<Rightarrow>
          let password = al_nfc (ap_library p) password in
          case validate_password password of
            Some e \<Rightarrow> failing e
          | None \<Rightarrow>
              seq (hash_password p password) (\<lambda>hash.
              seq (random_token p) (\<lambda>(token, token_hash).
              seq (random_token p) (\<lambda>(csrf, csrf_hash).
              seq (ap_now p) (\<lambda>t.
              seq (email_taken (ap_create_account p
                     \<lparr>na_email = display, na_normalized = normalized, na_hash = hash, na_token_hash = token_hash,
                      na_csrf_hash = csrf_hash, na_absolute = t + session_lifetime,
                      na_idle = t + idle_lifetime\<rparr>)) (\<lambda>s.
              return (s\<lparr>se_token := token, se_csrf := csrf\<rparr>)))))))"

text \<open>\<open>Login\<close> works on the store and on the limiter.\<close>

record 'w auth_world =
  aw_store :: 'w
  aw_limiter :: limiter

definition stored :: "('w, 'a) call \<Rightarrow> ('w auth_world, 'a) call" where
  "stored m w = (case m (aw_store w) of (r, s) \<Rightarrow> (r, w\<lparr>aw_store := s\<rparr>))"

definition limited :: "'w auth_ports \<Rightarrow> string \<Rightarrow> ('w auth_world, bool) call" where
  "limited p key =
     seq (stored (ap_now p)) (\<lambda>t w.
     case limiter_allow key t (aw_limiter w) of (allowed, l) \<Rightarrow> (Inr (\<not> allowed), w\<lparr>aw_limiter := l\<rparr>))"

definition record_failure :: "'w auth_ports \<Rightarrow> string \<Rightarrow> nat \<Rightarrow> ('w auth_world, unit) call" where
  "record_failure p key threshold =
     seq (stored (ap_now p)) (\<lambda>t w. (Inr (), w\<lparr>aw_limiter := limiter_fail key threshold t (aw_limiter w)\<rparr>))"

definition record_success :: "string \<Rightarrow> ('w auth_world, unit) call" where
  "record_success key w = (Inr (), w\<lparr>aw_limiter := limiter_success key (aw_limiter w)\<rparr>)"

definition attempted :: "('w, 'a) call \<Rightarrow> ('w, 'a res) call" where
  "attempted m w = (case m w of (r, w') \<Rightarrow> (Inr r, w'))"

definition start_session :: "'w auth_ports \<Rightarrow> login_identity \<Rightarrow> ('w, auth_session) call" where
  "start_session p i =
     seq (random_token p) (\<lambda>(token, token_hash).
     seq (random_token p) (\<lambda>(csrf, csrf_hash).
     seq (ap_now p) (\<lambda>t.
     seq (ap_create_session p \<lparr>ns_user = u_id (li_user i), ns_org = org_id (li_organization i),
            ns_token_hash = token_hash, ns_csrf_hash = csrf_hash, ns_absolute = t + session_lifetime,
            ns_idle = t + idle_lifetime\<rparr>) (\<lambda>_.
     return \<lparr>se_user = li_user i, se_organization = li_organization i, se_role = li_role i, se_token = token,
       se_csrf = csrf, se_absolute = t + session_lifetime, se_idle = t + idle_lifetime\<rparr>))))"

definition login_failed :: "'w auth_ports \<Rightarrow> string \<Rightarrow> string \<Rightarrow> ('w auth_world, auth_session) call" where
  "login_failed p account_key ip_key =
     seq (record_failure p account_key 5) (\<lambda>_.
     seq (record_failure p ip_key 25) (\<lambda>_.
     failing (Sentinel InvalidCredentials)))"

text \<open>The decision on the result of the lookup: any error of it counts as wrong credentials, and the
  password is verified against some hash in every case.\<close>

definition check_login ::
    "'w auth_ports \<Rightarrow> string \<Rightarrow> string \<Rightarrow> bool \<Rightarrow> string \<Rightarrow> login_identity res \<Rightarrow>
     ('w auth_world, auth_session) call" where
  "check_login p account_key ip_key email_ok password found =
     (let hash = (case found of Inr i \<Rightarrow> if email_ok then li_hash i else ap_dummy_hash p | Inl _ \<Rightarrow> ap_dummy_hash p);
          valid = verify_password (ap_library p) password hash in
      case found of
        Inl e \<Rightarrow> login_failed p account_key ip_key
      | Inr i \<Rightarrow>
          if \<not> email_ok \<or> \<not> valid then login_failed p account_key ip_key
          else seq (record_success account_key) (\<lambda>_. stored (start_session p i)))"

definition account_key_of :: "(string \<times> string) res \<Rightarrow> string" where
  "account_key_of r = ''account:'' @ (case r of Inl _ \<Rightarrow> '''' | Inr x \<Rightarrow> snd x)"

definition login :: "'w auth_ports \<Rightarrow> string \<Rightarrow> string \<Rightarrow> string \<Rightarrow> ('w auth_world, auth_session) call" where
  "login p email password address =
     (let result = normalize_email (ap_library p) email;
          account_key = account_key_of result; ip_key = ''ip:'' @ address in
      seq (limited p account_key) (\<lambda>account_blocked.
      seq (if account_blocked then return True else limited p ip_key) (\<lambda>blocked.
      if blocked then failing (Sentinel RateLimited)
      else seq (stored (attempted (ap_find_login p (case result of Inl _ \<Rightarrow> '''' | Inr x \<Rightarrow> snd x))))
             (check_login p account_key ip_key (case result of Inl _ \<Rightarrow> False | Inr _ \<Rightarrow> True)
                (al_nfc (ap_library p) password)))))"

definition authenticate :: "'w auth_ports \<Rightarrow> string \<Rightarrow> ('w, principal) call" where
  "authenticate p token w =
     (if token = '''' then (Inl (Sentinel InvalidSession), w)
      else case ap_find_session p (al_sha256 (ap_library p) token) w of
        (Inl e, w) \<Rightarrow> (Inl (if err_is e IdentityNotFound then Sentinel InvalidSession else e), w)
      | (Inr x, w) \<Rightarrow> (Inr x, w))"

definition verify_csrf :: "auth_library \<Rightarrow> principal \<Rightarrow> string \<Rightarrow> gerr option" where
  "verify_csrf l who token =
     (if token = '''' \<or> al_sha256 l token \<noteq> p_csrf_hash who then Some (Sentinel InvalidCSRF) else None)"

definition logout :: "'w auth_ports \<Rightarrow> string \<Rightarrow> ('w, unit) call" where
  "logout p sid = ap_revoke p sid"

text \<open>The service on the store; \<^verbatim>\<open>rand.Read\<close> fills the buffer or fails.\<close>

definition read_bytes :: "env \<Rightarrow> nat \<Rightarrow> (('d, 'x) world, string) call" where
  "read_bytes env n w =
     (case e_random env (w_step w) of
        Inl e \<Rightarrow> (Inl e, tick w)
      | Inr bytes \<Rightarrow> (Inr (take n bytes), tick w))"

definition auth_store_ports :: "env \<Rightarrow> auth_library \<Rightarrow> string \<Rightarrow> (db, 'x) world auth_ports" where
  "auth_store_ports env l dummy =
     \<lparr>ap_library = l, ap_dummy_hash = dummy, ap_create_account = create_account env,
      ap_find_login = find_login_identity env, ap_create_session = create_session env,
      ap_find_session = find_session env, ap_revoke = revoke_session env, ap_random = read_bytes env,
      ap_now = now env\<rparr>"

lemma auth_store_ports_simps [simp]:
  "ap_library (auth_store_ports env l dummy) = l" "ap_dummy_hash (auth_store_ports env l dummy) = dummy"
  "ap_create_account (auth_store_ports env l dummy) = create_account env"
  "ap_find_login (auth_store_ports env l dummy) = find_login_identity env"
  "ap_create_session (auth_store_ports env l dummy) = create_session env"
  "ap_find_session (auth_store_ports env l dummy) = find_session env"
  "ap_revoke (auth_store_ports env l dummy) = revoke_session env"
  "ap_random (auth_store_ports env l dummy) = read_bytes env" "ap_now (auth_store_ports env l dummy) = now env"
  by (simp_all add: auth_store_ports_def)

end
