(* ===== verification/Auth_Claims.thy ===== *)
theory Auth_Claims
  imports Auth_Service Samples
begin

text \<open>The claims about authentication: password hashes, the life of a session, and the limiter.\<close>

section \<open>Passwords\<close>

lemma scan_own_parameters: "scan_parameters ''m=19456,t=2,p=1'' = Some (19456, 2, 1)"
  by (simp add: scan_parameters_def scan_text_def scan_uint_def digit_def byte_in_def digits_value_def
      digit_value_def Let_def)

text \<open>The hash of a password verifies, and another password verifies against it exactly when Argon2id
  gives the same key for both.\<close>

theorem password_round_trip:
  assumes "auth_library_ok l"
  shows "verify_password l password (encode_password l password salt) \<and>
    verify_password l other (encode_password l password salt) =
      (al_argon2 l other salt 2 19456 1 32 = al_argon2 l password salt 2 19456 1 32)"
proof -
  let ?key = "al_argon2 l password salt 2 19456 1 32"
  have d: "CHR 0x24 \<notin> set (al_encode l s)" "al_decode l (al_encode l s) = Some s" for s
    using assms by (simp_all add: auth_library_ok_def)
  have len: "length ?key = 32"
    using assms by (simp add: auth_library_ok_def)
  have "split_on (CHR 0x24) (encode_password l password salt) =
      ['''', ''argon2id'', ''v=19'', ''m=19456,t=2,p=1'', al_encode l salt, al_encode l ?key]"
    using d by (simp add: encode_password_def)
  then have "verify_password l x (encode_password l password salt) =
      (al_argon2 l x salt 2 19456 1 (length ?key) = ?key)" for x
    unfolding verify_password_def Let_def by (simp add: scan_own_parameters d)
  then show ?thesis
    unfolding len by simp
qed


section \<open>Sessions\<close>

definition same_identities :: "db \<Rightarrow> db \<Rightarrow> bool" where
  "same_identities d d' \<longleftrightarrow> db_sessions d = db_sessions d' \<and> db_users d = db_users d' \<and>
     db_organizations d = db_organizations d' \<and> db_members d = db_members d'"

lemma login_audits_keeps [simp]:
  "db_sessions (login_audits aid oid sid uid t d) = db_sessions d"
  "db_users (login_audits aid oid sid uid t d) = db_users d"
  "db_organizations (login_audits aid oid sid uid t d) = db_organizations d"
  "db_members (login_audits aid oid sid uid t d) = db_members d"
proof -
  have "db_sessions (fold (\<lambda>r. append_audit (f r) g t) rs d) = db_sessions d \<and>
      db_users (fold (\<lambda>r. append_audit (f r) g t) rs d) = db_users d \<and>
      db_organizations (fold (\<lambda>r. append_audit (f r) g t) rs d) = db_organizations d \<and>
      db_members (fold (\<lambda>r. append_audit (f r) g t) rs d) = db_members d" for f :: "user_row \<Rightarrow> audit_event" and g rs
    by (induction rs arbitrary: d) (simp_all add: append_audit_def)
  then show
      "db_sessions (login_audits aid oid sid uid t d) = db_sessions d"
      "db_users (login_audits aid oid sid uid t d) = db_users d"
      "db_organizations (login_audits aid oid sid uid t d) = db_organizations d"
      "db_members (login_audits aid oid sid uid t d) = db_members d"
    by (simp_all add: login_audits_def)
qed

definition new_session_row :: "new_session \<Rightarrow> session_row \<Rightarrow> bool" where
  "new_session_row n s \<longleftrightarrow> sv_user s = ns_user n \<and> sv_org s = ns_org n \<and> sv_token_hash s = ns_token_hash n \<and>
     sv_absolute s = ns_absolute n \<and> sv_idle s = ns_idle n \<and> sv_revoked s = None"

lemma insert_session_Inr:
  assumes "insert_session env sid n w = (Inr (), w')"
  shows "\<exists>s. db_sessions (w_db w') = db_sessions (w_db w) @ [s] \<and> new_session_row n s \<and>
    (\<forall>s\<in>set (db_sessions (w_db w)). sv_token_hash s \<noteq> ns_token_hash n) \<and>
    db_users (w_db w') = db_users (w_db w) \<and> db_organizations (w_db w') = db_organizations (w_db w) \<and>
    db_members (w_db w') = db_members (w_db w)"
  using assms
  by (auto simp: insert_session_def exec_checked_def exec_def new_session_row_def split: option.splits if_splits)

lemma create_session_Inr:
  assumes "create_session env n w = (Inr (), w')"
  shows "\<exists>s. db_sessions (w_db w') = db_sessions (w_db w) @ [s] \<and> new_session_row n s \<and>
    (\<forall>s\<in>set (db_sessions (w_db w)). sv_token_hash s \<noteq> ns_token_hash n) \<and>
    db_users (w_db w') = db_users (w_db w) \<and> db_organizations (w_db w') = db_organizations (w_db w) \<and>
    db_members (w_db w') = db_members (w_db w)"
proof -
  obtain sid w1 where i: "new_id env w = (Inr sid, w1)"
      and t: "transaction env ''begin session creation: '' ''commit session creation: ''
       (seq (wrapping ''create session: '' (insert_session env sid n)) (\<lambda>_.
        seq (default_id env) (\<lambda>aid.
        wrapping ''audit login: '' (exec_now env (login_audits aid (ns_org n) sid (ns_user n)))))) w1 = (Inr (), w')"
    using assms unfolding create_session_def seq_Inr_iff by blast
  obtain w2 w3 aid w4 w5 where s: "insert_session env sid n (tick w1) = (Inr (), w3)"
      and a: "default_id env w3 = (Inr aid, w4)"
      and l: "exec_now env (login_audits aid (ns_org n) sid (ns_user n)) w4 = (Inr (), w5)"
      and c: "w_db w' = w_db w5"
    using transaction_commit [OF t] unfolding seq_Inr_iff wrapping_Inr_iff by auto
  have "w_db w1 = w_db w" "w_db w4 = w_db w3"
    using i a by (auto simp: new_id_def default_id_def split: sum.splits)
  moreover have "\<exists>t. w_db w5 = login_audits aid (ns_org n) sid (ns_user n) t (w_db w4)"
    using l by (auto simp: exec_now_def exec_def split: option.splits)
  ultimately show ?thesis
    using insert_session_Inr [OF s] c by auto
qed

text \<open>Every principal that a token hash gives belongs to a live session with that hash.\<close>

lemma session_rows_sound:
  assumes "p \<in> set (session_rows hash t d)"
  shows "\<exists>s\<in>set (db_sessions d). sv_token_hash s = hash \<and> session_live t s \<and> p_session p = sv_id s \<and>
    p_user p = sv_user s \<and> p_org p = sv_org s"
  using assms by (auto simp: session_rows_def split: if_splits)

lemma session_rows_complete:
  assumes "s \<in> set (db_sessions d)" "sv_token_hash s = hash" "session_live t s"
    and "u \<in> set (db_users d)" "u_id (us_row_user u) = sv_user s" "us_row_active u"
    and "g \<in> set (db_organizations d)" "org_id (og_organization g) = sv_org s" "og_active g"
    and "m \<in> set (db_members d)" "mb_user m = sv_user s" "mb_org m = sv_org s" "mb_active m"
  shows "session_rows hash t d \<noteq> []"
  unfolding session_rows_def concat_eq_Nil_conv using assms by fastforce

lemma find_session_cases:
  assumes "e_fault env (w_step w) = None" and "session_rows hash (e_now env (w_step w)) (w_db w) = p # ps"
  shows "\<exists>w'. find_session env hash w = (Inr p, w')"
  using assms by (simp add: find_session_def seq_def wrapping_def query_now_def query_def)

lemma find_session_Inr:
  assumes "find_session env hash w = (Inr p, w')"
  shows "p \<in> set (session_rows hash (e_now env (w_step w)) (w_db w))"
  using assms
  by (auto simp: find_session_def seq_Inr_iff wrapping_Inr_iff query_now_def query_def split: option.splits list.splits)

lemma login_identity_sound:
  assumes "find_login_identity env email w = (Inr i, w')"
  shows "w_db w' = w_db w \<and>
    (\<exists>u\<in>set (db_users (w_db w)). \<exists>m\<in>set (db_members (w_db w)). \<exists>g\<in>set (db_organizations (w_db w)).
       us_row_user u = li_user i \<and> us_row_active u \<and> mb_user m = u_id (li_user i) \<and> mb_active m \<and>
       og_organization g = li_organization i \<and> mb_org m = org_id (li_organization i) \<and> og_active g)"
proof -
  obtain rows where r: "query env (\<lambda>d. map snd (sort_key (\<lambda>r. mb_created (fst r)) (login_rows email d))) w = (Inr (i # rows), w')"
  proof -
    obtain rs w1 where q: "query env (\<lambda>d. map snd (sort_key (\<lambda>r. mb_created (fst r)) (login_rows email d))) w = (Inr rs, w1)"
        and "(case rs of [] \<Rightarrow> failing (Sentinel IdentityNotFound) | i # _ \<Rightarrow> return i) w1 = (Inr i, w')"
      using assms unfolding find_login_identity_def seq_Inr_iff wrapping_Inr_iff by blast
    then show ?thesis
      using that by (cases rs) auto
  qed
  have "i \<in> snd ` set (login_rows email (w_db w))"
    using query_Inr [OF r] by (metis list.set_intros(1) list.set_map set_sort)
  then show ?thesis
    using query_Inr [OF r] by (fastforce simp: login_rows_def split: if_splits)
qed

lemma stored_Inr: "stored m w = (Inr x, w') \<Longrightarrow> m (aw_store w) = (Inr x, aw_store w')"
  by (auto simp: stored_def split: prod.splits)

lemma limited_keeps:
  "limited (auth_store_ports env l dummy) key w = (r, w') \<Longrightarrow> w_db (aw_store w') = w_db (aw_store w)"
  by (auto simp: limited_def seq_def stored_def now_def split: prod.splits)

lemma start_session_Inr:
  assumes "start_session (auth_store_ports env l dummy) i w = (Inr s, w')"
  shows "\<exists>n w1. create_session env n w1 = (Inr (), w') \<and> w_db w1 = w_db w \<and> ns_user n = u_id (li_user i) \<and>
    ns_org n = org_id (li_organization i) \<and> ns_token_hash n = al_sha256 l (se_token s) \<and>
    ns_idle n = se_idle s \<and> se_idle s \<le> ns_absolute n \<and> se_user s = li_user i \<and> se_organization s = li_organization i"
proof -
  have db: "w_db w3 = w_db w2 \<and> h = al_sha256 l token"
    if "random_token (auth_store_ports env l dummy) w2 = (Inr (token, h), w3)" for token h and w2 w3 :: "(db, 'a) world"
    using that by (auto simp: random_token_def seq_Inr_iff wrapping_Inr_iff Let_def read_bytes_def split: sum.splits)
  obtain token h w1 csrf ch w2 t w3 where *: "random_token (auth_store_ports env l dummy) w = (Inr (token, h), w1)"
      "random_token (auth_store_ports env l dummy) w1 = (Inr (csrf, ch), w2)" "now env w2 = (Inr t, w3)"
      "create_session env \<lparr>ns_user = u_id (li_user i), ns_org = org_id (li_organization i), ns_token_hash = h,
         ns_csrf_hash = ch, ns_absolute = t + session_lifetime, ns_idle = t + idle_lifetime\<rparr> w3 = (Inr (), w')"
      "s = \<lparr>se_user = li_user i, se_organization = li_organization i, se_role = li_role i, se_token = token,
       se_csrf = csrf, se_absolute = t + session_lifetime, se_idle = t + idle_lifetime\<rparr>"
    using assms by (auto simp: start_session_def seq_Inr_iff)
  have "w_db w3 = w_db w"
    using db [OF *(1)] db [OF *(2)] *(3) by (auto simp: now_def)
  then show ?thesis
    using *(4,5) db [OF *(1)]
    by (intro exI [of _ "\<lparr>ns_user = u_id (li_user i), ns_org = org_id (li_organization i), ns_token_hash = h,
         ns_csrf_hash = ch, ns_absolute = t + session_lifetime, ns_idle = t + idle_lifetime\<rparr>"] exI [of _ w3])
       (simp add: session_lifetime_def idle_lifetime_def)
qed

lemma login_Inr:
  assumes "login (auth_store_ports env l dummy) email password address w = (Inr s, w')"
  shows "\<exists>normalized i w1 w2. find_login_identity env normalized w1 = (Inr i, w2) \<and>
    start_session (auth_store_ports env l dummy) i w2 = (Inr s, aw_store w')"
proof -
  let ?p = "auth_store_ports env l dummy" and ?r = "normalize_email l email"
  let ?n = "case ?r of Inl _ \<Rightarrow> '''' | Inr x \<Rightarrow> snd x" and ?ok = "case ?r of Inl _ \<Rightarrow> False | Inr _ \<Rightarrow> True"
  let ?check = "check_login ?p (account_key_of ?r) (''ip:'' @ address) ?ok (al_nfc l password)"
  obtain b w2 where b: "(if b then failing (Sentinel RateLimited)
      else seq (stored (attempted (find_login_identity env ?n))) ?check) w2 = (Inr s, w')"
    using assms unfolding login_def Let_def auth_store_ports_simps seq_Inr_iff by blast
  then obtain found w3 where f: "stored (attempted (find_login_identity env ?n)) w2 = (Inr found, w3)"
      and c: "?check found w3 = (Inr s, w')"
    by (cases b) (auto simp: seq_Inr_iff)
  obtain i where i: "found = Inr i"
    using c by (cases found) (auto simp: check_login_def login_failed_def seq_Inr_iff)
  have "find_login_identity env ?n (aw_store w2) = (Inr i, aw_store w3)"
    using f unfolding i by (auto simp: stored_def attempted_def split: prod.splits)
  moreover have "stored (start_session ?p i) (snd (record_success (account_key_of ?r) w3)) = (Inr s, w')"
    using c unfolding i
    by (auto simp: check_login_def login_failed_def Let_def seq_Inr_iff split: if_splits)
  ultimately show ?thesis
    using stored_Inr by (fastforce simp: record_success_def)
qed

text \<open>C11: The token of a successful login authenticates as the user and the organisation of the login, as
  long as accounts and sessions were not changed since and the idle time is not over.\<close>

theorem login_token_authenticates:
  assumes "login (auth_store_ports env l dummy) email password address w = (Inr s, w')"
    and "same_identities (w_db v) (w_db (aw_store w'))" and "e_fault env (w_step v) = None"
    and "e_now env (w_step v) < se_idle s" and "se_token s \<noteq> ''''"
  shows "\<exists>p v'. authenticate (auth_store_ports env l dummy) (se_token s) v = (Inr p, v') \<and>
    p_user p = u_id (se_user s) \<and> p_org p = org_id (se_organization s)"
proof -
  obtain normalized i w1 w2 where f: "find_login_identity env normalized w1 = (Inr i, w2)"
      and b: "start_session (auth_store_ports env l dummy) i w2 = (Inr s, aw_store w')"
    using login_Inr [OF assms(1)] by blast
  obtain n w3 where c: "create_session env n w3 = (Inr (), aw_store w')" "w_db w3 = w_db w2" "ns_user n = u_id (li_user i)"
        "ns_org n = org_id (li_organization i)" "ns_token_hash n = al_sha256 l (se_token s)" "ns_idle n = se_idle s"
        "se_idle s \<le> ns_absolute n" "se_user s = li_user i" "se_organization s = li_organization i"
    using start_session_Inr [OF b] by blast
  obtain row where row: "db_sessions (w_db (aw_store w')) = db_sessions (w_db w3) @ [row]" "new_session_row n row"
      "\<forall>s\<in>set (db_sessions (w_db w3)). sv_token_hash s \<noteq> ns_token_hash n"
      "db_users (w_db (aw_store w')) = db_users (w_db w3)"
      "db_organizations (w_db (aw_store w')) = db_organizations (w_db w3)"
      "db_members (w_db (aw_store w')) = db_members (w_db w3)"
    using create_session_Inr [OF c(1)] by blast
  let ?h = "al_sha256 l (se_token s)" and ?t = "e_now env (w_step v)"
  have live: "session_live ?t row" "sv_token_hash row = ?h" "sv_user row = u_id (li_user i)"
      "sv_org row = org_id (li_organization i)"
    using row(2) c assms(4) by (simp_all add: new_session_row_def session_live_def)
  obtain u m g where "u \<in> set (db_users (w_db v))" "m \<in> set (db_members (w_db v))" "g \<in> set (db_organizations (w_db v))"
      "us_row_user u = li_user i" "us_row_active u" "mb_user m = u_id (li_user i)" "mb_active m"
      "og_organization g = li_organization i" "mb_org m = org_id (li_organization i)" "og_active g"
    using login_identity_sound [OF f] assms(2) row(4-6) c(2) by (auto simp: same_identities_def)
  moreover have "row \<in> set (db_sessions (w_db v))"
    using assms(2) row(1) by (simp add: same_identities_def)
  ultimately have "session_rows ?h ?t (w_db v) \<noteq> []"
    by (intro session_rows_complete [of row _ _ _ u g m]) (simp_all add: live)
  then obtain p ps where p: "session_rows ?h ?t (w_db v) = p # ps"
    by (cases "session_rows ?h ?t (w_db v)") auto
  obtain s' where s': "s' \<in> set (db_sessions (w_db v))" "sv_token_hash s' = ?h" "p_user p = sv_user s'" "p_org p = sv_org s'"
    using session_rows_sound [of p ?h ?t "w_db v"] p by auto
  have "s' = row"
    using s'(1,2) assms(2) row(1,3) c(5) by (auto simp: same_identities_def)
  then show ?thesis
    using find_session_cases [OF assms(3) p] assms(5) s' live(3,4) c(8,9) by (auto simp: authenticate_def)
qed

lemma revoke_sessions:
  "db_sessions (revoke aid sid t d) =
     update_where (\<lambda>s. sv_id s = sid \<and> sv_revoked s = None) (\<lambda>s. s\<lparr>sv_revoked := Some t\<rparr>) (db_sessions d)"
proof -
  have a: "db_sessions (fold (\<lambda>r. append_audit (f r) g t) rs d) = db_sessions d" for f :: "user_row \<Rightarrow> audit_event" and g rs d
    by (induction rs arbitrary: d) (simp_all add: append_audit_def)
  have "db_sessions (fold (\<lambda>s d. fold (\<lambda>r. append_audit (f s r) (sv_org s) t) (rs s d) d) ss d) = db_sessions d"
    for f :: "session_row \<Rightarrow> user_row \<Rightarrow> audit_event" and rs ss d
    by (induction ss arbitrary: d) (simp_all add: a)
  then show ?thesis
    by (simp add: revoke_def)
qed

text \<open>C24: After a successful logout no token authenticates to the session any more, at whatever time, as
  long as the sessions are those the logout left.\<close>

theorem logged_out_session_rejected:
  assumes "logout (auth_store_ports env l dummy) sid w = (Inr (), w')"
    and "db_sessions (w_db v) = db_sessions (w_db w')"
    and "authenticate (auth_store_ports env l dummy) token v = (Inr p, v')"
  shows "p_session p \<noteq> sid"
proof -
  obtain aid t where w': "db_sessions (w_db w') = update_where (\<lambda>s. sv_id s = sid \<and> sv_revoked s = None)
      (\<lambda>s. s\<lparr>sv_revoked := Some t\<rparr>) (db_sessions (w_db w))"
    using assms(1)
    by (auto simp: logout_def revoke_session_def seq_Inr_iff wrapping_Inr_iff default_id_def exec_now_def exec_def
        revoke_sessions split: option.splits)
  have "find_session env (al_sha256 l token) v = (Inr p, v')"
    using assms(3) by (auto simp: authenticate_def split: if_splits prod.splits sum.splits)
  then have "p \<in> set (session_rows (al_sha256 l token) (e_now env (w_step v)) (w_db v))"
    by (rule find_session_Inr)
  then obtain s where s: "s \<in> set (db_sessions (w_db v))" "sv_revoked s = None" "p_session p = sv_id s"
    using session_rows_sound by (fastforce simp: session_live_def)
  obtain r where "s = (if sv_id r = sid \<and> sv_revoked r = None then r\<lparr>sv_revoked := Some t\<rparr> else r)"
    using s(1) unfolding assms(2) w' set_update_where by blast
  then show ?thesis
    using s(2,3) by (auto split: if_splits)
qed


section \<open>The limiter\<close>

definition limiter_ok :: "limiter \<Rightarrow> bool" where
  "limiter_ok l \<longleftrightarrow> distinct (map fst l) \<and> '''' \<notin> fst ` set l \<and> length l \<le> max_attempts"

lemma oldest_key_in: "l \<noteq> [] \<Longrightarrow> '''' \<notin> fst ` set l \<Longrightarrow> oldest_key l \<in> fst ` set l"
proof -
  have "fst (fold older l b) \<in> insert (fst b) (fst ` set l) \<and> (fst b \<noteq> '''' \<longrightarrow> fst (fold older l b) \<noteq> '''')"
    if "'''' \<notin> fst ` set l" for b and l :: limiter
    using that
  proof (induction l arbitrary: b)
    case (Cons c l)
    have "fst (older c b) \<in> {fst b, fst c}" "fst b \<noteq> '''' \<longrightarrow> fst (older c b) \<noteq> ''''"
      using Cons.prems by (auto simp: older_def)
    then show ?case
      using Cons.IH [of "older c b"] Cons.prems by auto
  qed simp
  note step = this
  assume "l \<noteq> []" and ne: "'''' \<notin> fst ` set l"
  then obtain c l' where l: "l = c # l'"
    by (cases l) auto
  have "older c ('''', 0) = (fst c, at_updated (snd c))"
    by (simp add: older_def)
  then show ?thesis
    using step [of l' "(fst c, at_updated (snd c))"] ne by (auto simp: oldest_key_def l)
qed

lemma length_delete_in: "distinct (map fst l) \<Longrightarrow> k \<in> fst ` set l \<Longrightarrow> Suc (length (AList.delete k l)) = length l"
proof (induction l)
  case (Cons x l)
  have "k \<notin> fst ` set l \<Longrightarrow> AList.delete k l = l"
    by (force simp: AList.delete_eq filter_id_conv)
  then show ?case
    using Cons by (cases x) auto
qed simp

lemma length_mput: "length (mput k v l) \<le> Suc (length l)"
  by (induction l) auto

lemma limiter_ok_delete: "limiter_ok l \<Longrightarrow> limiter_ok (AList.delete k l)"
proof -
  have "fst ` set (AList.delete k l) = fst ` set l - {k}"
    by (metis delete_keys list.set_map set_removeAll)
  moreover assume "limiter_ok l"
  ultimately show ?thesis
    using length_delete_le [of k l] by (auto simp: limiter_ok_def distinct_delete)
qed

lemma limiter_ok_fail: "limiter_ok l \<Longrightarrow> key \<noteq> '''' \<Longrightarrow> limiter_ok (limiter_fail key n t l)"
proof -
  assume ok: "limiter_ok l" and key: "key \<noteq> ''''"
  have ok': "limiter_ok (evict l) \<and> length (evict l) < max_attempts"
  proof (cases "max_attempts \<le> length l")
    case True
    then have "l \<noteq> []"
      by (auto simp: max_attempts_def)
    then have "Suc (length (AList.delete (oldest_key l) l)) = length l"
      using ok oldest_key_in by (intro length_delete_in) (auto simp: limiter_ok_def)
    then show ?thesis
      using ok True limiter_ok_delete [OF ok] by (simp add: evict_def limiter_ok_def)
  next
    case False
    then show ?thesis
      using ok by (simp add: evict_def)
  qed
  then have "length (limiter_fail key n t l) \<le> max_attempts"
    using length_mput [of key "failed_attempt n t (attempt_of (evict l) key)" "evict l"]
    by (simp add: limiter_fail_def Let_def)
  moreover have "fst ` set (limiter_fail key n t l) = insert key (fst ` set (evict l))"
    by (simp add: limiter_fail_def Let_def dom_update)
  ultimately show ?thesis
    using key ok' by (auto simp: limiter_fail_def Let_def limiter_ok_def distinct_update)
qed

lemma limiter_ok_allow: "limiter_ok l \<Longrightarrow> limiter_ok (snd (limiter_allow key t l))"
  by (simp add: limiter_allow_def Let_def limiter_ok_delete)

definition preserves :: "('w \<Rightarrow> bool) \<Rightarrow> ('w, 'a) call \<Rightarrow> bool" where
  "preserves P m \<longleftrightarrow> (\<forall>w. P w \<longrightarrow> P (snd (m w)))"

lemma preserves_seq: "preserves P m \<Longrightarrow> (\<And>x. preserves P (f x)) \<Longrightarrow> preserves P (seq m f)"
  by (auto simp: preserves_def seq_def split: prod.splits sum.splits)

lemma preserves_result: "preserves P (return x)" "preserves P (failing e)"
  by (simp_all add: preserves_def)

abbreviation limiter_holds :: "'w auth_world \<Rightarrow> bool" where
  "limiter_holds w \<equiv> limiter_ok (aw_limiter w)"

lemma preserves_stored: "preserves limiter_holds (stored m)"
  by (simp add: preserves_def stored_def split: prod.split)

lemma preserves_limited: "preserves limiter_holds (limited p key)"
  unfolding limited_def
  by (intro preserves_seq preserves_stored)
     (simp add: preserves_def case_prod_beta limiter_ok_allow)

lemma preserves_failed:
  "key \<noteq> '''' \<Longrightarrow> key' \<noteq> '''' \<Longrightarrow> preserves limiter_holds (login_failed p key key')"
  unfolding login_failed_def record_failure_def
  by (intro preserves_seq preserves_stored preserves_result) (simp_all add: preserves_def limiter_ok_fail)

lemma preserves_check:
  "key \<noteq> '''' \<Longrightarrow> key' \<noteq> '''' \<Longrightarrow> preserves limiter_holds (check_login p key key' ok password found)"
  by (auto simp: check_login_def Let_def intro!: preserves_failed preserves_seq preserves_stored split: sum.split)
     (simp add: preserves_def record_success_def limiter_success_def limiter_ok_delete)

text \<open>C38: The limiter stays bounded: no login, whatever its outcome, takes it past its 10,000 entries, and its
  keys stay distinct and non-empty.\<close>

theorem limiter_stays_bounded:
  assumes "limiter_ok (aw_limiter w)"
  shows "limiter_ok (aw_limiter (snd (login p email password address w))) \<and>
    length (aw_limiter (snd (login p email password address w))) \<le> 10000"
proof -
  have "preserves limiter_holds (login p email password address)"
    unfolding login_def Let_def
    by (intro preserves_seq preserves_limited)
       (auto intro!: preserves_seq preserves_limited preserves_stored preserves_result preserves_check
         simp: account_key_of_def)
  then have "limiter_ok (aw_limiter (snd (login p email password address w)))"
    using assms by (simp add: preserves_def)
  then show ?thesis
    by (simp add: limiter_ok_def max_attempts_def)
qed

text \<open>A database failure during the lookup of the account is reported as wrong credentials, and counted
  as a failed attempt of the account and of the address.\<close>

theorem database_failure_counts_as_wrong_password:
  assumes "normalize_email l email = Inr (display, normalized)" and "aw_limiter w = []"
    and "\<And>n. 0 \<le> e_now env n" and "e_fault env (w_step (aw_store w) + 2) = Some e"
  shows "\<exists>w'. login (auth_store_ports env l dummy) email password address w =
      (Inl (Sentinel InvalidCredentials), w') \<and>
    at_failures (attempt_of (aw_limiter w') (''account:'' @ normalized)) = 1 \<and>
    at_failures (attempt_of (aw_limiter w') (''ip:'' @ address)) = 1"
  using assms(2-4)
  by (simp add: login_def assms(1) account_key_of_def limited_def seq_def stored_def now_def limiter_allow_def
      attempt_of_def no_attempt_def attempted_def find_login_identity_def wrapping_def query_def check_login_def
      Let_def login_failed_def record_failure_def limiter_fail_def evict_def max_attempts_def failed_attempt_def
      cong: store_congs)


section \<open>Instances\<close>

definition plain_library :: auth_library where
  "plain_library = \<lparr>al_nfc = (\<lambda>s. s), al_address = Some, al_sha256 = (\<lambda>s. s),
     al_argon2 = (\<lambda>p s i m q n. take n (p @ replicate n (CHR 0x00))),
     al_encode = (\<lambda>s. concat (map (\<lambda>c. if c = CHR 0x24 then ''ab'' else if c = CHR 0x61 then ''aa'' else [c]) s)),
     al_decode = (\<lambda>s. None), al_encode_url = (\<lambda>s. s)\<rparr>"

fun decode_pairs :: "string \<Rightarrow> string" where
  "decode_pairs [] = []"
| "decode_pairs [c] = [c]"
| "decode_pairs (a # b # s) =
     (if a = CHR 0x61 then (if b = CHR 0x62 then CHR 0x24 else CHR 0x61) # decode_pairs s
      else a # decode_pairs (b # s))"

definition pair_library :: auth_library where
  "pair_library = plain_library\<lparr>al_decode := (\<lambda>s. Some (decode_pairs s))\<rparr>"

lemma decode_pairs_Cons: "c \<noteq> CHR 0x61 \<Longrightarrow> decode_pairs (c # s) = c # decode_pairs s"
  by (cases s) auto

lemma pair_library_ok: "auth_library_ok pair_library"
proof -
  have "decode_pairs (concat (map (\<lambda>c. if c = CHR 0x24 then ''ab'' else if c = CHR 0x61 then ''aa'' else [c]) s)) = s" for s
    by (induction s) (auto simp: decode_pairs_Cons)
  then show ?thesis
    by (auto simp: auth_library_ok_def pair_library_def plain_library_def)
qed

theorem password_round_trip_witness:
  "verify_password pair_library ''a long password'' (encode_password pair_library ''a long password'' ''salt'')"
  using password_round_trip [OF pair_library_ok] by blast

definition auth_sample_world :: "(db, unit) world auth_world" where
  "auth_sample_world = \<lparr>aw_store = sample_world\<lparr>w_db := sample_db\<lparr>
     db_organizations := [\<lparr>og_organization = local_organization, og_active = True\<rparr>],
     db_users := [\<lparr>us_row_user = \<lparr>u_id = ''u1'', u_email = ''a@b'', u_created = 0\<rparr>, us_row_email = ''a@b'',
       us_row_active = True, us_row_hash = Some (encode_password pair_library ''pw'' ''salt'')\<rparr>],
     db_members := [\<lparr>mb_org = bootstrap_organization, mb_user = ''u1'', mb_role = ''owner'', mb_active = True,
       mb_created = 0\<rparr>]\<rparr>\<rparr>, aw_limiter = []\<rparr>"

lemma sample_email [simp]: "normalize_email pair_library ''a@b'' = Inr (''a@b'', ''a@b'')"
proof -
  have "trim_space ''a@b'' = ''a@b''" "to_lower ''a@b'' = ''a@b''"
    by code_simp+
  then show ?thesis
    by (simp add: normalize_email_def pair_library_def plain_library_def Let_def)
qed

abbreviation sample_auth_ports :: "(db, unit) world auth_ports" where
  "sample_auth_ports \<equiv> auth_store_ports calm_env pair_library ''''"

lemma sample_login:
  "\<exists>s w'. login sample_auth_ports ''a@b'' ''pw'' ''1'' auth_sample_world = (Inr s, w') \<and> se_token s = zero_bytes \<and>
     w_step (aw_store w') < 1000 \<and> 7000000000000 \<le> se_idle s"
proof -
  have v: "verify_password pair_library ''pw'' (encode_password pair_library ''pw'' ''salt'')"
    using password_round_trip [OF pair_library_ok] by blast
  have t: "take 32 zero_bytes = zero_bytes"
    by (simp add: zero_bytes_def)
  have n: "al_nfc pair_library s = s" "al_encode_url pair_library s = s" for s
    by (simp_all add: pair_library_def plain_library_def)
  show ?thesis
    by (simp add: login_def account_key_of_def limited_def seq_def stored_def now_def limiter_allow_def
        attempt_of_def no_attempt_def attempted_def find_login_identity_def wrapping_def query_def check_login_def
        Let_def login_rows_def auth_sample_world_def sample_world_def sample_db_def empty_db_def local_organization_def
        v n record_success_def limiter_success_def start_session_def random_token_def read_bytes_def t
        create_session_def new_id_def transaction_def insert_session_def exec_checked_def exec_def has_user_def
        has_organization_def require_ok_def default_id_def exec_now_def login_audits_def append_audit_def
        session_lifetime_def idle_lifetime_def cong: store_congs)
qed

theorem login_token_authenticates_witness:
  "\<exists>s w' p v'. login sample_auth_ports ''a@b'' ''pw'' ''1'' auth_sample_world = (Inr s, w') \<and>
     authenticate sample_auth_ports (se_token s) (aw_store w') = (Inr p, v') \<and> p_user p = u_id (se_user s)"
proof -
  obtain s w' where l: "login sample_auth_ports ''a@b'' ''pw'' ''1'' auth_sample_world = (Inr s, w')"
      "se_token s = zero_bytes" "w_step (aw_store w') < 1000" "7000000000000 \<le> se_idle s"
    using sample_login by blast
  have "same_identities (w_db (aw_store w')) (w_db (aw_store w'))"
    by (simp add: same_identities_def)
  then show ?thesis
    using login_token_authenticates [OF l(1), of "aw_store w'"] l by (auto simp: zero_bytes_def)
qed

theorem limiter_stays_bounded_witness:
  "length (aw_limiter (snd (login sample_auth_ports ''a@b'' ''wrong'' ''1'' auth_sample_world))) \<le> 10000"
proof -
  have "limiter_ok (aw_limiter auth_sample_world)"
    by (simp add: auth_sample_world_def limiter_ok_def)
  then show ?thesis
    using limiter_stays_bounded by blast
qed

theorem database_failure_counts_as_wrong_password_witness:
  "\<exists>w'. login (auth_store_ports (faulty_env 2) pair_library '''') ''a@b'' ''pw'' ''1'' auth_sample_world =
      (Inl (Sentinel InvalidCredentials), w') \<and>
    at_failures (attempt_of (aw_limiter w') ''account:a@b'') = 1"
proof -
  have "e_fault (faulty_env 2) (w_step (aw_store auth_sample_world) + 2) = Some (Text ''connection lost'')"
    by (simp add: auth_sample_world_def sample_world_def)
  moreover have "aw_limiter auth_sample_world = []"
    by (simp add: auth_sample_world_def)
  ultimately show ?thesis
    using database_failure_counts_as_wrong_password [OF sample_email, of auth_sample_world "faulty_env 2"] by fastforce
qed

definition live_session_world :: "(db, unit) world" where
  "live_session_world = (aw_store auth_sample_world)\<lparr>w_db := (w_db (aw_store auth_sample_world))\<lparr>db_sessions :=
     [\<lparr>sv_id = ''s1'', sv_user = ''u1'', sv_org = bootstrap_organization, sv_token_hash = ''t1'', sv_csrf_hash = '''',
       sv_absolute = 10 ^ 15, sv_idle = 10 ^ 15, sv_last_seen = 10 ^ 15, sv_revoked = None\<rparr>,
      \<lparr>sv_id = ''s2'', sv_user = ''u1'', sv_org = bootstrap_organization, sv_token_hash = ''t2'', sv_csrf_hash = '''',
       sv_absolute = 10 ^ 15, sv_idle = 10 ^ 15, sv_last_seen = 10 ^ 15, sv_revoked = None\<rparr>]\<rparr>\<rparr>"

theorem logged_out_session_rejected_witness:
  "\<exists>w' p v'. logout sample_auth_ports ''s1'' live_session_world = (Inr (), w') \<and>
     authenticate sample_auth_ports ''t2'' w' = (Inr p, v') \<and> p_session p \<noteq> ''s1''"
proof -
  have h: "al_sha256 pair_library s = s" for s
    by (simp add: pair_library_def plain_library_def)
  obtain w' p v' where l: "logout sample_auth_ports ''s1'' live_session_world = (Inr (), w')"
      and a: "authenticate sample_auth_ports ''t2'' w' = (Inr p, v')"
    by (simp add: logout_def revoke_session_def seq_def wrapping_def default_id_def exec_now_def exec_def
        authenticate_def h find_session_def query_now_def query_def session_rows_def revoke_def update_where_def
        append_audit_def session_live_def live_session_world_def auth_sample_world_def sample_world_def sample_db_def
        empty_db_def local_organization_def cong: store_congs)
  show ?thesis
    using logged_out_session_rejected [OF l _ a] l a by blast
qed

end
