(* ===== verification/Config.thy ===== *)
theory Config
  imports Decimals
begin

text \<open>The configuration (\<^verbatim>\<open>internal/config/config.go\<close>, \<^verbatim>\<open>internal/config/dotenv.go\<close>): environment
  variables, the \<^verbatim>\<open>.env\<close> file they are merged with, and the validated record.\<close>

section \<open>\<^verbatim>\<open>time.ParseDuration\<close>\<close>

definition fraction_step :: "char \<Rightarrow> nat \<times> nat \<times> bool \<Rightarrow> nat \<times> nat \<times> bool" where
  "fraction_step c s =
     (case s of (x, scale, overflow) \<Rightarrow>
        if overflow \<or> (2 ^ 63 - 1) div 10 < x \<or> 2 ^ 63 < x * 10 + digit_value c then (x, scale, True)
        else (x * 10 + digit_value c, scale * 10, False))"

definition leading_fraction :: "string \<Rightarrow> nat \<times> nat" where
  "leading_fraction ds = (case fold fraction_step ds (0, 1, False) of (x, scale, _) \<Rightarrow> (x, scale))"

definition duration_unit :: "string \<Rightarrow> nat option" where
  "duration_unit u =
     map_of [(''ns'', 1), (''us'', 1000), ([CHR 0xC2, CHR 0xB5, CHR 0x73], 1000),
       ([CHR 0xCE, CHR 0xBC, CHR 0x73], 1000), (''ms'', 1000000), (''s'', 1000000000), (''m'', 60000000000),
       (''h'', 3600000000000)] u"

definition number_char :: "char \<Rightarrow> bool" where
  "number_char c \<longleftrightarrow> c = CHR 0x2E \<or> digit c"

definition fraction_part :: "nat \<Rightarrow> nat \<Rightarrow> nat \<Rightarrow> nat" where
  "fraction_part f unit scale =
     nat \<lfloor>f64 (f64 (of_nat f) * f64 (f64 (of_nat unit) / f64 (of_nat scale)))\<rfloor>"

text \<open>The digits before the point, those after it, and the rest of the text.\<close>

definition number_parts :: "string \<Rightarrow> string \<times> string \<times> string" where
  "number_parts s =
     (let r = dropWhile digit s in
      if r \<noteq> [] \<and> hd r = CHR 0x2E then (takeWhile digit s, takeWhile digit (tl r), dropWhile digit (tl r))
      else (takeWhile digit s, [], r))"

lemma number_parts_length: "number_parts s = (w, f, r) \<Longrightarrow> length r \<le> length s"
  by (auto simp: number_parts_def Let_def le_diff_conv intro!: le_trans [OF length_dropWhile_le] split: if_splits)

text \<open>One number with its unit: the nanoseconds and the rest of the text.\<close>

definition duration_item :: "string \<Rightarrow> (nat \<times> string) option" where
  "duration_item s =
     (case number_parts s of (whole, places, r) \<Rightarrow>
        let u = takeWhile (\<lambda>c. \<not> number_char c) r; rest = dropWhile (\<lambda>c. \<not> number_char c) r
        in if whole @ places = [] \<or> 2 ^ 63 < digits_value whole then None
           else case duration_unit u of
             None \<Rightarrow> None
           | Some unit \<Rightarrow>
               if 2 ^ 63 div unit < digits_value whole then None
               else (case leading_fraction places of (f, scale) \<Rightarrow>
                 let v = digits_value whole * unit + (if 0 < f then fraction_part f unit scale else 0) in
                 if 2 ^ 63 < v then None else Some (v, rest)))"

lemma duration_item_shorter:
  assumes "duration_item s = Some (v, rest)"
  shows "length rest < length s"
proof -
  obtain w f r where p: "number_parts s = (w, f, r)"
    by (metis prod_cases3)
  let ?P = "\<lambda>c. \<not> number_char c"
  have u: "takeWhile ?P r \<noteq> []"
    using assms p by (intro notI) (simp add: duration_item_def duration_unit_def Let_def split: if_splits)
  have rest: "rest = dropWhile ?P r"
    using assms p by (simp add: duration_item_def Let_def split: if_splits option.splits prod.splits)
  have "length (takeWhile ?P r) + length rest = length r"
    by (metis length_append rest takeWhile_dropWhile_id)
  then have "length rest < length r"
    using u by (simp flip: length_greater_0_conv)
  then show ?thesis
    using number_parts_length [OF p] by simp
qed

function duration_items :: "string \<Rightarrow> nat \<Rightarrow> nat option" where
  "duration_items s d =
     (if s = [] then Some d
      else case duration_item s of
        None \<Rightarrow> None
      | Some (v, rest) \<Rightarrow> if 2 ^ 63 < d + v then None else duration_items rest (d + v))"
  by auto
termination
  by (relation "measure (\<lambda>(s, d). length s)") (auto dest: duration_item_shorter)

declare duration_items.simps [simp del]

definition parse_duration :: "string \<Rightarrow> int option" where
  "parse_duration s =
     (let neg = s \<noteq> [] \<and> hd s = CHR 0x2D;
          t = (if s \<noteq> [] \<and> (hd s = CHR 0x2D \<or> hd s = CHR 0x2B) then tl s else s)
      in if t = ''0'' then Some 0
         else if t = [] then None
         else case duration_items t 0 of
           None \<Rightarrow> None
         | Some d \<Rightarrow> if neg then Some (- int d) else if d = 2 ^ 63 then None else Some (int d))"


section \<open>Variables\<close>

type_synonym lookup = "string \<Rightarrow> string option"

text \<open>A variable that is not set, or blank, takes the fallback.\<close>

definition env_value :: "lookup \<Rightarrow> string \<Rightarrow> string option" where
  "env_value look key = (case look key of None \<Rightarrow> None | Some v \<Rightarrow> if blank v then None else Some v)"

definition string_env :: "lookup \<Rightarrow> string \<Rightarrow> string \<Rightarrow> string" where
  "string_env look key fallback = (case env_value look key of None \<Rightarrow> fallback | Some v \<Rightarrow> v)"

definition parse_error :: "string \<Rightarrow> gerr" where
  "parse_error key = Wrapped (''parse '' @ key @ '': '') (Text ''invalid syntax'')"

definition bool_env :: "lookup \<Rightarrow> string \<Rightarrow> bool \<Rightarrow> bool res" where
  "bool_env look key fallback =
     (case env_value look key of
        None \<Rightarrow> Inr fallback
      | Some v \<Rightarrow>
          if List.member [''1'', ''t'', ''T'', ''true'', ''TRUE'', ''True''] (trim_space v) then Inr True
          else if List.member [''0'', ''f'', ''F'', ''false'', ''FALSE'', ''False''] (trim_space v) then Inr False
          else Inl (parse_error key))"

text \<open>\<^verbatim>\<open>fmt.Sscanf(value, "%d", &parsed)\<close>: spaces before the number are skipped (a newline is an
  error), a sign is accepted, and what follows the digits is ignored.\<close>

definition scan_int :: "string \<Rightarrow> int option" where
  "scan_int s =
     (let t = dropWhile (\<lambda>c. space1 c \<and> c \<noteq> CHR 0x0A) s;
          neg = t \<noteq> [] \<and> hd t = CHR 0x2D;
          t = (if t \<noteq> [] \<and> (hd t = CHR 0x2D \<or> hd t = CHR 0x2B) then tl t else t);
          ds = takeWhile digit t; n = (if neg then - int (digits_value ds) else int (digits_value ds))
      in if ds = [] \<or> n < min_int64 \<or> max_int64 < n then None else Some n)"

definition int_env :: "lookup \<Rightarrow> string \<Rightarrow> int \<Rightarrow> int res" where
  "int_env look key fallback =
     (case env_value look key of
        None \<Rightarrow> Inr fallback
      | Some v \<Rightarrow>
          (case scan_int v of
             None \<Rightarrow> Inl (parse_error key)
           | Some n \<Rightarrow> if n < 0 then Inl (Text (key @ '' must be zero or positive'')) else Inr n))"

definition positive_int_env :: "lookup \<Rightarrow> string \<Rightarrow> int \<Rightarrow> int res" where
  "positive_int_env look key fallback =
     (case int_env look key fallback of
        Inl e \<Rightarrow> Inl e
      | Inr n \<Rightarrow> if n \<le> 0 then Inl (Text (key @ '' must be positive'')) else Inr n)"

definition duration_env :: "lookup \<Rightarrow> string \<Rightarrow> int \<Rightarrow> int res" where
  "duration_env look key fallback =
     (case env_value look key of
        None \<Rightarrow> Inr fallback
      | Some v \<Rightarrow>
          (case parse_duration v of
             None \<Rightarrow> Inl (parse_error key)
           | Some d \<Rightarrow> if d \<le> 0 then Inl (Text (key @ '' must be positive'')) else Inr d))"

definition string_list_env :: "lookup \<Rightarrow> string \<Rightarrow> string list \<Rightarrow> string list" where
  "string_list_env look key fallback =
     (case env_value look key of
        None \<Rightarrow> fallback
      | Some v \<Rightarrow>
          let r = filter (\<lambda>p. p \<noteq> '''') (map trim_space (split_on (CHR 0x2C) v)) in
          if r = [] then fallback else r)"

datatype log_level = LevelDebug | LevelInfo | LevelWarn | LevelError

definition log_level_env :: "lookup \<Rightarrow> string \<Rightarrow> log_level \<Rightarrow> log_level res" where
  "log_level_env look key fallback =
     (case env_value look key of
        None \<Rightarrow> Inr fallback
      | Some v \<Rightarrow>
          (case map_of [(''debug'', LevelDebug), (''info'', LevelInfo), (''warn'', LevelWarn),
                  (''warning'', LevelWarn), (''error'', LevelError)] (to_lower (trim_space v)) of
             Some l \<Rightarrow> Inr l
           | None \<Rightarrow> Inl (Text (key @ '' must be one of debug, info, warn, error''))))"

text \<open>Parameters: \<^verbatim>\<open>base64.StdEncoding\<close>, and \<^verbatim>\<open>json.Unmarshal\<close> into the list of models.\<close>

record catalog_item =
  ci_item_provider :: string
  ci_item_model :: string
  ci_item_window :: int
  ci_item_input_price :: string
  ci_item_output_price :: string
  ci_item_version :: string

record config_library =
  cl_base64 :: "string \<Rightarrow> string option"
  cl_catalog :: "string \<Rightarrow> catalog_item list option"

definition secret_key_env :: "config_library \<Rightarrow> lookup \<Rightarrow> string \<Rightarrow> string res" where
  "secret_key_env l look key =
     (case env_value look key of
        None \<Rightarrow> Inr ''''
      | Some v \<Rightarrow>
          (case cl_base64 l (trim_space v) of
             None \<Rightarrow> Inl (Wrapped (''parse '' @ key @ '' as base64: '') (Text ''illegal base64 data''))
           | Some k \<Rightarrow> if length k \<noteq> 32 then Inl (Text (key @ '' must decode to exactly 32 bytes'')) else Inr k))"

definition price_ok :: "string \<Rightarrow> bool" where
  "price_ok p \<longleftrightarrow> p = '''' \<or> (case parse_rat p of None \<Rightarrow> False | Some q \<Rightarrow> 0 \<le> q)"

fun check_catalog :: "string \<Rightarrow> nat \<Rightarrow> catalog_item list \<Rightarrow> gerr option" where
  "check_catalog key n [] = None"
| "check_catalog key n (i # items) =
     (if blank (ci_item_model i) \<or> ci_item_window i < 0
      then Some (Text (key @ '' item '' @ show_nat n @ '' requires model and non-negative context_window_tokens''))
      else if \<not> price_ok (ci_item_input_price i) \<or> \<not> price_ok (ci_item_output_price i)
      then Some (Text (key @ '' item '' @ show_nat n @ '' has invalid non-negative pricing''))
      else check_catalog key (Suc n) items)"

definition model_catalog_env :: "config_library \<Rightarrow> lookup \<Rightarrow> string \<Rightarrow> catalog_item list res" where
  "model_catalog_env l look key =
     (case env_value look key of
        None \<Rightarrow> Inr []
      | Some v \<Rightarrow>
          (case cl_catalog l v of
             None \<Rightarrow> Inl (parse_error key)
           | Some items \<Rightarrow> (case check_catalog key 0 items of Some e \<Rightarrow> Inl e | None \<Rightarrow> Inr items)))"


section \<open>The configuration\<close>

record http_config =
  hc_addr :: string
  hc_read_timeout :: int
  hc_shutdown_timeout :: int

record database_config =
  dc_url :: string
  dc_max_open :: int
  dc_max_idle :: int
  dc_lifetime :: int

record security_config =
  xc_admin_token :: string
  xc_origins :: "string list"
  xc_secure_cookies :: bool
  xc_mode :: string

record sync_config =
  yc_enabled :: bool
  yc_tick :: int
  yc_concurrency :: int
  yc_timeout :: int
  yc_threshold :: int

record telemetry_config =
  tc_enabled :: bool
  tc_tick :: int
  tc_timeout :: int
  tc_catalog :: "catalog_item list"

record config =
  cf_http :: http_config
  cf_database :: database_config
  cf_secret_key :: string
  cf_security :: security_config
  cf_version :: string
  cf_sync :: sync_config
  cf_telemetry :: telemetry_config
  cf_log_level :: log_level

definition default_origins :: "string list" where
  "default_origins = [''http://localhost:3000'', ''http://127.0.0.1:3000'']"

definition bind_res :: "'a res \<Rightarrow> ('a \<Rightarrow> 'b res) \<Rightarrow> 'b res" where
  "bind_res r f = (case r of Inl e \<Rightarrow> Inl e | Inr x \<Rightarrow> f x)"

definition deployment_error :: "string \<Rightarrow> string \<Rightarrow> bool \<Rightarrow> gerr option" where
  "deployment_error mode token secure =
     (if mode \<noteq> ''local'' \<and> mode \<noteq> ''hosted'' then Some (Text ''CAPCOM_DEPLOYMENT_MODE must be local or hosted'')
      else if mode = ''hosted'' \<and> token \<noteq> '''' then Some (Text ''CAPCOM_ADMIN_TOKEN must be unset in hosted mode'')
      else if mode = ''hosted'' \<and> \<not> secure then Some (Text ''CAPCOM_SECURE_COOKIES must be true in hosted mode'')
      else None)"

definition load_from_lookup :: "config_library \<Rightarrow> lookup \<Rightarrow> config res" where
  "load_from_lookup l look =
     bind_res (secret_key_env l look ''CAPCOM_SECRET_KEY'') (\<lambda>secret_key.
     bind_res (duration_env look ''CAPCOM_HTTP_READ_HEADER_TIMEOUT'' (5 * second)) (\<lambda>read_timeout.
     bind_res (duration_env look ''CAPCOM_HTTP_SHUTDOWN_TIMEOUT'' (10 * second)) (\<lambda>shutdown_timeout.
     bind_res (log_level_env look ''CAPCOM_LOG_LEVEL'' LevelInfo) (\<lambda>level.
     bind_res (duration_env look ''CAPCOM_DATABASE_CONN_MAX_LIFETIME'' (30 * minute)) (\<lambda>lifetime.
     bind_res (int_env look ''CAPCOM_DATABASE_MAX_OPEN_CONNS'' 10) (\<lambda>max_open.
     bind_res (int_env look ''CAPCOM_DATABASE_MAX_IDLE_CONNS'' 5) (\<lambda>max_idle.
     bind_res (duration_env look ''CAPCOM_SYNC_WORKER_TICK'' (5 * second)) (\<lambda>sync_tick.
     bind_res (duration_env look ''CAPCOM_SYNC_REQUEST_TIMEOUT'' (30 * second)) (\<lambda>sync_timeout.
     bind_res (positive_int_env look ''CAPCOM_SYNC_MAX_CONCURRENCY'' 4) (\<lambda>concurrency.
     bind_res (positive_int_env look ''CAPCOM_SYNC_MISSING_THRESHOLD'' 3) (\<lambda>threshold.
     bind_res (bool_env look ''CAPCOM_SYNC_WORKER_ENABLED'' True) (\<lambda>sync_enabled.
     bind_res (bool_env look ''CAPCOM_TELEMETRY_WORKER_ENABLED'' True) (\<lambda>telemetry_enabled.
     bind_res (duration_env look ''CAPCOM_TELEMETRY_WORKER_TICK'' minute) (\<lambda>telemetry_tick.
     bind_res (duration_env look ''CAPCOM_TELEMETRY_REQUEST_TIMEOUT'' (30 * second)) (\<lambda>telemetry_timeout.
     bind_res (model_catalog_env l look ''CAPCOM_MODEL_CATALOG_JSON'') (\<lambda>catalog.
     bind_res (bool_env look ''CAPCOM_SECURE_COOKIES'' True) (\<lambda>secure.
     let mode = to_lower (string_env look ''CAPCOM_DEPLOYMENT_MODE'' ''local'');
         token = string_env look ''CAPCOM_ADMIN_TOKEN'' '''' in
     case deployment_error mode token secure of
       Some e \<Rightarrow> Inl e
     | None \<Rightarrow> Inr
       \<lparr>cf_http = \<lparr>hc_addr = string_env look ''CAPCOM_HTTP_ADDR'' '':8080'', hc_read_timeout = read_timeout,
          hc_shutdown_timeout = shutdown_timeout\<rparr>,
        cf_database = \<lparr>dc_url = string_env look ''CAPCOM_DATABASE_URL'' '''', dc_max_open = max_open,
          dc_max_idle = max_idle, dc_lifetime = lifetime\<rparr>,
        cf_secret_key = secret_key,
        cf_security = \<lparr>xc_admin_token = token,
          xc_origins = string_list_env look ''CAPCOM_CORS_ALLOWED_ORIGINS'' default_origins,
          xc_secure_cookies = secure, xc_mode = mode\<rparr>,
        cf_version = string_env look ''CAPCOM_SERVICE_VERSION'' ''dev'',
        cf_sync = \<lparr>yc_enabled = sync_enabled, yc_tick = sync_tick, yc_concurrency = concurrency,
          yc_timeout = sync_timeout, yc_threshold = threshold\<rparr>,
        cf_telemetry = \<lparr>tc_enabled = telemetry_enabled, tc_tick = telemetry_tick, tc_timeout = telemetry_timeout,
          tc_catalog = catalog\<rparr>,
        cf_log_level = level\<rparr>)))))))))))))))))"


section \<open>The \<^verbatim>\<open>.env\<close> file\<close>

text \<open>\<^verbatim>\<open>bufio.Scanner\<close>: the lines of the file without their end; a line of 65,536 bytes or more ends
  the scan with an error.\<close>

definition strip_cr :: "string \<Rightarrow> string" where
  "strip_cr l = (if l \<noteq> [] \<and> last l = CHR 0x0D then butlast l else l)"

definition scan_lines :: "string \<Rightarrow> string list" where
  "scan_lines content =
     (let parts = split_on (CHR 0x0A) content in if last parts = [] then butlast parts else parts)"

definition clean_value :: "string \<Rightarrow> string" where
  "clean_value v =
     (let t = trim_space v in
      if 2 \<le> length t \<and> (hd t = CHR 0x22 \<and> last t = CHR 0x22 \<or> hd t = CHR 0x27 \<and> last t = CHR 0x27)
      then butlast (tl t) else t)"

definition cut :: "char \<Rightarrow> string \<Rightarrow> (string \<times> string) option" where
  "cut c s = (if List.member s c then Some (takeWhile (\<lambda>x. x \<noteq> c) s, tl (dropWhile (\<lambda>x. x \<noteq> c) s)) else None)"

fun parse_env_lines ::
    "string \<Rightarrow> nat \<Rightarrow> string list \<Rightarrow> (string \<times> string) list \<Rightarrow> (string \<times> string) list res" where
  "parse_env_lines path n [] m = Inr m"
| "parse_env_lines path n (raw # rest) m =
     (if 65536 \<le> length raw
      then Inl (Wrapped (''read '' @ path @ '': '') (Text ''bufio.Scanner: token too long''))
      else let line = trim_space (strip_cr raw) in
        if line = '''' \<or> has_prefix line ''#'' then parse_env_lines path (Suc n) rest m
        else case cut (CHR 0x3D) line of
          None \<Rightarrow> Inl (Text (''parse '' @ path @ '':'' @ show_nat n @ '': expected KEY=VALUE''))
        | Some (k, v) \<Rightarrow>
            if blank k then Inl (Text (''parse '' @ path @ '':'' @ show_nat n @ '': key is required''))
            else parse_env_lines path (Suc n) rest (mput (trim_space k) (clean_value v) m))"

text \<open>The content of the file: \<^term>\<open>Inr None\<close> when there is none.\<close>

definition load_dot_env :: "string \<Rightarrow> string option res \<Rightarrow> (string \<times> string) list res" where
  "load_dot_env path file =
     (case file of
        Inl e \<Rightarrow> Inl (Wrapped (''open '' @ path @ '': '') e)
      | Inr None \<Rightarrow> Inr []
      | Inr (Some content) \<Rightarrow> parse_env_lines path 1 (scan_lines content) [])"

definition merged_lookup :: "(string \<times> string) list \<Rightarrow> lookup \<Rightarrow> lookup" where
  "merged_lookup dot_env os key = (case os key of Some v \<Rightarrow> Some v | None \<Rightarrow> map_of dot_env key)"

definition load_config :: "config_library \<Rightarrow> string option res \<Rightarrow> lookup \<Rightarrow> config res" where
  "load_config l file os =
     bind_res (load_dot_env ''.env'' file) (\<lambda>dot_env. load_from_lookup l (merged_lookup dot_env os))"

end
