(* ===== verification/Config_Claims.thy ===== *)
theory Config_Claims
  imports Config
begin

text \<open>What loading the configuration guarantees: the value it returns is in the ranges the program
  relies on, and a \<^verbatim>\<open>.env\<close> file gives back the values that were written to it.  The properties are
  \<open>loaded_config_valid\<close> and \<open>dot_env_round_trip\<close>; \<open>trailing_text_ignored\<close> documents how the integer
  variables are read.\<close>

section \<open>What one variable may be\<close>

lemma bind_res_Inr: "bind_res r f = Inr y \<longleftrightarrow> (\<exists>x. r = Inr x \<and> f x = Inr y)"
  by (simp add: bind_res_def split: sum.splits)

definition duration_ok :: "int \<Rightarrow> bool" where
  "duration_ok d \<longleftrightarrow> 0 < d \<and> d \<le> max_int64"

lemma duration_items_bound: "duration_items s d = Some n \<Longrightarrow> d \<le> 2 ^ 63 \<Longrightarrow> n \<le> 2 ^ 63"
  by (induction s d rule: duration_items.induct)
     (subst (asm) (2) duration_items.simps, auto split: if_splits option.splits)

lemma parse_duration_bound: "parse_duration s = Some d \<Longrightarrow> d \<le> max_int64"
  using duration_items_bound [of _ 0]
  by (fastforce simp: parse_duration_def Let_def max_int64_def split: if_splits option.splits)

lemma duration_env_ok: "duration_env look k d = Inr x \<Longrightarrow> duration_ok d \<Longrightarrow> duration_ok x"
  by (auto simp: duration_env_def duration_ok_def dest: parse_duration_bound split: option.splits if_splits)

lemma int_env_ok: "int_env look k d = Inr x \<Longrightarrow> 0 \<le> d \<Longrightarrow> d \<le> max_int64 \<Longrightarrow> 0 \<le> x \<and> x \<le> max_int64"
  by (auto simp: int_env_def scan_int_def Let_def split: option.splits if_splits)

lemma positive_int_env_ok:
  "positive_int_env look k d = Inr x \<Longrightarrow> 0 < d \<Longrightarrow> d \<le> max_int64 \<Longrightarrow> 0 < x \<and> x \<le> max_int64"
  using int_env_ok [of look k d]
  by (fastforce simp: positive_int_env_def split: sum.splits if_splits)

lemma secret_key_env_ok: "secret_key_env l look k = Inr x \<Longrightarrow> x = [] \<or> length x = 32"
  by (auto simp: secret_key_env_def split: option.splits if_splits)

definition item_ok :: "catalog_item \<Rightarrow> bool" where
  "item_ok i \<longleftrightarrow> \<not> blank (ci_item_model i) \<and> 0 \<le> ci_item_window i \<and>
     price_ok (ci_item_input_price i) \<and> price_ok (ci_item_output_price i)"

lemma check_catalog_None: "check_catalog key n items = None \<longleftrightarrow> list_all item_ok items"
  by (induction key n items rule: check_catalog.induct) (auto simp: item_ok_def)

lemma model_catalog_env_ok: "model_catalog_env l look k = Inr x \<Longrightarrow> list_all item_ok x"
  by (auto simp: model_catalog_env_def check_catalog_None split: option.splits)

lemma string_list_env_ok:
  "d \<noteq> [] \<Longrightarrow> list_all (\<lambda>s. \<not> blank s) d \<Longrightarrow>
     string_list_env look k d \<noteq> [] \<and> list_all (\<lambda>s. \<not> blank s) (string_list_env look k d)"
  by (auto simp: string_list_env_def Let_def list_all_iff blank_def split: option.splits)


section \<open>The configuration\<close>

definition config_ok :: "config \<Rightarrow> bool" where
  "config_ok c \<longleftrightarrow>
     list_all duration_ok [hc_read_timeout (cf_http c), hc_shutdown_timeout (cf_http c), dc_lifetime (cf_database c),
       yc_tick (cf_sync c), yc_timeout (cf_sync c), tc_tick (cf_telemetry c), tc_timeout (cf_telemetry c)] \<and>
     list_all (\<lambda>n. 0 \<le> n \<and> n \<le> max_int64) [dc_max_open (cf_database c), dc_max_idle (cf_database c)] \<and>
     list_all (\<lambda>n. 0 < n \<and> n \<le> max_int64) [yc_concurrency (cf_sync c), yc_threshold (cf_sync c)] \<and>
     (cf_secret_key c = [] \<or> length (cf_secret_key c) = 32) \<and>
     (xc_mode (cf_security c) = ''local'' \<or>
      xc_mode (cf_security c) = ''hosted'' \<and> xc_admin_token (cf_security c) = [] \<and> xc_secure_cookies (cf_security c)) \<and>
     xc_origins (cf_security c) \<noteq> [] \<and> list_all (\<lambda>x. \<not> blank x) (xc_origins (cf_security c)) \<and>
     list_all item_ok (tc_catalog (cf_telemetry c))"

lemma deployment_error_None:
  "deployment_error mode token secure = None \<longleftrightarrow>
     mode = ''local'' \<or> mode = ''hosted'' \<and> token = [] \<and> secure"
  by (auto simp: deployment_error_def)

lemma default_origins_ok: "default_origins \<noteq> [] \<and> list_all (\<lambda>s. \<not> blank s) default_origins"
  by (simp add: default_origins_def) code_simp

lemma load_from_lookup_ok: "load_from_lookup l look = Inr c \<Longrightarrow> config_ok c"
  unfolding load_from_lookup_def bind_res_Inr Let_def
  apply (elim exE conjE)
  apply (drule secret_key_env_ok)
  apply (drule duration_env_ok, simp add: duration_ok_def max_int64_def)+
  apply (drule int_env_ok, simp, simp add: max_int64_def)+
  apply (drule positive_int_env_ok, simp, simp add: max_int64_def)+
  apply (drule model_catalog_env_ok)
  apply (simp only: option.case_eq_if split: if_splits)
   apply (simp_all only: sum.inject sum.distinct not_not deployment_error_None)
  apply (drule sym [of _ c])
  apply (simp add: config_ok_def string_list_env_ok default_origins_ok)
  done

text \<open>C20: A configuration that \<^verbatim>\<open>config.Load\<close> returns is well-formed, whatever the environment and
  the \<^verbatim>\<open>.env\<close> file hold: every duration is positive and fits an \<^verbatim>\<open>int64\<close>, the pool sizes are not
  negative, the worker limits are positive, the secret key is absent or 32 bytes long, a hosted
  deployment has no administrator token and only secure cookies, there is at least one allowed origin,
  and every model of the catalog has a name and non-negative prices.\<close>

theorem loaded_config_valid: "load_config l file os = Inr c \<Longrightarrow> config_ok c"
  by (auto simp: load_config_def bind_res_Inr intro: load_from_lookup_ok)

lemma loaded_config_valid_witness:
  "config_ok (case load_config \<lparr>cl_base64 = (\<lambda>_. None), cl_catalog = (\<lambda>_. None)\<rparr> (Inr None)
       (\<lambda>k. if k = ''CAPCOM_DEPLOYMENT_MODE'' then Some ''hosted'' else None)
     of Inr c \<Rightarrow> c)"
  by (rule loaded_config_valid [of "\<lparr>cl_base64 = (\<lambda>_. None), cl_catalog = (\<lambda>_. None)\<rparr>" "Inr None"
        "\<lambda>k. if k = ''CAPCOM_DEPLOYMENT_MODE'' then Some ''hosted'' else None"])
     (simp add: load_config_def load_dot_env_def load_from_lookup_def merged_lookup_def bind_res_def
        secret_key_env_def duration_env_def int_env_def positive_int_env_def bool_env_def string_env_def
        log_level_env_def model_catalog_env_def env_value_def deployment_error_def Let_def str_simps)

section \<open>The \<^verbatim>\<open>.env\<close> file\<close>

text \<open>A file that assigns quoted values: keys are upper case letters, digits and underscores; a value
  is any text on one line.\<close>

definition env_line :: "string \<times> string \<Rightarrow> string" where
  "env_line e = fst e @ CHR 0x3D # CHR 0x22 # snd e @ [CHR 0x22]"

definition env_file :: "(string \<times> string) list \<Rightarrow> string" where
  "env_file kvs = concat (map (\<lambda>e. env_line e @ [CHR 0x0A]) kvs)"

definition key_char :: "char \<Rightarrow> bool" where
  "key_char c \<longleftrightarrow> byte_in 65 90 c \<or> byte_in 48 57 c \<or> c = CHR 0x5F"

definition entry_ok :: "string \<times> string \<Rightarrow> bool" where
  "entry_ok e \<longleftrightarrow> fst e \<noteq> [] \<and> list_all key_char (fst e) \<and> CHR 0x0A \<notin> set (snd e) \<and>
     length (fst e) + length (snd e) < 65000"

definition visible :: "char \<Rightarrow> bool" where
  "visible c \<longleftrightarrow> byte_in 33 126 c"

lemma key_char_visible:
  "key_char c \<Longrightarrow> visible c \<and> c \<noteq> CHR 0x3D \<and> c \<noteq> CHR 0x0A \<and> c \<noteq> CHR 0x23"
  by (auto simp: key_char_def visible_def byte_in_def)

lemma visible_not_space:
  "visible c \<Longrightarrow> \<not> space1 c \<and> \<not> space2 c d \<and> \<not> space2 d c \<and> \<not> space3 c d e \<and> \<not> space3 e d c \<and> \<not> space3 d c e"
  by (auto simp: visible_def space1_def space2_def space3_def byte_in_def)

lemma trim_left_visible: "visible c \<Longrightarrow> trim_by space2 space3 (c # s) = c # s"
  by (cases s rule: list.exhaust [case_product list.exhaust [of "tl s"]])
     (auto simp: visible_not_space neq_Nil_conv)

lemma trim_right_visible:
  "visible c \<Longrightarrow> trim_by (\<lambda>c d. space2 d c) (\<lambda>c d e. space3 e d c) (c # s) = c # s"
  by (cases s rule: list.exhaust [case_product list.exhaust [of "tl s"]])
     (auto simp: visible_not_space neq_Nil_conv)

lemma trim_space_visible:
  assumes "s \<noteq> []" "visible (hd s)" "visible (last s)"
  shows "trim_space s = s"
proof -
  have "trim_left s = s"
    using assms by (cases s) (simp_all add: trim_left_def trim_left_visible)
  moreover have "rev s = last s # rev (butlast s)"
    using assms(1) by (metis append_butlast_last_id rev.simps(2) rev_rev_ident rev_swap)
  ultimately show ?thesis
    unfolding trim_space_def trim_right_def
    using trim_right_visible [OF assms(3), of "rev (butlast s)"] by (metis rev_rev_ident)
qed

lemma trim_by_keeps:
  assumes "\<And>c d. \<not> two c d \<or> \<not> visible c \<and> \<not> visible d"
    "\<And>c d e. \<not> three c d e \<or> \<not> visible c \<and> \<not> visible d \<and> \<not> visible e"
    "visible x" "x \<in> set s"
  shows "x \<in> set (trim_by two three s)"
  using assms
proof (induction two three s rule: trim_by.induct)
  case (3 two three c d)
  then show ?case
    using visible_not_space [OF 3(4)] 3(2) [of c d] by auto
next
  case (4 two three c d e s)
  then show ?case
    using visible_not_space [OF 4(6)] 4(4) [of c d] 4(5) [of c d e] by auto
qed (auto simp: visible_not_space)

lemma visible_not_blank:
  assumes "x \<in> set s" "visible x"
  shows "\<not> blank s"
proof -
  have "x \<in> set (trim_left s)"
    unfolding trim_left_def using assms visible_not_space by (intro trim_by_keeps) auto
  then have "x \<in> set (trim_space s)"
    unfolding trim_space_def trim_right_def set_rev using assms(2) visible_not_space
    by (intro trim_by_keeps) auto
  then show ?thesis
    by (auto simp: blank_def)
qed

lemma quoted_value: "clean_value (CHR 0x22 # v @ [CHR 0x22]) = v"
  using trim_space_visible [of "CHR 0x22 # v @ [CHR 0x22]"]
  by (simp add: clean_value_def Let_def visible_def byte_in_def butlast_append)

lemma cut_append: "c \<notin> set a \<Longrightarrow> cut c (a @ c # b) = Some (a, b)"
  by (induction a) (auto simp: cut_def)

lemma line_parsed:
  assumes "entry_ok e"
  shows "parse_env_lines path n (env_line e # rest) m = parse_env_lines path (Suc n) rest (mput (fst e) (snd e) m)"
proof -
  obtain k v where e: "e = (k, v)"
    by (cases e)
  have k: "k \<noteq> []" "list_all key_char k" "length k + length v < 65000"
    using assms by (simp_all add: e entry_ok_def)
  obtain c s where c: "k = c # s"
    using k by (cases k) auto
  have vis: "visible c" "visible (last k)" "c \<noteq> CHR 0x23"
    using k key_char_visible by (auto simp: c list_all_iff)
  have sep: "CHR 0x3D \<notin> set k"
    using k(2) key_char_visible by (auto simp: list_all_iff)
  have trimmed: "trim_space k = k"
    using k(1) vis by (intro trim_space_visible) (simp_all add: c)
  have line: "trim_space (strip_cr (env_line e)) = env_line e"
    using vis trim_space_visible [of "env_line e"]
    by (simp add: strip_cr_def env_line_def e c visible_def byte_in_def)
  have "cut (CHR 0x3D) (env_line e) = Some (k, CHR 0x22 # v @ [CHR 0x22])"
    using cut_append [OF sep, of "CHR 0x22 # v @ [CHR 0x22]"] by (simp add: env_line_def e)
  moreover have "\<not> blank k"
    using k(1) by (simp add: blank_def trimmed)
  moreover have "\<not> has_prefix (env_line e) ''#''" "env_line e \<noteq> []" "length (env_line e) < 65536"
    using k(3) vis(3) by (simp_all add: env_line_def e c)
  ultimately show ?thesis
    using quoted_value [of v] line by (simp add: trimmed e Let_def)
qed

lemma lines_of_file:
  assumes "list_all entry_ok kvs"
  shows "split_on (CHR 0x0A) (env_file kvs) = map env_line kvs @ [[]]"
  using assms
proof (induction kvs)
  case (Cons e kvs)
  have "CHR 0x0A \<notin> set (env_line e)"
    using Cons.prems key_char_visible by (auto simp: env_line_def entry_ok_def list_all_iff)
  then show ?case
    using Cons by (simp add: env_file_def)
qed (simp add: env_file_def)

text \<open>C39: A value written to the \<^verbatim>\<open>.env\<close> file in double quotes is the value the program reads back,
  whatever the value contains besides a line break (quotes, \<^verbatim>\<open>=\<close>, \<^verbatim>\<open>#\<close> and outer spaces included);
  of two lines with the same key the later one counts.\<close>

theorem dot_env_round_trip:
  assumes "list_all entry_ok kvs"
  shows "load_dot_env path (Inr (Some (env_file kvs))) = Inr (fold (\<lambda>e. mput (fst e) (snd e)) kvs [])"
proof -
  have "parse_env_lines path n (map env_line kvs) m = Inr (fold (\<lambda>e. mput (fst e) (snd e)) kvs m)" for n m
    using assms by (induction kvs arbitrary: n m) (simp_all del: parse_env_lines.simps(2) add: line_parsed)
  then show ?thesis
    by (simp add: load_dot_env_def scan_lines_def lines_of_file [OF assms] Let_def)
qed

lemma dot_env_round_trip_witness:
  "load_dot_env ''.env'' (Inr (Some (env_file [(''A'', '' #=1 ''), (''B_2'', ''''), (''A'', [CHR 0x22])]))) =
     Inr [(''A'', [CHR 0x22]), (''B_2'', '''')]"
  using dot_env_round_trip [of "[(''A'', '' #=1 ''), (''B_2'', ''''), (''A'', [CHR 0x22])]" "''.env''"]
  by (simp add: entry_ok_def key_char_def byte_in_def)


section \<open>Integer variables\<close>

text \<open>An integer variable is read up to its last digit and the rest of the text is dropped without an
  error: \<^verbatim>\<open>10x\<close>, \<^verbatim>\<open>1e3\<close> and \<^verbatim>\<open>1_000\<close> are the numbers 10, 1 and 1.\<close>

theorem trailing_text_ignored:
  assumes "look k = Some (show_nat n @ c # rest)" "\<not> digit c" "int n \<le> max_int64"
  shows "int_env look k fallback = Inr (int n)"
proof -
  have d: "list_all digit (show_nat n)" "digits_value (show_nat n) = n" "show_nat n \<noteq> []"
    using show_nat_digits by simp_all
  obtain x xs where x: "show_nat n = x # xs"
    using d(3) by (cases "show_nat n") auto
  have "digit x"
    using d(1) by (simp add: x)
  then have v: "visible x" "x \<noteq> CHR 0x2D" "x \<noteq> CHR 0x2B"
    by (auto simp: digit_def visible_def byte_in_def)
  have nb: "\<not> blank (show_nat n @ c # rest)"
    using v(1) by (intro visible_not_blank [of x]) (simp_all add: x)
  have "takeWhile digit (show_nat n @ c # rest) = show_nat n"
    using d(1) assms(2) by (simp add: takeWhile_append list_all_iff)
  then show ?thesis
    using assms(1,3) nb v visible_not_space [OF v(1)] d
    by (simp add: int_env_def env_value_def scan_int_def x Let_def min_int64_def)
qed

lemma trailing_text_ignored_witness:
  "int_env (\<lambda>k. Some (show_nat 1 @ CHR 0x65 # ''3'')) ''CAPCOM_SYNC_MAX_CONCURRENCY'' 4 = Inr 1"
  using trailing_text_ignored [of "\<lambda>k. Some (show_nat 1 @ CHR 0x65 # ''3'')" "''CAPCOM_SYNC_MAX_CONCURRENCY''" 1 "CHR 0x65" "''3''" 4]
  by (simp add: digit_def byte_in_def max_int64_def)

end
