(* ===== verification/Wire.thy ===== *)
theory Wire
  imports Decimals
begin

text \<open>What the HTTP side of the program uses of the standard library: JSON documents and how
  \<^verbatim>\<open>encoding/json\<close> stores them into Go values, the RFC 3339 text of an instant, \<^verbatim>\<open>strconv\<close> integers, and
  the escaping of \<^verbatim>\<open>net/url\<close>.\<close>

section \<open>Integers as text\<close>

text \<open>\<^verbatim>\<open>strconv.ParseInt(s, 10, 64)\<close>: an optional sign and digits, within range.  A caller that ignores the
  error sees 0 after a syntax error and the nearest bound after a range error.\<close>

definition int_text :: "string \<Rightarrow> int option" where
  "int_text s =
     (let neg = s \<noteq> [] \<and> hd s = CHR 0x2D;
          t = (if s \<noteq> [] \<and> (hd s = CHR 0x2D \<or> hd s = CHR 0x2B) then tl s else s)
      in if t = [] \<or> \<not> list_all digit t then None
         else Some (if neg then - int (digits_value t) else int (digits_value t)))"

definition parse_int64 :: "string \<Rightarrow> int option" where
  "parse_int64 s =
     (case int_text s of None \<Rightarrow> None | Some n \<Rightarrow> if n < min_int64 \<or> max_int64 < n then None else Some n)"

definition int_or_bound :: "string \<Rightarrow> int" where
  "int_or_bound s = (case int_text s of None \<Rightarrow> 0 | Some n \<Rightarrow> max min_int64 (min max_int64 n))"

lemma int_or_bound_range: "min_int64 \<le> int_or_bound s \<and> int_or_bound s \<le> max_int64"
  by (auto simp: int_or_bound_def min_int64_def max_int64_def split: option.splits)


section \<open>JSON\<close>

text \<open>A parsed document keeps the text of its numbers and the order of its keys.\<close>

datatype json = JNull | JBool bool | JNumber string | JString string | JArray "json list"
  | JObject "(string \<times> json) list"

definition number_value :: "string \<Rightarrow> rat" where
  "number_value t = (case parse_rat t of None \<Rightarrow> 0 | Some q \<Rightarrow> f64 q)"

text \<open>Stored into an \<^verbatim>\<open>any\<close>: a number is a \<^verbatim>\<open>float64\<close>, an object a map in which the last of several equal
  keys counts.\<close>

fun any_of :: "json \<Rightarrow> gval" where
  "any_of JNull = GNil"
| "any_of (JBool b) = GBool b"
| "any_of (JNumber t) = GNum (number_value t)"
| "any_of (JString s) = GStr s"
| "any_of (JArray xs) = GList (map any_of xs)"
| "any_of (JObject kvs) = GMap (fold (\<lambda>(k, v). mput k v) (map (\<lambda>kv. (fst kv, any_of (snd kv))) kvs) [])"

definition any_map :: "json \<Rightarrow> gmap option" where
  "any_map j = (case j of JNull \<Rightarrow> Some [] | JObject kvs \<Rightarrow> (case any_of j of GMap m \<Rightarrow> Some m | _ \<Rightarrow> None) | _ \<Rightarrow> None)"

text \<open>Storing into a struct: a key goes to the field of that name, compared without regard to case; other
  keys are ignored; a value of the wrong kind is an error; \<^verbatim>\<open>null\<close> leaves a scalar field as it is.\<close>

type_synonym 'r field = "string \<times> (json \<Rightarrow> 'r \<Rightarrow> 'r option)"

fun store_fields :: "'r field list \<Rightarrow> (string \<times> json) list \<Rightarrow> 'r \<Rightarrow> 'r option" where
  "store_fields fs [] r = Some r"
| "store_fields fs ((k, v) # kvs) r =
     (case List.find (\<lambda>f. equal_fold (fst f) k) fs of
        None \<Rightarrow> store_fields fs kvs r
      | Some f \<Rightarrow> (case snd f v r of None \<Rightarrow> None | Some r' \<Rightarrow> store_fields fs kvs r'))"

definition decode_object :: "'r field list \<Rightarrow> json \<Rightarrow> 'r \<Rightarrow> 'r option" where
  "decode_object fs j r =
     (case j of JNull \<Rightarrow> Some r | JObject kvs \<Rightarrow> store_fields fs kvs r | _ \<Rightarrow> None)"

definition string_field :: "string \<Rightarrow> ((string \<Rightarrow> string) \<Rightarrow> 'r \<Rightarrow> 'r) \<Rightarrow> 'r field" where
  "string_field name upd =
     (name, \<lambda>j r. case j of JNull \<Rightarrow> Some r | JString s \<Rightarrow> Some (upd (\<lambda>_. s) r) | _ \<Rightarrow> None)"

definition bool_field :: "string \<Rightarrow> ((bool \<Rightarrow> bool) \<Rightarrow> 'r \<Rightarrow> 'r) \<Rightarrow> 'r field" where
  "bool_field name upd =
     (name, \<lambda>j r. case j of JNull \<Rightarrow> Some r | JBool b \<Rightarrow> Some (upd (\<lambda>_. b) r) | _ \<Rightarrow> None)"

definition int_field :: "string \<Rightarrow> ((int \<Rightarrow> int) \<Rightarrow> 'r \<Rightarrow> 'r) \<Rightarrow> 'r field" where
  "int_field name upd =
     (name, \<lambda>j r. case j of JNull \<Rightarrow> Some r
        | JNumber t \<Rightarrow> map_option (\<lambda>n. upd (\<lambda>_. n) r) (parse_int64 t) | _ \<Rightarrow> None)"

definition any_field :: "string \<Rightarrow> ((gval \<Rightarrow> gval) \<Rightarrow> 'r \<Rightarrow> 'r) \<Rightarrow> 'r field" where
  "any_field name upd = (name, \<lambda>j r. Some (upd (\<lambda>_. any_of j) r))"

definition map_field :: "string \<Rightarrow> ((gmap \<Rightarrow> gmap) \<Rightarrow> 'r \<Rightarrow> 'r) \<Rightarrow> 'r field" where
  "map_field name upd = (name, \<lambda>j r. map_option (\<lambda>m. upd (\<lambda>_. m) r) (any_map j))"

text \<open>A slice: \<^verbatim>\<open>null\<close> is the nil slice.\<close>

fun all_some :: "'a option list \<Rightarrow> 'a list option" where
  "all_some [] = Some []"
| "all_some (None # xs) = None"
| "all_some (Some x # xs) = map_option (\<lambda>ys. x # ys) (all_some xs)"

definition decode_list :: "(json \<Rightarrow> 'a option) \<Rightarrow> json \<Rightarrow> 'a list option option" where
  "decode_list element j =
     (case j of JNull \<Rightarrow> Some None | JArray xs \<Rightarrow> map_option Some (all_some (map element xs)) | _ \<Rightarrow> None)"

definition list_field ::
    "string \<Rightarrow> (json \<Rightarrow> 'a option) \<Rightarrow> (('a list option \<Rightarrow> 'a list option) \<Rightarrow> 'r \<Rightarrow> 'r) \<Rightarrow> 'r field" where
  "list_field name element upd = (name, \<lambda>j r. map_option (\<lambda>xs. upd (\<lambda>_. xs) r) (decode_list element j))"

abbreviation elems :: "'a list option \<Rightarrow> 'a list" where
  "elems xs \<equiv> (case xs of None \<Rightarrow> [] | Some ys \<Rightarrow> ys)"

definition text_element :: "json \<Rightarrow> string option" where
  "text_element j = (case j of JNull \<Rightarrow> Some '''' | JString s \<Rightarrow> Some s | _ \<Rightarrow> None)"

definition text_map :: "json \<Rightarrow> ((string \<times> string) list) option" where
  "text_map j =
     (case j of JNull \<Rightarrow> Some []
      | JObject kvs \<Rightarrow> map_option (\<lambda>m. fold (\<lambda>(k, v). mput k v) m [])
          (all_some (map (\<lambda>kv. map_option (Pair (fst kv)) (text_element (snd kv))) kvs))
      | _ \<Rightarrow> None)"

lemma all_some_length: "all_some xs = Some ys \<Longrightarrow> length ys = length xs"
  by (induction xs arbitrary: ys rule: all_some.induct) auto

lemma all_some_map_Some [simp]: "all_some (map (\<lambda>x. Some (f x)) xs) = Some (map f xs)"
  by (induction xs) auto

lemma all_some_all: "all_some (map f xs) = Some ys \<Longrightarrow> y \<in> set ys \<Longrightarrow> \<exists>x \<in> set xs. f x = Some y"
proof (induction xs arbitrary: ys)
  case (Cons x xs)
  then show ?case
    by (cases "f x") auto
qed simp


section \<open>Instants as text\<close>

text \<open>The calendar: the day number counts from 1 January of year 1.\<close>

definition leap :: "int \<Rightarrow> bool" where
  "leap y \<longleftrightarrow> y mod 4 = 0 \<and> (y mod 100 \<noteq> 0 \<or> y mod 400 = 0)"

definition days_before_year :: "int \<Rightarrow> int" where
  "days_before_year y = 365 * (y - 1) + (y - 1) div 4 - (y - 1) div 100 + (y - 1) div 400"

definition month_lengths :: "int \<Rightarrow> int list" where
  "month_lengths y = [31, if leap y then 29 else 28, 31, 30, 31, 30, 31, 31, 30, 31, 30, 31]"

definition year_of_day :: "int \<Rightarrow> int" where
  "year_of_day d =
     (let n400 = d div 146097; d = d mod 146097; n100 = min 3 (d div 36524); d = d - 36524 * n100;
          n4 = d div 1461; d = d mod 1461; n1 = min 3 (d div 365)
      in 400 * n400 + 100 * n100 + 4 * n4 + n1 + 1)"

fun month_of :: "int \<Rightarrow> int list \<Rightarrow> int \<Rightarrow> int \<times> int" where
  "month_of m [] d = (m, d + 1)"
| "month_of m (l # ls) d = (if d < l then (m, d + 1) else month_of (m + 1) ls (d - l))"

definition civil :: "int \<Rightarrow> int \<times> int \<times> int" where
  "civil d = (let y = year_of_day d in (y, month_of 1 (month_lengths y) (d - days_before_year y)))"

definition day_number :: "int \<Rightarrow> nat \<Rightarrow> nat \<Rightarrow> int" where
  "day_number y m d = days_before_year y + sum_list (take (m - 1) (month_lengths y)) + int d - 1"

definition two_digits :: "int \<Rightarrow> string" where
  "two_digits n = pad_zeros 2 (show_nat (nat n))"

text \<open>\<^verbatim>\<open>t.UTC().Format(time.RFC3339)\<close> and \<^verbatim>\<open>RFC3339Nano\<close>.\<close>

definition time_fraction :: "int \<Rightarrow> string" where
  "time_fraction ns =
     (if ns = 0 then ''''
      else CHR 0x2E # trim_right_char (CHR 0x30) (pad_zeros 9 (show_nat (nat ns))))"

definition format_time :: "string \<Rightarrow> time \<Rightarrow> string" where
  "format_time fraction t =
     (let s = t div second; r = s mod 86400 in
      case civil (s div 86400) of (y, m, d) \<Rightarrow>
        pad_zeros 4 (show_nat (nat y)) @ CHR 0x2D # two_digits m @ CHR 0x2D # two_digits d @
        CHR 0x54 # two_digits (r div 3600) @ CHR 0x3A # two_digits (r mod 3600 div 60) @
        CHR 0x3A # two_digits (r mod 60) @ fraction @ [CHR 0x5A])"

definition rfc3339 :: "time \<Rightarrow> string" where
  "rfc3339 t = format_time '''' t"

definition rfc3339_nano :: "time \<Rightarrow> string" where
  "rfc3339_nano t = format_time (time_fraction (t mod second)) t"

text \<open>\<^verbatim>\<open>time.Parse\<close> with either layout: one digit is enough for the hour, a fraction of the second is
  accepted after a point or a comma, and the zone is \<^verbatim>\<open>Z\<close> or an offset of at most 24:60.\<close>

definition fixed_digits :: "nat \<Rightarrow> string \<Rightarrow> (nat \<times> string) option" where
  "fixed_digits n s =
     (if n \<le> length s \<and> list_all digit (take n s) then Some (digits_value (take n s), drop n s) else None)"

definition hour_digits :: "string \<Rightarrow> (nat \<times> string) option" where
  "hour_digits s = (case fixed_digits 2 s of Some x \<Rightarrow> Some x | None \<Rightarrow> fixed_digits 1 s)"

definition expect :: "char \<Rightarrow> string \<Rightarrow> string option" where
  "expect c s = (case s of [] \<Rightarrow> None | d # r \<Rightarrow> if d = c then Some r else None)"

definition chain :: "'a option \<Rightarrow> ('a \<Rightarrow> 'b option) \<Rightarrow> 'b option" where
  "chain x f = (case x of None \<Rightarrow> None | Some y \<Rightarrow> f y)"

definition second_fraction :: "string \<Rightarrow> int \<times> string" where
  "second_fraction s =
     (case s of
        c # d # r \<Rightarrow>
          if (c = CHR 0x2E \<or> c = CHR 0x2C) \<and> digit d
          then (int (digits_value (take 9 (takeWhile digit (d # r) @ replicate 9 (CHR 0x30)))), dropWhile digit (d # r))
          else (0, s)
      | _ \<Rightarrow> (0, s))"

definition zone_offset :: "string \<Rightarrow> (int \<times> string) option" where
  "zone_offset s =
     (case s of
        [] \<Rightarrow> None
      | c # r \<Rightarrow>
          if c = CHR 0x5A then Some (0, r)
          else if c = CHR 0x2B \<or> c = CHR 0x2D then
            chain (fixed_digits 2 r) (\<lambda>(h, r).
            chain (expect (CHR 0x3A) r) (\<lambda>r.
            chain (fixed_digits 2 r) (\<lambda>(m, r).
            if 24 < h \<or> 60 < m then None
            else Some ((if c = CHR 0x2D then - 1 else 1) * (int h * 60 + int m) * 60, r))))
          else None)"

definition parse_time :: "string \<Rightarrow> time option" where
  "parse_time s =
     chain (fixed_digits 4 s) (\<lambda>(y, s).
     chain (expect (CHR 0x2D) s) (\<lambda>s.
     chain (fixed_digits 2 s) (\<lambda>(mo, s).
     if mo < 1 \<or> 12 < mo then None else
     chain (expect (CHR 0x2D) s) (\<lambda>s.
     chain (fixed_digits 2 s) (\<lambda>(d, s).
     chain (expect (CHR 0x54) s) (\<lambda>s.
     chain (hour_digits s) (\<lambda>(h, s).
     chain (expect (CHR 0x3A) s) (\<lambda>s.
     chain (fixed_digits 2 s) (\<lambda>(mi, s).
     chain (expect (CHR 0x3A) s) (\<lambda>s.
     chain (fixed_digits 2 s) (\<lambda>(se, s).
     case second_fraction s of (ns, s) \<Rightarrow>
     chain (zone_offset s) (\<lambda>(off, s).
     if 24 \<le> h \<or> 60 \<le> mi \<or> 60 \<le> se \<or> d < 1 \<or> month_lengths (int y) ! (mo - 1) < int d \<or> s \<noteq> [] then None
     else Some ((day_number (int y) mo d * 86400 + int h * 3600 + int mi * 60 + int se - off) * second + ns)
     ))))))))))))"


section \<open>Escaping\<close>

definition unreserved :: "char \<Rightarrow> bool" where
  "unreserved c \<longleftrightarrow> byte_in 48 57 c \<or> byte_in 65 90 c \<or> byte_in 97 122 c \<or> List.member ''-_.~'' c"

definition upper_hex :: "nat \<Rightarrow> char" where
  "upper_hex n = (if n < 10 then char_of (48 + n) else char_of (55 + n))"

definition percent :: "char \<Rightarrow> string" where
  "percent c = [CHR 0x25, upper_hex (of_char c div 16), upper_hex (of_char c mod 16)]"

text \<open>\<^verbatim>\<open>url.PathEscape\<close> and \<^verbatim>\<open>url.QueryEscape\<close>, \<^verbatim>\<open>url.Values.Encode\<close>.\<close>

definition path_escape :: "string \<Rightarrow> string" where
  "path_escape s = concat (map (\<lambda>c. if unreserved c \<or> List.member ''$&+=:@'' c then [c] else percent c) s)"

definition query_escape :: "string \<Rightarrow> string" where
  "query_escape s = concat (map (\<lambda>c. if unreserved c then [c] else if c = CHR 0x20 then ''+'' else percent c) s)"

fun join_with :: "string \<Rightarrow> string list \<Rightarrow> string" where
  "join_with sep [] = ''''"
| "join_with sep [x] = x"
| "join_with sep (x # xs) = x @ sep @ join_with sep xs"

text \<open>The pairs in the order of their keys, as \<^verbatim>\<open>Encode\<close> sorts them.\<close>

definition query_string :: "(string \<times> string) list \<Rightarrow> string" where
  "query_string kvs = join_with ''&'' (map (\<lambda>(k, v). query_escape k @ CHR 0x3D # query_escape v) kvs)"

text \<open>\<^verbatim>\<open>hex.EncodeToString\<close>.\<close>

definition hex_text :: "string \<Rightarrow> string" where
  "hex_text s = concat (map (\<lambda>c. [hex_digit (of_char c div 16), hex_digit (of_char c mod 16)]) s)"

end
