(* ===== verification/Api_Base.thy ===== *)
theory Api_Base
  imports Wire Domain
begin

text \<open>The HTTP boundary (\<^verbatim>\<open>internal/api/errors.go\<close>, \<^verbatim>\<open>middleware.go\<close>): requests and responses, the
  public error envelope, and the middleware around the routes.\<close>

section \<open>Requests and responses\<close>

text \<open>A request as \<^verbatim>\<open>net/http\<close> hands it over: headers under their canonical names, the segments of the
  escaped path, each decoded, with a flag that the escaped path is in clean form, the query parameters,
  the values of the wildcards of the matched pattern, and the context.  \<^verbatim>\<open>r.URL.Path\<close> is the decoded
  path.\<close>

record request =
  hr_method :: string
  hr_segments :: "string list"
  hr_clean :: bool
  hr_headers :: "(string \<times> string) list"
  hr_cookies :: "(string \<times> string) list"
  hr_query :: "(string \<times> string) list"
  hr_values :: "(string \<times> string) list"
  hr_remote :: string
  hr_body :: string
  hr_context :: req_context

definition request_path :: "request \<Rightarrow> string" where
  "request_path r = CHR 0x2F # join_with ''/'' (hr_segments r)"

definition value_or_empty :: "(string \<times> string) list \<Rightarrow> string \<Rightarrow> string" where
  "value_or_empty m k = (case map_of m k of None \<Rightarrow> '''' | Some v \<Rightarrow> v)"

abbreviation header_of :: "request \<Rightarrow> string \<Rightarrow> string" where
  "header_of r k \<equiv> value_or_empty (hr_headers r) k"

abbreviation query_of :: "request \<Rightarrow> string \<Rightarrow> string" where
  "query_of r k \<equiv> value_or_empty (hr_query r) k"

abbreviation path_value :: "request \<Rightarrow> string \<Rightarrow> string" where
  "path_value r k \<equiv> value_or_empty (hr_values r) k"

record cookie =
  ck_name :: string
  ck_value :: string
  ck_http_only :: bool
  ck_secure :: bool
  ck_expires :: time
  ck_max_age :: int

text \<open>The body is the value handed to the JSON encoder, with struct fields under their JSON names.\<close>

datatype reply_body = NoBody | JsonBody gval | BytesBody string

record response =
  rs_status :: int
  rs_headers :: "(string \<times> string) list"
  rs_cookies :: "cookie list"
  rs_body :: reply_body

type_synonym 'w handler = "request \<Rightarrow> 'w \<Rightarrow> response \<times> 'w"

definition reply :: "int \<Rightarrow> gval \<Rightarrow> response" where
  "reply status v =
     \<lparr>rs_status = status, rs_headers = [(''Content-Type'', ''application/json'')], rs_cookies = [],
      rs_body = JsonBody v\<rparr>"

definition empty_reply :: "int \<Rightarrow> response" where
  "empty_reply status = \<lparr>rs_status = status, rs_headers = [], rs_cookies = [], rs_body = NoBody\<rparr>"

lemma reply_simps [simp]:
  "rs_status (reply s v) = s" "rs_body (reply s v) = JsonBody v" "rs_cookies (reply s v) = []"
  "rs_status (empty_reply s) = s" "rs_body (empty_reply s) = NoBody" "rs_cookies (empty_reply s) = []"
  by (simp_all add: reply_def empty_reply_def)


section \<open>The public error envelope\<close>

record public_detail =
  pd_code :: string
  pd_message :: string
  pd_retryable :: bool

abbreviation detail :: "string \<Rightarrow> string \<Rightarrow> bool \<Rightarrow> public_detail" where
  "detail code message retryable \<equiv> \<lparr>pd_code = code, pd_message = message, pd_retryable = retryable\<rparr>"

definition public_error_for_status :: "int \<Rightarrow> public_detail" where
  "public_error_for_status status =
     (if status = 400 \<or> status = 422
      then detail ''INVALID_REQUEST'' ''Check the information entered and try again.'' False
      else if status = 401
      then detail ''UNAUTHORIZED'' ''Your session is missing or has expired. Sign in and try again.'' False
      else if status = 403
      then detail ''FORBIDDEN'' ''The current connection does not allow this action.'' False
      else if status = 404
      then detail ''NOT_FOUND'' ''This item is no longer available. Refresh to load the latest state.'' False
      else if status = 409
      then detail ''CONFLICT'' ''Another operation is already in progress. Wait for it to finish and try again.'' True
      else if status = 429
      then detail ''RATE_LIMITED'' ''Too many requests were sent. Wait a moment and try again.'' True
      else if status = 502
      then detail ''RUNTIME_UNAVAILABLE'' ''The connected runtime did not respond. Confirm it is running and try again.'' True
      else if status = 503
      then detail ''SERVICE_UNAVAILABLE'' ''Capcom is temporarily unavailable. Try again shortly.'' True
      else detail ''INTERNAL'' ''Capcom could not complete the request. Refresh to confirm the latest state before trying again.'' True)"

definition public_error :: "int \<Rightarrow> string \<Rightarrow> public_detail" where
  "public_error status technical =
     (let raw = to_lower (trim_space technical) in
      if str_contains raw ''confirmation must exactly match''
      then detail ''CONFIRMATION_MISMATCH'' ''Enter the exact stable key shown in the confirmation dialog.'' False
      else if str_contains raw ''usage:read''
      then detail ''TELEMETRY_PERMISSION_REQUIRED'' ''The runtime credential needs the usage:read permission.'' False
      else if str_contains raw ''connection refused'' \<or> str_contains raw ''runtime_unavailable'' \<or>
              str_contains raw ''check gantry'' \<or> str_contains raw ''call gantry''
      then detail ''RUNTIME_UNAVAILABLE'' ''The runtime is unreachable. Confirm it is running and its endpoint is correct.'' True
      else if str_contains raw ''database_not_configured''
      then detail ''STORAGE_UNAVAILABLE'' ''Capcom storage is not ready. Try again after the service finishes starting.'' True
      else if str_contains raw ''telemetry_not_configured''
      then detail ''TELEMETRY_NOT_CONFIGURED'' ''Connect a telemetry source before opening metrics.'' False
      else public_error_for_status status)"

definition detail_value :: "public_detail \<Rightarrow> gval" where
  "detail_value d =
     GMap [(''code'', GStr (pd_code d)), (''message'', GStr (pd_message d)), (''retryable'', GBool (pd_retryable d))]"

definition write_api_error_with :: "int \<Rightarrow> gerr \<Rightarrow> gmap \<Rightarrow> response" where
  "write_api_error_with status e extra =
     reply status (GMap (fold (\<lambda>(k, v). mput k v) extra
       [(''error'', detail_value (public_error status (err_text e)))]))"

definition write_api_error :: "int \<Rightarrow> gerr \<Rightarrow> response" where
  "write_api_error status e = write_api_error_with status e []"

text \<open>\<^verbatim>\<open>writeJSON\<close> of an \<^verbatim>\<open>errorResponse\<close> goes through the envelope as well.\<close>

definition write_failure :: "int \<Rightarrow> string \<Rightarrow> response" where
  "write_failure status text = write_api_error status (Text text)"


section \<open>Sessions\<close>

text \<open>The authentication service as the API sees it.  \<^verbatim>\<open>sha256.Sum256\<close> and \<^verbatim>\<open>net.SplitHostPort\<close> are
  parameters, and so is the text of a JSON document: \<open>jl_next\<close> gives the next document of a text and what
  follows it.\<close>

record api_library =
  jl_next :: "string \<Rightarrow> (json \<times> string) option"
  jl_sha256 :: "string \<Rightarrow> string"
  jl_host :: "string \<Rightarrow> string option"

record 'w auth_api =
  qa_signup :: "req_context \<Rightarrow> string \<Rightarrow> string \<Rightarrow> ('w, auth_session) call"
  qa_login :: "req_context \<Rightarrow> string \<Rightarrow> string \<Rightarrow> string \<Rightarrow> ('w, auth_session) call"
  qa_authenticate :: "req_context \<Rightarrow> string \<Rightarrow> ('w, principal) call"
  qa_verify_csrf :: "principal \<Rightarrow> string \<Rightarrow> gerr option"
  qa_logout :: "req_context \<Rightarrow> string \<Rightarrow> ('w, unit) call"

definition session_cookie :: string where "session_cookie = ''capcom_session''"
definition csrf_cookie :: string where "csrf_cookie = ''capcom_csrf''"

definition is_public_path :: "request \<Rightarrow> bool" where
  "is_public_path r \<longleftrightarrow> request_path r = ''/healthz'' \<or> request_path r = ''/'' \<or>
     hr_method r = ''POST'' \<and> (request_path r = ''/auth/login'' \<or> request_path r = ''/auth/signup'')"

definition requires_csrf :: "string \<Rightarrow> bool" where
  "requires_csrf m \<longleftrightarrow> m \<noteq> ''GET'' \<and> m \<noteq> ''HEAD'' \<and> m \<noteq> ''OPTIONS''"

definition authorized_for_request :: "principal \<Rightarrow> request \<Rightarrow> bool" where
  "authorized_for_request who r =
     (let path = request_path r in
      if path = ''/auth/logout'' then True
      else if p_platform_admin who \<or> p_role who = ''owner'' \<or> p_role who = ''admin'' then True
      else if hr_method r = ''GET'' \<or> hr_method r = ''HEAD'' \<or> hr_method r = ''OPTIONS'' then True
      else if p_role who \<noteq> ''operator'' then False
      else if has_prefix path ''/v1/secrets'' then False
      else if has_prefix path ''/v1/runtime-connections'' \<or> has_prefix path ''/v1/runtime-instances''
      then has_suffix path ''/sync'' \<or> has_suffix path ''/test''
      else True)"

definition platform_admin :: principal where
  "platform_admin =
     \<lparr>p_user = '''', p_email = '''', p_org = '''', p_organization = \<lparr>org_id = '''', org_name = '''', org_slug = ''''\<rparr>,
      p_role = ''platform_admin'', p_session = '''', p_csrf_hash = '''', p_platform_admin = True\<rparr>"

text \<open>\<^verbatim>\<open>time.Unix(1, 0)\<close> in nanoseconds since the zero time.\<close>

definition unix_one :: time where
  "unix_one = 62135596801 * second"

definition expired_cookie :: "string \<Rightarrow> bool \<Rightarrow> bool \<Rightarrow> cookie" where
  "expired_cookie name http_only secure =
     \<lparr>ck_name = name, ck_value = '''', ck_http_only = http_only, ck_secure = secure, ck_expires = unix_one,
      ck_max_age = -1\<rparr>"

definition admin_token_given :: "api_library \<Rightarrow> string \<Rightarrow> request \<Rightarrow> bool" where
  "admin_token_given l token r =
     (let header = header_of r ''Authorization'';
          provided = trim_space (trim_prefix header ''Bearer '')
      in token \<noteq> '''' \<and> has_prefix header ''Bearer '' \<and> provided \<noteq> '''' \<and>
         jl_sha256 l token = jl_sha256 l provided)"

definition with_cookies :: "cookie list \<Rightarrow> response \<Rightarrow> response" where
  "with_cookies cs resp = resp\<lparr>rs_cookies := cs @ rs_cookies resp\<rparr>"

definition with_header :: "string \<Rightarrow> string \<Rightarrow> response \<Rightarrow> response" where
  "with_header k v resp = resp\<lparr>rs_headers := (k, v) # rs_headers resp\<rparr>"

definition session_auth :: "api_library \<Rightarrow> 'w handler \<Rightarrow> string \<Rightarrow> 'w auth_api option \<Rightarrow> 'w handler" where
  "session_auth l next_handler token auth r w =
     (if is_public_path r then next_handler r w
      else if admin_token_given l token r
      then next_handler (r\<lparr>hr_context := with_principal (hr_context r) platform_admin\<rparr>) w
      else case auth of
        None \<Rightarrow> (write_api_error 401 (Text ''session authentication is not configured''), w)
      | Some a \<Rightarrow>
          (case map_of (hr_cookies r) session_cookie of
             None \<Rightarrow> (write_api_error 401 (Text ''session required''), w)
           | Some value \<Rightarrow>
               (case qa_authenticate a (hr_context r) value w of
                  (Inl e, w) \<Rightarrow>
                    (with_cookies [expired_cookie session_cookie True False, expired_cookie csrf_cookie False False]
                       (write_api_error 401 e), w)
                | (Inr who, w) \<Rightarrow>
                    if \<not> authorized_for_request who r
                    then (write_api_error 403 (Text ''role does not allow this action''), w)
                    else (case (if requires_csrf (hr_method r)
                                then qa_verify_csrf a who (header_of r ''X-Csrf-Token'') else None) of
                        Some e \<Rightarrow> (write_api_error 403 e, w)
                      | None \<Rightarrow>
                          (case next_handler (r\<lparr>hr_context := with_principal (hr_context r) who\<rparr>) w of
                             (resp, w) \<Rightarrow> (with_header ''Cache-Control'' ''private, no-store'' resp, w))))))"

definition allowed_origins :: "string list \<Rightarrow> string list" where
  "allowed_origins origins = filter (\<lambda>x. x \<noteq> '''') (map trim_space origins)"

definition cors_headers :: "string \<Rightarrow> (string \<times> string) list" where
  "cors_headers origin =
     [(''Access-Control-Allow-Origin'', origin), (''Vary'', ''Origin''),
      (''Access-Control-Allow-Methods'', ''GET, POST, PATCH, DELETE, OPTIONS''),
      (''Access-Control-Allow-Headers'', ''Authorization, Content-Type, X-CSRF-Token''),
      (''Access-Control-Allow-Credentials'', ''true''), (''Access-Control-Max-Age'', ''600'')]"

definition cors_middleware :: "'w handler \<Rightarrow> string list \<Rightarrow> 'w handler" where
  "cors_middleware next_handler origins r w =
     (let origin = header_of r ''Origin'';
          headers = (if origin \<noteq> '''' \<and> List.member (allowed_origins origins) origin
                     then cors_headers origin else []);
          (resp, w') = (if hr_method r = ''OPTIONS'' then (empty_reply 204, w) else next_handler r w)
      in (resp\<lparr>rs_headers := headers @ rs_headers resp\<rparr>, w'))"

text \<open>A handler that panics gives no response (\<^term>\<open>Inl ()\<close>).\<close>

definition recover_middleware :: "(request \<Rightarrow> 'w \<Rightarrow> (unit + response) \<times> 'w) \<Rightarrow> 'w handler" where
  "recover_middleware next_handler r w =
     (case next_handler r w of
        (Inl _, w) \<Rightarrow> (write_api_error 500 (Text ''panic recovered''), w)
      | (Inr resp, w) \<Rightarrow> (resp, w))"

end
