(* ===== verification/Api_Config.thy ===== *)
theory Api_Config
  imports Api_Base Auth_Service Connection_Service Control_Service Telemetry_Service
begin

text \<open>The services as the router sees them (\<^verbatim>\<open>RouterConfig\<close> and the interfaces of
  \<^verbatim>\<open>internal/api/router.go\<close>), what the handlers share, and the handlers of the sessions
  (\<^verbatim>\<open>auth_handlers.go\<close>).  Every call of a service gets the context of the request first.\<close>

section \<open>The services\<close>

record 'w connection_api =
  qc_create :: "req_context \<Rightarrow> create_input \<Rightarrow> ('w, runtime_connection) call"
  qc_update :: "req_context \<Rightarrow> settings_input \<Rightarrow> ('w, runtime_connection) call"
  qc_remove :: "req_context \<Rightarrow> remove_input \<Rightarrow> ('w, unit) call"
  qc_consolidate :: "req_context \<Rightarrow> consolidate_input \<Rightarrow> ('w, runtime_connection) call"
  qc_get :: "req_context \<Rightarrow> string \<Rightarrow> ('w, runtime_connection) call"
  qc_list :: "req_context \<Rightarrow> ('w, runtime_connection list) call"
  qc_test :: "req_context \<Rightarrow> string \<Rightarrow> ('w, check_result) call"
  qc_agents :: "req_context \<Rightarrow> string \<Rightarrow> ('w, agent_snapshot list) call"
  qc_skills :: "req_context \<Rightarrow> string \<Rightarrow> string \<Rightarrow> ('w, skill_snapshot list) call"
  qc_access :: "req_context \<Rightarrow> string \<Rightarrow> string \<Rightarrow> ('w, access_document) call"

record 'w secret_api =
  qs_create :: "req_context \<Rightarrow> store_secret_input \<Rightarrow> ('w, secret) call"
  qs_rotate :: "req_context \<Rightarrow> store_secret_input \<Rightarrow> ('w, secret) call"

record 'w sync_api =
  qy_sync :: "req_context \<Rightarrow> sync_input \<Rightarrow> 'w \<Rightarrow> (sync_run \<times> gerr option) \<times> 'w"
  qy_runs :: "req_context \<Rightarrow> string \<Rightarrow> int \<Rightarrow> ('w, sync_run list) call"
  qy_run :: "req_context \<Rightarrow> string \<Rightarrow> string \<Rightarrow> ('w, sync_run) call"
  qy_agents :: "req_context \<Rightarrow> string \<Rightarrow> ('w, persisted_agent list) call"
  qy_agent :: "req_context \<Rightarrow> string \<Rightarrow> ('w, agent_detail) call"
  qy_subagents :: "req_context \<Rightarrow> string \<Rightarrow> string \<Rightarrow> ('w, subagent_row list) call"
  qy_executions :: "req_context \<Rightarrow> string \<Rightarrow> string \<Rightarrow> string \<Rightarrow> int \<Rightarrow> ('w, execution_row list) call"
  qy_diagnostics :: "req_context \<Rightarrow> string \<Rightarrow> ('w, diagnostic_row list) call"
  qy_inventory :: "req_context \<Rightarrow> string \<Rightarrow> string \<Rightarrow> ('w, inventory_row list) call"
  qy_capabilities :: "req_context \<Rightarrow> string \<Rightarrow> ('w, capability_row list) call"
  qy_delegations :: "req_context \<Rightarrow> string \<Rightarrow> string \<Rightarrow> ('w, delegation_row list) call"

record 'w control_api =
  qk_reconcile :: "req_context \<Rightarrow> string \<Rightarrow> access_document \<Rightarrow> action_request \<Rightarrow> 'w action_result"
  qk_status :: "req_context \<Rightarrow> string \<Rightarrow> agent_status \<Rightarrow> action_request \<Rightarrow> 'w action_result"
  qk_delete :: "req_context \<Rightarrow> string \<Rightarrow> string \<Rightarrow> action_request \<Rightarrow> 'w action_result"
  qk_cancel :: "req_context \<Rightarrow> string \<Rightarrow> action_request \<Rightarrow> 'w action_result"

record 'w telemetry_api =
  qt_summary :: "req_context \<Rightarrow> usage_query \<Rightarrow> ('w, usage_summary) call"
  qt_health :: "req_context \<Rightarrow> string \<Rightarrow> ('w, ingestion_run) call"
  qt_ingest :: "req_context \<Rightarrow> usage_observation list \<Rightarrow> 'w \<Rightarrow> ingest_result \<times> 'w"

record 'w router_config =
  rt_version :: string
  rt_admin_token :: string
  rt_origins :: "string list"
  rt_connections :: "'w connection_api option"
  rt_secrets :: "'w secret_api option"
  rt_sync :: "'w sync_api option"
  rt_control :: "'w control_api option"
  rt_telemetry :: "'w telemetry_api option"
  rt_auth :: "'w auth_api option"
  rt_secure_cookies :: bool
  rt_library :: api_library
  rt_now :: "('w, time) call"


section \<open>What the handlers share\<close>

text \<open>A service that is not configured is answered with 503, a body that does not decode with 400.\<close>

definition with_service :: "'s option \<Rightarrow> string \<Rightarrow> ('s \<Rightarrow> 'w handler) \<Rightarrow> 'w handler" where
  "with_service service text h r w =
     (case service of None \<Rightarrow> (write_failure 503 text, w) | Some s \<Rightarrow> h s r w)"

definition decode_body :: "api_library \<Rightarrow> 'r field list \<Rightarrow> 'r \<Rightarrow> request \<Rightarrow> 'r option" where
  "decode_body l fs zero r =
     (case jl_next l (hr_body r) of None \<Rightarrow> None | Some (j, rest) \<Rightarrow> decode_object fs j zero)"

definition with_body ::
    "api_library \<Rightarrow> 'r field list \<Rightarrow> 'r \<Rightarrow> ('r \<Rightarrow> 'w handler) \<Rightarrow> 'w handler" where
  "with_body l fs zero h r w =
     (case decode_body l fs zero r of None \<Rightarrow> (write_failure 400 ''invalid_json'', w) | Some b \<Rightarrow> h b r w)"

text \<open>The answer to a call: \<open>failed\<close> gives the response to its error, \<open>view\<close> the value that is written.\<close>

definition answer :: "(gerr \<Rightarrow> response) \<Rightarrow> int \<Rightarrow> ('a \<Rightarrow> gval) \<Rightarrow> ('w, 'a) call \<Rightarrow> 'w \<Rightarrow> response \<times> 'w" where
  "answer failed status view m w =
     (case m w of (Inl e, w) \<Rightarrow> (failed e, w) | (Inr x, w) \<Rightarrow> (reply status (view x), w))"

definition missing_as_404 :: "int \<Rightarrow> gerr \<Rightarrow> response" where
  "missing_as_404 status e = write_api_error (if err_is e NoRows then 404 else status) e"

text \<open>The handlers that answer a missing row with the text \<^verbatim>\<open>not_found\<close>.\<close>

definition missing_or :: "response \<Rightarrow> gerr \<Rightarrow> response" where
  "missing_or other e = (if err_is e NoRows then write_failure 404 ''not_found'' else other)"

definition request_actor :: "request \<Rightarrow> string \<Rightarrow> string" where
  "request_actor r supplied =
     (case principal_from (hr_context r) of
        Some who \<Rightarrow> if p_platform_admin who then trim_space supplied else p_email who
      | None \<Rightarrow> trim_space supplied)"

definition client_address :: "api_library \<Rightarrow> request \<Rightarrow> string" where
  "client_address l r = (case jl_host l (hr_remote r) of Some host \<Rightarrow> host | None \<Rightarrow> hr_remote r)"

definition optional_text :: "string \<Rightarrow> string \<Rightarrow> gmap" where
  "optional_text k v = (if v = '''' then [] else [(k, GStr v)])"

definition optional_time :: "string \<Rightarrow> time option \<Rightarrow> gmap" where
  "optional_time k t = (case t of None \<Rightarrow> [] | Some x \<Rightarrow> [(k, GStr (rfc3339 x))])"

definition optional_map :: "string \<Rightarrow> gmap \<Rightarrow> gmap" where
  "optional_map k m = (if m = [] then [] else [(k, GMap m)])"

definition time_value :: "time option \<Rightarrow> gval" where
  "time_value t = (case t of None \<Rightarrow> GNil | Some x \<Rightarrow> GTime x)"

definition text_values :: "string list \<Rightarrow> gval" where
  "text_values xs = GList (map GStr xs)"


section \<open>Sessions\<close>

record auth_request =
  zq_email :: string
  zq_password :: string

definition auth_request_fields :: "auth_request field list" where
  "auth_request_fields = [string_field ''email'' zq_email_update, string_field ''password'' zq_password_update]"

definition json_space :: "string \<Rightarrow> bool" where
  "json_space s = list_all (\<lambda>c. c = CHR 0x20 \<or> c = CHR 0x09 \<or> c = CHR 0x0A \<or> c = CHR 0x0D) s"

definition known_keys :: "'r field list \<Rightarrow> json \<Rightarrow> bool" where
  "known_keys fs j =
     (case j of JObject kvs \<Rightarrow> list_all (\<lambda>kv. List.find (\<lambda>f. equal_fold (fst f) (fst kv)) fs \<noteq> None) kvs | _ \<Rightarrow> True)"

definition decode_auth_request :: "api_library \<Rightarrow> request \<Rightarrow> auth_request res" where
  "decode_auth_request l r =
     (case jl_next l (take (16 * 1024) (hr_body r)) of
        None \<Rightarrow> Inl (Text ''invalid JSON'')
      | Some (j, rest) \<Rightarrow>
          if \<not> known_keys auth_request_fields j then Inl (Text ''json: unknown field'')
          else (case decode_object auth_request_fields j \<lparr>zq_email = '''', zq_password = ''''\<rparr> of
             None \<Rightarrow> Inl (Text ''json: cannot unmarshal'')
           | Some b \<Rightarrow>
               if \<not> json_space rest then Inl (Text ''request must contain one JSON object'')
               else if blank (zq_email b) \<or> zq_password b = '''' then Inl (Text ''email and password are required'')
               else Inr b))"

definition fixed_error :: "int \<Rightarrow> string \<Rightarrow> string \<Rightarrow> response" where
  "fixed_error status code message = reply status (GMap [(''error'', detail_value (detail code message False))])"

definition write_auth_error :: "gerr \<Rightarrow> response" where
  "write_auth_error e =
     (if err_is e InvalidCredentials
      then fixed_error 401 ''INVALID_CREDENTIALS'' ''The email or password is incorrect.''
      else if err_is e EmailUnavailable
      then fixed_error 409 ''ACCOUNT_UNAVAILABLE'' ''An account could not be created with those details.''
      else if err_is e WeakPassword
      then fixed_error 422 ''WEAK_PASSWORD'' ''Use a password between 15 and 128 characters that is not commonly used.''
      else if err_is e RateLimited then write_api_error 429 e
      else write_api_error 500 e)"

definition organization_value :: "organization \<Rightarrow> gval" where
  "organization_value x = GMap [(''id'', GStr (org_id x)), (''name'', GStr (org_name x)), (''slug'', GStr (org_slug x))]"

definition user_value :: "user \<Rightarrow> gval" where
  "user_value u = GMap [(''id'', GStr (u_id u)), (''email'', GStr (u_email u)), (''created_at'', GTime (u_created u))]"

definition auth_response :: "user \<Rightarrow> organization \<Rightarrow> string \<Rightarrow> gval" where
  "auth_response u x role = GMap [(''user'', user_value u), (''organization'', organization_value x), (''role'', GStr role)]"

text \<open>Each cookie reads the clock for its age.\<close>

definition auth_cookie ::
    "'w router_config \<Rightarrow> string \<Rightarrow> string \<Rightarrow> bool \<Rightarrow> time \<Rightarrow> 'w \<Rightarrow> cookie \<times> 'w" where
  "auth_cookie cfg name value http_only expiry w =
     (case rt_now cfg w of
        (t, w) \<Rightarrow>
          (\<lparr>ck_name = name, ck_value = value, ck_http_only = http_only, ck_secure = rt_secure_cookies cfg,
            ck_expires = expiry,
            ck_max_age = tquot (time_sub expiry (case t of Inl _ \<Rightarrow> 0 | Inr x \<Rightarrow> x)) second\<rparr>, w))"

definition set_auth_cookies :: "'w router_config \<Rightarrow> auth_session \<Rightarrow> 'w \<Rightarrow> cookie list \<times> 'w" where
  "set_auth_cookies cfg s w =
     (case auth_cookie cfg session_cookie (se_token s) True (se_absolute s) w of
        (a, w) \<Rightarrow>
          (case auth_cookie cfg csrf_cookie (se_csrf s) False (se_absolute s) w of (b, w) \<Rightarrow> ([a, b], w)))"

definition clear_auth_cookies :: "'w router_config \<Rightarrow> cookie list" where
  "clear_auth_cookies cfg =
     [expired_cookie session_cookie True (rt_secure_cookies cfg), expired_cookie csrf_cookie False (rt_secure_cookies cfg)]"

definition start_web_session ::
    "'w router_config \<Rightarrow> int \<Rightarrow> ('w, auth_session) call \<Rightarrow> 'w \<Rightarrow> response \<times> 'w" where
  "start_web_session cfg status m w =
     (case m w of
        (Inl e, w) \<Rightarrow> (write_auth_error e, w)
      | (Inr s, w) \<Rightarrow>
          (case set_auth_cookies cfg s w of
             (cs, w) \<Rightarrow> (with_cookies cs (reply status (auth_response (se_user s) (se_organization s) (se_role s))), w)))"

definition handle_signup :: "'w router_config \<Rightarrow> 'w handler" where
  "handle_signup cfg = with_service (rt_auth cfg) ''authentication not configured'' (\<lambda>a r w.
     case decode_auth_request (rt_library cfg) r of
       Inl e \<Rightarrow> (write_api_error 400 e, w)
     | Inr b \<Rightarrow> start_web_session cfg 201 (qa_signup a (hr_context r) (zq_email b) (zq_password b)) w)"

definition handle_login :: "'w router_config \<Rightarrow> 'w handler" where
  "handle_login cfg = with_service (rt_auth cfg) ''authentication not configured'' (\<lambda>a r w.
     case decode_auth_request (rt_library cfg) r of
       Inl e \<Rightarrow> (write_api_error 400 e, w)
     | Inr b \<Rightarrow> start_web_session cfg 200
         (qa_login a (hr_context r) (zq_email b) (zq_password b) (client_address (rt_library cfg) r)) w)"

text \<open>A principal that is not the platform administrator comes from a session, so the authentication
  service is configured when \<^verbatim>\<open>Logout\<close> is reached.\<close>

definition handle_logout :: "'w router_config \<Rightarrow> 'w handler" where
  "handle_logout cfg r w =
     (case (principal_from (hr_context r), rt_auth cfg) of
        (Some who, Some a) \<Rightarrow>
          if p_platform_admin who then (write_api_error 401 (Text ''session required''), w)
          else (case qa_logout a (hr_context r) (p_session who) w of
             (Inl e, w) \<Rightarrow> (write_api_error 500 e, w)
           | (Inr _, w) \<Rightarrow> (with_cookies (clear_auth_cookies cfg) (empty_reply 204), w))
      | _ \<Rightarrow> (write_api_error 401 (Text ''session required''), w))"

definition handle_me :: "'w router_config \<Rightarrow> 'w handler" where
  "handle_me cfg r w =
     (case principal_from (hr_context r) of
        None \<Rightarrow> (write_api_error 401 (Text ''user session required''), w)
      | Some who \<Rightarrow>
          if p_platform_admin who then (write_api_error 401 (Text ''user session required''), w)
          else (reply 200 (auth_response \<lparr>u_id = p_user who, u_email = p_email who, u_created = 0\<rparr>
                  (p_organization who) (p_role who)), w))"

text \<open>The authentication service behind the API, on its own ports.\<close>

definition auth_api_of :: "(req_context \<Rightarrow> 'w auth_ports) \<Rightarrow> 'w auth_world auth_api" where
  "auth_api_of ports =
     \<lparr>qa_signup = \<lambda>ctx email password. stored (signup (ports ctx) email password),
      qa_login = \<lambda>ctx. login (ports ctx),
      qa_authenticate = \<lambda>ctx token. stored (authenticate (ports ctx) token),
      qa_verify_csrf = verify_csrf (ap_library (ports None)),
      qa_logout = \<lambda>ctx sid. stored (logout (ports ctx) sid)\<rparr>"

end
