(* ===== verification/Api_Handlers.thy ===== *)
theory Api_Handlers
  imports Api_Config
begin

text \<open>The handlers of the service root, of secrets and of runtime connections with the live reads of a
  runtime (\<^verbatim>\<open>router.go\<close>).  The model of a connection, of an endpoint and of a control action
  has no time of creation and update, so the views leave out \<^verbatim>\<open>created_at\<close> and \<^verbatim>\<open>updated_at\<close> of these.\<close>

section \<open>The service itself\<close>

definition handle_service_root :: "'w router_config \<Rightarrow> 'w handler" where
  "handle_service_root cfg r w =
     (reply 200 (GMap [(''service'', GStr ''capcom''), (''version'', GStr (rt_version cfg))]), w)"

definition handle_health :: "'w router_config \<Rightarrow> 'w handler" where
  "handle_health cfg r w =
     (reply 200 (GMap [(''status'', GStr ''ok''), (''service'', GStr ''capcom''), (''version'', GStr (rt_version cfg))]), w)"

definition handle_not_found :: "'w handler" where
  "handle_not_found r w = (write_failure 404 ''not_found'', w)"


section \<open>Secrets\<close>

definition store_secret_fields :: "store_secret_input field list" where
  "store_secret_fields =
     [string_field ''name'' ss_name_update, string_field ''value'' ss_value_update,
      string_field ''actor'' ss_actor_update, string_field ''reason'' ss_reason_update]"

definition empty_secret_request :: store_secret_input where
  "empty_secret_request = \<lparr>ss_name = '''', ss_value = '''', ss_actor = '''', ss_reason = ''''\<rparr>"

definition secret_response :: "secret \<Rightarrow> gval" where
  "secret_response s =
     GMap [(''id'', GStr (sc_id s)), (''name'', GStr (sc_name s)),
       (''created_at'', GStr (rfc3339 (sc_created_at s))), (''updated_at'', GStr (rfc3339 (sc_updated_at s)))]"

definition handle_create_secret :: "'w router_config \<Rightarrow> 'w handler" where
  "handle_create_secret cfg = with_service (rt_secrets cfg) ''secret_storage_not_configured'' (\<lambda>s.
     with_body (rt_library cfg) store_secret_fields empty_secret_request (\<lambda>b r.
     answer (write_api_error 400) 201 secret_response
       (qs_create s (hr_context r) (b\<lparr>ss_actor := request_actor r (ss_actor b)\<rparr>))))"

definition handle_rotate_secret :: "'w router_config \<Rightarrow> 'w handler" where
  "handle_rotate_secret cfg = with_service (rt_secrets cfg) ''secret_storage_not_configured'' (\<lambda>s.
     with_body (rt_library cfg) store_secret_fields empty_secret_request (\<lambda>b r.
     answer (\<lambda>e. if err_is e SecretNotFound then write_failure 404 ''not_found'' else write_api_error 400 e)
       200 secret_response
       (qs_rotate s (hr_context r)
          (b\<lparr>ss_name := path_value r ''name'', ss_actor := request_actor r (ss_actor b)\<rparr>))))"


section \<open>Runtime connections\<close>

definition runtime_mode_of :: "string \<Rightarrow> runtime_mode" where
  "runtime_mode_of s =
     (if s = ''read_only'' then ModeReadOnly else if s = ''control_enabled'' then ModeControlEnabled else ModeOther s)"

text \<open>The service refuses every kind but an alias and a relay, so the texts that are none of the three
  kinds are read as the canonical one.\<close>

definition endpoint_kind_of :: "string \<Rightarrow> endpoint_kind" where
  "endpoint_kind_of s =
     (if s = ''alias'' then EndpointAlias else if s = ''relay'' then EndpointRelay else EndpointCanonical)"

definition labels_field :: "string \<Rightarrow> (((string \<times> string) list \<Rightarrow> (string \<times> string) list) \<Rightarrow> 'r \<Rightarrow> 'r) \<Rightarrow> 'r field" where
  "labels_field name upd = (name, \<lambda>j r. map_option (\<lambda>m. upd (\<lambda>_. m) r) (text_map j))"

definition kind_field :: "string \<Rightarrow> ((runtime_kind \<Rightarrow> runtime_kind) \<Rightarrow> 'r \<Rightarrow> 'r) \<Rightarrow> 'r field" where
  "kind_field name upd = string_field name (\<lambda>f. upd (\<lambda>k. runtime_kind_of (f (runtime_kind_text k))))"

definition mode_field :: "string \<Rightarrow> ((runtime_mode \<Rightarrow> runtime_mode) \<Rightarrow> 'r \<Rightarrow> 'r) \<Rightarrow> 'r field" where
  "mode_field name upd = string_field name (\<lambda>f. upd (\<lambda>m. runtime_mode_of (f (runtime_mode_text m))))"

definition create_connection_fields :: "create_input field list" where
  "create_connection_fields =
     [string_field ''name'' ci_name_update, string_field ''display_name'' ci_display_name_update,
      string_field ''environment'' ci_environment_update, labels_field ''labels'' ci_labels_update,
      kind_field ''runtime_type'' ci_kind_update, mode_field ''mode'' ci_mode_update,
      string_field ''endpoint'' ci_endpoint_update, string_field ''actor'' ci_actor_update,
      string_field ''reason'' ci_reason_update, string_field ''description'' ci_description_update,
      string_field ''auth_ref'' ci_auth_ref_update]"

definition empty_create_request :: create_input where
  "empty_create_request =
     \<lparr>ci_name = '''', ci_display_name = '''', ci_environment = '''', ci_labels = [], ci_kind = KindOther '''',
      ci_mode = ModeOther '''', ci_endpoint = '''', ci_actor = '''', ci_reason = '''', ci_description = '''',
      ci_auth_ref = ''''\<rparr>"

definition settings_fields :: "settings_input field list" where
  "settings_fields =
     [string_field ''display_name'' ui_display_name_update, string_field ''environment'' ui_environment_update,
      labels_field ''labels'' ui_labels_update, mode_field ''mode'' ui_mode_update,
      string_field ''endpoint'' ui_endpoint_update, string_field ''auth_ref'' ui_auth_ref_update,
      string_field ''description'' ui_description_update, bool_field ''sync_enabled'' ui_sync_enabled_update,
      int_field ''sync_interval_seconds'' ui_sync_interval_update, string_field ''actor'' ui_actor_update,
      string_field ''reason'' ui_reason_update]"

definition empty_settings_request :: settings_input where
  "empty_settings_request =
     \<lparr>ui_id = '''', ui_display_name = '''', ui_environment = '''', ui_labels = [], ui_mode = ModeOther '''',
      ui_endpoint = '''', ui_auth_ref = '''', ui_description = '''', ui_sync_enabled = False, ui_sync_interval = 0,
      ui_actor = '''', ui_reason = ''''\<rparr>"

definition remove_fields :: "remove_input field list" where
  "remove_fields =
     [string_field ''confirmation'' ri_confirmation_update, string_field ''actor'' ri_actor_update,
      string_field ''reason'' ri_reason_update]"

definition consolidate_fields :: "consolidate_input field list" where
  "consolidate_fields =
     [string_field ''duplicate_runtime_instance_id'' oi_duplicate_update,
      string_field ''kind'' (\<lambda>f. oi_kind_update (\<lambda>k. endpoint_kind_of (f ''''))),
      string_field ''confirmation'' oi_confirmation_update, string_field ''actor'' oi_actor_update,
      string_field ''reason'' oi_reason_update]"

definition empty_consolidate_request :: consolidate_input where
  "empty_consolidate_request =
     \<lparr>oi_canonical = '''', oi_duplicate = '''', oi_kind = EndpointCanonical, oi_confirmation = '''', oi_actor = '''',
      oi_reason = ''''\<rparr>"

definition endpoint_response :: "runtime_endpoint \<Rightarrow> gval" where
  "endpoint_response x =
     GMap ([(''id'', GStr (ep_id x)), (''endpoint'', GStr (ep_url x)), (''kind'', GStr (endpoint_kind_text (ep_kind x))),
       (''auth_ref'', GStr (ep_auth_ref x))] @ optional_text ''source_runtime_instance_id'' (ep_source x))"

definition text_of :: "gval option \<Rightarrow> string" where
  "text_of v = (case v of Some (GStr s) \<Rightarrow> s | _ \<Rightarrow> '''')"

text \<open>The error a synchronisation left on a connection is shown as the public message only.\<close>

definition public_message :: "int \<Rightarrow> string \<Rightarrow> string" where
  "public_message status technical = (if technical = '''' then '''' else pd_message (public_error status technical))"

definition connection_response :: "runtime_connection \<Rightarrow> gval" where
  "connection_response c =
     GMap ([(''id'', GStr (rc_id c)), (''name'', GStr (rc_name c)), (''display_name'', GStr (rc_display_name c)),
        (''environment'', GStr (rc_environment c)), (''labels'', GMap (map (\<lambda>(k, v). (k, GStr v)) (rc_labels c)))] @
       optional_text ''description'' (text_of (map_of (rc_metadata c) ''description'')) @
       [(''runtime_type'', GStr (runtime_kind_text (rc_kind c))), (''mode'', GStr (runtime_mode_text (rc_mode c))),
        (''status'', GStr (runtime_status_text (rc_status c))), (''endpoint'', GStr (rc_base_url c)),
        (''auth_ref'', GStr (rc_auth_ref c))] @
       optional_time ''last_synced_at'' (rc_last_synced_at c) @
       [(''sync_enabled'', GBool (rc_sync_enabled c)), (''sync_interval_seconds'', GInt (rc_sync_interval c))] @
       optional_text ''last_sync_status'' (sync_status_text (rc_last_sync_status c)) @
       optional_time ''last_sync_started_at'' (rc_last_sync_started c) @
       optional_time ''last_sync_finished_at'' (rc_last_sync_finished c) @
       (if rc_last_sync_duration c = 0 then [] else [(''last_sync_duration_ms'', GInt (rc_last_sync_duration c))]) @
       optional_text ''last_error'' (public_message 503 (rc_last_error c)) @
       [(''endpoints'', GList (map endpoint_response (rc_endpoints c)))])"

definition handle_create_connection :: "'w router_config \<Rightarrow> 'w handler" where
  "handle_create_connection cfg = with_service (rt_connections cfg) ''database_not_configured'' (\<lambda>s.
     with_body (rt_library cfg) create_connection_fields empty_create_request (\<lambda>b r.
     answer (write_api_error 400) 201 connection_response
       (qc_create s (hr_context r) (b\<lparr>ci_actor := request_actor r (ci_actor b)\<rparr>))))"

definition handle_list_connections :: "'w router_config \<Rightarrow> 'w handler" where
  "handle_list_connections cfg = with_service (rt_connections cfg) ''database_not_configured'' (\<lambda>s r.
     answer (\<lambda>_. write_failure 500 ''list_runtime_connections_failed'') 200 (\<lambda>cs. GList (map connection_response cs))
       (qc_list s (hr_context r)))"

definition handle_get_connection :: "'w router_config \<Rightarrow> 'w handler" where
  "handle_get_connection cfg = with_service (rt_connections cfg) ''database_not_configured'' (\<lambda>s r.
     answer (missing_or (write_failure 500 ''get_runtime_connection_failed'')) 200 connection_response
       (qc_get s (hr_context r) (path_value r ''id'')))"

definition handle_update_settings :: "'w router_config \<Rightarrow> 'w handler" where
  "handle_update_settings cfg = with_service (rt_connections cfg) ''database_not_configured'' (\<lambda>s.
     with_body (rt_library cfg) settings_fields empty_settings_request (\<lambda>b r.
     answer (missing_as_404 400) 200 connection_response
       (qc_update s (hr_context r) (b\<lparr>ui_id := path_value r ''id'', ui_actor := request_actor r (ui_actor b)\<rparr>))))"

definition handle_remove_connection :: "'w router_config \<Rightarrow> 'w handler" where
  "handle_remove_connection cfg = with_service (rt_connections cfg) ''database_not_configured'' (\<lambda>s.
     with_body (rt_library cfg) remove_fields \<lparr>ri_id = '''', ri_confirmation = '''', ri_actor = '''', ri_reason = ''''\<rparr>
       (\<lambda>b r w.
        case qc_remove s (hr_context r) (b\<lparr>ri_id := path_value r ''id'', ri_actor := request_actor r (ri_actor b)\<rparr>) w of
          (Inl e, w) \<Rightarrow> (missing_as_404 400 e, w)
        | (Inr _, w) \<Rightarrow> (empty_reply 204, w)))"

definition handle_consolidate :: "'w router_config \<Rightarrow> 'w handler" where
  "handle_consolidate cfg = with_service (rt_connections cfg) ''database_not_configured'' (\<lambda>s.
     with_body (rt_library cfg) consolidate_fields empty_consolidate_request (\<lambda>b r.
     answer (missing_as_404 400) 200 connection_response
       (qc_consolidate s (hr_context r)
          (b\<lparr>oi_canonical := path_value r ''id'', oi_actor := request_actor r (oi_actor b)\<rparr>))))"

definition capabilities_value :: "capabilities \<Rightarrow> gval" where
  "capabilities_value c =
     GMap [(''read_agents'', GBool (can_read_agents c)), (''read_agent_hierarchy'', GBool (can_read_hierarchy c)),
       (''read_agent_delegates'', GBool (can_read_delegates c)), (''read_agent_skills'', GBool (can_read_skills c)),
       (''read_agent_access'', GBool (can_read_access c)), (''replace_agent_access'', GBool (can_replace_access c)),
       (''read_subagent_executions'', GBool (can_read_subagents c)), (''read_executions'', GBool (can_read_executions c)),
       (''read_diagnostics'', GBool (can_read_diagnostics c)), (''read_inventory'', GBool (can_read_inventory c)),
       (''read_capability_catalog'', GBool (can_read_catalog c)), (''set_agent_status'', GBool (can_set_status c)),
       (''delete_agent'', GBool (can_delete_agent c)), (''cancel_execution'', GBool (can_cancel c))]"

definition test_response :: "check_result \<Rightarrow> gval" where
  "test_response x =
     GMap ([(''status'', GStr (runtime_status_text (ck_status x))), (''message'', GStr (ck_message x)),
       (''capabilities'', capabilities_value (ck_capabilities x))] @ optional_map ''metadata'' (ck_metadata x))"

text \<open>A call that reaches the runtime: a missing row is 404, any other error 502.\<close>

definition live_failure :: "gerr \<Rightarrow> response" where
  "live_failure e = missing_or (write_api_error 502 e) e"

definition handle_test_connection :: "'w router_config \<Rightarrow> 'w handler" where
  "handle_test_connection cfg = with_service (rt_connections cfg) ''database_not_configured'' (\<lambda>s r.
     answer live_failure 200 test_response (qc_test s (hr_context r) (path_value r ''id'')))"

fun agent_kind_text :: "agent_kind \<Rightarrow> string" where
  "agent_kind_text AgentMain = ''main''"
| "agent_kind_text AgentRegistered = ''registered''"
| "agent_kind_text AgentSubagent = ''subagent''"
| "agent_kind_text (AgentKindOther s) = s"

definition agent_response :: "agent_snapshot \<Rightarrow> gval" where
  "agent_response a =
     GMap ([(''runtime_agent_id'', GStr (as_id a))] @ optional_text ''parent_runtime_agent_id'' (as_parent a) @
       [(''kind'', GStr (agent_kind_text (as_kind a))), (''name'', GStr (as_name a)),
        (''status'', GStr (agent_status_text (as_status a)))] @ optional_map ''metadata'' (as_metadata a) @
       [(''observed_at'', GStr (rfc3339 (as_observed_at a)))])"

definition skill_response :: "skill_snapshot \<Rightarrow> gval" where
  "skill_response k =
     GMap ([(''runtime_skill_id'', GStr (sk_id k)), (''name'', GStr (sk_name k))] @
       optional_text ''description'' (sk_description k) @ optional_text ''source'' (sk_source k) @
       [(''status'', GStr (sk_status k))] @ optional_text ''version'' (sk_version k) @
       [(''tool_ids'', text_values (sk_tools k)), (''workflow_refs'', text_values (sk_workflows k))] @
       optional_map ''metadata'' (sk_metadata k) @ [(''observed_at'', GStr (rfc3339 (sk_observed_at k)))])"

definition selection_response :: "access_selection \<Rightarrow> gval" where
  "selection_response x =
     GMap ([(''kind'', GStr (sel_kind x)), (''id'', GStr (sel_id x)), (''name'', GStr (sel_name x)),
       (''allowed'', GBool (sel_allowed x))] @ optional_map ''attributes'' (sel_attributes x))"

definition access_response :: "access_document \<Rightarrow> gval" where
  "access_response a =
     GMap [(''agent_id'', GStr (acc_agent a)), (''selections'', GList (map selection_response (acc_selections a))),
       (''observed_at'', GStr (rfc3339 (acc_observed_at a))), (''source'', GStr (acc_source a))]"

definition handle_list_live_agents :: "'w router_config \<Rightarrow> 'w handler" where
  "handle_list_live_agents cfg = with_service (rt_connections cfg) ''database_not_configured'' (\<lambda>s r.
     answer live_failure 200 (\<lambda>xs. GList (map agent_response xs)) (qc_agents s (hr_context r) (path_value r ''id'')))"

definition handle_live_access :: "'w router_config \<Rightarrow> 'w handler" where
  "handle_live_access cfg = with_service (rt_connections cfg) ''database_not_configured'' (\<lambda>s r.
     answer live_failure 200 access_response
       (qc_access s (hr_context r) (path_value r ''id'') (path_value r ''agentID'')))"

definition handle_live_skills :: "'w router_config \<Rightarrow> 'w handler" where
  "handle_live_skills cfg = with_service (rt_connections cfg) ''database_not_configured'' (\<lambda>s r.
     answer live_failure 200 (\<lambda>xs. GList (map skill_response xs))
       (qc_skills s (hr_context r) (path_value r ''id'') (path_value r ''agentID'')))"

end
