(* ===== verification/Api_Records.thy ===== *)
theory Api_Records
  imports Api_Handlers
begin

text \<open>The handlers of control actions (\<^verbatim>\<open>control_handlers.go\<close>), of synchronisation and the stored agents
  and executions (\<^verbatim>\<open>sync_handlers.go\<close>), of the stored inventory
  (\<^verbatim>\<open>runtime_inventory_handlers.go\<close>) and of delegations (\<^verbatim>\<open>agent_delegation_handlers.go\<close>).\<close>

section \<open>Control actions\<close>

definition selection_fields :: "access_selection field list" where
  "selection_fields =
     [string_field ''kind'' sel_kind_update, string_field ''id'' sel_id_update, string_field ''name'' sel_name_update,
      bool_field ''allowed'' sel_allowed_update, map_field ''attributes'' sel_attributes_update]"

definition selection_element :: "json \<Rightarrow> access_selection option" where
  "selection_element j = decode_object selection_fields j
     \<lparr>sel_kind = '''', sel_id = '''', sel_name = '''', sel_allowed = False, sel_attributes = []\<rparr>"

text \<open>The four request bodies: what they have in common, and the argument of the operation.\<close>

record action_body =
  ab_selections :: "access_selection list option"
  ab_status :: string
  ab_confirmation :: string
  ab_request :: action_request

definition empty_action_body :: action_body where
  "empty_action_body = \<lparr>ab_selections = None, ab_status = '''', ab_confirmation = '''',
     ab_request = \<lparr>rq_actor = '''', rq_reason = '''', rq_key = '''', rq_dry_run = False\<rparr>\<rparr>"

definition action_fields :: "action_body field list" where
  "action_fields =
     [string_field ''actor'' (\<lambda>f. ab_request_update (rq_actor_update f)),
      string_field ''reason'' (\<lambda>f. ab_request_update (rq_reason_update f)),
      string_field ''idempotency_key'' (\<lambda>f. ab_request_update (rq_key_update f)),
      bool_field ''dry_run'' (\<lambda>f. ab_request_update (rq_dry_run_update f))]"

definition reconcile_fields :: "action_body field list" where
  "reconcile_fields = list_field ''selections'' selection_element ab_selections_update # action_fields"

definition status_fields :: "action_body field list" where
  "status_fields = string_field ''status'' ab_status_update # action_fields"

definition delete_fields :: "action_body field list" where
  "delete_fields = string_field ''confirmation'' ab_confirmation_update # action_fields"

definition action_response :: "control_action \<Rightarrow> gval" where
  "action_response a =
     GMap [(''id'', GStr (ca_id a)), (''runtime_connection_id'', GStr (ca_conn a)), (''agent_id'', GStr (ca_agent a)),
       (''action_type'', GStr (ca_type a)), (''status'', GStr (control_action_status_text (ca_status a))),
       (''actor'', GStr (ca_actor a)), (''reason'', GStr (ca_reason a)), (''idempotency_key'', GStr (ca_key a)),
       (''result'', GMap (ca_result a))]"

definition answer_action :: "'w action_result \<Rightarrow> 'w \<Rightarrow> response \<times> 'w" where
  "answer_action m w =
     (case m w of
        ((action, Some e), w) \<Rightarrow> (write_api_error_with 400 e [(''action'', action_response action)], w)
      | ((action, None), w) \<Rightarrow> (reply 200 (action_response action), w))"

definition action_of :: "request \<Rightarrow> action_body \<Rightarrow> action_request" where
  "action_of r b = (ab_request b)\<lparr>rq_actor := request_actor r (rq_actor (ab_request b))\<rparr>"

definition handle_set_agent_status :: "'w router_config \<Rightarrow> 'w handler" where
  "handle_set_agent_status cfg = with_service (rt_control cfg) ''control_actions_not_configured'' (\<lambda>s.
     with_body (rt_library cfg) status_fields empty_action_body (\<lambda>b r.
     answer_action (qk_status s (hr_context r) (path_value r ''id'') (agent_status_of (ab_status b)) (action_of r b))))"

definition handle_reconcile_access :: "'w router_config \<Rightarrow> 'w handler" where
  "handle_reconcile_access cfg = with_service (rt_control cfg) ''control_actions_not_configured'' (\<lambda>s.
     with_body (rt_library cfg) reconcile_fields empty_action_body (\<lambda>b r.
     answer_action (qk_reconcile s (hr_context r) (path_value r ''id'')
       (no_access\<lparr>acc_selections := elems (ab_selections b), acc_source := ''capcom''\<rparr>) (action_of r b))))"

definition handle_delete_agent :: "'w router_config \<Rightarrow> 'w handler" where
  "handle_delete_agent cfg = with_service (rt_control cfg) ''control_actions_not_configured'' (\<lambda>s.
     with_body (rt_library cfg) delete_fields empty_action_body (\<lambda>b r.
     answer_action (qk_delete s (hr_context r) (path_value r ''id'') (ab_confirmation b) (action_of r b))))"

definition handle_cancel_execution :: "'w router_config \<Rightarrow> 'w handler" where
  "handle_cancel_execution cfg = with_service (rt_control cfg) ''control_actions_not_configured'' (\<lambda>s.
     with_body (rt_library cfg) action_fields empty_action_body (\<lambda>b r.
     answer_action (qk_cancel s (hr_context r) (path_value r ''id'') (action_of r b))))"


section \<open>Synchronisation\<close>

definition sync_fields :: "sync_input field list" where
  "sync_fields = [string_field ''actor'' si_actor_update, string_field ''reason'' si_reason_update]"

definition run_response :: "sync_run \<Rightarrow> gval" where
  "run_response x =
     GMap [(''id'', GStr (run_id x)), (''runtime_connection_id'', GStr (run_conn x)),
       (''trigger'', GStr (sync_trigger_text (run_trigger x))), (''status'', GStr (sync_status_text (run_status x))),
       (''started_at'', GTime (run_started x)), (''finished_at'', time_value (run_finished x)),
       (''duration_ms'', GInt (run_duration x)), (''agents_seen'', GInt (int (run_agents x))),
       (''skills_seen'', GInt (int (run_skills x))), (''bindings_seen'', GInt (int (run_bindings x))),
       (''access_documents_seen'', GInt (int (run_access x))), (''executions_seen'', GInt (int (run_executions x))),
       (''diagnostics_seen'', GInt (int (run_diagnostics x))), (''inventory_seen'', GInt (int (run_inventory x))),
       (''capabilities_seen'', GInt (int (run_capabilities x))), (''delegations_seen'', GInt (int (run_delegations x))),
       (''error_code'', GStr (run_error_code x)), (''error_message'', GStr (public_message 502 (run_error_message x)))]"

definition sync_failure_status :: "gerr \<Rightarrow> sync_run \<Rightarrow> int" where
  "sync_failure_status e x =
     (let status = (if err_is e NoRows then 404 else if err_is e SyncConflict then 409 else 502)
      in if run_id x = '''' \<and> status = 502 then 400 else status)"

definition handle_sync_runtime :: "'w router_config \<Rightarrow> 'w handler" where
  "handle_sync_runtime cfg = with_service (rt_sync cfg) ''sync_not_configured'' (\<lambda>s.
     with_body (rt_library cfg) sync_fields
       \<lparr>si_conn = '''', si_trigger = TriggerManual, si_actor = '''', si_reason = ''''\<rparr> (\<lambda>b r w.
     case qy_sync s (hr_context r)
            (b\<lparr>si_conn := path_value r ''id'', si_actor := request_actor r (si_actor b)\<rparr>) w of
       ((x, Some e), w) \<Rightarrow> (write_api_error_with (sync_failure_status e x) e [(''sync_run'', run_response x)], w)
     | ((x, None), w) \<Rightarrow> (reply 200 (run_response x), w)))"

definition list_view :: "('a \<Rightarrow> gval) \<Rightarrow> 'a list \<Rightarrow> gval" where
  "list_view view xs = GList (map view xs)"

definition handle_list_runs :: "'w router_config \<Rightarrow> 'w handler" where
  "handle_list_runs cfg = with_service (rt_sync cfg) ''sync_not_configured'' (\<lambda>s r.
     answer (write_api_error 400) 200 (list_view run_response)
       (qy_runs s (hr_context r) (path_value r ''id'') (int_or_bound (query_of r ''limit''))))"

definition handle_get_run :: "'w router_config \<Rightarrow> 'w handler" where
  "handle_get_run cfg = with_service (rt_sync cfg) ''sync_not_configured'' (\<lambda>s r.
     answer (missing_as_404 400) 200 run_response
       (qy_run s (hr_context r) (path_value r ''id'') (path_value r ''runID'')))"

fun freshness_text :: "freshness \<Rightarrow> string" where
  "freshness_text FreshLive = ''live''"
| "freshness_text FreshCached = ''cached''"
| "freshness_text FreshStale = ''stale''"

definition persisted_agent_response :: "persisted_agent \<Rightarrow> gval" where
  "persisted_agent_response a =
     GMap [(''id'', GStr (pa_id a)), (''name'', GStr (pa_name a)), (''status'', GStr (agent_status_text (pa_status a))),
       (''kind'', GStr (agent_kind_text (pa_kind a))), (''metadata'', GMap (pa_metadata a)),
       (''runtime_connection_id'', GStr (pa_conn a)), (''runtime_agent_id'', GStr (pa_runtime_agent a)),
       (''parent_runtime_agent_id'', GStr (pa_parent a)), (''freshness'', GStr (freshness_text (pa_freshness a))),
       (''observed_at'', GTime (pa_observed_at a)), (''last_successful_sync_at'', time_value (pa_last_sync a)),
       (''runtime_status'', GStr (runtime_status_text (pa_runtime_status a)))]"

definition answer_agents :: "'w router_config \<Rightarrow> (request \<Rightarrow> string) \<Rightarrow> 'w handler" where
  "answer_agents cfg runtime = with_service (rt_sync cfg) ''sync_not_configured'' (\<lambda>s r.
     answer (write_api_error 400) 200 (list_view persisted_agent_response)
       (qy_agents s (hr_context r) (runtime r)))"

definition handle_list_agents :: "'w router_config \<Rightarrow> 'w handler" where
  "handle_list_agents cfg = answer_agents cfg (\<lambda>r. query_of r ''runtime_connection_id'')"

definition handle_list_instance_agents :: "'w router_config \<Rightarrow> 'w handler" where
  "handle_list_instance_agents cfg = answer_agents cfg (\<lambda>r. path_value r ''id'')"

definition load_persisted_agent :: "'w router_config \<Rightarrow> (agent_detail \<Rightarrow> gval) \<Rightarrow> 'w handler" where
  "load_persisted_agent cfg view = with_service (rt_sync cfg) ''sync_not_configured'' (\<lambda>s r.
     answer (missing_as_404 400) 200 view (qy_agent s (hr_context r) (path_value r ''id'')))"

definition handle_get_agent :: "'w router_config \<Rightarrow> 'w handler" where
  "handle_get_agent cfg = load_persisted_agent cfg (\<lambda>d. persisted_agent_response (ad_agent d))"

definition handle_agent_skills :: "'w router_config \<Rightarrow> 'w handler" where
  "handle_agent_skills cfg = load_persisted_agent cfg (\<lambda>d. list_view skill_response (ad_skills d))"

definition handle_agent_access :: "'w router_config \<Rightarrow> 'w handler" where
  "handle_agent_access cfg = load_persisted_agent cfg (\<lambda>d. access_response (ad_access d))"

definition subagent_response :: "subagent_row \<Rightarrow> gval" where
  "subagent_response x =
     (let s = sr_snapshot x in
      GMap [(''id'', GStr (sr_id x)), (''runtime_connection_id'', GStr (sr_conn x)),
        (''runtime_execution_id'', GStr (se_id s)), (''parent_run_id'', GStr (se_parent_run s)),
        (''runtime_agent_id'', GStr (se_agent s)), (''subagent_type'', GStr (se_type s)),
        (''status'', GStr (se_status s)), (''description'', GStr (se_description s)), (''summary'', GStr (se_summary s)),
        (''started_at'', time_value (se_started s)), (''ended_at'', time_value (se_ended s)),
        (''observed_at'', GTime (se_observed_at s)), (''metadata'', GMap (se_metadata s))])"

definition answer_subagents :: "'w router_config \<Rightarrow> (request \<Rightarrow> string) \<Rightarrow> 'w handler" where
  "answer_subagents cfg runtime = with_service (rt_sync cfg) ''sync_not_configured'' (\<lambda>s r.
     answer (write_api_error 400) 200 (list_view subagent_response)
       (qy_subagents s (hr_context r) (runtime r) (query_of r ''agent_id'')))"

definition handle_list_subagents :: "'w router_config \<Rightarrow> 'w handler" where
  "handle_list_subagents cfg = answer_subagents cfg (\<lambda>r. query_of r ''runtime_connection_id'')"

definition handle_list_instance_subagents :: "'w router_config \<Rightarrow> 'w handler" where
  "handle_list_instance_subagents cfg = answer_subagents cfg (\<lambda>r. path_value r ''id'')"

definition execution_response :: "execution_row \<Rightarrow> gval" where
  "execution_response x =
     (let s = xr_snapshot x in
      GMap [(''id'', GStr (xr_id x)), (''runtime_connection_id'', GStr (xr_conn x)),
        (''runtime_execution_id'', GStr (ex_id s)), (''parent_runtime_execution_id'', GStr (ex_parent s)),
        (''runtime_agent_id'', GStr (ex_agent s)), (''kind'', GStr (ex_kind s)), (''status'', GStr (ex_status s)),
        (''started_at'', time_value (ex_started s)), (''ended_at'', time_value (ex_ended s)),
        (''observed_at'', GTime (ex_observed_at s)), (''metadata'', GMap (ex_metadata s))])"

definition answer_executions :: "'w router_config \<Rightarrow> (request \<Rightarrow> string) \<Rightarrow> 'w handler" where
  "answer_executions cfg runtime = with_service (rt_sync cfg) ''sync_not_configured'' (\<lambda>s r.
     answer (write_api_error 400) 200 (list_view execution_response)
       (qy_executions s (hr_context r) (runtime r) (query_of r ''runtime_agent_id'') (query_of r ''kind'')
          (int_or_bound (query_of r ''limit''))))"

definition handle_list_executions :: "'w router_config \<Rightarrow> 'w handler" where
  "handle_list_executions cfg = answer_executions cfg (\<lambda>r. query_of r ''runtime_connection_id'')"

definition handle_list_instance_executions :: "'w router_config \<Rightarrow> 'w handler" where
  "handle_list_instance_executions cfg = answer_executions cfg (\<lambda>r. path_value r ''id'')"


section \<open>Inventory\<close>

definition diagnostic_response :: "diagnostic_row \<Rightarrow> gval" where
  "diagnostic_response x =
     (let s = gr_snapshot x in
      GMap [(''id'', GStr (gr_id x)), (''runtime_connection_id'', GStr (gr_conn x)), (''check_id'', GStr (dg_check s)),
        (''status'', GStr (dg_status s)), (''message'', GStr (dg_message s)),
        (''observed_at'', GTime (dg_observed_at s)), (''metadata'', GMap (dg_metadata s))])"

definition handle_list_diagnostics :: "'w router_config \<Rightarrow> 'w handler" where
  "handle_list_diagnostics cfg = with_service (rt_sync cfg) ''sync_not_configured'' (\<lambda>s r.
     answer (write_api_error 400) 200 (list_view diagnostic_response)
       (qy_diagnostics s (hr_context r) (path_value r ''id'')))"

definition inventory_response :: "inventory_row \<Rightarrow> gval" where
  "inventory_response x =
     (let s = ir_snapshot x in
      GMap [(''id'', GStr (ir_id x)), (''runtime_connection_id'', GStr (ir_conn x)),
        (''runtime_item_id'', GStr (iv_id s)), (''kind'', GStr (iv_kind s)), (''name'', GStr (iv_name s)),
        (''status'', GStr (iv_status s)), (''provider'', GStr (iv_provider s)), (''source'', GStr (iv_source s)),
        (''observed_at'', GTime (iv_observed_at s)), (''metadata'', GMap (iv_metadata s))])"

definition handle_list_inventory :: "'w router_config \<Rightarrow> 'w handler" where
  "handle_list_inventory cfg = with_service (rt_sync cfg) ''sync_not_configured'' (\<lambda>s r.
     answer (write_api_error 400) 200 (list_view inventory_response)
       (qy_inventory s (hr_context r) (path_value r ''id'') (query_of r ''kind'')))"

definition capability_response :: "capability_row \<Rightarrow> gval" where
  "capability_response x =
     (let s = pr_snapshot x in
      GMap [(''id'', GStr (pr_id x)), (''runtime_connection_id'', GStr (pr_conn x)),
        (''runtime_capability_id'', GStr (cp_id s)), (''version'', GStr (cp_version s)), (''name'', GStr (cp_name s)),
        (''category'', GStr (cp_category s)), (''risk'', GStr (cp_risk s)), (''can'', GStr (cp_can s)),
        (''cannot'', GStr (cp_cannot s)), (''source'', GStr (cp_source s)),
        (''observed_at'', GTime (cp_observed_at s)), (''metadata'', GMap (cp_metadata s))])"

definition handle_list_capabilities :: "'w router_config \<Rightarrow> 'w handler" where
  "handle_list_capabilities cfg = with_service (rt_sync cfg) ''sync_not_configured'' (\<lambda>s r.
     answer (write_api_error 400) 200 (list_view capability_response)
       (qy_capabilities s (hr_context r) (path_value r ''id'')))"

definition delegation_response :: "delegation_row \<Rightarrow> gval" where
  "delegation_response x =
     (let s = dr_snapshot x in
      GMap [(''id'', GStr (dr_id x)), (''runtime_connection_id'', GStr (dr_conn x)),
        (''orchestrator_runtime_agent_id'', GStr (dl_orchestrator s)),
        (''delegate_runtime_agent_id'', GStr (dl_delegate s)), (''delegate_ref'', GStr (dl_ref s)),
        (''tool_name'', GStr (dl_tool s)), (''display_name'', GStr (dl_display s)), (''persona'', GStr (dl_persona s)),
        (''configured'', GBool (dl_configured s)), (''resolved'', GBool (dl_resolved s)),
        (''revision'', GInt (dl_revision s)), (''status'', GStr (dl_status s)),
        (''observed_at'', GTime (dl_observed_at s)), (''metadata'', GMap (dl_metadata s))])"

definition answer_delegations ::
    "'w router_config \<Rightarrow> (request \<Rightarrow> string) \<Rightarrow> (request \<Rightarrow> string) \<Rightarrow> 'w handler" where
  "answer_delegations cfg runtime agent = with_service (rt_sync cfg) ''sync_not_configured'' (\<lambda>s r.
     answer (write_api_error 400) 200 (list_view delegation_response)
       (qy_delegations s (hr_context r) (runtime r) (agent r)))"

definition handle_agent_delegations :: "'w router_config \<Rightarrow> 'w handler" where
  "handle_agent_delegations cfg = answer_delegations cfg (\<lambda>_. '''') (\<lambda>r. path_value r ''id'')"

definition handle_instance_delegations :: "'w router_config \<Rightarrow> 'w handler" where
  "handle_instance_delegations cfg = answer_delegations cfg (\<lambda>r. path_value r ''id'') (\<lambda>_. '''')"

end
