(* ===== verification/Api_Telemetry.thy ===== *)
theory Api_Telemetry
  imports Api_Records
begin

text \<open>The telemetry handlers (\<^verbatim>\<open>telemetry_handlers.go\<close>): metrics queries and their views, and the OTLP
  endpoint that turns trace spans, in JSON or protobuf, into usage observations.\<close>

section \<open>Metrics\<close>

definition parse_metrics_interval :: "string \<Rightarrow> int res" where
  "parse_metrics_interval v =
     (case map_of [(''5m'', 5 * minute), (''15m'', 15 * minute), (''1h'', hour), (''6h'', 6 * hour), (''1d'', 24 * hour)] v of
        Some d \<Rightarrow> Inr d
      | None \<Rightarrow> Inl (Text ''interval must be one of 5m, 15m, 1h, 6h, or 1d''))"

definition time_parameter :: "request \<Rightarrow> string \<Rightarrow> time \<Rightarrow> time res" where
  "time_parameter r key fallback =
     (if query_of r key = '''' then Inr fallback
      else case parse_time (query_of r key) of
        None \<Rightarrow> Inl (Text (key @ '' must be RFC3339'')) | Some t \<Rightarrow> Inr t)"

definition usage_query_from_request :: "request \<Rightarrow> time \<Rightarrow> usage_query res" where
  "usage_query_from_request r t =
     (case time_parameter r ''from'' (t - 24 * hour) of
        Inl e \<Rightarrow> Inl e
      | Inr since \<Rightarrow>
     (case time_parameter r ''to'' t of
        Inl e \<Rightarrow> Inl e
      | Inr until \<Rightarrow>
     (case (if query_of r ''interval'' = '''' then Inr 0 else parse_metrics_interval (query_of r ''interval'')) of
        Inl e \<Rightarrow> Inl e
      | Inr interval \<Rightarrow>
          let source = trim_space (query_of r ''source'') in
          if List.member ['''', ''gantry_native'', ''langsmith'', ''otel''] source
          then Inr \<lparr>uq_from = since, uq_to = until, uq_interval = interval, uq_conn = '''', uq_agent = '''',
                 uq_runtime_agent = '''', uq_execution = trim_space (query_of r ''runtime_execution_id''),
                 uq_job = '''', uq_grouping = '''', uq_model = trim_space (query_of r ''model''), uq_source = source\<rparr>
          else Inl (Text ''source must be gantry_native, langsmith, or otel''))))"

definition optional_number :: "rat option \<Rightarrow> gval" where
  "optional_number q = (case q of None \<Rightarrow> GNil | Some x \<Rightarrow> GNum x)"

definition summary_status :: "usage_summary \<Rightarrow> string" where
  "summary_status s =
     (if us_available s then ''available'' else if us_configured s then ''unavailable'' else ''not_configured'')"

definition model_usage_value :: "model_usage \<Rightarrow> gval" where
  "model_usage_value m =
     GMap [(''model'', GStr (mu_model m)), (''request_count'', GInt (mu_requests m)), (''input_tokens'', GInt (mu_input m)),
       (''output_tokens'', GInt (mu_output m)), (''total_tokens'', GInt (mu_total m))]"

definition bucket_value :: "usage_bucket \<Rightarrow> gval" where
  "bucket_value b =
     GMap [(''started_at'', GTime (ub_started b)), (''request_count'', GInt (ub_requests b)),
       (''input_tokens'', GInt (ub_input b)), (''output_tokens'', GInt (ub_output b)), (''total_tokens'', GInt (ub_total b))]"

definition metrics_usage :: "usage_summary \<Rightarrow> gval" where
  "metrics_usage s =
     GMap [(''requests'', GInt (us_requests s)), (''input_tokens'', GInt (us_input s)),
       (''output_tokens'', GInt (us_output s)), (''cached_input_tokens'', GInt (us_cached s)),
       (''cache_creation_tokens'', GInt (us_cache_creation s)), (''reasoning_tokens'', GInt (us_reasoning s)),
       (''total_tokens'', GInt (us_total s)),
       (''estimated_cost_usd'', case us_cost s of None \<Rightarrow> GNil | Some c \<Rightarrow> GStr c)]"

definition metrics_performance :: "usage_summary \<Rightarrow> gval" where
  "metrics_performance s =
     GMap [(''average_duration_ms'', optional_number (us_average_duration s)),
       (''p95_duration_ms'', optional_number (us_p95_duration s)), (''error_rate'', optional_number (us_error_rate s))]"

definition metrics_context :: "usage_summary \<Rightarrow> gval" where
  "metrics_context s =
     GMap ([(''utilization'', optional_number (us_utilization s))] @
       optional_text ''quality'' (if us_utilization s = None then '''' else ''estimated''))"

definition metrics_response :: "usage_summary \<Rightarrow> gval" where
  "metrics_response s =
     GMap (optional_text ''agent_id'' (us_agent s) @ optional_text ''runtime_connection_id'' (us_conn s) @
       [(''period'', GMap [(''from'', GTime (us_from s)), (''to'', GTime (us_to s))]),
        (''available'', GBool (us_available s)), (''configured'', GBool (us_configured s)),
        (''status'', GStr (summary_status s))] @ optional_text ''source'' (us_source s) @
       (case us_last_observed s of None \<Rightarrow> [] | Some t \<Rightarrow> [(''last_observed_at'', GTime t)]) @
       [(''usage'', metrics_usage s), (''performance'', metrics_performance s), (''context'', metrics_context s)] @
       (if us_models s = [] then [] else [(''models'', GList (map model_usage_value (us_models s)))]) @
       (if us_series s = [] then [] else [(''time_series'', GList (map bucket_value (us_series s)))]))"

definition summary_failure :: "gerr \<Rightarrow> response" where
  "summary_failure e = write_api_error (if err_is e InvalidUsageQuery then 400 else 500) e"

definition clock_value :: "time res \<Rightarrow> time" where
  "clock_value t = (case t of Inl _ \<Rightarrow> 0 | Inr x \<Rightarrow> x)"

definition metrics_handler :: "'w router_config \<Rightarrow> (request \<Rightarrow> string \<times> string) \<Rightarrow> 'w handler" where
  "metrics_handler cfg scope = with_service (rt_telemetry cfg) ''telemetry_not_configured'' (\<lambda>s r w.
     case rt_now cfg w of
       (t, w) \<Rightarrow>
         (case usage_query_from_request r (clock_value t) of
            Inl e \<Rightarrow> (write_api_error 400 e, w)
          | Inr q \<Rightarrow>
              answer summary_failure 200 metrics_response
                (qt_summary s (hr_context r) (q\<lparr>uq_conn := fst (scope r), uq_agent := snd (scope r)\<rparr>)) w))"

definition handle_metrics_summary :: "'w router_config \<Rightarrow> 'w handler" where
  "handle_metrics_summary cfg = metrics_handler cfg (\<lambda>_. ('''', ''''))"

definition handle_agent_metrics :: "'w router_config \<Rightarrow> 'w handler" where
  "handle_agent_metrics cfg = metrics_handler cfg (\<lambda>r. ('''', path_value r ''id''))"

definition handle_runtime_metrics :: "'w router_config \<Rightarrow> 'w handler" where
  "handle_runtime_metrics cfg = metrics_handler cfg (\<lambda>r. (path_value r ''id'', ''''))"

fun telemetry_status_text :: "telemetry_run_status \<Rightarrow> string" where
  "telemetry_status_text TelemetryUnset = ''''"
| "telemetry_status_text TelemetryRunning = ''running''"
| "telemetry_status_text TelemetrySucceeded = ''succeeded''"
| "telemetry_status_text TelemetryFailed = ''failed''"

definition telemetry_health_response :: "ingestion_run \<Rightarrow> gval" where
  "telemetry_health_response x =
     (let d = public_error 503 (ti_error x) in
      GMap ([(''configured'', GBool True), (''status'', GStr (telemetry_status_text (ti_status x))),
        (''source'', GStr (ti_source x)), (''schema_version'', GStr (ti_schema x)), (''started_at'', GTime (ti_started x)),
        (''finished_at'', time_value (ti_finished x)), (''last_successful_at'', time_value (ti_last_success x)),
        (''records_accepted'', GInt (ti_accepted x)), (''records_rejected'', GInt (ti_rejected x)),
        (''records_deduplicated'', GInt (ti_deduplicated x))] @
       (if ti_error x = '''' then []
        else [(''error_code'', GStr (pd_code d)), (''message'', GStr (pd_message d)), (''retryable'', GBool (pd_retryable d))])))"

definition health_view :: "ingestion_run \<Rightarrow> gval" where
  "health_view x =
     (if ti_id x = ''''
      then GMap [(''configured'', GBool False), (''status'', GStr ''not_configured''),
             (''message'', GStr ''Token telemetry is not configured'')]
      else telemetry_health_response x)"

definition handle_telemetry_health :: "'w router_config \<Rightarrow> 'w handler" where
  "handle_telemetry_health cfg = with_service (rt_telemetry cfg) ''telemetry_not_configured'' (\<lambda>s r.
     answer (write_api_error 500) 200 health_view (qt_health s (hr_context r) (path_value r ''id'')))"


section \<open>Attributes of a span\<close>

text \<open>A JSON number literal, as \<^verbatim>\<open>json.Number\<close> accepts it in a string.\<close>

definition after_digits :: "string \<Rightarrow> string option" where
  "after_digits s = (if s \<noteq> [] \<and> digit (hd s) then Some (dropWhile digit s) else None)"

definition number_literal :: "string \<Rightarrow> bool" where
  "number_literal s =
     (let s = (if s \<noteq> [] \<and> hd s = CHR 0x2D then tl s else s);
          s = (if s \<noteq> [] \<and> hd s = CHR 0x30 then Some (tl s) else after_digits s);
          s = chain s (\<lambda>s. if s \<noteq> [] \<and> hd s = CHR 0x2E then after_digits (tl s) else Some s);
          s = chain s (\<lambda>s. if s \<noteq> [] \<and> (hd s = CHR 0x65 \<or> hd s = CHR 0x45)
                           then after_digits (if tl s \<noteq> [] \<and> (hd (tl s) = CHR 0x2B \<or> hd (tl s) = CHR 0x2D) then tl (tl s) else tl s)
                           else Some s)
      in s = Some [])"

definition number_field :: "string \<Rightarrow> ((string \<Rightarrow> string) \<Rightarrow> 'r \<Rightarrow> 'r) \<Rightarrow> 'r field" where
  "number_field name upd =
     (name, \<lambda>j r. case j of JNull \<Rightarrow> Some r | JNumber t \<Rightarrow> Some (upd (\<lambda>_. t) r)
        | JString s \<Rightarrow> if number_literal s then Some (upd (\<lambda>_. s) r) else None | _ \<Rightarrow> None)"

definition float_field :: "string \<Rightarrow> ((rat \<Rightarrow> rat) \<Rightarrow> 'r \<Rightarrow> 'r) \<Rightarrow> 'r field" where
  "float_field name upd =
     (name, \<lambda>j r. case j of JNull \<Rightarrow> Some r
        | JNumber t \<Rightarrow> if 2 ^ 1024 \<le> \<bar>number_value t\<bar> then None else Some (upd (\<lambda>_. number_value t) r) | _ \<Rightarrow> None)"

text \<open>A struct inside a struct, and a slice of structs.\<close>

definition object_field ::
    "string \<Rightarrow> 'a field list \<Rightarrow> ('r \<Rightarrow> 'a) \<Rightarrow> (('a \<Rightarrow> 'a) \<Rightarrow> 'r \<Rightarrow> 'r) \<Rightarrow> 'r field" where
  "object_field name fs get upd = (name, \<lambda>j r. map_option (\<lambda>v. upd (\<lambda>_. v) r) (decode_object fs j (get r)))"

record otlp_value =
  ov_string :: string
  ov_int :: string
  ov_double :: rat
  ov_bool :: bool

record otlp_attribute =
  oa_key :: string
  oa_value :: otlp_value

definition value_fields :: "otlp_value field list" where
  "value_fields =
     [string_field ''stringValue'' ov_string_update, number_field ''intValue'' ov_int_update,
      float_field ''doubleValue'' ov_double_update, bool_field ''boolValue'' ov_bool_update]"

definition empty_attribute :: otlp_attribute where
  "empty_attribute = \<lparr>oa_key = '''', oa_value = \<lparr>ov_string = '''', ov_int = '''', ov_double = 0, ov_bool = False\<rparr>\<rparr>"

definition attribute_fields :: "otlp_attribute field list" where
  "attribute_fields = [string_field ''key'' oa_key_update, object_field ''value'' value_fields oa_value oa_value_update]"

definition attribute_element :: "json \<Rightarrow> otlp_attribute option" where
  "attribute_element j = decode_object attribute_fields j empty_attribute"

definition attribute_any :: "otlp_value \<Rightarrow> gval" where
  "attribute_any v =
     (if ov_string v \<noteq> '''' then GStr (ov_string v)
      else if ov_int v \<noteq> '''' then GInt (int_or_bound (ov_int v))
      else if ov_double v \<noteq> 0 then GNum (ov_double v)
      else GBool (ov_bool v))"

definition otlp_attributes :: "otlp_attribute list \<Rightarrow> gmap" where
  "otlp_attributes xs = fold (\<lambda>a. mput (oa_key a) (attribute_any (oa_value a))) xs []"

definition string_attribute :: "gmap \<Rightarrow> string \<Rightarrow> string" where
  "string_attribute m k = trim_space (text_of (map_of m k))"

fun first_string_attribute :: "gmap \<Rightarrow> string list \<Rightarrow> string" where
  "first_string_attribute m [] = ''''"
| "first_string_attribute m (k # ks) =
     (if string_attribute m k \<noteq> '''' then string_attribute m k else first_string_attribute m ks)"

text \<open>\<^verbatim>\<open>int64(x)\<close> of a \<^verbatim>\<open>float64\<close> outside the range is what the amd64 conversion gives.\<close>

definition int_of_float :: "rat \<Rightarrow> int" where
  "int_of_float q =
     (let n = (if q < 0 then \<lceil>q\<rceil> else \<lfloor>q\<rfloor>) in if n < min_int64 \<or> max_int64 < n then min_int64 else n)"

definition int_attribute :: "gmap \<Rightarrow> string \<Rightarrow> int" where
  "int_attribute m k =
     (case map_of m k of
        Some (GInt n) \<Rightarrow> n
      | Some (GNum q) \<Rightarrow> int_of_float q
      | Some (GStr s) \<Rightarrow> int_or_bound s
      | _ \<Rightarrow> 0)"

definition valid_correlation :: "string \<Rightarrow> bool" where
  "valid_correlation v \<longleftrightarrow> trim_space v \<noteq> '''' \<and> length (trim_space v) \<le> 512"

definition allowlist :: "string list" where
  "allowlist = [''server.address'', ''service.name'', ''gen_ai.operation.name'']"

definition short_value :: "gval \<Rightarrow> bool" where
  "short_value v = (case v of GStr s \<Rightarrow> length s \<le> 1024 | _ \<Rightarrow> True)"

definition allowlisted :: "gmap \<Rightarrow> string \<Rightarrow> gmap" where
  "allowlisted m trace =
     fold (\<lambda>k r. case map_of m k of Some v \<Rightarrow> if short_value v then mput k v r else r | None \<Rightarrow> r) allowlist
       [(''trace_id'', GStr trace), (''normalization_schema_version'', GStr ''otel-genai-v1'')]"


section \<open>Spans\<close>

text \<open>The code has two normalisations, one for each encoding, with bodies of their own; so has the model.
  What the loops carry: the observations so far, the number of rejected spans, and the world (they read
  the clock for each span they accept).\<close>

type_synonym 'w span_state = "usage_observation list \<times> int \<times> 'w"

definition unix_epoch :: time where
  "unix_epoch = 62135596800 * second"


subsection \<open>JSON\<close>

record otlp_span =
  os_trace :: string
  os_span :: string
  os_parent :: string
  os_start :: string
  os_end :: string
  os_attributes :: "otlp_attribute list option"
  os_code :: json

definition empty_span :: otlp_span where
  "empty_span = \<lparr>os_trace = '''', os_span = '''', os_parent = '''', os_start = '''', os_end = '''',
     os_attributes = None, os_code = JNull\<rparr>"

definition span_fields :: "otlp_span field list" where
  "span_fields =
     [string_field ''traceId'' os_trace_update, string_field ''spanId'' os_span_update,
      string_field ''parentSpanId'' os_parent_update, number_field ''startTimeUnixNano'' os_start_update,
      number_field ''endTimeUnixNano'' os_end_update, list_field ''attributes'' attribute_element os_attributes_update,
      object_field ''status'' [(''code'', \<lambda>j _. Some j)] os_code os_code_update]"

definition span_element :: "json \<Rightarrow> otlp_span option" where
  "span_element j = decode_object span_fields j empty_span"

definition spans_element :: "json \<Rightarrow> otlp_span list option option" where
  "spans_element j = decode_object [list_field ''spans'' span_element (\<lambda>f. f)] j None"

record resource_spans =
  rp_attributes :: "otlp_attribute list option"
  rp_scopes :: "otlp_span list option list option"

definition resource_fields :: "resource_spans field list" where
  "resource_fields =
     [object_field ''resource'' [list_field ''attributes'' attribute_element (\<lambda>f. f)] rp_attributes rp_attributes_update,
      list_field ''scopeSpans'' spans_element rp_scopes_update]"

definition resource_element :: "json \<Rightarrow> resource_spans option" where
  "resource_element j = decode_object resource_fields j \<lparr>rp_attributes = None, rp_scopes = None\<rparr>"

definition decode_otlp :: "json \<Rightarrow> resource_spans list option" where
  "decode_otlp j = map_option elems (decode_object [list_field ''resourceSpans'' resource_element (\<lambda>f. f)] j None)"

definition unix_nano_time :: "string \<Rightarrow> time option" where
  "unix_nano_time s = (if s = '''' then None else map_option (\<lambda>n. unix_epoch + n) (parse_int64 s))"

definition error_code :: "json \<Rightarrow> bool" where
  "error_code j =
     (case j of JNumber t \<Rightarrow> t = ''2'' \<or> equal_fold t ''STATUS_CODE_ERROR''
      | JString t \<Rightarrow> t = ''2'' \<or> equal_fold t ''STATUS_CODE_ERROR'' | _ \<Rightarrow> False)"

definition json_attributes :: "gmap \<Rightarrow> otlp_span \<Rightarrow> gmap" where
  "json_attributes resource s = fold (\<lambda>(k, v). mput k v) (otlp_attributes (elems (os_attributes s))) resource"

definition json_observation :: "gmap \<Rightarrow> string \<Rightarrow> otlp_span \<Rightarrow> time \<Rightarrow> usage_observation" where
  "json_observation m runtime s t =
     (let used = int_attribute m ''gen_ai.usage.input_tokens'';
          made = int_attribute m ''gen_ai.usage.output_tokens'';
          given = int_attribute m ''gen_ai.usage.total_tokens'';
          total = (if given = 0 then wrap64 (used + made) else given);
          started = unix_nano_time (os_start s);
          ended = unix_nano_time (os_end s)
      in \<lparr>uo_source = SourceOTEL, uo_source_id = os_span s, uo_conn = runtime,
          uo_agent = string_attribute m ''capcom.runtime_agent.id'',
          uo_execution = string_attribute m ''capcom.runtime_execution.id'', uo_parent = os_parent s,
          uo_thread = string_attribute m ''gen_ai.conversation.id'',
          uo_model = first_string_attribute m [''gen_ai.response.model'', ''gen_ai.request.model''],
          uo_provider = string_attribute m ''gen_ai.system'', uo_requests = 1, uo_input = used, uo_output = made,
          uo_cached = int_attribute m ''gen_ai.usage.details.cached_input_tokens'', uo_cache_creation = 0,
          uo_reasoning = int_attribute m ''gen_ai.usage.details.reasoning_tokens'', uo_total = total,
          uo_window = None, uo_utilization = None, uo_input_cost = None, uo_output_cost = None,
          uo_total_cost = None,
          uo_duration = (case (started, ended) of
             (Some a, Some b) \<Rightarrow> Some (milliseconds (time_sub b a)) | _ \<Rightarrow> None),
          uo_first_token = None, uo_errors = (if error_code (os_code s) then 1 else 0), uo_started = started,
          uo_ended = ended, uo_observed = (case ended of Some b \<Rightarrow> b | None \<Rightarrow> t),
          uo_metadata_version = '''', uo_attributes = allowlisted m (os_trace s)\<rparr>)"

definition json_step :: "('w, time) call \<Rightarrow> gmap \<Rightarrow> otlp_span \<Rightarrow> 'w span_state \<Rightarrow> 'w span_state" where
  "json_step clock resource s st =
     (case st of (us, n, w) \<Rightarrow>
        let m = json_attributes resource s;
            runtime = string_attribute m ''capcom.runtime_connection.id''
        in if \<not> valid_correlation runtime \<or> \<not> valid_correlation (os_span s) then (us, n + 1, w)
           else case clock w of (t, w) \<Rightarrow> (us @ [json_observation m runtime s (clock_value t)], n, w))"

text \<open>The loops over the resources, their scopes and the spans of a scope.\<close>

definition json_loop :: "('w, time) call \<Rightarrow> resource_spans list \<Rightarrow> 'w \<Rightarrow> 'w span_state" where
  "json_loop clock rs w =
     fold (\<lambda>r. let resource = otlp_attributes (elems (rp_attributes r)) in
             fold (\<lambda>scope. fold (json_step clock resource) (elems scope)) (elems (rp_scopes r))) rs ([], 0, w)"

definition normalize_otlp_json ::
    "api_library \<Rightarrow> ('w, time) call \<Rightarrow> string \<Rightarrow> 'w \<Rightarrow> (gerr + usage_observation list \<times> int) \<times> 'w" where
  "normalize_otlp_json l clock body w =
     (case chain (jl_next l body) (\<lambda>(j, rest). decode_otlp j) of
        None \<Rightarrow> (Inl (Wrapped ''decode OTLP JSON: '' (Text ''invalid document'')), w)
      | Some rs \<Rightarrow> (case json_loop clock rs w of (us, n, w) \<Rightarrow> (Inr (us, n), w)))"


subsection \<open>Protobuf\<close>

text \<open>The messages of the OTLP packages, as far as they are read; their decoding and encoding are
  parameters.\<close>

datatype proto_value = PString string | PInt int | PDouble rat | PBool bool | POther

record proto_span =
  pn_trace :: string
  pn_span :: string
  pn_parent :: string
  pn_start :: nat
  pn_end :: nat
  pn_attributes :: "(string \<times> proto_value option) list"
  pn_error :: bool

record proto_resource =
  pr_attributes :: "(string \<times> proto_value option) list option"
  pr_scopes :: "proto_span list list"

record otlp_library =
  ol_decode :: "string \<Rightarrow> proto_resource list option"
  ol_encode :: "(int \<times> string) option \<Rightarrow> string option"

definition proto_attribute :: "string \<times> proto_value option \<Rightarrow> gmap \<Rightarrow> gmap" where
  "proto_attribute a m =
     (case snd a of
        Some (PString s) \<Rightarrow> mput (fst a) (GStr s) m
      | Some (PInt n) \<Rightarrow> mput (fst a) (GInt n) m
      | Some (PDouble q) \<Rightarrow> mput (fst a) (GNum q) m
      | Some (PBool b) \<Rightarrow> mput (fst a) (GBool b) m
      | _ \<Rightarrow> m)"

definition protobuf_attributes :: "(string \<times> proto_value option) list \<Rightarrow> gmap" where
  "protobuf_attributes xs = fold proto_attribute xs []"

definition uint64_time :: "nat \<Rightarrow> time option" where
  "uint64_time n = (if n = 0 \<or> 2 ^ 63 - 1 < n then None else Some (unix_epoch + int n))"

definition proto_attributes :: "gmap \<Rightarrow> proto_span \<Rightarrow> gmap" where
  "proto_attributes resource s = fold (\<lambda>(k, v). mput k v) (protobuf_attributes (pn_attributes s)) resource"

definition proto_observation :: "gmap \<Rightarrow> string \<Rightarrow> string \<Rightarrow> proto_span \<Rightarrow> time \<Rightarrow> usage_observation" where
  "proto_observation m runtime span_id s t =
     (let used = int_attribute m ''gen_ai.usage.input_tokens'';
          made = int_attribute m ''gen_ai.usage.output_tokens'';
          given = int_attribute m ''gen_ai.usage.total_tokens'';
          total = (if given = 0 then wrap64 (used + made) else given);
          started = uint64_time (pn_start s);
          ended = uint64_time (pn_end s)
      in \<lparr>uo_source = SourceOTEL, uo_source_id = span_id, uo_conn = runtime,
          uo_agent = string_attribute m ''capcom.runtime_agent.id'',
          uo_execution = string_attribute m ''capcom.runtime_execution.id'', uo_parent = hex_text (pn_parent s),
          uo_thread = string_attribute m ''gen_ai.conversation.id'',
          uo_model = first_string_attribute m [''gen_ai.response.model'', ''gen_ai.request.model''],
          uo_provider = string_attribute m ''gen_ai.system'', uo_requests = 1, uo_input = used, uo_output = made,
          uo_cached = int_attribute m ''gen_ai.usage.details.cached_input_tokens'', uo_cache_creation = 0,
          uo_reasoning = int_attribute m ''gen_ai.usage.details.reasoning_tokens'', uo_total = total,
          uo_window = None, uo_utilization = None, uo_input_cost = None, uo_output_cost = None,
          uo_total_cost = None,
          uo_duration = (case (started, ended) of
             (Some a, Some b) \<Rightarrow> Some (milliseconds (time_sub b a)) | _ \<Rightarrow> None),
          uo_first_token = None, uo_errors = (if pn_error s then 1 else 0), uo_started = started,
          uo_ended = ended, uo_observed = (case ended of Some b \<Rightarrow> b | None \<Rightarrow> t),
          uo_metadata_version = '''', uo_attributes = allowlisted m (hex_text (pn_trace s))\<rparr>)"

definition proto_step :: "('w, time) call \<Rightarrow> gmap \<Rightarrow> proto_span \<Rightarrow> 'w span_state \<Rightarrow> 'w span_state" where
  "proto_step clock resource s st =
     (case st of (us, n, w) \<Rightarrow>
        let m = proto_attributes resource s;
            runtime = string_attribute m ''capcom.runtime_connection.id'';
            span_id = hex_text (pn_span s)
        in if \<not> valid_correlation runtime \<or> \<not> valid_correlation span_id then (us, n + 1, w)
           else case clock w of (t, w) \<Rightarrow> (us @ [proto_observation m runtime span_id s (clock_value t)], n, w))"

definition proto_loop :: "('w, time) call \<Rightarrow> proto_resource list \<Rightarrow> 'w \<Rightarrow> 'w span_state" where
  "proto_loop clock rs w =
     fold (\<lambda>r. let resource = (case pr_attributes r of None \<Rightarrow> [] | Some a \<Rightarrow> protobuf_attributes a) in
             fold (fold (proto_step clock resource)) (pr_scopes r)) rs ([], 0, w)"

definition normalize_otlp_protobuf ::
    "otlp_library \<Rightarrow> ('w, time) call \<Rightarrow> string \<Rightarrow> 'w \<Rightarrow> (gerr + usage_observation list \<times> int) \<times> 'w" where
  "normalize_otlp_protobuf l clock body w =
     (case ol_decode l body of
        None \<Rightarrow> (Inl (Wrapped ''decode OTLP protobuf: '' (Text ''invalid message'')), w)
      | Some rs \<Rightarrow> (case proto_loop clock rs w of (us, n, w) \<Rightarrow> (Inr (us, n), w)))"


subsection \<open>The endpoint\<close>

definition max_otlp_bytes :: nat where
  "max_otlp_bytes = 4 * 1024 * 1024"

definition partial_success :: "int \<Rightarrow> (int \<times> string) option" where
  "partial_success rejected =
     (if 0 < rejected then Some (rejected, ''spans missing required Capcom correlation or valid usage'') else None)"

definition otlp_reply :: "otlp_library \<Rightarrow> bool \<Rightarrow> int \<Rightarrow> int \<Rightarrow> int \<Rightarrow> response" where
  "otlp_reply l is_protobuf accepted rejected deduplicated =
     (if is_protobuf
      then (case ol_encode l (partial_success rejected) of
          None \<Rightarrow> write_failure 500 ''encode_otlp_response''
        | Some bytes \<Rightarrow> \<lparr>rs_status = 200, rs_headers = [(''Content-Type'', ''application/x-protobuf'')],
            rs_cookies = [], rs_body = BytesBody bytes\<rparr>)
      else reply 200 (GMap [(''accepted'', GInt accepted), (''rejected'', GInt rejected),
             (''deduplicated'', GInt deduplicated)]))"

text \<open>A batch in which some observations were stored and the others rejected is a success.\<close>

definition otlp_answer :: "otlp_library \<Rightarrow> bool \<Rightarrow> int \<Rightarrow> ingest_result \<Rightarrow> response" where
  "otlp_answer l is_protobuf rejected x =
     (let ok = otlp_reply l is_protobuf (ig_accepted x) (wrap64 (rejected + ig_rejected x)) (ig_deduplicated x) in
      case ig_error x of
        None \<Rightarrow> ok
      | Some e \<Rightarrow>
          let rejection = err_is e InvalidUsageObservation \<or> err_is e UnknownRuntimeConnection in
          if \<not> rejection \<or> ig_accepted x = 0 then write_api_error (if rejection then 400 else 500) e else ok)"

definition handle_otlp_traces :: "otlp_library \<Rightarrow> 'w router_config \<Rightarrow> 'w handler" where
  "handle_otlp_traces l cfg = with_service (rt_telemetry cfg) ''telemetry_not_configured'' (\<lambda>s r w.
     let content_type = to_lower (header_of r ''Content-Type'');
         is_json = str_contains content_type ''json'';
         is_protobuf = str_contains content_type ''protobuf'' \<or> str_contains content_type ''x-protobuf''
     in if \<not> is_json \<and> \<not> is_protobuf
        then (write_failure 415 ''content type must be OTLP JSON or protobuf'', w)
        else if max_otlp_bytes < length (hr_body r) then (write_failure 413 ''otlp_request_too_large'', w)
        else case (if is_protobuf then normalize_otlp_protobuf l (rt_now cfg) (hr_body r) w
                   else normalize_otlp_json (rt_library cfg) (rt_now cfg) (hr_body r) w) of
          (Inl e, w) \<Rightarrow> (write_api_error 400 e, w)
        | (Inr (us, rejected), w) \<Rightarrow>
            (case qt_ingest s (hr_context r) us w of (x, w) \<Rightarrow> (otlp_answer l is_protobuf rejected x, w)))"

end
