(* ===== verification/Api_Router.thy ===== *)
theory Api_Router
  imports Api_Telemetry
begin

text \<open>The router (\<^verbatim>\<open>NewRouter\<close> in \<^verbatim>\<open>router.go\<close>): the table of routes, how \<^verbatim>\<open>http.ServeMux\<close> chooses
  among them, and the middleware around it.\<close>

section \<open>Patterns\<close>

datatype segment = Lit string | Var string

text \<open>A wildcard stands for one segment that is not empty.\<close>

fun match_segments :: "segment list \<Rightarrow> string list \<Rightarrow> (string \<times> string) list option" where
  "match_segments [] [] = Some []"
| "match_segments (Lit t # ps) (s # ss) = (if s = t then match_segments ps ss else None)"
| "match_segments (Var x # ps) (s # ss) =
     (if s = '''' then None else map_option (\<lambda>vs. (x, s) # vs) (match_segments ps ss))"
| "match_segments _ _ = None"

definition method_matches :: "string \<Rightarrow> string \<Rightarrow> bool" where
  "method_matches m given \<longleftrightarrow> given = m \<or> m = ''GET'' \<and> given = ''HEAD''"

type_synonym 'w route = "string \<times> segment list \<times> 'w handler"

definition route_values :: "'w route \<Rightarrow> request \<Rightarrow> (string \<times> string) list option" where
  "route_values x r =
     (if method_matches (fst x) (hr_method r) then match_segments (fst (snd x)) (hr_segments r) else None)"

text \<open>The pattern \<^verbatim>\<open>/\<close> without a method takes every other request.\<close>

fun dispatch :: "'w route list \<Rightarrow> 'w handler" where
  "dispatch [] r w = handle_not_found r w"
| "dispatch (x # xs) r w =
     (case route_values x r of
        Some vs \<Rightarrow> snd (snd x) (r\<lparr>hr_values := vs\<rparr>) w
      | None \<Rightarrow> dispatch xs r w)"

text \<open>A path that is not in clean form is redirected to its clean form.\<close>

definition mux :: "'w route list \<Rightarrow> 'w handler" where
  "mux rs r w = (if hr_clean r then dispatch rs r w else (empty_reply 301, w))"


section \<open>The routes\<close>

definition routes :: "otlp_library \<Rightarrow> 'w router_config \<Rightarrow> 'w route list" where
  "routes l cfg =
     [(''GET'', [Lit ''''], handle_service_root cfg),
      (''GET'', [Lit ''healthz''], handle_health cfg),
      (''POST'', [Lit ''auth'', Lit ''signup''], handle_signup cfg),
      (''POST'', [Lit ''auth'', Lit ''login''], handle_login cfg),
      (''POST'', [Lit ''auth'', Lit ''logout''], handle_logout cfg),
      (''GET'', [Lit ''v1'', Lit ''me''], handle_me cfg),
      (''POST'', [Lit ''v1'', Lit ''secrets''], handle_create_secret cfg),
      (''PUT'', [Lit ''v1'', Lit ''secrets'', Var ''name''], handle_rotate_secret cfg),
      (''POST'', [Lit ''v1'', Lit ''runtime-connections''], handle_create_connection cfg),
      (''GET'', [Lit ''v1'', Lit ''runtime-connections''], handle_list_connections cfg),
      (''GET'', [Lit ''v1'', Lit ''runtime-connections'', Var ''id''], handle_get_connection cfg),
      (''PATCH'', [Lit ''v1'', Lit ''runtime-connections'', Var ''id''], handle_update_settings cfg),
      (''DELETE'', [Lit ''v1'', Lit ''runtime-connections'', Var ''id''], handle_remove_connection cfg),
      (''POST'', [Lit ''v1'', Lit ''runtime-connections'', Var ''id'', Lit ''test''], handle_test_connection cfg),
      (''GET'', [Lit ''v1'', Lit ''runtime-connections'', Var ''id'', Lit ''agents''], handle_list_live_agents cfg),
      (''GET'', [Lit ''v1'', Lit ''runtime-connections'', Var ''id'', Lit ''agents'', Var ''agentID'', Lit ''skills''], handle_live_skills cfg),
      (''GET'', [Lit ''v1'', Lit ''runtime-connections'', Var ''id'', Lit ''agents'', Var ''agentID'', Lit ''access''], handle_live_access cfg),
      (''POST'', [Lit ''v1'', Lit ''runtime-connections'', Var ''id'', Lit ''sync''], handle_sync_runtime cfg),
      (''GET'', [Lit ''v1'', Lit ''runtime-connections'', Var ''id'', Lit ''sync-runs''], handle_list_runs cfg),
      (''GET'', [Lit ''v1'', Lit ''runtime-connections'', Var ''id'', Lit ''sync-runs'', Var ''runID''], handle_get_run cfg),
      (''GET'', [Lit ''v1'', Lit ''agents''], handle_list_agents cfg),
      (''GET'', [Lit ''v1'', Lit ''agents'', Var ''id''], handle_get_agent cfg),
      (''GET'', [Lit ''v1'', Lit ''agents'', Var ''id'', Lit ''skills''], handle_agent_skills cfg),
      (''GET'', [Lit ''v1'', Lit ''agents'', Var ''id'', Lit ''access''], handle_agent_access cfg),
      (''GET'', [Lit ''v1'', Lit ''agents'', Var ''id'', Lit ''delegations''], handle_agent_delegations cfg),
      (''GET'', [Lit ''v1'', Lit ''agents'', Var ''id'', Lit ''metrics''], handle_agent_metrics cfg),
      (''GET'', [Lit ''v1'', Lit ''subagent-executions''], handle_list_subagents cfg),
      (''GET'', [Lit ''v1'', Lit ''runtime-executions''], handle_list_executions cfg),
      (''POST'', [Lit ''v1'', Lit ''runtime-instances''], handle_create_connection cfg),
      (''GET'', [Lit ''v1'', Lit ''runtime-instances''], handle_list_connections cfg),
      (''GET'', [Lit ''v1'', Lit ''runtime-instances'', Var ''id''], handle_get_connection cfg),
      (''PATCH'', [Lit ''v1'', Lit ''runtime-instances'', Var ''id''], handle_update_settings cfg),
      (''DELETE'', [Lit ''v1'', Lit ''runtime-instances'', Var ''id''], handle_remove_connection cfg),
      (''POST'', [Lit ''v1'', Lit ''runtime-instances'', Var ''id'', Lit ''endpoints'', Lit ''consolidate''], handle_consolidate cfg),
      (''POST'', [Lit ''v1'', Lit ''runtime-instances'', Var ''id'', Lit ''test''], handle_test_connection cfg),
      (''POST'', [Lit ''v1'', Lit ''runtime-instances'', Var ''id'', Lit ''sync''], handle_sync_runtime cfg),
      (''GET'', [Lit ''v1'', Lit ''runtime-instances'', Var ''id'', Lit ''sync-runs''], handle_list_runs cfg),
      (''GET'', [Lit ''v1'', Lit ''runtime-instances'', Var ''id'', Lit ''agents''], handle_list_instance_agents cfg),
      (''GET'', [Lit ''v1'', Lit ''runtime-instances'', Var ''id'', Lit ''subagent-executions''], handle_list_instance_subagents cfg),
      (''GET'', [Lit ''v1'', Lit ''runtime-instances'', Var ''id'', Lit ''executions''], handle_list_instance_executions cfg),
      (''GET'', [Lit ''v1'', Lit ''runtime-instances'', Var ''id'', Lit ''diagnostics''], handle_list_diagnostics cfg),
      (''GET'', [Lit ''v1'', Lit ''runtime-instances'', Var ''id'', Lit ''inventory''], handle_list_inventory cfg),
      (''GET'', [Lit ''v1'', Lit ''runtime-instances'', Var ''id'', Lit ''capabilities''], handle_list_capabilities cfg),
      (''GET'', [Lit ''v1'', Lit ''runtime-instances'', Var ''id'', Lit ''agent-delegations''], handle_instance_delegations cfg),
      (''GET'', [Lit ''v1'', Lit ''runtime-instances'', Var ''id'', Lit ''metrics''], handle_runtime_metrics cfg),
      (''GET'', [Lit ''v1'', Lit ''runtime-instances'', Var ''id'', Lit ''telemetry-health''], handle_telemetry_health cfg),
      (''GET'', [Lit ''v1'', Lit ''runtime-instances'', Var ''id'', Lit ''live'', Lit ''agents''], handle_list_live_agents cfg),
      (''GET'', [Lit ''v1'', Lit ''runtime-instances'', Var ''id'', Lit ''live'', Lit ''agents'', Var ''agentID'', Lit ''skills''], handle_live_skills cfg),
      (''GET'', [Lit ''v1'', Lit ''runtime-instances'', Var ''id'', Lit ''live'', Lit ''agents'', Var ''agentID'', Lit ''access''], handle_live_access cfg),
      (''POST'', [Lit ''v1'', Lit ''agents'', Var ''id'', Lit ''actions'', Lit ''reconcile-access''], handle_reconcile_access cfg),
      (''POST'', [Lit ''v1'', Lit ''agents'', Var ''id'', Lit ''actions'', Lit ''set-status''], handle_set_agent_status cfg),
      (''POST'', [Lit ''v1'', Lit ''agents'', Var ''id'', Lit ''actions'', Lit ''delete''], handle_delete_agent cfg),
      (''POST'', [Lit ''v1'', Lit ''runtime-executions'', Var ''id'', Lit ''actions'', Lit ''cancel''], handle_cancel_execution cfg),
      (''GET'', [Lit ''v1'', Lit ''metrics'', Lit ''summary''], handle_metrics_summary cfg),
      (''POST'', [Lit ''v1'', Lit ''telemetry'', Lit ''otlp'', Lit ''v1'', Lit ''traces''], handle_otlp_traces l cfg)]"


section \<open>The server\<close>

definition new_router :: "otlp_library \<Rightarrow> 'w router_config \<Rightarrow> 'w handler" where
  "new_router l cfg =
     recover_middleware (\<lambda>r w.
       apfst Inr (cors_middleware
         (session_auth (rt_library cfg) (mux (routes l cfg)) (rt_admin_token cfg) (rt_auth cfg))
         (rt_origins cfg) r w))"

text \<open>\<^verbatim>\<open>requestLogger\<close> notes the method, the path and the status of every response.\<close>

definition request_logger :: "'w handler \<Rightarrow> request \<Rightarrow> 'w \<Rightarrow> (response \<times> string \<times> string \<times> int) \<times> 'w" where
  "request_logger next_handler r w =
     (case next_handler r w of (resp, w) \<Rightarrow> ((resp, hr_method r, request_path r, rs_status resp), w))"

end
