(* ===== verification/Api_Claims.thy ===== *)
theory Api_Claims
  imports Api_Router Samples
begin

text \<open>What the HTTP boundary guarantees: every failure carries one of a fixed set of public messages
  (\<open>every_failure_is_public\<close>); a request without a session, with a forged CSRF token or without the
  role for its route reaches no handler (\<open>forged_request_refused\<close>, \<open>operator_routes_exact\<close>,
  \<open>viewer_refused\<close>); at most one route takes a request (\<open>route_unique\<close>); the actor of a control
  action is the user of the session (\<open>actor_not_forgeable\<close>); and trace spans are neither lost nor stored
  with content (\<open>spans_conserved\<close>, \<open>span_attributes_allowlisted\<close>, \<open>encodings_agree\<close>).\<close>

section \<open>The public error envelope\<close>

definition known_details :: "public_detail list" where
  "known_details =
     [detail ''CONFIRMATION_MISMATCH'' ''Enter the exact stable key shown in the confirmation dialog.'' False,
      detail ''TELEMETRY_PERMISSION_REQUIRED'' ''The runtime credential needs the usage:read permission.'' False,
      detail ''RUNTIME_UNAVAILABLE'' ''The runtime is unreachable. Confirm it is running and its endpoint is correct.'' True,
      detail ''STORAGE_UNAVAILABLE'' ''Capcom storage is not ready. Try again after the service finishes starting.'' True,
      detail ''TELEMETRY_NOT_CONFIGURED'' ''Connect a telemetry source before opening metrics.'' False,
      detail ''INVALID_CREDENTIALS'' ''The email or password is incorrect.'' False,
      detail ''ACCOUNT_UNAVAILABLE'' ''An account could not be created with those details.'' False,
      detail ''WEAK_PASSWORD'' ''Use a password between 15 and 128 characters that is not commonly used.'' False] @
     map public_error_for_status [400, 401, 403, 404, 409, 429, 502, 503, 500]"

lemma for_status_known: "public_error_for_status s \<in> set known_details"
  by (simp add: known_details_def public_error_for_status_def)

lemma public_error_known: "public_error s t \<in> set known_details"
  using for_status_known by (simp add: public_error_def Let_def) (simp add: known_details_def)

text \<open>A response that is not a success has a JSON object as its body, whose field \<^verbatim>\<open>error\<close> is one of
  these; beside it stands nothing but, where \<open>A\<close> or \<open>S\<close> allows it, the resource of a control action
  or of a synchronisation run.\<close>

definition failure_public :: "bool \<Rightarrow> bool \<Rightarrow> response \<Rightarrow> bool" where
  "failure_public A S resp \<longleftrightarrow> rs_status resp < 400 \<or>
     (\<exists>d extra. d \<in> set known_details \<and> rs_body resp = JsonBody (GMap ((''error'', detail_value d) # extra)) \<and>
        (extra = [] \<or> A \<and> (\<exists>a. extra = [(''action'', action_response a)]) \<or>
         S \<and> (\<exists>x. extra = [(''sync_run'', run_response x)])))"

definition handler_ok :: "bool \<Rightarrow> bool \<Rightarrow> 'w handler \<Rightarrow> bool" where
  "handler_ok A S h \<longleftrightarrow> (\<forall>r w. failure_public A S (fst (h r w)))"

named_theorems public_intros

lemma handler_okI [public_intros]: "(\<And>r w. failure_public A S (fst (h r w))) \<Longrightarrow> handler_ok A S h"
  by (simp add: handler_ok_def)

lemma write_public [public_intros, simp]: "failure_public A S (write_api_error s e)"
  using public_error_known by (auto simp: failure_public_def write_api_error_def write_api_error_with_def)

lemma action_error_public: "failure_public True S (write_api_error_with s e [(''action'', action_response a)])"
  using public_error_known by (auto simp: failure_public_def write_api_error_with_def)

lemma run_error_public: "failure_public A True (write_api_error_with s e [(''sync_run'', run_response x)])"
  using public_error_known by (auto simp: failure_public_def write_api_error_with_def)

lemma write_failure_public [public_intros, simp]: "failure_public A S (write_failure s t)"
  by (simp add: write_failure_def)

lemma reply_public [simp]: "s < 400 \<Longrightarrow> failure_public A S (reply s v)"
  by (simp add: failure_public_def)

lemma empty_reply_public [simp]: "s < 400 \<Longrightarrow> failure_public A S (empty_reply s)"
  by (simp add: failure_public_def)

lemma with_cookies_public [simp]: "failure_public A S (with_cookies cs resp) \<longleftrightarrow> failure_public A S resp"
  by (simp add: failure_public_def with_cookies_def)

lemma with_header_public [simp]: "failure_public A S (with_header k v resp) \<longleftrightarrow> failure_public A S resp"
  by (simp add: failure_public_def with_header_def)

lemma headers_public [simp]: "failure_public A S (resp\<lparr>rs_headers := hs\<rparr>) \<longleftrightarrow> failure_public A S resp"
  by (simp add: failure_public_def)

lemma missing_public [simp]:
  "failure_public A S (missing_as_404 s e)" "failure_public A S resp \<Longrightarrow> failure_public A S (missing_or resp e)"
  "failure_public A S (live_failure e)"
  by (simp_all add: missing_as_404_def missing_or_def live_failure_def)

lemma answer_public [simp]:
  "(\<And>e. failure_public A S (failed e)) \<Longrightarrow> s < 400 \<Longrightarrow> failure_public A S (fst (answer failed s view m w))"
  by (simp add: answer_def split: prod.splits sum.splits)

lemma answer_action_public [simp]: "failure_public True S (fst (answer_action m w))"
  by (simp add: answer_action_def action_error_public split: prod.splits option.splits)

lemma with_service_public:
  "(\<And>s r w. failure_public A S (fst (h s r w))) \<Longrightarrow> handler_ok A S (with_service x t h)"
  by (simp add: handler_ok_def with_service_def split: option.splits)

lemma with_body_public [simp]:
  "(\<And>b. failure_public A S (fst (h b r w))) \<Longrightarrow> failure_public A S (fst (with_body l fs z h r w))"
  by (simp add: with_body_def split: option.splits)

lemma fixed_error_public: "detail c m False \<in> set known_details \<Longrightarrow> failure_public A S (fixed_error s c m)"
  by (auto simp: failure_public_def fixed_error_def)

lemma auth_error_public [simp]: "failure_public A S (write_auth_error e)"
  by (auto simp: write_auth_error_def known_details_def intro!: fixed_error_public)

lemma start_session_public [simp]: "s < 400 \<Longrightarrow> failure_public A S (fst (start_web_session cfg s m w))"
  by (simp add: start_web_session_def split: prod.splits sum.splits)

lemmas session_handlers = handle_signup_def handle_login_def
lemmas connection_handlers = handle_create_secret_def handle_rotate_secret_def handle_create_connection_def
  handle_list_connections_def handle_get_connection_def handle_update_settings_def handle_remove_connection_def
  handle_consolidate_def handle_test_connection_def handle_list_live_agents_def handle_live_access_def
  handle_live_skills_def
lemmas record_handlers = handle_set_agent_status_def handle_reconcile_access_def handle_delete_agent_def
  handle_cancel_execution_def handle_sync_runtime_def handle_list_runs_def handle_get_run_def
  handle_list_agents_def handle_list_instance_agents_def answer_agents_def load_persisted_agent_def
  handle_get_agent_def handle_agent_skills_def handle_agent_access_def answer_subagents_def
  handle_list_subagents_def handle_list_instance_subagents_def answer_executions_def
  handle_list_executions_def handle_list_instance_executions_def handle_list_diagnostics_def
  handle_list_inventory_def handle_list_capabilities_def answer_delegations_def
  handle_agent_delegations_def handle_instance_delegations_def
lemmas telemetry_handlers = metrics_handler_def handle_metrics_summary_def handle_agent_metrics_def
  handle_runtime_metrics_def handle_telemetry_health_def handle_otlp_traces_def

lemma plain_handlers_ok:
  "handler_ok A S (handle_service_root cfg)" "handler_ok A S (handle_health cfg)" "handler_ok A S (handle_me cfg)"
  "handler_ok A S (handle_logout cfg)" "handler_ok A S handle_not_found"
  by (simp_all add: handler_ok_def handle_service_root_def handle_health_def handle_me_def handle_logout_def
      handle_not_found_def split: option.splits prod.splits sum.splits)

lemma session_handlers_ok: "handler_ok A S (handle_signup cfg)" "handler_ok A S (handle_login cfg)"
  unfolding session_handlers by (rule with_service_public; simp split: sum.splits)+

lemma connection_handlers_ok:
  "handler_ok A S (handle_create_secret cfg)" "handler_ok A S (handle_rotate_secret cfg)"
  "handler_ok A S (handle_create_connection cfg)" "handler_ok A S (handle_list_connections cfg)"
  "handler_ok A S (handle_get_connection cfg)" "handler_ok A S (handle_update_settings cfg)"
  "handler_ok A S (handle_remove_connection cfg)" "handler_ok A S (handle_consolidate cfg)"
  "handler_ok A S (handle_test_connection cfg)" "handler_ok A S (handle_list_live_agents cfg)"
  "handler_ok A S (handle_live_access cfg)" "handler_ok A S (handle_live_skills cfg)"
  unfolding connection_handlers by (rule with_service_public; simp split: sum.splits prod.splits)+

lemma record_handlers_ok:
  "handler_ok True S (handle_set_agent_status cfg)" "handler_ok True S (handle_reconcile_access cfg)"
  "handler_ok True S (handle_delete_agent cfg)" "handler_ok True S (handle_cancel_execution cfg)"
  "handler_ok A True (handle_sync_runtime cfg)" "handler_ok A S (handle_list_runs cfg)" "handler_ok A S (handle_get_run cfg)"
  "handler_ok A S (handle_list_agents cfg)" "handler_ok A S (handle_list_instance_agents cfg)"
  "handler_ok A S (handle_get_agent cfg)" "handler_ok A S (handle_agent_skills cfg)" "handler_ok A S (handle_agent_access cfg)"
  "handler_ok A S (handle_list_subagents cfg)" "handler_ok A S (handle_list_instance_subagents cfg)"
  "handler_ok A S (handle_list_executions cfg)" "handler_ok A S (handle_list_instance_executions cfg)"
  "handler_ok A S (handle_list_diagnostics cfg)" "handler_ok A S (handle_list_inventory cfg)"
  "handler_ok A S (handle_list_capabilities cfg)" "handler_ok A S (handle_agent_delegations cfg)"
  "handler_ok A S (handle_instance_delegations cfg)"
  unfolding record_handlers
  by (rule with_service_public; simp add: run_error_public split: option.splits prod.splits)+

lemma otlp_reply_public [simp]: "failure_public A S (otlp_reply l p a b c)"
  by (simp add: otlp_reply_def failure_public_def [of A S "response.make _ _ _ _"] split: option.splits)
     (simp add: failure_public_def)

lemma otlp_answer_public [simp]: "failure_public A S (otlp_answer l p n x)"
  by (simp add: otlp_answer_def Let_def split: option.splits)

lemma telemetry_handlers_ok:
  "handler_ok A S (handle_metrics_summary cfg)" "handler_ok A S (handle_agent_metrics cfg)"
  "handler_ok A S (handle_runtime_metrics cfg)" "handler_ok A S (handle_telemetry_health cfg)"
  "handler_ok A S (handle_otlp_traces l cfg)"
  unfolding telemetry_handlers
  by (rule with_service_public; simp add: summary_failure_def Let_def split: sum.splits prod.splits)+

lemmas handlers_ok = plain_handlers_ok session_handlers_ok connection_handlers_ok record_handlers_ok
  telemetry_handlers_ok

text \<open>The routes of the control actions and of the synchronisation.\<close>

definition action_routes :: "(string \<times> segment list) list" where
  "action_routes =
     [(''POST'', [Lit ''v1'', Lit ''agents'', Var ''id'', Lit ''actions'', Lit ''reconcile-access'']),
      (''POST'', [Lit ''v1'', Lit ''agents'', Var ''id'', Lit ''actions'', Lit ''set-status'']),
      (''POST'', [Lit ''v1'', Lit ''agents'', Var ''id'', Lit ''actions'', Lit ''delete'']),
      (''POST'', [Lit ''v1'', Lit ''runtime-executions'', Var ''id'', Lit ''actions'', Lit ''cancel''])]"

definition sync_routes :: "(string \<times> segment list) list" where
  "sync_routes =
     [(''POST'', [Lit ''v1'', Lit ''runtime-connections'', Var ''id'', Lit ''sync'']),
      (''POST'', [Lit ''v1'', Lit ''runtime-instances'', Var ''id'', Lit ''sync''])]"

definition takes :: "string \<times> segment list \<Rightarrow> request \<Rightarrow> bool" where
  "takes k r \<longleftrightarrow> method_matches (fst k) (hr_method r) \<and> match_segments (snd k) (hr_segments r) \<noteq> None"

abbreviation one_takes :: "(string \<times> segment list) list \<Rightarrow> request \<Rightarrow> bool" where
  "one_takes ks r \<equiv> list_ex (\<lambda>k. takes k r) ks"

text \<open>A handler all of whose failures at the method and path of \<open>q\<close> are public ones.\<close>

definition ok_at :: "request \<Rightarrow> 'w handler \<Rightarrow> bool" where
  "ok_at q h \<longleftrightarrow> (\<forall>r w. hr_method r = hr_method q \<longrightarrow> hr_segments r = hr_segments q \<longrightarrow>
     failure_public (one_takes action_routes q) (one_takes sync_routes q) (fst (h r w)))"

lemma ok_at_apply:
  "ok_at q h \<Longrightarrow> hr_method r = hr_method q \<Longrightarrow> hr_segments r = hr_segments q \<Longrightarrow>
     failure_public (one_takes action_routes q) (one_takes sync_routes q) (fst (h r w))"
  by (simp add: ok_at_def)

lemma ok_atD:
  "h r w = (resp, w') \<Longrightarrow> ok_at q h \<Longrightarrow> hr_method r = hr_method q \<Longrightarrow> hr_segments r = hr_segments q \<Longrightarrow>
     failure_public (one_takes action_routes q) (one_takes sync_routes q) resp"
  by (metis fst_conv ok_at_apply)

lemma ok_at_handler: "handler_ok (one_takes action_routes q) (one_takes sync_routes q) h \<Longrightarrow> ok_at q h"
  by (simp add: handler_ok_def ok_at_def)

lemma ok_at_action:
  assumes "\<And>S. handler_ok True S h" and "takes k q" and "List.member action_routes k"
  shows "ok_at q h"
proof -
  have "one_takes action_routes q"
    using assms(2,3) by (auto simp: list_ex_iff List.member_iff)
  then show ?thesis
    using ok_at_handler [of q h] assms(1) by simp
qed

lemma ok_at_sync:
  assumes "\<And>A. handler_ok A True h" and "takes k q" and "List.member sync_routes k"
  shows "ok_at q h"
proof -
  have "one_takes sync_routes q"
    using assms(2,3) by (auto simp: list_ex_iff List.member_iff)
  then show ?thesis
    using ok_at_handler [of q h] assms(1) by simp
qed

lemmas ok_at_extra = record_handlers_ok(1-4) [THEN ok_at_action] record_handlers_ok(5) [THEN ok_at_sync]

lemma routes_ok: "list_all (\<lambda>x. takes (fst x, fst (snd x)) q \<longrightarrow> ok_at q (snd (snd x))) (routes l cfg)"
  by (simp add: routes_def ok_at_handler handlers_ok; intro conjI impI;
      erule ok_at_extra; simp add: action_routes_def sync_routes_def)

lemma dispatch_ok:
  "list_all (\<lambda>x. takes (fst x, fst (snd x)) q \<longrightarrow> ok_at q (snd (snd x))) xs \<Longrightarrow> ok_at q (dispatch xs)"
proof (induction xs)
  case Nil
  have "dispatch [] = handle_not_found"
    by (intro ext) simp
  then show ?case
    by (simp add: ok_at_handler plain_handlers_ok(5))
next
  case (Cons x xs)
  then show ?case
    by (auto simp: ok_at_def takes_def route_values_def split: option.split)
qed

lemma session_auth_ok: "ok_at q h \<Longrightarrow> ok_at q (session_auth l h token auth)"
  unfolding ok_at_def [of q "session_auth l h token auth"]
  by (auto simp: session_auth_def ok_at_apply dest!: ok_atD split: option.splits prod.splits sum.splits)

lemma cors_ok: "ok_at q h \<Longrightarrow> ok_at q (cors_middleware h origins)"
  unfolding ok_at_def [of q "cors_middleware h origins"]
  by (auto simp: cors_middleware_def Let_def ok_at_apply dest!: ok_atD split: prod.splits)

text \<open>C17: Whatever the request, the configuration, the services behind the router and their errors, a
  response of status 400 or more is a JSON object whose \<^verbatim>\<open>error\<close> is one of seventeen fixed public
  details, and which has no other field, except that a failing control action adds the resource of an
  action and a failing synchronisation the resource of a run, each on its own routes only.\<close>

theorem every_failure_is_public:
  "failure_public (one_takes action_routes r) (one_takes sync_routes r) (fst (new_router l cfg r w))"
proof -
  have "ok_at r (mux (routes l cfg))"
    using dispatch_ok [OF routes_ok, of r l cfg] by (simp add: ok_at_def mux_def)
  then have "ok_at r (cors_middleware (session_auth (rt_library cfg) (mux (routes l cfg)) (rt_admin_token cfg)
      (rt_auth cfg)) (rt_origins cfg))"
    by (intro cors_ok session_auth_ok)
  then show ?thesis
    by (auto simp: new_router_def recover_middleware_def apfst_def map_prod_def dest: ok_atD
        split: prod.splits sum.splits)
qed



section \<open>The gate in front of the routes\<close>

text \<open>A request that reaches no handler: the answer and the world after it do not depend on the handler.\<close>

definition stopped :: "('w handler \<Rightarrow> 'w handler) \<Rightarrow> request \<Rightarrow> 'w \<Rightarrow> bool" where
  "stopped middleware r w \<longleftrightarrow> (\<forall>h h'. middleware h r w = middleware h' r w)"

lemma stopped_session_auth:
  assumes "\<not> is_public_path r" "\<not> admin_token_given l token r"
    "\<And>a value who w'. auth = Some a \<Longrightarrow> map_of (hr_cookies r) session_cookie = Some value \<Longrightarrow>
       qa_authenticate a (hr_context r) value w = (Inr who, w') \<Longrightarrow>
       \<not> authorized_for_request who r \<or>
       requires_csrf (hr_method r) \<and> qa_verify_csrf a who (header_of r ''X-Csrf-Token'') \<noteq> None"
  shows "stopped (\<lambda>h. session_auth l h token auth) r w \<and>
    rs_status (fst (session_auth l h token auth r w)) \<in> {401, 403}"
  using assms
  by (fastforce simp: stopped_def session_auth_def write_api_error_def write_api_error_with_def with_cookies_def
      split: option.splits prod.splits sum.splits)

text \<open>C7: A request that changes something (any method but GET, HEAD and OPTIONS) and does not carry the
  CSRF token of its session is answered with 401 or 403 and reaches no handler: the answer and the state
  are the same whatever the routes do.  The exceptions are the public routes and the administrator token.\<close>

theorem forged_request_refused:
  assumes "\<not> is_public_path r" "\<not> admin_token_given l token r" "requires_csrf (hr_method r)"
    and "\<And>value who w'. map_of (hr_cookies r) session_cookie = Some value \<Longrightarrow>
       stored (authenticate (ports (hr_context r)) value) w = (Inr who, w') \<Longrightarrow>
       header_of r ''X-Csrf-Token'' = '''' \<or>
       al_sha256 (ap_library (ports None)) (header_of r ''X-Csrf-Token'') \<noteq> p_csrf_hash who"
  shows "stopped (\<lambda>h. session_auth l h token (Some (auth_api_of ports))) r w \<and>
    rs_status (fst (session_auth l h token (Some (auth_api_of ports)) r w)) \<in> {401, 403}"
proof (rule stopped_session_auth [OF assms(1,2)])
  fix a tok who w'
  assume "Some (auth_api_of ports) = Some a" "map_of (hr_cookies r) session_cookie = Some tok"
    "qa_authenticate a (hr_context r) tok w = (Inr who, w')"
  with assms(3,4) show "\<not> authorized_for_request who r \<or>
       requires_csrf (hr_method r) \<and> qa_verify_csrf a who (header_of r ''X-Csrf-Token'') \<noteq> None"
    by (auto simp: auth_api_of_def verify_csrf_def)
qed


section \<open>Roles and routes\<close>

text \<open>The methods and patterns of the table.\<close>

definition route_keys :: "otlp_library \<Rightarrow> 'w router_config \<Rightarrow> (string \<times> segment list) list" where
  "route_keys l cfg = map (\<lambda>x. (fst x, fst (snd x))) (routes l cfg)"

text \<open>What an operator may use to change something.\<close>

definition operator_routes :: "(string \<times> segment list) list" where
  "operator_routes =
     [(''POST'', [Lit ''auth'', Lit ''logout'']),
      (''POST'', [Lit ''auth'', Lit ''login'']), (''POST'', [Lit ''auth'', Lit ''signup'']),
      (''POST'', [Lit ''v1'', Lit ''runtime-connections'', Var ''id'', Lit ''test'']),
      (''POST'', [Lit ''v1'', Lit ''runtime-connections'', Var ''id'', Lit ''sync'']),
      (''POST'', [Lit ''v1'', Lit ''runtime-instances'', Var ''id'', Lit ''test'']),
      (''POST'', [Lit ''v1'', Lit ''runtime-instances'', Var ''id'', Lit ''sync'']),
      (''POST'', [Lit ''v1'', Lit ''agents'', Var ''id'', Lit ''actions'', Lit ''reconcile-access'']),
      (''POST'', [Lit ''v1'', Lit ''agents'', Var ''id'', Lit ''actions'', Lit ''set-status'']),
      (''POST'', [Lit ''v1'', Lit ''agents'', Var ''id'', Lit ''actions'', Lit ''delete'']),
      (''POST'', [Lit ''v1'', Lit ''runtime-executions'', Var ''id'', Lit ''actions'', Lit ''cancel'']),
      (''POST'', [Lit ''v1'', Lit ''telemetry'', Lit ''otlp'', Lit ''v1'', Lit ''traces''])]"

lemma join_with_snoc: "xs \<noteq> [] \<Longrightarrow> join_with sep (xs @ [y]) = join_with sep xs @ sep @ y"
  by (induction sep xs rule: join_with.induct) auto

lemma slash_suffix:
  assumes "CHR 0x2F \<notin> set t"
  shows "has_suffix (a @ CHR 0x2F # s) (CHR 0x2F # t) \<longleftrightarrow> s = t \<or> has_suffix s (CHR 0x2F # t)"
proof -
  have "xs' = [] \<and> t = s" if "CHR 0x2F # t = xs' @ CHR 0x2F # s" for xs'
    using that assms by (cases xs') auto
  then show ?thesis
    by (auto simp: suffix_append suffix_Cons)
qed

lemma path_suffix_any:
  assumes "hr_segments r \<noteq> []" "CHR 0x2F \<notin> set t"
  shows "has_suffix (request_path r) (CHR 0x2F # t) \<longleftrightarrow>
    last (hr_segments r) = t \<or> has_suffix (last (hr_segments r)) (CHR 0x2F # t)"
proof -
  let ?xs = "butlast (hr_segments r)" and ?s = "last (hr_segments r)"
  have xs: "hr_segments r = ?xs @ [?s]"
    using assms(1) by simp
  have "\<exists>a. request_path r = a @ CHR 0x2F # ?s"
  proof (cases "?xs = []")
    case True
    then show ?thesis
      by (subst request_path_def, subst xs) (simp add: True)
  next
    case False
    then have "request_path r = (CHR 0x2F # join_with ''/'' ?xs) @ CHR 0x2F # ?s"
      by (subst request_path_def, subst xs) (simp add: join_with_snoc)
    then show ?thesis
      by blast
  qed
  then show ?thesis
    using slash_suffix [OF assms(2)] by auto
qed

lemma path_suffix:
  assumes "hr_segments r \<noteq> []" "CHR 0x2F \<notin> set (last (hr_segments r))" "CHR 0x2F \<notin> set t"
  shows "has_suffix (request_path r) (CHR 0x2F # t) \<longleftrightarrow> last (hr_segments r) = t"
proof -
  have "\<not> has_suffix (last (hr_segments r)) (CHR 0x2F # t)"
    using assms(2) by (auto simp: suffix_def)
  then show ?thesis
    using path_suffix_any [OF assms(1,3)] by simp
qed

lemma path_prefix: "has_prefix (request_path r) p \<longleftrightarrow> has_prefix (CHR 0x2F # join_with ''/'' (hr_segments r)) p"
  by (simp add: request_path_def)

lemma path_equal: "request_path r = p \<longleftrightarrow> CHR 0x2F # join_with ''/'' (hr_segments r) = p"
  by (simp add: request_path_def)

lemma match_Nil: "match_segments [] ss = Some vs \<longleftrightarrow> ss = [] \<and> vs = []"
  by (cases ss) auto

lemma match_Lit: "match_segments (Lit t # ps) ss = Some vs \<longleftrightarrow> (\<exists>rest. ss = t # rest \<and> match_segments ps rest = Some vs)"
  by (cases ss) auto

lemma match_Var:
  "match_segments (Var x # ps) ss = Some vs \<longleftrightarrow>
     (\<exists>s rest vs'. ss = s # rest \<and> s \<noteq> '''' \<and> match_segments ps rest = Some vs' \<and> vs = (x, s) # vs')"
  by (cases ss) auto

lemmas match_iffs = match_Nil match_Lit match_Var

definition manager_routes :: "(string \<times> segment list) list" where
  "manager_routes =
     [(''POST'', [Lit ''v1'', Lit ''secrets'']), (''PUT'', [Lit ''v1'', Lit ''secrets'', Var ''name'']),
      (''POST'', [Lit ''v1'', Lit ''runtime-connections'']),
      (''PATCH'', [Lit ''v1'', Lit ''runtime-connections'', Var ''id'']),
      (''DELETE'', [Lit ''v1'', Lit ''runtime-connections'', Var ''id'']),
      (''POST'', [Lit ''v1'', Lit ''runtime-instances'']),
      (''PATCH'', [Lit ''v1'', Lit ''runtime-instances'', Var ''id'']),
      (''DELETE'', [Lit ''v1'', Lit ''runtime-instances'', Var ''id'']),
      (''POST'', [Lit ''v1'', Lit ''runtime-instances'', Var ''id'', Lit ''endpoints'', Lit ''consolidate''])]"

lemma mutating_route_keys:
  "set (filter (\<lambda>k. requires_csrf (fst k)) (route_keys l cfg)) = set (operator_routes @ manager_routes)"
  by (simp add: route_keys_def routes_def requires_csrf_def manager_routes_def operator_routes_def) fast

lemma operator_allowed:
  assumes "(m, p) \<in> set operator_routes" "match_segments p (hr_segments r) = Some vs" "p_role who = ''operator''"
  shows "authorized_for_request who r"
  using assms(1)
  by (simp only: operator_routes_def list.set insert_iff empty_iff simp_thms prod.inject, elim disjE conjE;
      insert assms(2,3), clarsimp simp: match_iffs authorized_for_request_def path_suffix path_prefix path_equal)

text \<open>The routes that change or remove one connection, and the identifiers that make their path end as
  the path of a test or a synchronisation does.\<close>

definition connection_routes :: "(string \<times> segment list) list" where
  "connection_routes =
     [(''PATCH'', [Lit ''v1'', Lit ''runtime-connections'', Var ''id'']),
      (''DELETE'', [Lit ''v1'', Lit ''runtime-connections'', Var ''id'']),
      (''PATCH'', [Lit ''v1'', Lit ''runtime-instances'', Var ''id'']),
      (''DELETE'', [Lit ''v1'', Lit ''runtime-instances'', Var ''id''])]"

definition ends_as_run :: "string \<Rightarrow> bool" where
  "ends_as_run s \<longleftrightarrow> s = ''sync'' \<or> s = ''test'' \<or> has_suffix s ''/sync'' \<or> has_suffix s ''/test''"

lemma operator_refused:
  assumes "(hr_method r, p) \<in> set manager_routes - set connection_routes"
    "match_segments p (hr_segments r) = Some vs" "p_role who = ''operator''" "\<not> p_platform_admin who"
  shows "\<not> authorized_for_request who r"
  using assms(1)
  by (simp only: manager_routes_def connection_routes_def list.set insert_iff empty_iff simp_thms prod.inject Diff_iff,
      elim disjE conjE; insert assms(2-4),
      clarsimp simp: match_iffs authorized_for_request_def path_suffix path_prefix path_equal)

lemma operator_connection:
  assumes "(hr_method r, p) \<in> set connection_routes" "match_segments p (hr_segments r) = Some vs"
    "p_role who = ''operator''" "\<not> p_platform_admin who"
  shows "authorized_for_request who r \<longleftrightarrow> ends_as_run (last (hr_segments r))"
  using assms(1)
  by (simp only: connection_routes_def list.set insert_iff empty_iff simp_thms prod.inject,
      elim disjE conjE; insert assms(2-4),
      auto simp: match_iffs authorized_for_request_def path_suffix_any path_prefix path_equal ends_as_run_def)

text \<open>C13: What an operator may change is exactly this: run the test and the synchronisation of a runtime,
  run the four control actions, send traces, and use the session routes; and, because the gate looks at
  how the path ends and not at the route, change or remove the connection of an identifier that is
  \<^verbatim>\<open>sync\<close> or \<^verbatim>\<open>test\<close> or ends in a slash and one of them.  Every other route that changes something
  (secrets, connections and their settings, removal, consolidation) is refused, for every path.\<close>

theorem operator_routes_exact:
  assumes "(hr_method r, p) \<in> set (route_keys l cfg)" "requires_csrf (hr_method r)"
    and "match_segments p (hr_segments r) = Some vs"
    and "p_role who = ''operator''" "\<not> p_platform_admin who"
  shows "authorized_for_request who r \<longleftrightarrow>
    (hr_method r, p) \<in> set operator_routes \<or>
    (hr_method r, p) \<in> set connection_routes \<and> ends_as_run (last (hr_segments r))"
proof -
  have "(hr_method r, p) \<in> set (filter (\<lambda>k. requires_csrf (fst k)) (route_keys l cfg))"
    using assms(1,2) by simp
  then consider (run) "(hr_method r, p) \<in> set operator_routes"
    | (connection) "(hr_method r, p) \<in> set connection_routes" "(hr_method r, p) \<notin> set operator_routes"
    | (manage) "(hr_method r, p) \<in> set manager_routes - set connection_routes" "(hr_method r, p) \<notin> set operator_routes"
    unfolding mutating_route_keys by auto
  then show ?thesis
  proof cases
    case run
    then show ?thesis
      using operator_allowed assms(3,4) by blast
  next
    case connection
    then show ?thesis
      using operator_connection assms(3-5) by blast
  next
    case manage
    then show ?thesis
      using operator_refused assms(3-5) by blast
  qed
qed

text \<open>A member whose role is none of owner, admin and operator changes nothing: apart from signing out,
  each request of such a member that changes something is answered with 403 and reaches no handler.\<close>

lemma viewer_refused:
  assumes "\<not> is_public_path r" "\<not> admin_token_given l token r" "requires_csrf (hr_method r)"
    and "request_path r \<noteq> ''/auth/logout''" "map_of (hr_cookies r) session_cookie = Some tok"
    and "qa_authenticate a (hr_context r) tok w = (Inr who, w')"
    and "\<not> p_platform_admin who" "p_role who \<notin> {''owner'', ''admin'', ''operator''}"
  shows "session_auth l h token (Some a) r w =
    (write_api_error 403 (Text ''role does not allow this action''), w')"
proof -
  have "\<not> authorized_for_request who r"
    using assms(3,4,7,8) by (simp add: authorized_for_request_def requires_csrf_def)
  then show ?thesis
    using assms(1,2,5,6) by (simp add: session_auth_def)
qed

section \<open>Concrete requests\<close>

definition sample_request :: "string \<Rightarrow> string list \<Rightarrow> (string \<times> string) list \<Rightarrow> request" where
  "sample_request m segments headers =
     \<lparr>hr_method = m, hr_segments = segments, hr_clean = True, hr_headers = headers,
      hr_cookies = [(session_cookie, ''s1'')], hr_query = [], hr_values = [], hr_remote = ''10.0.0.1:4'',
      hr_body = '''', hr_context = None\<rparr>"

definition sample_api_library :: api_library where
  "sample_api_library =
     \<lparr>jl_next = \<lambda>s. None, jl_sha256 = \<lambda>s. s, jl_host = \<lambda>s. Some (takeWhile (\<lambda>c. c \<noteq> CHR 0x3A) s)\<rparr>"

definition sample_member :: "string \<Rightarrow> principal" where
  "sample_member role =
     \<lparr>p_user = ''u1'', p_email = ''ada@example.com'', p_org = ''o1'',
      p_organization = \<lparr>org_id = ''o1'', org_name = ''Org'', org_slug = ''org''\<rparr>, p_role = role,
      p_session = ''x1'', p_csrf_hash = ''csrf'', p_platform_admin = False\<rparr>"

definition sample_auth_api :: "string \<Rightarrow> unit auth_api" where
  "sample_auth_api role =
     \<lparr>qa_signup = \<lambda>_ _ _. failing (Sentinel RateLimited), qa_login = \<lambda>_ _ _ _. failing (Sentinel RateLimited),
      qa_authenticate = \<lambda>_ tok. (if tok = ''s1'' then return (sample_member role) else failing (Sentinel InvalidSession)),
      qa_verify_csrf = \<lambda>who tok. if tok = p_csrf_hash who then None else Some (Sentinel InvalidCSRF),
      qa_logout = \<lambda>_ _. return ()\<rparr>"

definition sample_config :: "string \<Rightarrow> unit router_config" where
  "sample_config role =
     \<lparr>rt_version = ''1'', rt_admin_token = '''', rt_origins = [], rt_connections = None, rt_secrets = None,
      rt_sync = None, rt_control = None, rt_telemetry = None, rt_auth = Some (sample_auth_api role),
      rt_secure_cookies = True, rt_library = sample_api_library, rt_now = return 0\<rparr>"

definition sample_otlp_library :: otlp_library where
  "sample_otlp_library = \<lparr>ol_decode = \<lambda>_. None, ol_encode = \<lambda>_. None\<rparr>"

lemmas sample_api_simps = sample_request_def sample_member_def sample_api_library_def request_path_def
  is_public_path_def admin_token_given_def value_or_empty_def requires_csrf_def

lemma forged_request_refused_witness:
  "rs_status (fst (session_auth sample_api_library (\<lambda>r w. (empty_reply 204, w)) ''''
     (Some (auth_api_of (\<lambda>ctx. auth_store_ports calm_env
        \<lparr>al_nfc = \<lambda>s. s, al_address = Some, al_sha256 = \<lambda>s. s, al_argon2 = \<lambda>_ _ _ _ _ _. '''',
         al_encode = \<lambda>s. s, al_decode = Some, al_encode_url = \<lambda>s. s\<rparr> ''hash'')))
     (sample_request ''DELETE'' [''v1'', ''runtime-connections'', ''c1''] [])
     \<lparr>aw_store = \<lparr>w_db = empty_db, w_step = 0, w_locks = [], w_runtime = ()\<rparr>, aw_limiter = []\<rparr>)) \<in> {401, 403}"
  by (rule conjunct2 [OF forged_request_refused]) (simp_all add: sample_api_simps)

lemma operator_routes_exact_witness:
  "\<not> authorized_for_request (sample_member ''operator'')
     (sample_request ''DELETE'' [''v1'', ''runtime-connections'', ''c1''] []) \<and>
   authorized_for_request (sample_member ''operator'')
     (sample_request ''DELETE'' [''v1'', ''runtime-connections'', ''sync''] [])"
  using operator_routes_exact [of "sample_request ''DELETE'' [''v1'', ''runtime-connections'', ''c1''] []"
      "[Lit ''v1'', Lit ''runtime-connections'', Var ''id'']" sample_otlp_library "sample_config ''operator''"
      "[(''id'', ''c1'')]" "sample_member ''operator''"]
    operator_routes_exact [of "sample_request ''DELETE'' [''v1'', ''runtime-connections'', ''sync''] []"
      "[Lit ''v1'', Lit ''runtime-connections'', Var ''id'']" sample_otlp_library "sample_config ''operator''"
      "[(''id'', ''sync'')]" "sample_member ''operator''"]
  by (simp add: sample_api_simps route_keys_def routes_def operator_routes_def connection_routes_def
      ends_as_run_def suffix_def)


section \<open>One route for each request\<close>

fun overlap :: "segment list \<Rightarrow> segment list \<Rightarrow> bool" where
  "overlap [] [] \<longleftrightarrow> True"
| "overlap (Lit s # ps) (Lit t # qs) \<longleftrightarrow> s = t \<and> overlap ps qs"
| "overlap (Var x # ps) (Lit t # qs) \<longleftrightarrow> t \<noteq> '''' \<and> overlap ps qs"
| "overlap (Lit t # ps) (Var x # qs) \<longleftrightarrow> t \<noteq> '''' \<and> overlap ps qs"
| "overlap (Var x # ps) (Var y # qs) \<longleftrightarrow> overlap ps qs"
| "overlap _ _ \<longleftrightarrow> False"

lemma match_overlap: "match_segments p ss = Some v \<Longrightarrow> match_segments q ss = Some v' \<Longrightarrow> overlap p q"
  by (induction p q arbitrary: ss v v' rule: overlap.induct)
     (auto simp: match_iffs elim!: match_segments.elims [where ?y = "Some v'"] split: if_splits)

fun clashes :: "string \<times> segment list \<Rightarrow> (string \<times> segment list) list \<Rightarrow> bool" where
  "clashes a [] \<longleftrightarrow> False"
| "clashes a (b # bs) \<longleftrightarrow>
     (if length (snd a) = length (snd b) \<and> fst a = fst b then overlap (snd a) (snd b) else False) \<or> clashes a bs"

fun clash_free :: "(string \<times> segment list) list \<Rightarrow> bool" where
  "clash_free [] \<longleftrightarrow> True"
| "clash_free (a # bs) \<longleftrightarrow> \<not> clashes a bs \<and> clash_free bs"

lemma overlap_commute: "overlap p q \<longleftrightarrow> overlap q p"
  by (induction p q rule: overlap.induct) auto

lemma overlap_length: "overlap p q \<Longrightarrow> length p = length q"
  by (induction p q rule: overlap.induct) auto

lemma not_clashes: "\<not> clashes a bs \<Longrightarrow> b \<in> set bs \<Longrightarrow> fst a = fst b \<Longrightarrow> \<not> overlap (snd a) (snd b)"
  by (induction bs) (auto dest: overlap_length split: if_splits)

lemma clash_free_overlap:
  "clash_free ks \<Longrightarrow> a \<in> set ks \<Longrightarrow> b \<in> set ks \<Longrightarrow> fst a = fst b \<Longrightarrow> overlap (snd a) (snd b) \<Longrightarrow> a = b"
proof (induction ks)
  case (Cons k ks)
  then show ?case
    using not_clashes [of k ks] overlap_commute by (metis clash_free.simps(2) set_ConsD)
qed simp

definition key_table :: "(string \<times> segment list) list" where
  "key_table =
     [(''GET'', [Lit '''']),
      (''GET'', [Lit ''healthz'']),
      (''POST'', [Lit ''auth'', Lit ''signup'']),
      (''POST'', [Lit ''auth'', Lit ''login'']),
      (''POST'', [Lit ''auth'', Lit ''logout'']),
      (''GET'', [Lit ''v1'', Lit ''me'']),
      (''POST'', [Lit ''v1'', Lit ''secrets'']),
      (''PUT'', [Lit ''v1'', Lit ''secrets'', Var ''name'']),
      (''POST'', [Lit ''v1'', Lit ''runtime-connections'']),
      (''GET'', [Lit ''v1'', Lit ''runtime-connections'']),
      (''GET'', [Lit ''v1'', Lit ''runtime-connections'', Var ''id'']),
      (''PATCH'', [Lit ''v1'', Lit ''runtime-connections'', Var ''id'']),
      (''DELETE'', [Lit ''v1'', Lit ''runtime-connections'', Var ''id'']),
      (''POST'', [Lit ''v1'', Lit ''runtime-connections'', Var ''id'', Lit ''test'']),
      (''GET'', [Lit ''v1'', Lit ''runtime-connections'', Var ''id'', Lit ''agents'']),
      (''GET'', [Lit ''v1'', Lit ''runtime-connections'', Var ''id'', Lit ''agents'', Var ''agentID'', Lit ''skills'']),
      (''GET'', [Lit ''v1'', Lit ''runtime-connections'', Var ''id'', Lit ''agents'', Var ''agentID'', Lit ''access'']),
      (''POST'', [Lit ''v1'', Lit ''runtime-connections'', Var ''id'', Lit ''sync'']),
      (''GET'', [Lit ''v1'', Lit ''runtime-connections'', Var ''id'', Lit ''sync-runs'']),
      (''GET'', [Lit ''v1'', Lit ''runtime-connections'', Var ''id'', Lit ''sync-runs'', Var ''runID'']),
      (''GET'', [Lit ''v1'', Lit ''agents'']),
      (''GET'', [Lit ''v1'', Lit ''agents'', Var ''id'']),
      (''GET'', [Lit ''v1'', Lit ''agents'', Var ''id'', Lit ''skills'']),
      (''GET'', [Lit ''v1'', Lit ''agents'', Var ''id'', Lit ''access'']),
      (''GET'', [Lit ''v1'', Lit ''agents'', Var ''id'', Lit ''delegations'']),
      (''GET'', [Lit ''v1'', Lit ''agents'', Var ''id'', Lit ''metrics'']),
      (''GET'', [Lit ''v1'', Lit ''subagent-executions'']),
      (''GET'', [Lit ''v1'', Lit ''runtime-executions'']),
      (''POST'', [Lit ''v1'', Lit ''runtime-instances'']),
      (''GET'', [Lit ''v1'', Lit ''runtime-instances'']),
      (''GET'', [Lit ''v1'', Lit ''runtime-instances'', Var ''id'']),
      (''PATCH'', [Lit ''v1'', Lit ''runtime-instances'', Var ''id'']),
      (''DELETE'', [Lit ''v1'', Lit ''runtime-instances'', Var ''id'']),
      (''POST'', [Lit ''v1'', Lit ''runtime-instances'', Var ''id'', Lit ''endpoints'', Lit ''consolidate'']),
      (''POST'', [Lit ''v1'', Lit ''runtime-instances'', Var ''id'', Lit ''test'']),
      (''POST'', [Lit ''v1'', Lit ''runtime-instances'', Var ''id'', Lit ''sync'']),
      (''GET'', [Lit ''v1'', Lit ''runtime-instances'', Var ''id'', Lit ''sync-runs'']),
      (''GET'', [Lit ''v1'', Lit ''runtime-instances'', Var ''id'', Lit ''agents'']),
      (''GET'', [Lit ''v1'', Lit ''runtime-instances'', Var ''id'', Lit ''subagent-executions'']),
      (''GET'', [Lit ''v1'', Lit ''runtime-instances'', Var ''id'', Lit ''executions'']),
      (''GET'', [Lit ''v1'', Lit ''runtime-instances'', Var ''id'', Lit ''diagnostics'']),
      (''GET'', [Lit ''v1'', Lit ''runtime-instances'', Var ''id'', Lit ''inventory'']),
      (''GET'', [Lit ''v1'', Lit ''runtime-instances'', Var ''id'', Lit ''capabilities'']),
      (''GET'', [Lit ''v1'', Lit ''runtime-instances'', Var ''id'', Lit ''agent-delegations'']),
      (''GET'', [Lit ''v1'', Lit ''runtime-instances'', Var ''id'', Lit ''metrics'']),
      (''GET'', [Lit ''v1'', Lit ''runtime-instances'', Var ''id'', Lit ''telemetry-health'']),
      (''GET'', [Lit ''v1'', Lit ''runtime-instances'', Var ''id'', Lit ''live'', Lit ''agents'']),
      (''GET'', [Lit ''v1'', Lit ''runtime-instances'', Var ''id'', Lit ''live'', Lit ''agents'', Var ''agentID'', Lit ''skills'']),
      (''GET'', [Lit ''v1'', Lit ''runtime-instances'', Var ''id'', Lit ''live'', Lit ''agents'', Var ''agentID'', Lit ''access'']),
      (''POST'', [Lit ''v1'', Lit ''agents'', Var ''id'', Lit ''actions'', Lit ''reconcile-access'']),
      (''POST'', [Lit ''v1'', Lit ''agents'', Var ''id'', Lit ''actions'', Lit ''set-status'']),
      (''POST'', [Lit ''v1'', Lit ''agents'', Var ''id'', Lit ''actions'', Lit ''delete'']),
      (''POST'', [Lit ''v1'', Lit ''runtime-executions'', Var ''id'', Lit ''actions'', Lit ''cancel'']),
      (''GET'', [Lit ''v1'', Lit ''metrics'', Lit ''summary'']),
      (''POST'', [Lit ''v1'', Lit ''telemetry'', Lit ''otlp'', Lit ''v1'', Lit ''traces''])]"

lemma route_keys_eval: "route_keys l cfg = key_table"
  by (simp only: route_keys_def routes_def key_table_def list.map fst_conv snd_conv)

lemma no_clash: "clash_free key_table"
  by code_simp

lemma get_or_same: "method_matches m g \<Longrightarrow> method_matches m' g \<Longrightarrow> m' = m \<or> m = ''GET'' \<and> m' = ''HEAD'' \<or> m = ''HEAD'' \<and> m' = ''GET''"
  by (auto simp: method_matches_def)

lemma no_head: "list_all (\<lambda>a. fst a \<noteq> ''HEAD'') key_table"
  by code_simp

text \<open>At most one entry of the route table takes a request: two entries that match the same request
  have the same method and the same pattern, so the order of the table and the rule by which
  \<^verbatim>\<open>ServeMux\<close> prefers the more specific pattern never decide which handler runs.\<close>

theorem route_unique:
  assumes "x \<in> set (routes l cfg)" "y \<in> set (routes l cfg)"
    and "route_values x r \<noteq> None" "route_values y r \<noteq> None"
  shows "fst x = fst y \<and> fst (snd x) = fst (snd y)"
proof -
  let ?k = "\<lambda>x. (fst x, fst (snd x))" and ?keys = key_table
  have keys: "?k z \<in> set ?keys" if "z \<in> set (routes l cfg)" for z
  proof -
    have "?k z \<in> set (route_keys l cfg)"
      unfolding route_keys_def set_map using that by (rule imageI)
    then show ?thesis
      by (simp only: route_keys_eval [of l cfg])
  qed
  have mem: "?k x \<in> set ?keys" "?k y \<in> set ?keys"
    using keys assms(1,2) by blast+
  have "method_matches (fst x) (hr_method r)" "method_matches (fst y) (hr_method r)"
    using assms(3,4) by (auto simp: route_values_def split: if_splits)
  then have "fst x = fst y"
    using get_or_same mem no_head unfolding list_all_iff by fastforce
  moreover have "overlap (fst (snd x)) (fst (snd y))"
    using assms(3,4) match_overlap by (fastforce simp: route_values_def split: if_splits)
  ultimately show ?thesis
    using clash_free_overlap [OF no_clash mem] by simp
qed

lemma route_unique_witness:
  "fst (hd (tl (routes sample_otlp_library (sample_config '''')))) = ''GET''"
  using route_unique [of "hd (tl (routes sample_otlp_library (sample_config '''')))" sample_otlp_library
      "sample_config ''''" "(''GET'', [Lit ''healthz''], handle_health (sample_config ''''))"
      "sample_request ''HEAD'' [''healthz''] []"]
  by (simp add: routes_def route_values_def method_matches_def sample_request_def)


section \<open>The actor of a control action\<close>

text \<open>A control service that replaces the actor of every request by the given address.\<close>

definition acting_as :: "string \<Rightarrow> 'w control_api \<Rightarrow> 'w control_api" where
  "acting_as email s =
     \<lparr>qk_reconcile = \<lambda>ctx i a rq. qk_reconcile s ctx i a (rq\<lparr>rq_actor := email\<rparr>),
      qk_status = \<lambda>ctx i st rq. qk_status s ctx i st (rq\<lparr>rq_actor := email\<rparr>),
      qk_delete = \<lambda>ctx i c rq. qk_delete s ctx i c (rq\<lparr>rq_actor := email\<rparr>),
      qk_cancel = \<lambda>ctx i rq. qk_cancel s ctx i (rq\<lparr>rq_actor := email\<rparr>)\<rparr>"

definition control_handlers :: "('w router_config \<Rightarrow> 'w handler) list" where
  "control_handlers = [handle_reconcile_access, handle_set_agent_status, handle_delete_agent, handle_cancel_execution]"

text \<open>C31: The actor of a control action that comes in with a session is the address of the session's user,
  whatever the request body names as its actor: the four handlers behave as if the service overwrote the
  actor with that address.\<close>

theorem actor_not_forgeable:
  assumes "h \<in> set control_handlers" "principal_from (hr_context r) = Some who" "\<not> p_platform_admin who"
  shows "h cfg r w = h (cfg\<lparr>rt_control := map_option (acting_as (p_email who)) (rt_control cfg)\<rparr>) r w"
  using assms
  by (auto simp: control_handlers_def handle_reconcile_access_def handle_set_agent_status_def
      handle_delete_agent_def handle_cancel_execution_def with_service_def with_body_def acting_as_def
      action_of_def request_actor_def split: option.splits)

lemma actor_not_forgeable_witness:
  "let r = (sample_request ''POST'' [] [])\<lparr>hr_context := Some (sample_member ''owner'')\<rparr>; cfg = sample_config ''owner''
   in handle_delete_agent cfg r () =
        handle_delete_agent (cfg\<lparr>rt_control := map_option (acting_as ''ada@example.com'') (rt_control cfg)\<rparr>) r ()"
  using actor_not_forgeable [of handle_delete_agent "(sample_request ''POST'' [] [])\<lparr>hr_context := Some (sample_member ''owner'')\<rparr>"
      "sample_member ''owner''" "sample_config ''owner''" "()"]
  by (simp add: control_handlers_def principal_from_def Let_def sample_member_def)


section \<open>Trace spans\<close>

text \<open>The spans of a request in the order of the loops, each with its attributes: those of the resource,
  overwritten by its own.\<close>

definition json_spans :: "resource_spans list \<Rightarrow> (gmap \<times> otlp_span) list" where
  "json_spans rs =
     concat (map (\<lambda>r. map (\<lambda>s. (json_attributes (otlp_attributes (elems (rp_attributes r))) s, s))
       (concat (map elems (elems (rp_scopes r))))) rs)"

definition proto_spans :: "proto_resource list \<Rightarrow> (gmap \<times> proto_span) list" where
  "proto_spans rs =
     concat (map (\<lambda>r. map (\<lambda>s. (proto_attributes (case pr_attributes r of None \<Rightarrow> [] | Some a \<Rightarrow> protobuf_attributes a) s, s))
       (concat (pr_scopes r))) rs)"

text \<open>A span is usable when its connection and its identifier are.\<close>

definition usable :: "(gmap \<times> string) \<Rightarrow> bool" where
  "usable x \<longleftrightarrow> valid_correlation (string_attribute (fst x) ''capcom.runtime_connection.id'') \<and> valid_correlation (snd x)"

definition json_id :: "gmap \<times> otlp_span \<Rightarrow> gmap \<times> string" where
  "json_id = map_prod id os_span"

definition proto_id :: "gmap \<times> proto_span \<Rightarrow> gmap \<times> string" where
  "proto_id = map_prod id (\<lambda>s. hex_text (pn_span s))"

text \<open>What both loops are: one step for each span, that counts it or adds its observation.\<close>

definition gather ::
    "('s \<Rightarrow> bool) \<Rightarrow> ('s \<Rightarrow> time \<Rightarrow> usage_observation) \<Rightarrow> ('w, time) call \<Rightarrow> 's \<Rightarrow> 'w span_state \<Rightarrow> 'w span_state" where
  "gather good view clock s st =
     (case st of (us, n, w) \<Rightarrow>
        if good s then (case clock w of (t, w) \<Rightarrow> (us @ [view s (clock_value t)], n, w)) else (us, n + 1, w))"

abbreviation span_runtime :: "gmap \<Rightarrow> string" where
  "span_runtime m \<equiv> string_attribute m ''capcom.runtime_connection.id''"

definition json_view :: "gmap \<times> otlp_span \<Rightarrow> time \<Rightarrow> usage_observation" where
  "json_view x = json_observation (fst x) (span_runtime (fst x)) (snd x)"

definition proto_view :: "gmap \<times> proto_span \<Rightarrow> time \<Rightarrow> usage_observation" where
  "proto_view x = proto_observation (fst x) (span_runtime (fst x)) (hex_text (pn_span (snd x))) (snd x)"

lemma fold_flat: "fold f (concat xs) = fold (\<lambda>x. fold f x) xs"
  by (induction xs) (simp_all add: fun_eq_iff)

lemma json_loop_gather:
  "json_loop clock rs w = fold (gather (usable \<circ> json_id) json_view clock) (json_spans rs) ([], 0, w)"
proof -
  have "json_step clock resource = (\<lambda>s. gather (usable \<circ> json_id) json_view clock (json_attributes resource s, s))"
    for resource
    by (auto simp: fun_eq_iff json_step_def gather_def usable_def json_id_def json_view_def Let_def split: prod.split)
  then show ?thesis
    by (simp add: json_loop_def json_spans_def Let_def fold_flat fold_map o_def)
qed

lemma proto_loop_gather:
  "proto_loop clock rs w = fold (gather (usable \<circ> proto_id) proto_view clock) (proto_spans rs) ([], 0, w)"
proof -
  have "proto_step clock resource = (\<lambda>s. gather (usable \<circ> proto_id) proto_view clock (proto_attributes resource s, s))"
    for resource
    by (auto simp: fun_eq_iff proto_step_def gather_def usable_def proto_id_def proto_view_def Let_def split: prod.split)
  then show ?thesis
    by (simp add: proto_loop_def proto_spans_def Let_def fold_flat fold_map o_def)
qed

lemma gather_step:
  "gather good view clock s (us, n, w) =
     (if good s then (case clock w of (t, w) \<Rightarrow> (us @ [view s (clock_value t)], n, w)) else (us, n + 1, w))"
  by (simp add: gather_def)

lemma gathered:
  "fold (gather good view clock) ss (us0, n0, w) = (us, n, w') \<Longrightarrow>
     (\<exists>vs. us = us0 @ vs \<and> list_all2 (\<lambda>s u. \<exists>t. u = view s t) (filter good ss) vs) \<and>
     n = n0 + int (length (filter (\<lambda>s. \<not> good s) ss))"
proof (induction ss arbitrary: us0 n0 w)
  case (Cons s ss)
  show ?case
  proof (cases "good s")
    case True
    obtain t v where "clock w = (t, v)"
      by (cases "clock w")
    with Cons.prems True have "fold (gather good view clock) ss (us0 @ [view s (clock_value t)], n0, v) = (us, n, w')"
      by (simp add: gather_step)
    from Cons.IH [OF this] True show ?thesis
      by auto
  next
    case False
    with Cons.prems have "fold (gather good view clock) ss (us0, n0 + 1, w) = (us, n, w')"
      by (simp add: gather_step)
    from Cons.IH [OF this] False show ?thesis
      by auto
  qed
qed simp

lemma gathered_conserved:
  assumes "fold (gather (usable \<circ> key) view clock) ss ([], 0, w) = (us, n, w')"
    and "\<And>s t. uo_source_id (view s t) = snd (key s)"
  shows "int (length us) + n = int (length ss)" "map uo_source_id us = map snd (filter usable (map key ss))"
proof -
  have l: "list_all2 (\<lambda>s u. \<exists>t. u = view s t) (filter (usable \<circ> key) ss) us"
    and n: "n = int (length (filter (\<lambda>s. \<not> (usable \<circ> key) s) ss))"
    using gathered [OF assms(1)] by auto
  show "int (length us) + n = int (length ss)"
    using list_all2_lengthD [OF l] sum_length_filter_compl [of "usable \<circ> key" ss] by (simp add: n)
  have "map uo_source_id us = map (\<lambda>s. snd (key s)) (filter (usable \<circ> key) ss)"
    using l by (induction rule: list_all2_induct) (auto simp: assms(2))
  then show "map uo_source_id us = map snd (filter usable (map key ss))"
    by (simp add: filter_map o_def)
qed

text \<open>C36: The OTLP endpoint loses no span, in either encoding: the observations it hands to the telemetry
  service and the spans it counts as rejected add up to the spans of the request, and a span is rejected
  exactly when it lacks a usable identifier or runtime connection, so the observations are those of the
  usable spans, in their order.\<close>

theorem spans_conserved:
  "(case json_loop clock rs w of (us, n, _) \<Rightarrow>
      int (length us) + n = int (length (json_spans rs)) \<and>
      map uo_source_id us = map snd (filter usable (map json_id (json_spans rs)))) \<and>
   (case proto_loop clock ps v of (us, n, _) \<Rightarrow>
      int (length us) + n = int (length (proto_spans ps)) \<and>
      map uo_source_id us = map snd (filter usable (map proto_id (proto_spans ps))))"
proof
  show "case json_loop clock rs w of (us, n, _) \<Rightarrow>
      int (length us) + n = int (length (json_spans rs)) \<and>
      map uo_source_id us = map snd (filter usable (map json_id (json_spans rs)))"
    using gathered_conserved [OF json_loop_gather [symmetric, THEN trans]]
    by (auto simp: json_view_def json_observation_def json_id_def Let_def split: prod.split)
  show "case proto_loop clock ps v of (us, n, _) \<Rightarrow>
      int (length us) + n = int (length (proto_spans ps)) \<and>
      map uo_source_id us = map snd (filter usable (map proto_id (proto_spans ps)))"
    using gathered_conserved [OF proto_loop_gather [symmetric, THEN trans]]
    by (auto simp: proto_view_def proto_observation_def proto_id_def Let_def split: prod.split)
qed





section \<open>Two encodings of one trace\<close>

text \<open>The JSON document that OTLP defines for a protobuf message: integers and instants as decimal text,
  identifiers in hexadecimal.\<close>

definition int_literal :: "int \<Rightarrow> string" where
  "int_literal n = (if n < 0 then CHR 0x2D # show_nat (nat (- n)) else show_nat (nat n))"

definition blank_value :: otlp_value where
  "blank_value = \<lparr>ov_string = '''', ov_int = '''', ov_double = 0, ov_bool = False\<rparr>"

definition json_value :: "proto_value option \<Rightarrow> otlp_value" where
  "json_value v =
     (case v of
        Some (PString s) \<Rightarrow> blank_value\<lparr>ov_string := s\<rparr>
      | Some (PInt n) \<Rightarrow> blank_value\<lparr>ov_int := int_literal n\<rparr>
      | Some (PDouble q) \<Rightarrow> blank_value\<lparr>ov_double := q\<rparr>
      | Some (PBool b) \<Rightarrow> blank_value\<lparr>ov_bool := b\<rparr>
      | _ \<Rightarrow> blank_value)"

definition json_attribute :: "string \<times> proto_value option \<Rightarrow> otlp_attribute" where
  "json_attribute a = \<lparr>oa_key = fst a, oa_value = json_value (snd a)\<rparr>"

definition json_span :: "proto_span \<Rightarrow> otlp_span" where
  "json_span s =
     \<lparr>os_trace = hex_text (pn_trace s), os_span = hex_text (pn_span s), os_parent = hex_text (pn_parent s),
      os_start = (if pn_start s = 0 then '''' else show_nat (pn_start s)),
      os_end = (if pn_end s = 0 then '''' else show_nat (pn_end s)),
      os_attributes = Some (map json_attribute (pn_attributes s)),
      os_code = (if pn_error s then JNumber ''2'' else JNull)\<rparr>"

definition json_resource :: "proto_resource \<Rightarrow> resource_spans" where
  "json_resource r =
     \<lparr>rp_attributes = map_option (map json_attribute) (pr_attributes r),
      rp_scopes = Some (map (\<lambda>ss. Some (map json_span ss)) (pr_scopes r))\<rparr>"

text \<open>The values that both encodings can tell apart: no empty text, no zero float, none of the value kinds
  the protobuf reader skips, integers of 64 bits, and the instants that fit.\<close>

definition common_attribute :: "string \<times> proto_value option \<Rightarrow> bool" where
  "common_attribute a \<longleftrightarrow>
     (case snd a of
        Some (PString s) \<Rightarrow> s \<noteq> ''''
      | Some (PInt n) \<Rightarrow> min_int64 \<le> n \<and> n \<le> max_int64
      | Some (PDouble q) \<Rightarrow> q \<noteq> 0
      | Some (PBool b) \<Rightarrow> True
      | _ \<Rightarrow> False)"

definition common_span :: "proto_span \<Rightarrow> bool" where
  "common_span s \<longleftrightarrow>
     int (pn_start s) \<le> max_int64 \<and> int (pn_end s) \<le> max_int64 \<and> list_all common_attribute (pn_attributes s)"

definition common_resource :: "proto_resource \<Rightarrow> bool" where
  "common_resource r \<longleftrightarrow>
     list_all common_attribute (elems (pr_attributes r)) \<and> list_all (list_all common_span) (pr_scopes r)"

lemma no_sign: "list_all digit s \<Longrightarrow> s \<noteq> [] \<Longrightarrow> hd s \<noteq> CHR 0x2D \<and> hd s \<noteq> CHR 0x2B"
  by (cases s) (auto simp: digit_def byte_in_def)

lemma int_text_show_nat: "int_text (show_nat n) = Some (int n)"
  using show_nat_digits [of n] no_sign [of "show_nat n"] by (simp add: int_text_def)

lemma int_text_literal: "int_text (int_literal n) = Some n" "int_literal n \<noteq> ''''"
proof -
  have "int_text (CHR 0x2D # show_nat m) = Some (- int m)" for m
    using show_nat_digits [of m] by (simp add: int_text_def)
  then show "int_text (int_literal n) = Some n"
    by (simp add: int_literal_def int_text_show_nat)
  show "int_literal n \<noteq> ''''"
    using show_nat_digits by (simp add: int_literal_def)
qed

lemma same_attribute:
  "common_attribute a \<Longrightarrow> proto_attribute a m = mput (oa_key (json_attribute a)) (attribute_any (oa_value (json_attribute a))) m"
  by (auto simp: common_attribute_def proto_attribute_def json_attribute_def json_value_def attribute_any_def
      blank_value_def int_text_literal int_or_bound_def split: option.splits proto_value.splits)

lemma same_attributes:
  "list_all common_attribute xs \<Longrightarrow> otlp_attributes (map json_attribute xs) = protobuf_attributes xs"
proof -
  have "list_all common_attribute xs \<Longrightarrow>
      fold (\<lambda>a. mput (oa_key a) (attribute_any (oa_value a))) (map json_attribute xs) m = fold proto_attribute xs m" for m
    by (induction xs arbitrary: m) (simp_all add: same_attribute)
  then show "list_all common_attribute xs \<Longrightarrow> ?thesis"
    by (simp add: otlp_attributes_def protobuf_attributes_def)
qed

lemma same_time: "int n \<le> max_int64 \<Longrightarrow> unix_nano_time (if n = 0 then '''' else show_nat n) = uint64_time n"
  using show_nat_digits [of n]
  by (auto simp: unix_nano_time_def uint64_time_def parse_int64_def int_text_show_nat max_int64_def min_int64_def)

lemma same_span:
  assumes "common_span s"
  shows "json_attributes m (json_span s) = proto_attributes m s" "os_span (json_span s) = hex_text (pn_span s)"
    "json_observation a runtime (json_span s) t = proto_observation a runtime (hex_text (pn_span s)) s t"
proof -
  show "json_attributes m (json_span s) = proto_attributes m s"
    using assms
    by (simp add: common_span_def json_attributes_def proto_attributes_def json_span_def same_attributes)
  show i: "os_span (json_span s) = hex_text (pn_span s)"
    by (simp add: json_span_def)
  have "unix_nano_time (os_start (json_span s)) = uint64_time (pn_start s)"
      "unix_nano_time (os_end (json_span s)) = uint64_time (pn_end s)"
    using assms same_time by (simp_all add: common_span_def json_span_def)
  moreover have "error_code (os_code (json_span s)) = pn_error s" "os_parent (json_span s) = hex_text (pn_parent s)"
      "os_trace (json_span s) = hex_text (pn_trace s)"
    by (simp_all add: json_span_def error_code_def)
  ultimately show "json_observation a runtime (json_span s) t = proto_observation a runtime (hex_text (pn_span s)) s t"
    by (simp only: json_observation_def proto_observation_def i)
qed

lemma same_step: "common_span s \<Longrightarrow> json_step clock m (json_span s) = proto_step clock m s"
  by (auto simp: fun_eq_iff json_step_def proto_step_def same_span Let_def split: prod.split)

lemma same_scope:
  "list_all common_span ss \<Longrightarrow> fold (json_step clock m) (map json_span ss) = fold (proto_step clock m) ss"
  by (induction ss) (simp_all add: same_step)

lemma same_scopes:
  "list_all (list_all common_span) sss \<Longrightarrow>
     fold (\<lambda>scope. fold (json_step clock m) (elems scope)) (map (\<lambda>ss. Some (map json_span ss)) sss) =
     fold (fold (proto_step clock m)) sss"
  by (induction sss) (simp_all add: same_scope)

lemma same_resource:
  assumes "common_resource r"
  shows "otlp_attributes (elems (rp_attributes (json_resource r))) =
      (case pr_attributes r of None \<Rightarrow> [] | Some a \<Rightarrow> protobuf_attributes a)"
    "fold (\<lambda>scope. fold (json_step clock m) (elems scope)) (elems (rp_scopes (json_resource r))) =
      fold (fold (proto_step clock m)) (pr_scopes r)"
proof -
  show "otlp_attributes (elems (rp_attributes (json_resource r))) =
      (case pr_attributes r of None \<Rightarrow> [] | Some a \<Rightarrow> protobuf_attributes a)"
    using assms
    by (cases "pr_attributes r")
      (simp_all add: json_resource_def common_resource_def same_attributes, simp add: otlp_attributes_def)
  show "fold (\<lambda>scope. fold (json_step clock m) (elems scope)) (elems (rp_scopes (json_resource r))) =
      fold (fold (proto_step clock m)) (pr_scopes r)"
    using assms by (simp add: json_resource_def common_resource_def same_scopes)
qed

text \<open>C22: The two normalisations, each with its own code, agree on a trace that both encodings can express:
  for a protobuf request and the JSON document that OTLP defines for it they give the same observations,
  the same count of rejected spans and the same reads of the clock.  Excluded are the values JSON decoding
  cannot tell from others (an empty text and a zero float become the boolean false, a value of another
  kind or none is read as false where the protobuf reader skips it) and instants beyond 63 bits.\<close>

theorem encodings_agree:
  assumes "list_all common_resource rs"
  shows "json_loop clock (map json_resource rs) w = proto_loop clock rs w"
proof -
  have "fold (\<lambda>r. let resource = otlp_attributes (elems (rp_attributes r)) in
             fold (\<lambda>scope. fold (json_step clock resource) (elems scope)) (elems (rp_scopes r))) (map json_resource rs) st =
        fold (\<lambda>r. let resource = (case pr_attributes r of None \<Rightarrow> [] | Some a \<Rightarrow> protobuf_attributes a) in
             fold (fold (proto_step clock resource)) (pr_scopes r)) rs st" for st
    using assms by (induction rs arbitrary: st) (simp_all add: same_resource Let_def)
  then show ?thesis
    by (simp add: json_loop_def proto_loop_def)
qed

definition sample_trace :: "proto_resource list" where
  "sample_trace =
     [\<lparr>pr_attributes = Some [(''service.name'', Some (PString ''crew''))],
       pr_scopes = [[\<lparr>pn_trace = ''T'', pn_span = ''S'', pn_parent = '''', pn_start = 5, pn_end = 9,
         pn_attributes = [(''gen_ai.usage.input_tokens'', Some (PInt 12))], pn_error = True\<rparr>]]\<rparr>]"

lemma encodings_agree_witness:
  "json_loop (return 0) (map json_resource sample_trace) () = proto_loop (return 0) sample_trace ()"
  by (rule encodings_agree)
     (simp add: sample_trace_def common_resource_def common_attribute_def common_span_def max_int64_def min_int64_def)

text \<open>Outside of it they differ: an attribute with an empty text is the text for one reader, and the boolean
  false for the other.\<close>

lemma encodings_differ:
  "otlp_attributes [json_attribute (''service.name'', Some (PString ''''))] = [(''service.name'', GBool False)]"
  "protobuf_attributes [(''service.name'', Some (PString ''''))] = [(''service.name'', GStr '''')]"
  by (simp_all add: otlp_attributes_def protobuf_attributes_def json_attribute_def json_value_def blank_value_def
      attribute_any_def proto_attribute_def)

end
