(* ===== verification/Text_Order.thy ===== *)
theory Text_Order
  imports Go_Base "HOL-Library.List_Lexorder" "HOL-Library.Multiset"
begin

text \<open>The order of Go's strings: byte by byte.  \<open>sort_by\<close> is \<^verbatim>\<open>sort.Slice\<close> on a key of that kind (with distinct
  keys the result of an unstable sort is determined).\<close>

definition byte_key :: "string \<Rightarrow> nat list" where
  "byte_key s = map of_char s"

definition sort_by :: "('a \<Rightarrow> string) \<Rightarrow> 'a list \<Rightarrow> 'a list" where
  "sort_by f xs = sort_key (\<lambda>x. byte_key (f x)) xs"

lemma byte_key_inj [simp]: "byte_key s = byte_key t \<longleftrightarrow> s = t"
proof -
  have "inj (of_char :: char \<Rightarrow> nat)"
    by (rule injI) simp
  then show ?thesis
    by (simp add: byte_key_def inj_map_eq_map)
qed

lemma set_sort_by [simp]: "set (sort_by f xs) = set xs"
  by (simp add: sort_by_def)

lemma length_sort_by [simp]: "length (sort_by f xs) = length xs"
  by (simp add: sort_by_def)

lemma sort_by_sorted: "sorted (map (\<lambda>x. byte_key (f x)) (sort_by f xs))"
  by (simp add: sort_by_def)

lemma mset_sort_by [simp]: "mset (sort_by f xs) = mset xs"
  by (simp add: sort_by_def)

end
