(* ===== verification/Migrations.thy ===== *)
theory Migrations
  imports Text_Order Config Telemetry_Service
begin

text \<open>Schema migrations (\<^verbatim>\<open>internal/store/migrator.go\<close>), the opening of the pool (\<^verbatim>\<open>internal/store/db.go\<close>) and
  what the two command lines decide before they start (\<^verbatim>\<open>cmd/capcom/main.go\<close>, \<^verbatim>\<open>cmd/capcom-server/main.go\<close>).
  The directory, \<^verbatim>\<open>filepath.Join\<close>, the effect of an SQL text on the tables and the failures of the database
  are parameters.\<close>

section \<open>The migration files\<close>

record dir_entry =
  de_name :: string
  de_dir :: bool
  de_content :: "string res"

record migration =
  mg_version :: string
  mg_path :: string
  mg_sql :: string

record 'd migration_library =
  ml_entries :: "string \<Rightarrow> dir_entry list res"
  ml_join :: "string \<Rightarrow> string \<Rightarrow> string"
  ml_exec :: "string \<Rightarrow> 'd \<Rightarrow> 'd res"
  ml_fails :: "nat \<Rightarrow> gerr option"

definition sql_file :: "dir_entry \<Rightarrow> bool" where
  "sql_file e \<longleftrightarrow> \<not> de_dir e \<and> has_suffix (de_name e) ''.sql''"

definition version_of :: "dir_entry \<Rightarrow> string" where
  "version_of e = take (length (de_name e) - 4) (de_name e)"

fun read_migrations :: "(string \<Rightarrow> string) \<Rightarrow> dir_entry list \<Rightarrow> migration list res" where
  "read_migrations join [] = Inr []"
| "read_migrations join (e # es) =
     (if \<not> sql_file e then read_migrations join es
      else case de_content e of
        Inl err \<Rightarrow> Inl (Wrapped (''read migration '' @ de_name e @ '': '') err)
      | Inr content \<Rightarrow>
          bind_res (read_migrations join es) (\<lambda>ms.
            Inr (\<lparr>mg_version = version_of e, mg_path = join (de_name e), mg_sql = content\<rparr> # ms)))"

definition load_migrations :: "'d migration_library \<Rightarrow> string \<Rightarrow> migration list res" where
  "load_migrations l dir =
     (case ml_entries l dir of
        Inl e \<Rightarrow> Inl (Wrapped ''read migrations dir: '' e)
      | Inr es \<Rightarrow> bind_res (read_migrations (ml_join l dir) es) (\<lambda>ms. Inr (sort_by mg_version ms)))"


section \<open>The migrator\<close>

text \<open>The tables, the versions in \<^verbatim>\<open>schema_migrations\<close> (when that table exists), and the number of calls made
  on the database, each of which may fail.  What happens in a transaction reaches the database with its commit.\<close>

record 'd migration_world =
  mw_tables :: 'd
  mw_versions :: "string list option"
  mw_calls :: nat

definition db_call :: "'d migration_library \<Rightarrow> ('d migration_world, unit) call" where
  "db_call l w =
     ((case ml_fails l (mw_calls w) of Some e \<Rightarrow> Inl e | None \<Rightarrow> Inr ()), w\<lparr>mw_calls := Suc (mw_calls w)\<rparr>)"

abbreviation applied_versions :: "'d migration_world \<Rightarrow> string list" where
  "applied_versions w \<equiv> (case mw_versions w of None \<Rightarrow> [] | Some vs \<Rightarrow> vs)"

definition ensure_table :: "'d migration_library \<Rightarrow> ('d migration_world, unit) call" where
  "ensure_table l =
     seq (wrapping ''ensure schema_migrations: '' (db_call l)) (\<lambda>_ w.
       (Inr (), w\<lparr>mw_versions := Some (applied_versions w)\<rparr>))"

definition has_run :: "'d migration_library \<Rightarrow> string \<Rightarrow> ('d migration_world, bool) call" where
  "has_run l version =
     seq (wrapping (''check migration '' @ version @ '': '') (db_call l)) (\<lambda>_ w.
       (Inr (List.member (applied_versions w) version), w))"

definition apply_migration :: "'d migration_library \<Rightarrow> migration \<Rightarrow> ('d migration_world, unit) call" where
  "apply_migration l m =
     seq (wrapping (''begin migration '' @ mg_version m @ '': '') (db_call l)) (\<lambda>_.
     seq (wrapping (''apply migration '' @ mg_version m @ '': '')
       (seq (db_call l) (\<lambda>_ w. (ml_exec l (mg_sql m) (mw_tables w), w)))) (\<lambda>tables.
     seq (wrapping (''record migration '' @ mg_version m @ '': '')
       (seq (db_call l) (\<lambda>_ w.
          ((if List.member (applied_versions w) (mg_version m)
            then Inl (PgError ''23505'' ''duplicate key value'') else Inr ()), w)))) (\<lambda>_.
     seq (wrapping (''commit migration '' @ mg_version m @ '': '') (db_call l)) (\<lambda>_ w.
       (Inr (), w\<lparr>mw_tables := tables, mw_versions := Some (applied_versions w @ [mg_version m])\<rparr>)))))"

fun apply_pending ::
    "'d migration_library \<Rightarrow> migration list \<Rightarrow> string list \<Rightarrow> ('d migration_world, string list) call" where
  "apply_pending l [] applied = return applied"
| "apply_pending l (m # ms) applied =
     seq (has_run l (mg_version m)) (\<lambda>ran.
     if ran then apply_pending l ms applied
     else seq (apply_migration l m) (\<lambda>_. apply_pending l ms (applied @ [mg_version m])))"

definition migrate_up :: "'d migration_library \<Rightarrow> string \<Rightarrow> ('d migration_world, string list) call" where
  "migrate_up l dir =
     (case load_migrations l dir of
        Inl e \<Rightarrow> failing e
      | Inr ms \<Rightarrow> seq (ensure_table l) (\<lambda>_. apply_pending l ms []))"


section \<open>Opening the pool, starting the programs\<close>

record pool_settings =
  po_url :: string
  po_max_open :: int
  po_max_idle :: int
  po_lifetime :: int

text \<open>\<^verbatim>\<open>sql.Open\<close> with the \<^verbatim>\<open>pgx\<close> driver is a parameter: the error it gives for a URL.\<close>

definition open_postgres :: "(string \<Rightarrow> gerr option) \<Rightarrow> database_config \<Rightarrow> pool_settings res" where
  "open_postgres driver c =
     (if dc_url c = '''' then Inl (Text ''database URL is required'')
      else case driver (dc_url c) of
        Some e \<Rightarrow> Inl (Wrapped ''open postgres: '' e)
      | None \<Rightarrow> Inr \<lparr>po_url = dc_url c, po_max_open = dc_max_open c, po_max_idle = dc_max_idle c,
                    po_lifetime = dc_lifetime c\<rparr>)"

datatype command = Usage | MigrateUp

definition command_of :: "string list \<Rightarrow> command" where
  "command_of args = (if args = [''migrate'', ''up''] then MigrateUp else Usage)"

definition migrate_command ::
    "(string \<Rightarrow> gerr option) \<Rightarrow> gerr option \<Rightarrow> 'd migration_library \<Rightarrow> config \<Rightarrow> ('d migration_world, string list) call" where
  "migrate_command driver ping l cfg =
     (if dc_url (cf_database cfg) = '''' then failing (Text ''CAPCOM_DATABASE_URL is required'')
      else case open_postgres driver (cf_database cfg) of
        Inl e \<Rightarrow> failing e
      | Inr settings \<Rightarrow>
          (case ping of Some e \<Rightarrow> failing (Wrapped ''ping database: '' e) | None \<Rightarrow> migrate_up l ''migrations''))"

definition decimal_from_config :: "string \<Rightarrow> string option" where
  "decimal_from_config s = (if s = '''' then None else Some s)"

definition metadata_of_item :: "catalog_item \<Rightarrow> model_metadata" where
  "metadata_of_item i =
     \<lparr>mm_provider = ci_item_provider i, mm_model = ci_item_model i, mm_window = ci_item_window i,
      mm_input_price = decimal_from_config (ci_item_input_price i),
      mm_output_price = decimal_from_config (ci_item_output_price i), mm_version = ci_item_version i\<rparr>"

text \<open>What the server sets up: with a database, the services over it (with the catalog of models) and the
  workers that are switched on; without one, none of them.\<close>

record server_plan =
  lp_pool :: "pool_settings option"
  lp_cipher_key :: string
  lp_catalog :: "(string \<times> model_metadata) list"
  lp_missing_threshold :: int
  lp_sync_worker :: "(int \<times> int \<times> int) option"
  lp_telemetry_worker :: "(int \<times> int) option"
  lp_adapters :: "runtime_kind list"
  lp_readers :: "runtime_kind list"

definition server_setup :: "(string \<Rightarrow> gerr option) \<Rightarrow> gerr option \<Rightarrow> config \<Rightarrow> server_plan res" where
  "server_setup driver ping cfg =
     (if dc_url (cf_database cfg) = ''''
      then Inr \<lparr>lp_pool = None, lp_cipher_key = '''', lp_catalog = [], lp_missing_threshold = 0, lp_sync_worker = None,
                lp_telemetry_worker = None, lp_adapters = [], lp_readers = []\<rparr>
      else if length (cf_secret_key cfg) \<noteq> 32
      then Inl (Text ''CAPCOM_SECRET_KEY is required when CAPCOM_DATABASE_URL is configured'')
      else case open_postgres driver (cf_database cfg) of
        Inl e \<Rightarrow> Inl e
      | Inr settings \<Rightarrow>
          (case ping of
             Some e \<Rightarrow> Inl e
           | None \<Rightarrow> Inr
               \<lparr>lp_pool = Some settings, lp_cipher_key = cf_secret_key cfg,
                lp_catalog = new_catalog (map metadata_of_item (tc_catalog (cf_telemetry cfg))),
                lp_missing_threshold = yc_threshold (cf_sync cfg),
                lp_sync_worker =
                  (if yc_enabled (cf_sync cfg)
                   then Some (yc_tick (cf_sync cfg), yc_concurrency (cf_sync cfg), yc_timeout (cf_sync cfg)) else None),
                lp_telemetry_worker =
                  (if tc_enabled (cf_telemetry cfg)
                   then Some (tc_tick (cf_telemetry cfg), tc_timeout (cf_telemetry cfg)) else None),
                lp_adapters = [KindGantry, KindLangGraph],
                lp_readers = (if tc_enabled (cf_telemetry cfg) then [KindGantry, KindLangGraph] else [])\<rparr>))"


section \<open>The specification: pending migrations, in order, one at a time\<close>

type_synonym 'd schema = "'d \<times> string list"

definition schema_of :: "'d migration_world \<Rightarrow> 'd schema" where
  "schema_of w = (mw_tables w, applied_versions w)"

fun migrated :: "(string \<Rightarrow> 'd \<Rightarrow> 'd res) \<Rightarrow> migration list \<Rightarrow> 'd schema \<Rightarrow> 'd schema option" where
  "migrated sql [] s = Some s"
| "migrated sql (m # ms) (d, vs) =
     (case sql (mg_sql m) d of Inl e \<Rightarrow> None | Inr d' \<Rightarrow> migrated sql ms (d', vs @ [mg_version m]))"

definition pending :: "string list \<Rightarrow> migration list \<Rightarrow> migration list" where
  "pending vs ms = filter (\<lambda>m. \<not> List.member vs (mg_version m)) ms"

end
