(* ===== verification/Migration_Claims.thy ===== *)
theory Migration_Claims
  imports Migrations
begin

text \<open>What the migrator guarantees: its run refines the specification in which the pending migrations are
  applied one at a time in the order of their versions, whatever database calls fail; and a second run has
  nothing to do.\<close>

lemma schema_call [simp]: "schema_of (w\<lparr>mw_calls := n\<rparr>) = schema_of w"
  by (simp add: schema_of_def)

lemma keeps_db_call [keeps_intros]: "keeps schema_of (db_call l)"
  by (simp add: keeps_def db_call_def)

lemma ensure_table_schema: "ensure_table l w = (r, w') \<Longrightarrow> schema_of w' = schema_of w"
proof -
  have "keeps schema_of (ensure_table l)"
    unfolding ensure_table_def
    by (intro keeps_intros) (simp add: keeps_def schema_of_def)
  then show "ensure_table l w = (r, w') \<Longrightarrow> ?thesis"
    by (rule keepsD)
qed

lemma db_call_cases:
  "db_call l w = (Inr (), w\<lparr>mw_calls := Suc (mw_calls w)\<rparr>) \<or>
   (\<exists>e. db_call l w = (Inl e, w\<lparr>mw_calls := Suc (mw_calls w)\<rparr>))"
  by (simp add: db_call_def split: option.splits)

lemma has_run_schema:
  "has_run l v w = (r, w') \<Longrightarrow>
     schema_of w' = schema_of w \<and> (case r of Inl _ \<Rightarrow> True | Inr b \<Rightarrow> b = List.member (snd (schema_of w)) v)"
  using db_call_cases [of l w] by (auto simp: has_run_def seq_def wrapping_def schema_of_def)

text \<open>A migration is applied whole or not at all.\<close>

lemma apply_migration_schema:
  "case apply_migration l m w of (r, w') \<Rightarrow>
     (case r of
        Inl _ \<Rightarrow> schema_of w' = schema_of w
      | Inr _ \<Rightarrow> migrated (ml_exec l) [m] (schema_of w) = Some (schema_of w'))"
  by (simp add: apply_migration_def seq_def wrapping_def schema_of_def db_call_def split: sum.split option.split)

lemma migrated_append:
  "migrated sql (xs @ ys) s = (case migrated sql xs s of None \<Rightarrow> None | Some s' \<Rightarrow> migrated sql ys s')"
  by (induction sql xs s rule: migrated.induct) (auto split: sum.splits)

lemma migrated_versions: "migrated sql ms s = Some s' \<Longrightarrow> snd s' = snd s @ map mg_version ms"
  by (induction sql ms s rule: migrated.induct) (auto split: sum.splits)

lemma pending_none: "pending (vs @ map mg_version (pending vs ms)) ms = []"
  by (auto simp: pending_def filter_empty_conv)

lemma pending_step:
  "mg_version m \<notin> mg_version ` set ms \<Longrightarrow> pending (vs @ [mg_version m]) ms = pending vs ms"
  by (auto simp: pending_def intro!: filter_cong) (metis image_eqI)

text \<open>What a run does: a part of the pending migrations, all of them when it succeeds.\<close>

definition runs_pending ::
    "(string \<Rightarrow> 'd \<Rightarrow> 'd res) \<Rightarrow> migration list \<Rightarrow> 'd schema \<Rightarrow> 'd schema \<Rightarrow> string list res \<Rightarrow> bool" where
  "runs_pending sql todo s s' r \<longleftrightarrow>
     (case r of
        Inr applied \<Rightarrow> applied = map mg_version todo \<and> migrated sql todo s = Some s'
      | Inl _ \<Rightarrow> list_ex (\<lambda>n. migrated sql (take n todo) s = Some s') [0..<Suc (length todo)])"

lemma list_ex_upt: "list_ex P [0..<Suc k] \<longleftrightarrow> (\<exists>n\<le>k. P n)"
  by (simp only: list_ex_iff set_upt atLeast0LessThan lessThan_Suc_atMost Bex_def atMost_iff)

lemma runs_pending_simps:
  "runs_pending sql todo s s' (Inl e) \<longleftrightarrow> (\<exists>n\<le>length todo. migrated sql (take n todo) s = Some s')"
  "runs_pending sql todo s s' (Inr applied) \<longleftrightarrow> applied = map mg_version todo \<and> migrated sql todo s = Some s'"
  unfolding runs_pending_def by (simp_all only: sum.case list_ex_upt)

lemma runs_pending_skip: "runs_pending sql todo s s (Inl e)"
  by (auto simp: runs_pending_simps intro!: exI [of _ 0])

lemma apply_pending_refines:
  assumes "distinct (map mg_version ms)" and "apply_pending l ms acc w = (r, w')"
  shows "runs_pending (ml_exec l) (pending (snd (schema_of w)) ms) (schema_of w) (schema_of w')
      (map_sum id (drop (length acc)) r) \<and> (case r of Inr applied \<Rightarrow> take (length acc) applied = acc | Inl _ \<Rightarrow> True)"
  using assms
proof (induction ms arbitrary: acc w)
  case Nil
  then show ?case
    by (auto simp: pending_def runs_pending_simps)
next
  case (Cons m ms)
  obtain b w1 where h: "has_run l (mg_version m) w = (b, w1)"
    by fastforce
  have s1: "schema_of w1 = schema_of w"
    using has_run_schema [OF h] by simp
  show ?case
  proof (cases b)
    case (Inl e)
    with h Cons.prems(2) s1 show ?thesis
      by (auto simp: runs_pending_skip)
  next
    case (Inr ran)
    have ran: "ran = List.member (snd (schema_of w)) (mg_version m)"
      using has_run_schema [OF h] Inr by simp
    show ?thesis
    proof (cases ran)
      case True
      with h Inr Cons.prems(2) have "apply_pending l ms acc w1 = (r, w')"
        by simp
      from Cons.IH [OF _ this] Cons.prems(1) ran True s1 show ?thesis
        by (simp add: pending_def)
    next
      case False
      obtain a w2 where a: "apply_migration l m w1 = (a, w2)"
        by fastforce
      have todo: "pending (snd (schema_of w)) (m # ms) = m # pending (snd (schema_of w)) ms"
        using ran False by (simp add: pending_def)
      show ?thesis
      proof (cases a)
        case (Inl e)
        with h Inr False a Cons.prems(2) s1 apply_migration_schema [where l = l and m = m and w = w1] show ?thesis
          by (auto simp: runs_pending_skip)
      next
        case (Inr u)
        with h \<open>b = Inr ran\<close> False a Cons.prems(2)
        have rest: "apply_pending l ms (acc @ [mg_version m]) w2 = (r, w')"
          by simp
        have step: "migrated (ml_exec l) [m] (schema_of w) = Some (schema_of w2)"
          using apply_migration_schema [where l = l and m = m and w = w1] a Inr s1 by simp
        then have "pending (snd (schema_of w2)) ms = pending (snd (schema_of w)) ms"
          using migrated_versions [OF step] Cons.prems(1) pending_step [of m ms] by simp
        then have ih: "runs_pending (ml_exec l) (pending (snd (schema_of w)) ms) (schema_of w2) (schema_of w')
            (map_sum id (drop (Suc (length acc))) r)"
          and pre: "case r of Inr applied \<Rightarrow> take (Suc (length acc)) applied = acc @ [mg_version m] | Inl _ \<Rightarrow> True"
          using Cons.IH [OF _ rest] Cons.prems(1) by (simp_all add: id_def split: sum.split_asm)
        have more: "migrated (ml_exec l) (m # xs) (schema_of w) = migrated (ml_exec l) xs (schema_of w2)" for xs
          using migrated_append [of "ml_exec l" "[m]" xs] step by simp
        show ?thesis
        proof (cases r)
          case (Inl e)
          then obtain n where "n \<le> length (pending (snd (schema_of w)) ms)"
            and "migrated (ml_exec l) (take n (pending (snd (schema_of w)) ms)) (schema_of w2) = Some (schema_of w')"
            using ih by (auto simp: runs_pending_simps)
          then show ?thesis
            using Inl unfolding todo
            by (auto simp: runs_pending_simps more intro!: exI [of _ "Suc n"] simp del: migrated.simps)
        next
          case (Inr applied)
          have t: "take (Suc (length acc)) applied = acc @ [mg_version m]"
            using pre Inr by simp
          have "applied = (acc @ [mg_version m]) @ drop (Suc (length acc)) applied"
            by (metis t append_take_drop_id)
          then have "drop (length acc) applied = mg_version m # drop (Suc (length acc)) applied"
            and "take (length acc) applied = acc"
            by (metis append.assoc append_Cons append_Nil append_eq_conv_conj)+
          then show ?thesis
            using ih Inr unfolding todo
            by (auto simp: runs_pending_simps more simp del: migrated.simps)
        qed
      qed
    qed
  qed
qed

lemma version_of_inj: "sql_file a \<Longrightarrow> sql_file b \<Longrightarrow> version_of a = version_of b \<Longrightarrow> de_name a = de_name b"
  by (auto simp: sql_file_def version_of_def suffix_def)

lemma read_migrations_versions:
  "read_migrations join es = Inr ms \<Longrightarrow> map mg_version ms = map version_of (filter sql_file es)"
  by (induction es arbitrary: ms) (auto simp: bind_res_def split: sum.splits if_splits)

lemma load_migrations_distinct:
  assumes "ml_entries l dir = Inr es" "distinct (map de_name es)" "load_migrations l dir = Inr ms"
  shows "distinct (map mg_version ms)"
proof -
  obtain ns where ns: "read_migrations (ml_join l dir) es = Inr ns" and ms: "ms = sort_by mg_version ns"
    using assms by (auto simp: load_migrations_def bind_res_def split: sum.splits)
  have "inj_on version_of (set (filter sql_file es))"
  proof (rule inj_onI)
    fix a b assume a: "a \<in> set (filter sql_file es)" "b \<in> set (filter sql_file es)" "version_of a = version_of b"
    then have "de_name a = de_name b"
      using version_of_inj by simp
    then show "a = b"
      using a assms(2) by (simp add: distinct_map inj_on_def)
  qed
  then have "distinct (map mg_version ns)"
    using assms(2) by (simp add: read_migrations_versions [OF ns] distinct_map)
  moreover have "mset (map mg_version ms) = mset (map mg_version ns)"
    by (simp add: ms)
  ultimately show ?thesis
    using mset_eq_imp_distinct_iff by blast
qed

text \<open>C12: Migrating refines the specification: the migrations that are read are in the order of their versions,
  and a run applies the pending ones one at a time in that order, all of them and nothing else when it
  succeeds, and exactly the first few of them when it fails, whichever call on the database failed.\<close>

theorem migrate_up_refines:
  assumes "ml_entries l dir = Inr es" and "distinct (map de_name es)" and "migrate_up l dir w = (r, w')"
  shows "case load_migrations l dir of
      Inl e \<Rightarrow> r = Inl e \<and> w' = w
    | Inr ms \<Rightarrow> sorted (map (\<lambda>m. byte_key (mg_version m)) ms) \<and>
        runs_pending (ml_exec l) (pending (snd (schema_of w)) ms) (schema_of w) (schema_of w') r"
proof (cases "load_migrations l dir")
  case (Inl e)
  with assms(3) show ?thesis
    by (simp add: migrate_up_def)
next
  case (Inr ms)
  have d: "distinct (map mg_version ms)"
    using assms(1,2) Inr by (rule load_migrations_distinct)
  obtain a w1 where e: "ensure_table l w = (a, w1)"
    by fastforce
  have "runs_pending (ml_exec l) (pending (snd (schema_of w)) ms) (schema_of w) (schema_of w') r"
  proof (cases a)
    case (Inl err)
    with e assms(3) Inr ensure_table_schema [OF e] show ?thesis
      by (auto simp: migrate_up_def runs_pending_skip)
  next
    case (Inr u)
    with e assms(3) \<open>load_migrations l dir = Inr ms\<close> have "apply_pending l ms [] w1 = (r, w')"
      by (simp add: migrate_up_def)
    from apply_pending_refines [OF d this] ensure_table_schema [OF e] show ?thesis
      by (cases r) (simp_all add: runs_pending_simps)
  qed
  moreover have "sorted (map (\<lambda>m. byte_key (mg_version m)) ms)"
    using assms(1) Inr sort_by_sorted
    by (auto simp: load_migrations_def bind_res_def split: sum.splits)
  ultimately show ?thesis
    by (simp add: Inr)
qed

definition sample_migrations :: "string list migration_library" where
  "sample_migrations =
     \<lparr>ml_entries = \<lambda>_. Inr [\<lparr>de_name = ''002_b.sql'', de_dir = False, de_content = Inr ''B''\<rparr>,
        \<lparr>de_name = ''notes'', de_dir = True, de_content = Inr ''''\<rparr>,
        \<lparr>de_name = ''001_a.sql'', de_dir = False, de_content = Inr ''A''\<rparr>],
      ml_join = \<lambda>d n. d @ ''/'' @ n, ml_exec = \<lambda>sql d. Inr (d @ [sql]), ml_fails = \<lambda>n. None\<rparr>"

definition sample_schema :: "string list migration_world" where
  "sample_schema = \<lparr>mw_tables = [], mw_versions = None, mw_calls = 0\<rparr>"

lemma migrate_up_refines_witness:
  "case load_migrations sample_migrations ''migrations'' of
     Inl e \<Rightarrow> False
   | Inr ms \<Rightarrow> runs_pending (ml_exec sample_migrations) (pending [] ms) ([], [])
       (schema_of (snd (migrate_up sample_migrations ''migrations'' sample_schema)))
       (fst (migrate_up sample_migrations ''migrations'' sample_schema))"
proof -
  have entries: "ml_entries sample_migrations ''migrations'' = Inr [\<lparr>de_name = ''002_b.sql'', de_dir = False, de_content = Inr ''B''\<rparr>,
        \<lparr>de_name = ''notes'', de_dir = True, de_content = Inr ''''\<rparr>,
        \<lparr>de_name = ''001_a.sql'', de_dir = False, de_content = Inr ''A''\<rparr>]"
    by (simp add: sample_migrations_def)
  have loads: "\<exists>ms. load_migrations sample_migrations ''migrations'' = Inr ms"
    unfolding load_migrations_def entries
    by (simp add: sql_file_def bind_res_def suffix_def)
  have s: "schema_of sample_schema = ([], [])"
    by (simp add: schema_of_def sample_schema_def)
  show ?thesis
    using migrate_up_refines [OF entries _ prod.collapse [symmetric], of sample_schema] loads
    by (auto simp: s)
qed

text \<open>A second run has nothing to do: after a run that succeeded, another run on the same files applies no
  migration and leaves the tables and the recorded versions as they are.\<close>

theorem second_run_idle:
  assumes "ml_entries l dir = Inr es" and "distinct (map de_name es)"
    and "migrate_up l dir w = (Inr applied, w')" and "migrate_up l dir w' = (r, w'')"
  shows "schema_of w'' = schema_of w' \<and> (case r of Inr again \<Rightarrow> again = [] | Inl _ \<Rightarrow> True)"
proof -
  obtain ms where ms: "load_migrations l dir = Inr ms"
    using assms(3) by (cases "load_migrations l dir") (simp_all add: migrate_up_def)
  note run = migrate_up_refines [OF assms(1,2)]
  have "snd (schema_of w') = snd (schema_of w) @ map mg_version (pending (snd (schema_of w)) ms)"
    using run [OF assms(3)] ms migrated_versions by (fastforce simp: runs_pending_simps)
  then have "pending (snd (schema_of w')) ms = []"
    by (simp add: pending_none)
  then show ?thesis
    using run [OF assms(4)] ms by (cases r) (auto simp: runs_pending_simps)
qed

end
