(* ===== verification/Http_Client.thy ===== *)
theory Http_Client
  imports Wire Connection_Service
begin

text \<open>The outgoing HTTP calls of the runtime adapters (\<^verbatim>\<open>doJSON\<close> and \<^verbatim>\<open>normalizeBaseURL\<close> of
  \<^verbatim>\<open>internal/adapters/gantry/client.go\<close> and \<^verbatim>\<open>internal/adapters/langgraph/client.go\<close>).  The network, the
  clock, the parser of URLs, the JSON decoder, the text of a float and SHA-256 are parameters; the time limit
  of a request belongs to the network, which answers with an error when it has passed.\<close>

record http_call =
  hc_method :: string
  hc_url :: string
  hc_headers :: "(string \<times> string) list"
  hc_body :: "gval option"

record http_reply =
  hp_status :: int
  hp_body :: string

record ('w, 'u) transport =
  ht_do :: "http_call \<Rightarrow> ('w, http_reply) call"
  ht_resolve :: "(string \<Rightarrow> ('w, string) call) option"
  ht_clock :: "'w \<Rightarrow> time \<times> 'w"
  ht_url :: "'u url_library"
  ht_next :: "string \<Rightarrow> (json \<times> string) option"
  ht_float :: "rat \<Rightarrow> string"
  ht_sha256 :: "string \<Rightarrow> string"

definition current_time :: "('w, 'u) transport \<Rightarrow> ('w, time) call" where
  "current_time t w = (case ht_clock t w of (ts, w) \<Rightarrow> (Inr ts, w))"

text \<open>What the two clients do differently: the name in their messages, the header that carries the
  credential, and the error of a response outside 2xx.\<close>

record protocol =
  pt_name :: string
  pt_credential :: "string \<Rightarrow> string \<times> string"
  pt_status_error :: "string \<Rightarrow> string \<Rightarrow> int \<Rightarrow> string \<Rightarrow> gerr"

definition normalize_base_url :: "string \<Rightarrow> 'u url_library \<Rightarrow> string \<Rightarrow> string res" where
  "normalize_base_url name lib raw =
     (let trimmed = trim_right_char (CHR 0x2F) (trim_space raw) in
      if trimmed = '''' then Inl (Text (name @ '' endpoint is required''))
      else case ul_parse lib trimmed of
        None \<Rightarrow> Inl (Wrapped (''parse '' @ name @ '' endpoint: '') (Text ''invalid URL''))
      | Some u \<Rightarrow>
          if url_scheme u \<noteq> ''http'' \<and> url_scheme u \<noteq> ''https''
          then Inl (Text (name @ '' endpoint must use http or https''))
          else if url_host u = '''' then Inl (Text (name @ '' endpoint host is required''))
          else Inr trimmed)"

definition resolve_credential ::
    "protocol \<Rightarrow> ('w, 'u) transport \<Rightarrow> string \<Rightarrow> ('w, string) call" where
  "resolve_credential pt t ref =
     (case ht_resolve t of
        None \<Rightarrow> failing (Text (pt_name pt @ '' credential resolver is required''))
      | Some resolve \<Rightarrow>
          seq (wrapping (''resolve '' @ pt_name pt @ '' credential '' @ quoted ref @ '': '') (resolve ref)) (\<lambda>token.
          if blank token then failing (Text (pt_name pt @ '' credential '' @ quoted ref @ '' is empty''))
          else return token))"

text \<open>The request: nothing is sent before the endpoint has been accepted and the credential resolved.\<close>

definition send_request ::
    "protocol \<Rightarrow> ('w, 'u) transport \<Rightarrow> runtime_connection \<Rightarrow> string \<Rightarrow> string \<Rightarrow> gval option \<Rightarrow>
     ('w, http_reply) call" where
  "send_request pt t conn verb path body =
     (case normalize_base_url (pt_name pt) (ht_url t) (rc_base_url conn) of
        Inl e \<Rightarrow> failing e
      | Inr base \<Rightarrow>
          if ul_parse (ht_url t) (base @ path) = None
          then failing (Wrapped (''build '' @ pt_name pt @ '' request: '') (Text ''invalid URL''))
          else seq (resolve_credential pt t (rc_auth_ref conn)) (\<lambda>token.
            wrapping (''call '' @ pt_name pt @ '' '' @ verb @ '' '' @ path @ '': '')
              (ht_do t
                 \<lparr>hc_method = verb, hc_url = base @ path,
                  hc_headers = [(''Accept'', ''application/json''), pt_credential pt token] @
                    (if body = None then [] else [(''Content-Type'', ''application/json'')]),
                  hc_body = body\<rparr>)))"

definition checked_request ::
    "protocol \<Rightarrow> ('w, 'u) transport \<Rightarrow> runtime_connection \<Rightarrow> string \<Rightarrow> string \<Rightarrow> gval option \<Rightarrow>
     ('w, string) call" where
  "checked_request pt t conn verb path body =
     seq (send_request pt t conn verb path body) (\<lambda>resp.
     if hp_status resp < 200 \<or> 300 \<le> hp_status resp
     then failing (pt_status_error pt verb path (hp_status resp) (trim_space (take 4096 (hp_body resp))))
     else return (hp_body resp))"

text \<open>With a target to decode the first document of the body into; \<open>do_request\<close> has none.\<close>

definition do_json ::
    "protocol \<Rightarrow> ('w, 'u) transport \<Rightarrow> runtime_connection \<Rightarrow> string \<Rightarrow> string \<Rightarrow> gval option \<Rightarrow>
     (json \<Rightarrow> 'a option) \<Rightarrow> ('w, 'a) call" where
  "do_json pt t conn verb path body decode =
     seq (checked_request pt t conn verb path body) (\<lambda>text.
     case chain (ht_next t text) (\<lambda>(j, rest). decode j) of
       None \<Rightarrow> failing (Wrapped (''decode '' @ pt_name pt @ '' response: '') (Text ''invalid document''))
     | Some x \<Rightarrow> return x)"

definition do_request ::
    "protocol \<Rightarrow> ('w, 'u) transport \<Rightarrow> runtime_connection \<Rightarrow> string \<Rightarrow> string \<Rightarrow> gval option \<Rightarrow>
     ('w, unit) call" where
  "do_request pt t conn verb path body = seq (checked_request pt t conn verb path body) (\<lambda>_. return ())"

text \<open>\<^verbatim>\<open>map[string]any\<close>: an object or \<^verbatim>\<open>null\<close>, which is the nil map.\<close>

definition object_value :: "json \<Rightarrow> gval option" where
  "object_value j = (case j of JNull \<Rightarrow> Some GNil | JObject kvs \<Rightarrow> Some (any_of j) | _ \<Rightarrow> None)"

definition value_field :: "string \<Rightarrow> ((gval \<Rightarrow> gval) \<Rightarrow> 'r \<Rightarrow> 'r) \<Rightarrow> 'r field" where
  "value_field name upd = (name, \<lambda>j r. map_option (\<lambda>v. upd (\<lambda>_. v) r) (object_value j))"

text \<open>A struct whose \<^verbatim>\<open>UnmarshalJSON\<close> keeps the whole document beside the decoded fields.\<close>

definition decode_raw :: "'r field list \<Rightarrow> ((gmap \<Rightarrow> gmap) \<Rightarrow> 'r \<Rightarrow> 'r) \<Rightarrow> 'r \<Rightarrow> json \<Rightarrow> 'r option" where
  "decode_raw fs upd zero j =
     chain (decode_object fs j zero) (\<lambda>r. map_option (\<lambda>m. upd (\<lambda>_. m) r) (any_map j))"

definition map_string :: "gmap \<Rightarrow> string \<Rightarrow> string" where
  "map_string m k = (case map_of m k of Some (GStr s) \<Rightarrow> trim_space s | _ \<Rightarrow> '''')"

definition no_capabilities :: capabilities where
  "no_capabilities =
     \<lparr>can_read_agents = False, can_read_hierarchy = False, can_read_delegates = False, can_read_skills = False,
      can_read_access = False, can_replace_access = False, can_read_subagents = False, can_read_executions = False,
      can_read_diagnostics = False, can_read_inventory = False, can_read_catalog = False, can_set_status = False,
      can_delete_agent = False, can_cancel = False\<rparr>"

end
