(* ===== verification/Gantry.thy ===== *)
theory Gantry
  imports Http_Client Text_Order
begin

text \<open>The Gantry adapter (\<^verbatim>\<open>internal/adapters/gantry\<close>): the documents a Gantry server answers with
  (\<^verbatim>\<open>dto.go\<close>), their translation into the domain model, and the operations of the client (\<^verbatim>\<open>client.go\<close>) over
  a transport.  The collection of a whole snapshot is in theory \<open>Gantry_Client\<close>, usage in \<open>Gantry_Usage\<close>.\<close>

section \<open>Documents\<close>

record gantry_agent =
  ga_id :: string
  ga_name :: string
  ga_display :: string
  ga_description :: string
  ga_status :: string
  ga_app :: string
  ga_harness :: string
  ga_config :: string
  ga_parent :: string
  ga_created :: string
  ga_updated :: string
  ga_raw :: gmap

definition decode_gantry_agent :: "json \<Rightarrow> gantry_agent option" where
  "decode_gantry_agent =
     decode_raw
       [string_field ''id'' ga_id_update, string_field ''name'' ga_name_update,
        string_field ''displayName'' ga_display_update, string_field ''description'' ga_description_update,
        string_field ''status'' ga_status_update, string_field ''appId'' ga_app_update,
        string_field ''agentHarness'' ga_harness_update, string_field ''currentConfigVersionId'' ga_config_update,
        string_field ''parentAgentId'' ga_parent_update, string_field ''createdAt'' ga_created_update,
        string_field ''updatedAt'' ga_updated_update]
       ga_raw_update
       \<lparr>ga_id = '''', ga_name = '''', ga_display = '''', ga_description = '''', ga_status = '''', ga_app = '''',
        ga_harness = '''', ga_config = '''', ga_parent = '''', ga_created = '''', ga_updated = '''', ga_raw = []\<rparr>"

definition gantry_display_name :: "gantry_agent \<Rightarrow> string" where
  "gantry_display_name g =
     (if ga_display g \<noteq> '''' then ga_display g else if ga_name g \<noteq> '''' then ga_name g else ga_id g)"

definition gantry_status :: "gantry_agent \<Rightarrow> agent_status" where
  "gantry_status g =
     (if List.member [''active'', ''enabled'', ''running''] (ga_status g) then AgentEnabled
      else if ga_status g = ''disabled'' then AgentDisabled else AgentUnknown)"

record resolved_delegate =
  rd_ref :: string
  rd_agent :: string
  rd_tool :: string
  rd_display :: string
  rd_persona :: string
  rd_raw :: gmap

definition decode_resolved_delegate :: "json \<Rightarrow> resolved_delegate option" where
  "decode_resolved_delegate =
     decode_raw
       [string_field ''ref'' rd_ref_update, string_field ''agentId'' rd_agent_update,
        string_field ''toolName'' rd_tool_update, string_field ''displayName'' rd_display_update,
        string_field ''persona'' rd_persona_update]
       rd_raw_update
       \<lparr>rd_ref = '''', rd_agent = '''', rd_tool = '''', rd_display = '''', rd_persona = '''', rd_raw = []\<rparr>"

record agent_delegates =
  dd_agent :: string
  dd_revision :: int
  dd_delegates :: "string list option"
  dd_resolved :: "resolved_delegate list option"

definition decode_agent_delegates :: "json \<Rightarrow> agent_delegates option" where
  "decode_agent_delegates j =
     decode_object
       [string_field ''agentId'' dd_agent_update, int_field ''revision'' dd_revision_update,
        list_field ''delegates'' text_element dd_delegates_update,
        list_field ''resolved'' decode_resolved_delegate dd_resolved_update]
       j \<lparr>dd_agent = '''', dd_revision = 0, dd_delegates = None, dd_resolved = None\<rparr>"

record gantry_selection =
  gs_id :: string
  gs_version :: string

definition decode_gantry_selection :: "json \<Rightarrow> gantry_selection option" where
  "decode_gantry_selection j =
     decode_object [string_field ''id'' gs_id_update, string_field ''version'' gs_version_update] j
       \<lparr>gs_id = '''', gs_version = ''''\<rparr>"

record gantry_access =
  gx_agent :: string
  gx_selections :: "gantry_selection list option"
  gx_raw :: gmap

definition decode_gantry_access :: "json \<Rightarrow> gantry_access option" where
  "decode_gantry_access =
     decode_raw
       [string_field ''agentId'' gx_agent_update, list_field ''selections'' decode_gantry_selection gx_selections_update]
       gx_raw_update \<lparr>gx_agent = '''', gx_selections = None, gx_raw = []\<rparr>"

record doctor_check =
  dc_id :: string
  dc_status :: string
  dc_message :: string
  dc_raw :: gmap

definition decode_doctor_check :: "json \<Rightarrow> doctor_check option" where
  "decode_doctor_check =
     decode_raw
       [string_field ''id'' dc_id_update, string_field ''status'' dc_status_update,
        string_field ''message'' dc_message_update]
       dc_raw_update \<lparr>dc_id = '''', dc_status = '''', dc_message = '''', dc_raw = []\<rparr>"

record gantry_doctor =
  dr_status :: string
  dr_checks :: "doctor_check list option"

definition decode_gantry_doctor :: "json \<Rightarrow> gantry_doctor option" where
  "decode_gantry_doctor j =
     decode_object [string_field ''status'' dr_status_update, list_field ''checks'' decode_doctor_check dr_checks_update]
       j \<lparr>dr_status = '''', dr_checks = None\<rparr>"

record gantry_items =
  gi_tools :: "gmap list option"
  gi_skills :: "gmap list option"
  gi_servers :: "gmap list option"

definition decode_gantry_inventory :: "json \<Rightarrow> gantry_items option" where
  "decode_gantry_inventory j =
     decode_object
       [(''inventory'',
         decode_object
           [list_field ''tools'' any_map gi_tools_update, list_field ''skills'' any_map gi_skills_update,
            list_field ''mcpServers'' any_map gi_servers_update])]
       j \<lparr>gi_tools = None, gi_skills = None, gi_servers = None\<rparr>"

record gantry_capability =
  gc_id :: string
  gc_version :: json
  gc_display :: string
  gc_category :: string
  gc_risk :: string
  gc_can :: string
  gc_cannot :: string
  gc_source :: string
  gc_raw :: gmap

definition decode_gantry_capability :: "json \<Rightarrow> gantry_capability option" where
  "decode_gantry_capability =
     decode_raw
       [string_field ''id'' gc_id_update, (''version'', \<lambda>j g. Some (g\<lparr>gc_version := j\<rparr>)),
        string_field ''displayName'' gc_display_update, string_field ''category'' gc_category_update,
        string_field ''risk'' gc_risk_update, string_field ''can'' gc_can_update,
        string_field ''cannot'' gc_cannot_update, string_field ''source'' gc_source_update]
       gc_raw_update
       \<lparr>gc_id = '''', gc_version = JNull, gc_display = '''', gc_category = '''', gc_risk = '''', gc_can = '''',
        gc_cannot = '''', gc_source = '''', gc_raw = []\<rparr>"

text \<open>A struct with one list: \<^verbatim>\<open>{"agents": [...]}\<close> and the like.\<close>

definition decode_envelope :: "string \<Rightarrow> (json \<Rightarrow> 'a option) \<Rightarrow> json \<Rightarrow> 'a list option option" where
  "decode_envelope name element j = decode_object [list_field name element (\<lambda>f. f)] j None"

record skill_binding =
  gb_id :: string
  gb_agent :: string
  gb_skill :: string
  gb_status :: string
  gb_version :: string

definition decode_skill_binding :: "json \<Rightarrow> skill_binding option" where
  "decode_skill_binding j =
     decode_object
       [string_field ''id'' gb_id_update, string_field ''agentId'' gb_agent_update,
        string_field ''skillId'' gb_skill_update, string_field ''status'' gb_status_update,
        string_field ''configVersionId'' gb_version_update]
       j \<lparr>gb_id = '''', gb_agent = '''', gb_skill = '''', gb_status = '''', gb_version = ''''\<rparr>"

record gantry_skill =
  gk_id :: string
  gk_name :: string
  gk_description :: string
  gk_source :: string
  gk_status :: string
  gk_prompts :: "string list option"
  gk_tools :: "string list option"
  gk_workflows :: "string list option"
  gk_env :: "string list option"
  gk_permissions :: "gmap list option"

definition no_skill :: gantry_skill where
  "no_skill =
     \<lparr>gk_id = '''', gk_name = '''', gk_description = '''', gk_source = '''', gk_status = '''', gk_prompts = None,
      gk_tools = None, gk_workflows = None, gk_env = None, gk_permissions = None\<rparr>"

definition decode_gantry_skill :: "json \<Rightarrow> gantry_skill option" where
  "decode_gantry_skill j =
     decode_object
       [string_field ''id'' gk_id_update, string_field ''name'' gk_name_update,
        string_field ''description'' gk_description_update, string_field ''source'' gk_source_update,
        string_field ''status'' gk_status_update, list_field ''promptRefs'' text_element gk_prompts_update,
        list_field ''toolIds'' text_element gk_tools_update,
        list_field ''workflowRefs'' text_element gk_workflows_update,
        list_field ''requiredEnvVars'' text_element gk_env_update,
        list_field ''actionPermissions'' any_map gk_permissions_update]
       j no_skill"

record gantry_run =
  gr_id :: string
  gr_job :: string
  gr_started :: string
  gr_ended :: string
  gr_status :: string

definition decode_gantry_run :: "json \<Rightarrow> gantry_run option" where
  "decode_gantry_run j =
     decode_object
       [string_field ''run_id'' gr_id_update, string_field ''job_id'' gr_job_update,
        string_field ''started_at'' gr_started_update, string_field ''ended_at'' gr_ended_update,
        string_field ''status'' gr_status_update]
       j \<lparr>gr_id = '''', gr_job = '''', gr_started = '''', gr_ended = '''', gr_status = ''''\<rparr>"

record run_event =
  ge_id :: string
  ge_run :: string
  ge_type :: string
  ge_payload :: gval
  ge_created :: string
  ge_kind :: string

definition decode_run_event :: "json \<Rightarrow> run_event option" where
  "decode_run_event j =
     decode_object
       [string_field ''id'' ge_id_update, string_field ''runId'' ge_run_update, string_field ''type'' ge_type_update,
        value_field ''payload'' ge_payload_update, string_field ''createdAt'' ge_created_update,
        (''metadata'', decode_object [string_field ''runtimeEventType'' ge_kind_update])]
       j \<lparr>ge_id = '''', ge_run = '''', ge_type = '''', ge_payload = GNil, ge_created = '''', ge_kind = ''''\<rparr>"

record gantry_job =
  gj_id :: string
  gj_target :: "string option"

text \<open>A pointer to a struct: \<^verbatim>\<open>null\<close> is the nil pointer.\<close>

definition decode_target :: "json \<Rightarrow> string option \<Rightarrow> string option option" where
  "decode_target j old =
     (case j of
        JNull \<Rightarrow> Some None
      | _ \<Rightarrow> map_option Some (decode_object [string_field ''agentId'' (\<lambda>f. f)] j
          (case old of None \<Rightarrow> '''' | Some s \<Rightarrow> s)))"

definition decode_gantry_job :: "json \<Rightarrow> gantry_job option" where
  "decode_gantry_job j =
     decode_object
       [string_field ''jobId'' gj_id_update,
        (''target'', \<lambda>v g. map_option (\<lambda>x. g\<lparr>gj_target := x\<rparr>) (decode_target v (gj_target g)))]
       j \<lparr>gj_id = '''', gj_target = None\<rparr>"

section \<open>Translation\<close>

definition gantry :: protocol where
  "gantry =
     \<lparr>pt_name = ''gantry'', pt_credential = \<lambda>token. (''Authorization'', ''Bearer '' @ token),
      pt_status_error = \<lambda>verb path status body.
        Text (''gantry '' @ verb @ '' '' @ path @ '' returned '' @ show_int status @ '': '' @ body)\<rparr>"

definition warning_words :: "string list" where
  "warning_words = [''warn'', ''warning'', ''degraded'']"

definition failure_words :: "string list" where
  "failure_words = [''fail'', ''failed'', ''error'', ''critical'']"

definition worsen :: "runtime_status \<Rightarrow> string \<Rightarrow> runtime_status" where
  "worsen status word =
     (if List.member warning_words word then if status = RuntimeActive then RuntimeDegraded else status
      else if List.member failure_words word then RuntimeFailed
      else status)"

definition normalized_word :: "string \<Rightarrow> string" where
  "normalized_word s = to_lower (trim_space s)"

definition normalize_doctor :: "gantry_doctor \<Rightarrow> time \<Rightarrow> diagnostic_snapshot list \<times> runtime_status" where
  "normalize_doctor doctor observed =
     (let checks = elems (dr_checks doctor) in
      (map (\<lambda>c. \<lparr>dg_check = dc_id c, dg_status = normalized_word (dc_status c), dg_message = dc_message c,
          dg_observed_at = observed, dg_metadata = [], dg_raw = dc_raw c\<rparr>) checks,
       worsen (fold (\<lambda>c status. worsen status (normalized_word (dc_status c))) checks RuntimeActive)
         (normalized_word (dr_status doctor))))"

definition gantry_agent_kind :: "string \<Rightarrow> agent_kind" where
  "gantry_agent_kind aid = (if aid = ''agent:main_agent'' then AgentMain else AgentRegistered)"

definition decode_agent_list :: "json \<Rightarrow> gantry_agent list option" where
  "decode_agent_list j =
     (case decode_envelope ''agents'' decode_gantry_agent j of
        Some (Some agents) \<Rightarrow> Some agents
      | _ \<Rightarrow> map_option elems (decode_list decode_gantry_agent j))"

definition agent_of :: "time \<Rightarrow> gantry_agent \<Rightarrow> agent_snapshot" where
  "agent_of observed g =
     \<lparr>as_id = ga_id g, as_parent = ga_parent g,
      as_kind = (if ga_parent g \<noteq> '''' then AgentSubagent else gantry_agent_kind (ga_id g)),
      as_name = gantry_display_name g, as_status = gantry_status g,
      as_metadata =
        [(''description'', GStr (ga_description g)), (''app_id'', GStr (ga_app g)),
         (''agent_harness'', GStr (ga_harness g)), (''current_config_version_id'', GStr (ga_config g)),
         (''runtime_created_at'', GStr (ga_created g)), (''runtime_updated_at'', GStr (ga_updated g))],
      as_observed_at = observed\<rparr>"

definition delegate_agent_id :: "string \<Rightarrow> string" where
  "delegate_agent_id ref = (if has_prefix ref ''agent:'' then ref else ''agent:'' @ ref)"

definition delegation_source :: "bool \<Rightarrow> string" where
  "delegation_source configured = (if configured then ''configured'' else ''conversation_bound'')"

text \<open>The reference of a resolved delegate is trimmed and defaults to the identifier of the delegate, without
  which the delegate is skipped.\<close>

definition delegate_ref :: "resolved_delegate \<Rightarrow> string" where
  "delegate_ref d = (if blank (rd_ref d) then trim_space (rd_agent d) else trim_space (rd_ref d))"

definition usable_delegate :: "resolved_delegate \<Rightarrow> bool" where
  "usable_delegate d \<longleftrightarrow> \<not> blank (rd_agent d)"

definition resolved_delegation ::
    "time \<Rightarrow> string \<Rightarrow> int \<Rightarrow> string list \<Rightarrow> resolved_delegate \<Rightarrow> delegation_snapshot" where
  "resolved_delegation observed agent revision configured d =
     (let is_configured = List.member configured (delegate_ref d) in
      \<lparr>dl_orchestrator = agent, dl_delegate = trim_space (rd_agent d), dl_ref = delegate_ref d,
       dl_tool = rd_tool d, dl_display = rd_display d, dl_persona = rd_persona d, dl_configured = is_configured,
       dl_resolved = True, dl_revision = revision, dl_status = ''active'', dl_observed_at = observed,
       dl_metadata = [(''source'', GStr (delegation_source is_configured))], dl_raw = rd_raw d\<rparr>)"

definition configured_delegation :: "time \<Rightarrow> string \<Rightarrow> int \<Rightarrow> string \<Rightarrow> delegation_snapshot" where
  "configured_delegation observed agent revision ref =
     \<lparr>dl_orchestrator = agent, dl_delegate = delegate_agent_id ref, dl_ref = ref, dl_tool = '''',
      dl_display = '''', dl_persona = '''', dl_configured = True, dl_resolved = False, dl_revision = revision,
      dl_status = ''active'', dl_observed_at = observed,
      dl_metadata = [(''source'', GStr ''configured''), (''runtime_agent_id_source'', GStr ''gantry_settings_folder'')],
      dl_raw = [(''ref'', GStr ref)]\<rparr>"

definition agent_delegations :: "time \<Rightarrow> string \<Rightarrow> agent_delegates \<Rightarrow> delegation_snapshot list" where
  "agent_delegations observed agent p =
     (let configured = filter (\<lambda>ref. ref \<noteq> '''') (map trim_space (elems (dd_delegates p)));
          resolved = filter usable_delegate (elems (dd_resolved p)) in
      map (resolved_delegation observed agent (dd_revision p) configured) resolved @
      map (configured_delegation observed agent (dd_revision p))
        (filter (\<lambda>ref. \<not> List.member (map delegate_ref resolved) ref) configured))"

definition inventory_metadata :: "gmap \<Rightarrow> gmap" where
  "inventory_metadata raw =
     [(''description'', GStr (map_string raw ''description'')), (''category'', GStr (map_string raw ''category'')),
      (''risk'', GStr (map_string raw ''risk'')), (''app_id'', GStr (map_string raw ''appId''))]"

definition first_text :: "string list \<Rightarrow> string" where
  "first_text xs = (case List.find (\<lambda>s. s \<noteq> '''') xs of None \<Rightarrow> '''' | Some s \<Rightarrow> s)"

definition inventory_item :: "time \<Rightarrow> string \<Rightarrow> gmap \<Rightarrow> inventory_snapshot option" where
  "inventory_item observed kind raw =
     (let id = map_string raw ''id'' in
      if id = '''' then None
      else Some
        \<lparr>iv_id = id, iv_kind = kind, iv_name = first_text [map_string raw ''displayName'', map_string raw ''name'', id],
         iv_status = map_string raw ''status'',
         iv_provider = first_text [map_string raw ''provider'', map_string raw ''createdSource''],
         iv_source = map_string raw ''source'', iv_observed_at = observed, iv_metadata = inventory_metadata raw,
         iv_raw = raw\<rparr>)"

definition inventory_items :: "time \<Rightarrow> gantry_items \<Rightarrow> inventory_snapshot list" where
  "inventory_items observed p =
     List.map_filter (inventory_item observed ''tool'') (elems (gi_tools p)) @
     List.map_filter (inventory_item observed ''skill'') (elems (gi_skills p)) @
     List.map_filter (inventory_item observed ''mcp_server'') (elems (gi_servers p))"

text \<open>\<^verbatim>\<open>fmt.Sprint\<close> of a decoded document.\<close>

fun sprint :: "(rat \<Rightarrow> string) \<Rightarrow> json \<Rightarrow> string" where
  "sprint f JNull = ''<nil>''"
| "sprint f (JBool b) = (if b then ''true'' else ''false'')"
| "sprint f (JNumber s) = f (number_value s)"
| "sprint f (JString s) = s"
| "sprint f (JArray xs) = ''['' @ join_with '' '' (map (sprint f) xs) @ '']''"
| "sprint f (JObject kvs) =
     ''map['' @ join_with '' '' (map (\<lambda>(k, v). k @ '':'' @ v)
       (sort_by fst (fold (\<lambda>(k, v). mput k v) (map (\<lambda>kv. (fst kv, sprint f (snd kv))) kvs) []))) @ '']''"

definition capability_version :: "(rat \<Rightarrow> string) \<Rightarrow> json \<Rightarrow> string" where
  "capability_version f j = (if j = JNull \<or> sprint f j = ''<nil>'' then ''unknown'' else sprint f j)"

definition capability_metadata :: "gmap \<Rightarrow> gmap" where
  "capability_metadata raw =
     filter (\<lambda>kv. \<not> List.member [''id'', ''version'', ''displayName'', ''category'', ''risk'', ''can'', ''cannot'', ''source'']
       (fst kv)) raw"

definition capability_of :: "(rat \<Rightarrow> string) \<Rightarrow> time \<Rightarrow> gantry_capability \<Rightarrow> capability_snapshot" where
  "capability_of f observed c =
     \<lparr>cp_id = gc_id c, cp_version = capability_version f (gc_version c), cp_name = gc_display c,
      cp_category = gc_category c, cp_risk = gc_risk c, cp_can = gc_can c, cp_cannot = gc_cannot c,
      cp_source = gc_source c, cp_observed_at = observed, cp_metadata = capability_metadata (gc_raw c),
      cp_raw = gc_raw c\<rparr>"

definition text_list_value :: "string list option \<Rightarrow> gval" where
  "text_list_value xs = (case xs of None \<Rightarrow> GNil | Some ys \<Rightarrow> GList (map GStr ys))"

definition skill_of :: "time \<Rightarrow> gantry_skill list \<Rightarrow> skill_binding \<Rightarrow> skill_snapshot" where
  "skill_of observed skills b =
     (let detail = (case map_of (fold (\<lambda>s. mput (gk_id s) s) skills []) (gb_skill b) of
                      None \<Rightarrow> no_skill | Some s \<Rightarrow> s) in
      \<lparr>sk_id = gb_skill b, sk_name = (if gk_name detail = '''' then gb_skill b else gk_name detail),
       sk_description = gk_description detail, sk_source = gk_source detail, sk_status = gb_status b,
       sk_version = gb_version b, sk_tools = elems (gk_tools detail), sk_workflows = elems (gk_workflows detail),
       sk_metadata =
         [(''binding_id'', GStr (gb_id b)), (''catalog_status'', GStr (gk_status detail)),
          (''prompt_refs'', text_list_value (gk_prompts detail)), (''required_env_vars'', text_list_value (gk_env detail)),
          (''action_permissions'',
            case gk_permissions detail of None \<Rightarrow> GNil | Some ms \<Rightarrow> GList (map GMap ms))],
       sk_observed_at = observed\<rparr>)"

definition normalize_selections :: "gantry_selection list \<Rightarrow> access_selection list" where
  "normalize_selections xs =
     map (\<lambda>s. \<lparr>sel_kind = ''capability'', sel_id = gs_id s, sel_name = gs_id s, sel_allowed = True,
       sel_attributes = [(''version'', GStr (gs_version s))]\<rparr>) xs"

definition gantry_selections :: "access_selection list \<Rightarrow> gantry_selection list" where
  "gantry_selections xs =
     map (\<lambda>s. \<lparr>gs_id = trim_space (sel_id s), gs_version = map_string (sel_attributes s) ''version''\<rparr>) xs"

text \<open>\<^verbatim>\<open>omitempty\<close> leaves an empty version out of the document.\<close>

definition gantry_selection_value :: "gantry_selection \<Rightarrow> gval" where
  "gantry_selection_value s =
     GMap ((''id'', GStr (gs_id s)) # (if gs_version s = '''' then [] else [(''version'', GStr (gs_version s))]))"

end
