(* ===== verification/Gantry_Client.thy ===== *)
theory Gantry_Client
  imports Gantry
begin

text \<open>The operations of the Gantry client (\<^verbatim>\<open>internal/adapters/gantry/client.go\<close>): checks, live reads, the
  collection of a snapshot with its pool of workers, and the control actions.\<close>

section \<open>Reads\<close>

abbreviation gantry_get ::
    "('w, 'u) transport \<Rightarrow> runtime_connection \<Rightarrow> string \<Rightarrow> (json \<Rightarrow> 'a option) \<Rightarrow> ('w, 'a) call" where
  "gantry_get t conn path decode \<equiv> do_json gantry t conn ''GET'' path None decode"

definition gantry_check :: "('w, 'u) transport \<Rightarrow> runtime_connection \<Rightarrow> ('w, check_result) call" where
  "gantry_check t conn =
     seq (gantry_get t conn ''/v1/health'' object_value) (\<lambda>health.
     seq (wrapping ''gantry doctor failed: '' (gantry_get t conn ''/v1/doctor'' decode_gantry_doctor)) (\<lambda>doctor.
     seq (current_time t) (\<lambda>ts.
     let (diagnostics, status) = normalize_doctor doctor ts; control = rc_mode conn = ModeControlEnabled in
     return
       \<lparr>ck_status = status,
        ck_message =
          (if status = RuntimeFailed then ''gantry doctor reported failing checks''
           else if status = RuntimeDegraded then ''gantry doctor reported warnings''
           else ''gantry health and doctor checks succeeded''),
        ck_capabilities =
          no_capabilities\<lparr>can_read_agents := True, can_read_delegates := True, can_read_skills := True,
            can_read_access := True, can_replace_access := control, can_read_subagents := True,
            can_read_diagnostics := True, can_read_inventory := True, can_read_catalog := True,
            can_set_status := control\<rparr>,
        ck_metadata = [(''health'', health), (''doctor_status'', GStr (dr_status doctor))],
        ck_diagnostics = diagnostics\<rparr>)))"

definition gantry_list_agents ::
    "('w, 'u) transport \<Rightarrow> runtime_connection \<Rightarrow> ('w, agent_snapshot list) call" where
  "gantry_list_agents t conn =
     seq (gantry_get t conn ''/v1/agents'' Some) (\<lambda>payload.
     case decode_agent_list payload of
       None \<Rightarrow> failing (Wrapped ''decode gantry agent list: '' (Text ''invalid document''))
     | Some agents \<Rightarrow> seq (current_time t) (\<lambda>ts. return (map (agent_of ts) agents)))"

definition agent_path :: "string \<Rightarrow> string \<Rightarrow> string" where
  "agent_path agent rest = ''/v1/agents/'' @ path_escape agent @ rest"

definition gantry_list_delegates ::
    "('w, 'u) transport \<Rightarrow> runtime_connection \<Rightarrow> string \<Rightarrow> ('w, delegation_snapshot list) call" where
  "gantry_list_delegates t conn agent =
     seq (gantry_get t conn (agent_path agent ''/delegates'') decode_agent_delegates) (\<lambda>p.
     seq (current_time t) (\<lambda>ts. return (agent_delegations ts agent p)))"

definition gantry_list_inventory ::
    "('w, 'u) transport \<Rightarrow> runtime_connection \<Rightarrow> ('w, inventory_snapshot list) call" where
  "gantry_list_inventory t conn =
     seq (gantry_get t conn ''/v1/inventory'' decode_gantry_inventory) (\<lambda>p.
     seq (current_time t) (\<lambda>ts. return (inventory_items ts p)))"

definition gantry_list_capabilities ::
    "('w, 'u) transport \<Rightarrow> runtime_connection \<Rightarrow> ('w, capability_snapshot list) call" where
  "gantry_list_capabilities t conn =
     seq (gantry_get t conn ''/v1/capabilities'' (decode_envelope ''capabilities'' decode_gantry_capability)) (\<lambda>cs.
     seq (current_time t) (\<lambda>ts.
     return (map (capability_of (ht_float t) ts) (filter (\<lambda>c. \<not> blank (gc_id c)) (elems cs)))))"

definition gantry_list_skills ::
    "('w, 'u) transport \<Rightarrow> runtime_connection \<Rightarrow> string \<Rightarrow> ('w, skill_snapshot list) call" where
  "gantry_list_skills t conn agent =
     seq (gantry_get t conn (agent_path agent ''/skills'') (decode_envelope ''bindings'' decode_skill_binding)) (\<lambda>bindings.
     seq (gantry_get t conn ''/v1/skills'' (decode_envelope ''skills'' decode_gantry_skill)) (\<lambda>skills.
     seq (current_time t) (\<lambda>ts. return (map (skill_of ts (elems skills)) (elems bindings)))))"

definition access_of :: "gantry_access \<Rightarrow> time \<Rightarrow> access_document" where
  "access_of a observed =
     no_access\<lparr>acc_agent := gx_agent a, acc_selections := normalize_selections (elems (gx_selections a)),
       acc_raw := gx_raw a, acc_observed_at := observed, acc_source := ''gantry''\<rparr>"

definition gantry_get_access ::
    "('w, 'u) transport \<Rightarrow> runtime_connection \<Rightarrow> string \<Rightarrow> ('w, access_document) call" where
  "gantry_get_access t conn agent =
     seq (gantry_get t conn (agent_path agent ''/access'') decode_gantry_access) (\<lambda>a.
     seq (current_time t) (\<lambda>ts. return (access_of a ts)))"


section \<open>Delegated executions\<close>

definition payload_map :: "run_event \<Rightarrow> gmap" where
  "payload_map ev = (case ge_payload ev of GMap m \<Rightarrow> m | _ \<Rightarrow> [])"

definition event_status :: "gmap \<Rightarrow> string" where
  "event_status payload =
     (case map_of payload ''patch'' of
        Some (GMap patch) \<Rightarrow>
          if map_string patch ''status'' \<noteq> '''' then map_string patch ''status'' else map_string payload ''status''
      | _ \<Rightarrow> map_string payload ''status'')"

definition final_words :: "string list" where
  "final_words = [''completed'', ''failed'', ''cancelled'', ''timed_out'']"

definition or_keep :: "string \<Rightarrow> string \<Rightarrow> string" where
  "or_keep new old = (if new \<noteq> '''' then new else old)"

definition apply_event :: "run_event \<Rightarrow> subagent_execution \<Rightarrow> subagent_execution" where
  "apply_event ev x =
     (let payload = payload_map ev; status = event_status payload in
      x\<lparr>se_type := or_keep (map_string payload ''subagentType'') (se_type x),
        se_description := or_keep (map_string payload ''description'') (se_description x),
        se_summary := or_keep (map_string payload ''summary'') (se_summary x),
        se_status := or_keep status (se_status x),
        se_started := (if ge_kind ev = ''task.started'' \<and> se_started x = None then parse_time (ge_created ev)
                       else se_started x),
        se_ended := (if List.member final_words status then parse_time (ge_created ev) else se_ended x),
        se_raw := mput (ge_id ev) (ge_payload ev) (se_raw x)\<rparr>)"

definition started_task :: "gantry_run \<Rightarrow> string \<Rightarrow> time \<Rightarrow> string \<Rightarrow> subagent_execution" where
  "started_task run agent observed task =
     \<lparr>se_id = task, se_parent_run = gr_id run, se_agent = agent, se_type = '''', se_status = ''running'',
      se_description = '''', se_summary = '''', se_started = None, se_ended = None, se_observed_at = observed,
      se_metadata = [(''job_id'', GStr (gr_job run))], se_raw = []\<rparr>"

text \<open>The executions by task, in the order in which the tasks appeared.\<close>

definition track_event ::
    "gantry_run \<Rightarrow> string \<Rightarrow> time \<Rightarrow> run_event \<Rightarrow> (string \<times> subagent_execution) list \<Rightarrow>
     (string \<times> subagent_execution) list" where
  "track_event run agent observed ev tasks =
     (let task = map_string (payload_map ev) ''taskId'' in
      if task = '''' then tasks
      else case map_of tasks task of
        Some x \<Rightarrow> mput task (apply_event ev x) tasks
      | None \<Rightarrow>
          if map_string (payload_map ev) ''taskKind'' \<noteq> ''delegated_agent'' then tasks
          else mput task (apply_event ev (started_task run agent observed task)) tasks)"

definition normalize_delegated_executions ::
    "gantry_run \<Rightarrow> string \<Rightarrow> run_event list \<Rightarrow> time \<Rightarrow> subagent_execution list" where
  "normalize_delegated_executions run agent events observed =
     map snd (fold (track_event run agent observed) events [])"

definition job_owners :: "gantry_job list \<Rightarrow> (string \<times> string) list" where
  "job_owners jobs =
     fold (\<lambda>j m. case gj_target j of None \<Rightarrow> m | Some agent \<Rightarrow> mput (gj_id j) agent m) jobs []"

fun executions_of_runs ::
    "('w, 'u) transport \<Rightarrow> runtime_connection \<Rightarrow> time \<Rightarrow> (string \<times> string) list \<Rightarrow> gantry_run list \<Rightarrow>
     ('w, subagent_execution list) call" where
  "executions_of_runs t conn observed owners [] = return []"
| "executions_of_runs t conn observed owners (run # runs) =
     seq (gantry_get t conn (''/v1/runs/'' @ path_escape (gr_id run) @ ''/events'')
       (decode_envelope ''events'' decode_run_event)) (\<lambda>events.
     seq (executions_of_runs t conn observed owners runs) (\<lambda>rest.
     return (normalize_delegated_executions run
       (case map_of owners (gr_job run) of None \<Rightarrow> '''' | Some agent \<Rightarrow> agent) (elems events) observed @ rest)))"

definition gantry_subagent_executions ::
    "('w, 'u) transport \<Rightarrow> runtime_connection \<Rightarrow> time \<Rightarrow> ('w, subagent_execution list) call" where
  "gantry_subagent_executions t conn observed =
     seq (gantry_get t conn ''/v1/runs'' (decode_envelope ''runs'' decode_gantry_run)) (\<lambda>runs.
     seq (gantry_get t conn ''/v1/jobs?limit=100'' (decode_envelope ''jobs'' decode_gantry_job)) (\<lambda>jobs.
     executions_of_runs t conn observed (job_owners (elems jobs)) (elems runs)))"

section \<open>The snapshot\<close>

text \<open>At most four workers take the agents off a channel, in the order of the list, and read the skills, the
  access document and the delegations of each.  A worker is between two calls of the client; the scheduler
  picks which one goes on.  The first error is kept, and the worker that met it goes on with the next agent.\<close>

datatype pool_worker = Waiting | ReadSkills nat | ReadAccess nat "skill_snapshot list"
  | ReadDelegates nat "skill_snapshot list" access_document

record pool =
  pl_queue :: "nat list"
  pl_workers :: "pool_worker list"
  pl_items :: "(snapshot_agent \<times> delegation_snapshot list) option list"
  pl_error :: "gerr option"

definition pool_start :: "nat \<Rightarrow> pool" where
  "pool_start n =
     \<lparr>pl_queue = [0..<n], pl_workers = replicate (min n 4) Waiting, pl_items = replicate n None, pl_error = None\<rparr>"

definition set_worker :: "nat \<Rightarrow> pool_worker \<Rightarrow> pool \<Rightarrow> pool" where
  "set_worker i x p = p\<lparr>pl_workers := (pl_workers p)[i := x]\<rparr>"

definition worker_failed :: "nat \<Rightarrow> gerr \<Rightarrow> pool \<Rightarrow> pool" where
  "worker_failed i e p =
     (set_worker i Waiting p)\<lparr>pl_error := (case pl_error p of None \<Rightarrow> Some e | Some first \<Rightarrow> Some first)\<rparr>"

definition snapshot_item ::
    "time \<Rightarrow> agent_snapshot \<Rightarrow> skill_snapshot list \<Rightarrow> access_document \<Rightarrow> snapshot_agent" where
  "snapshot_item observed agent skills access =
     \<lparr>sa_agent = agent\<lparr>as_observed_at := observed\<rparr>,
      sa_skills = map (\<lambda>s. s\<lparr>sk_observed_at := observed\<rparr>) skills,
      sa_access = access\<lparr>acc_observed_at := observed\<rparr>\<rparr>"

definition worker_read ::
    "nat \<Rightarrow> string \<Rightarrow> ('w, 'a) call \<Rightarrow> ('a \<Rightarrow> pool) \<Rightarrow> pool \<Rightarrow> 'w \<Rightarrow> pool \<times> 'w" where
  "worker_read i failure read next_pool p w =
     (case read w of
        (Inl e, w) \<Rightarrow> (worker_failed i (Wrapped failure e) p, w)
      | (Inr x, w) \<Rightarrow> (next_pool x, w))"

definition pool_step ::
    "('w, 'u) transport \<Rightarrow> runtime_connection \<Rightarrow> time \<Rightarrow> agent_snapshot list \<Rightarrow> nat \<Rightarrow> pool \<Rightarrow> 'w \<Rightarrow> pool \<times> 'w" where
  "pool_step t conn observed agents i p w =
     (if length (pl_workers p) \<le> i then (p, w)
      else case pl_workers p ! i of
        Waiting \<Rightarrow>
          (case pl_queue p of
             [] \<Rightarrow> (p, w)
           | k # ks \<Rightarrow> ((set_worker i (ReadSkills k) p)\<lparr>pl_queue := ks\<rparr>, w))
      | ReadSkills k \<Rightarrow>
          let agent = as_id (agents ! k) in
          worker_read i (''list skills for agent '' @ quoted agent @ '': '') (gantry_list_skills t conn agent)
            (\<lambda>skills. set_worker i (ReadAccess k skills) p) p w
      | ReadAccess k skills \<Rightarrow>
          let agent = as_id (agents ! k) in
          worker_read i (''get access for agent '' @ quoted agent @ '': '') (gantry_get_access t conn agent)
            (\<lambda>access. set_worker i (ReadDelegates k skills access) p) p w
      | ReadDelegates k skills access \<Rightarrow>
          let agent = as_id (agents ! k) in
          worker_read i (''list delegates for agent '' @ quoted agent @ '': '') (gantry_list_delegates t conn agent)
            (\<lambda>delegations. (set_worker i Waiting p)\<lparr>pl_items := (pl_items p)
               [k := Some (snapshot_item observed (agents ! k) skills access, delegations)]\<rparr>) p w)"

fun pool_run ::
    "('w, 'u) transport \<Rightarrow> runtime_connection \<Rightarrow> time \<Rightarrow> agent_snapshot list \<Rightarrow> nat list \<Rightarrow> pool \<Rightarrow> 'w \<Rightarrow> pool \<times> 'w" where
  "pool_run t conn observed agents [] p w = (p, w)"
| "pool_run t conn observed agents (i # picks) p w =
     (case pool_step t conn observed agents i p w of (p, w) \<Rightarrow> pool_run t conn observed agents picks p w)"

text \<open>\<^verbatim>\<open>wg.Wait\<close>: after the given picks every worker gets its turn until the channel is drained; four rounds
  for each agent are enough.\<close>

definition rounds :: "nat \<Rightarrow> nat list" where
  "rounds n = concat (replicate (4 * n) [0..<4])"

definition collect_agents ::
    "('w, 'u) transport \<Rightarrow> nat list \<Rightarrow> runtime_connection \<Rightarrow> time \<Rightarrow> agent_snapshot list \<Rightarrow>
     ('w, (snapshot_agent \<times> delegation_snapshot list) list) call" where
  "collect_agents t picks conn observed agents w =
     (case pool_run t conn observed agents (picks @ rounds (length agents)) (pool_start (length agents)) w of
        (p, w) \<Rightarrow>
          ((case pl_error p of Some e \<Rightarrow> Inl e | None \<Rightarrow> Inr (map the (pl_items p))), w))"

definition capability_flags :: "capabilities \<Rightarrow> (string \<times> bool) list" where
  "capability_flags c =
     [(''read_agents'', can_read_agents c), (''read_agent_hierarchy'', can_read_hierarchy c),
      (''read_agent_delegates'', can_read_delegates c), (''read_agent_skills'', can_read_skills c),
      (''read_agent_access'', can_read_access c), (''replace_agent_access'', can_replace_access c),
      (''read_subagent_executions'', can_read_subagents c), (''read_diagnostics'', can_read_diagnostics c),
      (''read_inventory'', can_read_inventory c), (''read_capability_catalog'', can_read_catalog c),
      (''set_agent_status'', can_set_status c)]"

definition gantry_collect ::
    "('w, 'u) transport \<Rightarrow> nat list \<Rightarrow> runtime_connection \<Rightarrow> ('w, runtime_snapshot) call" where
  "gantry_collect t picks conn =
     seq (wrapping ''check gantry before snapshot: '' (gantry_check t conn)) (\<lambda>check.
     seq (wrapping ''list agents for snapshot: '' (gantry_list_agents t conn)) (\<lambda>agents.
     seq (wrapping ''list inventory for snapshot: '' (gantry_list_inventory t conn)) (\<lambda>inventory.
     seq (wrapping ''list capabilities for snapshot: '' (gantry_list_capabilities t conn)) (\<lambda>catalog.
     seq (current_time t) (\<lambda>observed.
     seq (collect_agents t picks conn observed agents) (\<lambda>items.
     seq (wrapping ''list subagent executions for snapshot: '' (gantry_subagent_executions t conn observed)) (\<lambda>executions.
     return
       \<lparr>sn_observed_at = observed, sn_agents = map fst items, sn_diagnostics = ck_diagnostics check,
        sn_inventory = inventory, sn_catalog = catalog, sn_delegations = concat (map snd items),
        sn_executions = [], sn_subagents = executions, sn_metadata = ck_metadata check,
        sn_capabilities = capability_flags (ck_capabilities check)\<rparr>)))))))"


section \<open>Control\<close>

definition gantry_replace_access ::
    "('w, 'u) transport \<Rightarrow> runtime_connection \<Rightarrow> string \<Rightarrow> access_document \<Rightarrow> ('w, access_document) call" where
  "gantry_replace_access t conn agent access =
     (if rc_mode conn \<noteq> ModeControlEnabled then failing (Text ''runtime connection is read-only'')
      else seq (wrapping ''read current gantry access before replacement: '' (gantry_get_access t conn agent)) (\<lambda>current.
        case map_of (acc_raw current) ''sources'' of
          None \<Rightarrow> failing (Text ''current gantry access document does not contain sources'')
        | Some sources \<Rightarrow>
            if sources = GNil then failing (Text ''current gantry access document does not contain sources'')
            else
              seq (do_json gantry t conn ''PUT'' (agent_path agent ''/access'')
                (Some (GMap [(''sources'', sources),
                   (''selections'', GList (map gantry_selection_value (gantry_selections (acc_selections access))))]))
                decode_gantry_access) (\<lambda>a.
              seq (current_time t) (\<lambda>ts. return (access_of a ts)))))"

definition gantry_set_status ::
    "('w, 'u) transport \<Rightarrow> runtime_connection \<Rightarrow> string \<Rightarrow> agent_status \<Rightarrow> ('w, agent_snapshot) call" where
  "gantry_set_status t conn agent status =
     (if rc_mode conn \<noteq> ModeControlEnabled then failing (Text ''runtime connection is read-only'')
      else if status \<noteq> AgentEnabled \<and> status \<noteq> AgentDisabled
      then failing (Text (''agent status must be '' @ quoted ''enabled'' @ '' or '' @ quoted ''disabled''))
      else
        seq (do_json gantry t conn ''PATCH'' (agent_path agent '''')
          (Some (GMap [(''status'', GStr (if status = AgentEnabled then ''active'' else ''disabled''))]))
          decode_gantry_agent) (\<lambda>g.
        seq (current_time t) (\<lambda>ts. return
          \<lparr>as_id = ga_id g, as_parent = '''', as_kind = gantry_agent_kind (ga_id g), as_name = gantry_display_name g,
           as_status = gantry_status g, as_metadata = ga_raw g, as_observed_at = ts\<rparr>)))"

text \<open>The adapter a service is given; the pool of each collection follows the given picks.\<close>

definition gantry_client :: "('w, 'u) transport \<Rightarrow> nat list \<Rightarrow> 'w adapter" where
  "gantry_client t picks =
     \<lparr>ad_check = gantry_check t, ad_replace_access = gantry_replace_access t, ad_set_status = gantry_set_status t,
      ad_delete_agent = \<lambda>_ _. failing (Text ''gantry agent deletion is not supported''),
      ad_cancel = \<lambda>_ _. failing (Text ''gantry execution cancellation is not supported''),
      ad_collect = gantry_collect t picks\<rparr>"

end
