(* ===== verification/Gantry_Usage.thy ===== *)
theory Gantry_Usage
  imports Gantry_Client
begin

text \<open>Usage records of a Gantry server (\<^verbatim>\<open>internal/adapters/gantry/usage.go\<close>): the query, the two shapes of its
  answer, and the observations they become.\<close>

record usage_record =
  ur_id :: string
  ur_agent :: string
  ur_run :: string
  ur_job :: string
  ur_model :: string
  ur_provider :: string
  ur_requests :: int
  ur_input :: int
  ur_output :: int
  ur_started :: string
  ur_ended :: string
  ur_timestamp :: string

definition decode_usage_record :: "json \<Rightarrow> usage_record option" where
  "decode_usage_record j =
     decode_object
       [string_field ''id'' ur_id_update, string_field ''agentId'' ur_agent_update,
        string_field ''runId'' ur_run_update, string_field ''jobId'' ur_job_update,
        string_field ''model'' ur_model_update, string_field ''provider'' ur_provider_update,
        int_field ''requestCount'' ur_requests_update, int_field ''inputTokens'' ur_input_update,
        int_field ''outputTokens'' ur_output_update, string_field ''startedAt'' ur_started_update,
        string_field ''endedAt'' ur_ended_update, string_field ''timestamp'' ur_timestamp_update]
       j \<lparr>ur_id = '''', ur_agent = '''', ur_run = '''', ur_job = '''', ur_model = '''', ur_provider = '''',
          ur_requests = 0, ur_input = 0, ur_output = 0, ur_started = '''', ur_ended = '''', ur_timestamp = ''''\<rparr>"

definition decode_gantry_usage :: "json \<Rightarrow> usage_record list option" where
  "decode_gantry_usage j =
     (case decode_list decode_usage_record j of
        Some records \<Rightarrow> Some (elems records)
      | None \<Rightarrow>
          map_option (\<lambda>(usage, data). case usage of Some us \<Rightarrow> us | None \<Rightarrow> elems data)
            (decode_object
              [list_field ''usage'' decode_usage_record apfst, list_field ''data'' decode_usage_record apsnd]
              j (None, None)))"

definition parse_usage_time :: "string \<Rightarrow> time option" where
  "parse_usage_time s = (if blank s then None else parse_time s)"

definition first_usage_time :: "('w, 'u) transport \<Rightarrow> string list \<Rightarrow> time \<Rightarrow> ('w, time) call" where
  "first_usage_time t texts fallback =
     (case List.find (\<lambda>x. x \<noteq> None) (map parse_usage_time texts) of
        Some (Some x) \<Rightarrow> return x
      | _ \<Rightarrow> if fallback \<noteq> 0 then return fallback else current_time t)"

definition stable_usage_id :: "('w, 'u) transport \<Rightarrow> usage_record \<Rightarrow> time \<Rightarrow> string" where
  "stable_usage_id t r observed =
     hex_text (ht_sha256 t (join_with [CHR 0x00]
       [ur_agent r, ur_run r, ur_job r, ur_model r, rfc3339_nano observed]))"

definition usage_observation_of ::
    "('w, 'u) transport \<Rightarrow> runtime_connection \<Rightarrow> usage_record \<Rightarrow> time \<Rightarrow> usage_observation" where
  "usage_observation_of t conn r observed =
     \<lparr>uo_source = SourceGantryNative,
      uo_source_id = (if blank (ur_id r) then stable_usage_id t r observed else trim_space (ur_id r)),
      uo_conn = rc_id conn, uo_agent = ur_agent r,
      uo_execution = (if ur_run r = '''' then ur_job r else ur_run r), uo_parent = '''', uo_thread = '''',
      uo_model = ur_model r, uo_provider = ur_provider r, uo_requests = ur_requests r, uo_input = ur_input r,
      uo_output = ur_output r, uo_cached = 0, uo_cache_creation = 0, uo_reasoning = 0,
      uo_total = wrap64 (ur_input r + ur_output r), uo_window = None, uo_utilization = None, uo_input_cost = None,
      uo_output_cost = None, uo_total_cost = None, uo_duration = None, uo_first_token = None, uo_errors = 0,
      uo_started = parse_usage_time (ur_started r), uo_ended = parse_usage_time (ur_ended r),
      uo_observed = observed, uo_metadata_version = '''',
      uo_attributes = [(''job_id'', GStr (ur_job r)), (''quality'', GStr ''native'')]\<rparr>"

fun usage_observations ::
    "('w, 'u) transport \<Rightarrow> runtime_connection \<Rightarrow> usage_query \<Rightarrow> usage_record list \<Rightarrow>
     ('w, usage_observation list) call" where
  "usage_observations t conn q [] = return []"
| "usage_observations t conn q (r # rs) =
     seq (first_usage_time t [ur_timestamp r, ur_ended r, ur_started r] (uq_to q)) (\<lambda>observed.
     seq (usage_observations t conn q rs) (\<lambda>us. return (usage_observation_of t conn r observed # us)))"

text \<open>The parameters in the order of their names.\<close>

definition usage_parameters :: "usage_query \<Rightarrow> (string \<times> string) list" where
  "usage_parameters q =
     (let text = (\<lambda>k v. if v = '''' then [] else [(k, v)]) in
      text ''agent'' (uq_runtime_agent q) @
      (if uq_from q = 0 then [] else [(''from'', rfc3339 (uq_from q))]) @
      text ''groupBy'' (uq_grouping q) @
      (if 0 < uq_interval q then [(''interval'', show_int (uq_interval q div second) @ ''s'')] else []) @
      text ''job'' (uq_job q) @ text ''model'' (uq_model q) @ text ''run'' (uq_execution q) @
      (if uq_to q = 0 then [] else [(''to'', rfc3339 (uq_to q))]))"

definition usage_path :: "usage_query \<Rightarrow> string" where
  "usage_path q =
     (let encoded = query_string (usage_parameters q) in
      if encoded = '''' then ''/v1/usage'' else ''/v1/usage?'' @ encoded)"

definition gantry_query_usage ::
    "('w, 'u) transport \<Rightarrow> runtime_connection \<Rightarrow> usage_query \<Rightarrow> ('w, usage_observation list) call" where
  "gantry_query_usage t conn q =
     seq (gantry_get t conn (usage_path q) Some) (\<lambda>payload.
     case decode_gantry_usage payload of
       None \<Rightarrow> failing (Wrapped ''decode gantry usage: '' (Text ''invalid document''))
     | Some records \<Rightarrow> usage_observations t conn q records)"

end
