(* ===== verification/Lang_Graph.thy ===== *)
theory Lang_Graph
  imports Http_Client
begin

text \<open>The LangGraph adapter (\<^verbatim>\<open>internal/adapters/langgraph/client.go\<close>, \<^verbatim>\<open>dto.go\<close>): the documents of a
  LangGraph server, the paged listings, and the operations of the client over a transport.\<close>

section \<open>Documents\<close>

record server_info =
  si_version :: string
  si_python :: string
  si_flags :: gval
  si_metadata :: gval

definition no_info :: server_info where
  "no_info = \<lparr>si_version = '''', si_python = '''', si_flags = GNil, si_metadata = GNil\<rparr>"

definition decode_server_info :: "json \<Rightarrow> server_info option" where
  "decode_server_info j =
     decode_object
       [string_field ''version'' si_version_update, string_field ''langgraph_py_version'' si_python_update,
        value_field ''flags'' si_flags_update, value_field ''metadata'' si_metadata_update]
       j no_info"

record assistant =
  at_id :: string
  at_graph :: string
  at_name :: string
  at_description :: string
  at_version :: int
  at_created :: string
  at_updated :: string
  at_config :: gval
  at_context :: gval
  at_metadata :: gval
  at_raw :: gmap

definition decode_assistant :: "json \<Rightarrow> assistant option" where
  "decode_assistant =
     decode_raw
       [string_field ''assistant_id'' at_id_update, string_field ''graph_id'' at_graph_update,
        string_field ''name'' at_name_update, string_field ''description'' at_description_update,
        int_field ''version'' at_version_update, string_field ''created_at'' at_created_update,
        string_field ''updated_at'' at_updated_update, value_field ''config'' at_config_update,
        value_field ''context'' at_context_update, value_field ''metadata'' at_metadata_update]
       at_raw_update
       \<lparr>at_id = '''', at_graph = '''', at_name = '''', at_description = '''', at_version = 0, at_created = '''',
        at_updated = '''', at_config = GNil, at_context = GNil, at_metadata = GNil, at_raw = []\<rparr>"

record lg_thread =
  th_id :: string
  th_status :: string
  th_created :: string
  th_updated :: string
  th_state_updated :: string
  th_metadata :: gval
  th_config :: gval
  th_values :: gval
  th_interrupts :: gval
  th_raw :: gmap

definition decode_thread :: "json \<Rightarrow> lg_thread option" where
  "decode_thread =
     decode_raw
       [string_field ''thread_id'' th_id_update, string_field ''status'' th_status_update,
        string_field ''created_at'' th_created_update, string_field ''updated_at'' th_updated_update,
        string_field ''state_updated_at'' th_state_updated_update, value_field ''metadata'' th_metadata_update,
        value_field ''config'' th_config_update, value_field ''values'' th_values_update,
        value_field ''interrupts'' th_interrupts_update]
       th_raw_update
       \<lparr>th_id = '''', th_status = '''', th_created = '''', th_updated = '''', th_state_updated = '''',
        th_metadata = GNil, th_config = GNil, th_values = GNil, th_interrupts = GNil, th_raw = []\<rparr>"

record lg_run =
  lr_id :: string
  lr_thread :: string
  lr_assistant :: string
  lr_status :: string
  lr_created :: string
  lr_updated :: string
  lr_metadata :: gval
  lr_kwargs :: gval
  lr_strategy :: string
  lr_session :: string
  lr_raw :: gmap

definition decode_run :: "json \<Rightarrow> lg_run option" where
  "decode_run =
     decode_raw
       [string_field ''run_id'' lr_id_update, string_field ''thread_id'' lr_thread_update,
        string_field ''assistant_id'' lr_assistant_update, string_field ''status'' lr_status_update,
        string_field ''created_at'' lr_created_update, string_field ''updated_at'' lr_updated_update,
        value_field ''metadata'' lr_metadata_update, value_field ''kwargs'' lr_kwargs_update,
        string_field ''multitask_strategy'' lr_strategy_update,
        string_field ''langsmith_session_name'' lr_session_update]
       lr_raw_update
       \<lparr>lr_id = '''', lr_thread = '''', lr_assistant = '''', lr_status = '''', lr_created = '''', lr_updated = '''',
        lr_metadata = GNil, lr_kwargs = GNil, lr_strategy = '''', lr_session = '''', lr_raw = []\<rparr>"


section \<open>Translation\<close>

definition langgraph :: protocol where
  "langgraph =
     \<lparr>pt_name = ''langgraph'', pt_credential = \<lambda>token. (''X-Api-Key'', token),
      pt_status_error = \<lambda>verb path status body.
        HttpStatus status (''langgraph '' @ verb @ '' '' @ path @ '' returned '' @ show_int status @ '': '' @ body)\<rparr>"

definition assistant_agent :: "time \<Rightarrow> assistant \<Rightarrow> agent_snapshot" where
  "assistant_agent observed a =
     \<lparr>as_id = at_id a, as_parent = '''', as_kind = AgentRegistered,
      as_name =
        (if \<not> blank (at_name a) then trim_space (at_name a) else if at_graph a \<noteq> '''' then at_graph a else at_id a),
      as_status = AgentEnabled,
      as_metadata =
        [(''description'', GStr (at_description a)), (''graph_id'', GStr (at_graph a)), (''version'', GInt (at_version a)),
         (''config'', at_config a), (''context'', at_context a), (''assistant_metadata'', at_metadata a),
         (''runtime_created_at'', GStr (at_created a)), (''runtime_updated_at'', GStr (at_updated a))],
      as_observed_at = observed\<rparr>"

definition time_or :: "string \<Rightarrow> time \<Rightarrow> time" where
  "time_or s fallback = (case parse_time s of None \<Rightarrow> fallback | Some x \<Rightarrow> x)"

definition normalize_thread :: "time \<Rightarrow> lg_thread \<Rightarrow> execution_snapshot" where
  "normalize_thread fallback x =
     \<lparr>ex_id = th_id x, ex_parent = '''', ex_agent = '''', ex_kind = ''thread'', ex_status = th_status x,
      ex_started = parse_time (th_created x), ex_ended = None, ex_observed_at = time_or (th_updated x) fallback,
      ex_metadata = [(''state_updated_at'', GStr (th_state_updated x)), (''config'', th_config x),
        (''thread_metadata'', th_metadata x)],
      ex_raw = th_raw x\<rparr>"

definition run_final_words :: "string list" where
  "run_final_words = [''success'', ''error'', ''timeout'', ''interrupted'']"

definition normalize_run :: "time \<Rightarrow> lg_run \<Rightarrow> execution_snapshot" where
  "normalize_run fallback x =
     \<lparr>ex_id = lr_id x, ex_parent = lr_thread x, ex_agent = lr_assistant x, ex_kind = ''run'', ex_status = lr_status x,
      ex_started = parse_time (lr_created x),
      ex_ended = (if List.member run_final_words (lr_status x) then parse_time (lr_updated x) else None),
      ex_observed_at = time_or (lr_updated x) fallback,
      ex_metadata = [(''multitask_strategy'', GStr (lr_strategy x)), (''langsmith_session_name'', GStr (lr_session x)),
        (''run_metadata'', lr_metadata x)],
      ex_raw = lr_raw x\<rparr>"


section \<open>Paged listings\<close>

definition page_size :: nat where "page_size = 100"
definition max_assistant_pages :: nat where "max_assistant_pages = 100"
definition max_thread_pages :: nat where "max_thread_pages = 2"
definition max_run_pages :: nat where "max_run_pages = 10"

text \<open>The loop of the three listings: pages are read from page \<open>n\<close> on, at most \<open>fuel\<close> of them, until one is
  not full.  The flag tells whether a page that was not full ended it.\<close>

fun read_pages :: "(nat \<Rightarrow> ('w, 'a list) call) \<Rightarrow> nat \<Rightarrow> nat \<Rightarrow> 'a list \<Rightarrow> ('w, 'a list \<times> bool) call" where
  "read_pages page 0 n acc = return (acc, False)"
| "read_pages page (Suc fuel) n acc =
     seq (page n) (\<lambda>items.
     if length items < page_size then return (acc @ items, True)
     else read_pages page fuel (Suc n) (acc @ items))"

definition items_element :: "(json \<Rightarrow> 'a option) \<Rightarrow> json \<Rightarrow> 'a list option" where
  "items_element element j = map_option elems (decode_list element j)"

definition search_body :: "nat \<Rightarrow> string \<Rightarrow> string \<Rightarrow> gval" where
  "search_body n sort_by_field order =
     GMap [(''limit'', GInt (int page_size)), (''offset'', GInt (int (n * page_size))),
       (''sort_by'', GStr sort_by_field), (''sort_order'', GStr order)]"

definition assistant_page :: "('w, 'u) transport \<Rightarrow> runtime_connection \<Rightarrow> nat \<Rightarrow> ('w, assistant list) call" where
  "assistant_page t conn n =
     do_json langgraph t conn ''POST'' ''/assistants/search'' (Some (search_body n ''assistant_id'' ''asc''))
       (items_element decode_assistant)"

definition list_assistants :: "('w, 'u) transport \<Rightarrow> runtime_connection \<Rightarrow> ('w, assistant list) call" where
  "list_assistants t conn =
     seq (read_pages (assistant_page t conn) max_assistant_pages 0 []) (\<lambda>(items, complete).
     if complete then return items
     else failing (Text (''langgraph assistant pagination exceeded '' @ show_nat max_assistant_pages @ '' pages'')))"

definition thread_page :: "('w, 'u) transport \<Rightarrow> runtime_connection \<Rightarrow> nat \<Rightarrow> ('w, lg_thread list) call" where
  "thread_page t conn n =
     do_json langgraph t conn ''POST'' ''/threads/search'' (Some (search_body n ''updated_at'' ''desc''))
       (items_element decode_thread)"

definition list_threads :: "('w, 'u) transport \<Rightarrow> runtime_connection \<Rightarrow> ('w, lg_thread list) call" where
  "list_threads t conn =
     seq (read_pages (thread_page t conn) max_thread_pages 0 []) (\<lambda>(items, complete). return items)"

definition run_page ::
    "('w, 'u) transport \<Rightarrow> runtime_connection \<Rightarrow> string \<Rightarrow> nat \<Rightarrow> ('w, lg_run list) call" where
  "run_page t conn thread n =
     do_json langgraph t conn ''GET''
       (''/threads/'' @ path_escape thread @ ''/runs?limit='' @ show_nat page_size @ ''&offset='' @ show_nat (n * page_size))
       None (items_element decode_run)"

definition list_thread_runs :: "('w, 'u) transport \<Rightarrow> runtime_connection \<Rightarrow> string \<Rightarrow> ('w, lg_run list) call" where
  "list_thread_runs t conn thread =
     seq (read_pages (run_page t conn thread) max_run_pages 0 []) (\<lambda>(items, complete). return items)"


section \<open>The client\<close>

text \<open>A server without \<^verbatim>\<open>/info\<close> answers 404, which is not an error.\<close>

definition read_info :: "('w, 'u) transport \<Rightarrow> runtime_connection \<Rightarrow> ('w, server_info) call" where
  "read_info t conn w =
     (case do_json langgraph t conn ''GET'' ''/info'' None decode_server_info w of
        (Inl e, w) \<Rightarrow>
          (if err_http_status e = Some 404 then Inr no_info else Inl (Wrapped ''read langgraph server info: '' e), w)
      | (Inr info, w) \<Rightarrow> (Inr info, w))"

definition langgraph_check :: "('w, 'u) transport \<Rightarrow> runtime_connection \<Rightarrow> ('w, check_result) call" where
  "langgraph_check t conn =
     seq (do_json langgraph t conn ''GET'' ''/ok'' None object_value) (\<lambda>health.
     seq (read_info t conn) (\<lambda>info.
     let control = rc_mode conn = ModeControlEnabled in
     return
       \<lparr>ck_status = RuntimeActive, ck_message = ''langgraph agent server health check succeeded'',
        ck_capabilities =
          no_capabilities\<lparr>can_read_agents := True, can_read_executions := True, can_delete_agent := control,
            can_cancel := control\<rparr>,
        ck_metadata = [(''health'', health), (''version'', GStr (si_version info)),
          (''langgraph_py_version'', GStr (si_python info)), (''flags'', si_flags info),
          (''server_metadata'', si_metadata info)],
        ck_diagnostics = []\<rparr>))"

definition langgraph_list_agents ::
    "('w, 'u) transport \<Rightarrow> runtime_connection \<Rightarrow> ('w, agent_snapshot list) call" where
  "langgraph_list_agents t conn =
     seq (list_assistants t conn) (\<lambda>items.
     seq (current_time t) (\<lambda>ts. return (map (assistant_agent ts) items)))"

definition langgraph_list_skills ::
    "('w, 'u) transport \<Rightarrow> runtime_connection \<Rightarrow> string \<Rightarrow> ('w, skill_snapshot list) call" where
  "langgraph_list_skills t conn agent = return []"

definition langgraph_get_access ::
    "('w, 'u) transport \<Rightarrow> runtime_connection \<Rightarrow> string \<Rightarrow> ('w, access_document) call" where
  "langgraph_get_access t conn agent =
     return (no_access\<lparr>acc_agent := agent, acc_raw := [(''supported'', GBool False)]\<rparr>)"

definition langgraph_delete_agent ::
    "('w, 'u) transport \<Rightarrow> runtime_connection \<Rightarrow> string \<Rightarrow> ('w, unit) call" where
  "langgraph_delete_agent t conn agent =
     do_request langgraph t conn ''DELETE'' (''/assistants/'' @ path_escape agent) None"

definition langgraph_cancel ::
    "('w, 'u) transport \<Rightarrow> runtime_connection \<Rightarrow> execution_snapshot \<Rightarrow> ('w, unit) call" where
  "langgraph_cancel t conn x =
     (if ex_kind x \<noteq> ''run'' then failing (Text ''langgraph can only cancel run executions'')
      else if blank (ex_parent x) then failing (Text ''langgraph run is missing its parent thread id'')
      else do_request langgraph t conn ''POST''
        (''/threads/'' @ path_escape (ex_parent x) @ ''/runs/'' @ path_escape (ex_id x) @
         ''/cancel?action=interrupt&wait=true'') None)"

fun thread_executions ::
    "('w, 'u) transport \<Rightarrow> runtime_connection \<Rightarrow> time \<Rightarrow> lg_thread list \<Rightarrow> ('w, execution_snapshot list) call" where
  "thread_executions t conn observed [] = return []"
| "thread_executions t conn observed (x # xs) =
     seq (wrapping (''list runs for thread '' @ quoted (th_id x) @ '': '') (list_thread_runs t conn (th_id x))) (\<lambda>runs.
     seq (thread_executions t conn observed xs) (\<lambda>rest.
     return (normalize_thread observed x # map (normalize_run observed) runs @ rest)))"

definition langgraph_flags :: "runtime_connection \<Rightarrow> (string \<times> bool) list" where
  "langgraph_flags conn =
     [(''read_agents'', True), (''read_agent_hierarchy'', False), (''read_agent_skills'', False),
      (''read_agent_access'', False), (''replace_agent_access'', False), (''read_subagent_executions'', False),
      (''read_executions'', True), (''delete_agent'', rc_mode conn = ModeControlEnabled),
      (''cancel_execution'', rc_mode conn = ModeControlEnabled)]"

definition assistant_item :: "time \<Rightarrow> agent_snapshot \<Rightarrow> snapshot_agent" where
  "assistant_item observed a = \<lparr>sa_agent = a\<lparr>as_observed_at := observed\<rparr>, sa_skills = [], sa_access = no_access\<rparr>"

definition langgraph_collect :: "('w, 'u) transport \<Rightarrow> runtime_connection \<Rightarrow> ('w, runtime_snapshot) call" where
  "langgraph_collect t conn =
     seq (wrapping ''check langgraph before snapshot: '' (langgraph_check t conn)) (\<lambda>check.
     seq (wrapping ''list langgraph assistants: '' (langgraph_list_agents t conn)) (\<lambda>agents.
     seq (wrapping ''list langgraph threads: '' (list_threads t conn)) (\<lambda>threads.
     seq (current_time t) (\<lambda>observed.
     seq (thread_executions t conn observed threads) (\<lambda>executions.
     return
       \<lparr>sn_observed_at = observed, sn_agents = map (assistant_item observed) agents, sn_diagnostics = [],
        sn_inventory = [], sn_catalog = [], sn_delegations = [], sn_executions = executions, sn_subagents = [],
        sn_metadata = ck_metadata check, sn_capabilities = langgraph_flags conn\<rparr>)))))"

definition langgraph_client :: "('w, 'u) transport \<Rightarrow> 'w adapter" where
  "langgraph_client t =
     \<lparr>ad_check = langgraph_check t,
      ad_replace_access = \<lambda>_ _ _. failing (Text ''langgraph agent server does not expose access replacement''),
      ad_set_status = \<lambda>_ _ _. failing (Text ''langgraph agent server status control is not supported''),
      ad_delete_agent = langgraph_delete_agent t, ad_cancel = langgraph_cancel t,
      ad_collect = langgraph_collect t\<rparr>"

end
