(* ===== verification/Lang_Smith.thy ===== *)
theory Lang_Smith
  imports Http_Client
begin

text \<open>The LangSmith connector (\<^verbatim>\<open>internal/telemetry/langsmith/client.go\<close>): the query for LLM runs, the two
  shapes of its answer, and the observations they become.\<close>

section \<open>Documents\<close>

record usage_metadata =
  um_input :: int
  um_output :: int
  um_total :: int
  um_cached :: int
  um_cache_creation :: int
  um_reasoning :: int
  um_input_cost :: string
  um_output_cost :: string
  um_total_cost :: string
  um_model :: string
  um_provider :: string
  um_in_cached :: int
  um_in_cache_read :: int
  um_in_cache_creation :: int
  um_out_reasoning :: int

definition no_usage :: usage_metadata where
  "no_usage =
     \<lparr>um_input = 0, um_output = 0, um_total = 0, um_cached = 0, um_cache_creation = 0, um_reasoning = 0,
      um_input_cost = '''', um_output_cost = '''', um_total_cost = '''', um_model = '''', um_provider = '''',
      um_in_cached = 0, um_in_cache_read = 0, um_in_cache_creation = 0, um_out_reasoning = 0\<rparr>"

text \<open>A decimal is a text or a number, kept as the document spells it; \<^verbatim>\<open>null\<close> is the empty one.\<close>

definition decimal_value :: "json \<Rightarrow> string option" where
  "decimal_value j =
     (case j of JNull \<Rightarrow> Some '''' | JString s \<Rightarrow> Some (trim_space s) | JNumber s \<Rightarrow> Some s | _ \<Rightarrow> None)"

definition decimal_field :: "string \<Rightarrow> ((string \<Rightarrow> string) \<Rightarrow> 'r \<Rightarrow> 'r) \<Rightarrow> 'r field" where
  "decimal_field name upd = (name, \<lambda>j r. map_option (\<lambda>s. upd (\<lambda>_. s) r) (decimal_value j))"

definition usage_fields :: "usage_metadata field list" where
  "usage_fields =
     [int_field ''input_tokens'' um_input_update, int_field ''output_tokens'' um_output_update,
      int_field ''total_tokens'' um_total_update, int_field ''cached_input_tokens'' um_cached_update,
      int_field ''cache_creation_tokens'' um_cache_creation_update, int_field ''reasoning_tokens'' um_reasoning_update,
      decimal_field ''input_cost'' um_input_cost_update, decimal_field ''output_cost'' um_output_cost_update,
      decimal_field ''total_cost'' um_total_cost_update, string_field ''model'' um_model_update,
      string_field ''model_provider'' um_provider_update,
      (''input_token_details'', decode_object
        [int_field ''cached'' um_in_cached_update, int_field ''cache_read'' um_in_cache_read_update,
         int_field ''cache_creation'' um_in_cache_creation_update]),
      (''output_token_details'', decode_object [int_field ''reasoning'' um_out_reasoning_update])]"

record trace_run =
  lt_id :: string
  lt_parent :: string
  lt_trace :: string
  lt_type :: string
  lt_start :: string
  lt_end :: string
  lt_error :: gval
  lt_usage :: usage_metadata
  lt_extra :: gval
  lt_outputs :: gval

definition decode_trace_run :: "json \<Rightarrow> trace_run option" where
  "decode_trace_run j =
     decode_object
       [string_field ''id'' lt_id_update, string_field ''parent_run_id'' lt_parent_update,
        string_field ''trace_id'' lt_trace_update, string_field ''run_type'' lt_type_update,
        string_field ''start_time'' lt_start_update, string_field ''end_time'' lt_end_update,
        any_field ''error'' lt_error_update,
        (''usage_metadata'', \<lambda>v r. map_option (\<lambda>u. r\<lparr>lt_usage := u\<rparr>) (decode_object usage_fields v (lt_usage r))),
        value_field ''extra'' lt_extra_update, value_field ''outputs'' lt_outputs_update]
       j \<lparr>lt_id = '''', lt_parent = '''', lt_trace = '''', lt_type = '''', lt_start = '''', lt_end = '''',
          lt_error = GNil, lt_usage = no_usage, lt_extra = GNil, lt_outputs = GNil\<rparr>"

definition decode_runs :: "json \<Rightarrow> trace_run list option" where
  "decode_runs j =
     (case decode_list decode_trace_run j of
        Some runs \<Rightarrow> Some (elems runs)
      | None \<Rightarrow> map_option elems (decode_object [list_field ''runs'' decode_trace_run (\<lambda>f. f)] j None))"


section \<open>Translation\<close>

definition nested_map :: "gval \<Rightarrow> string \<Rightarrow> gmap" where
  "nested_map v k =
     (case v of GMap m \<Rightarrow> (case map_of m k of Some (GMap inner) \<Rightarrow> inner | _ \<Rightarrow> []) | _ \<Rightarrow> [])"

definition first_metadata :: "gmap \<Rightarrow> string list \<Rightarrow> string" where
  "first_metadata m ks =
     (case List.find (\<lambda>s. s \<noteq> '''') (map (map_string m) ks) of None \<Rightarrow> '''' | Some s \<Rightarrow> s)"

definition first_nonzero :: "int list \<Rightarrow> int" where
  "first_nonzero xs = (case List.find (\<lambda>n. n \<noteq> 0) xs of None \<Rightarrow> 0 | Some n \<Rightarrow> n)"

definition decimal_pointer :: "string \<Rightarrow> string option" where
  "decimal_pointer s = (if blank s then None else Some (trim_space s))"

definition accepted_run :: "trace_run \<Rightarrow> bool" where
  "accepted_run r \<longleftrightarrow> lt_id r \<noteq> '''' \<and> (lt_type r = '''' \<or> lt_type r = ''llm'')"

definition run_observation :: "string \<Rightarrow> trace_run \<Rightarrow> time \<Rightarrow> usage_observation" where
  "run_observation conn r ts =
     (let metadata = nested_map (lt_extra r) ''metadata''; u = lt_usage r;
          started = parse_time (lt_start r); ended = parse_time (lt_end r) in
      \<lparr>uo_source = SourceLangSmith, uo_source_id = lt_id r, uo_conn = conn,
       uo_agent = first_metadata metadata [''langgraph_assistant_id'', ''capcom_runtime_agent_id''],
       uo_execution = first_metadata metadata [''langgraph_run_id'', ''capcom_runtime_execution_id''],
       uo_parent = lt_parent r, uo_thread = first_metadata metadata [''langgraph_thread_id'', ''thread_id''],
       uo_model = um_model u, uo_provider = um_provider u, uo_requests = 1, uo_input = um_input u,
       uo_output = um_output u, uo_cached = first_nonzero [um_cached u, um_in_cached u, um_in_cache_read u],
       uo_cache_creation = first_nonzero [um_cache_creation u, um_in_cache_creation u],
       uo_reasoning = first_nonzero [um_reasoning u, um_out_reasoning u],
       uo_total = (if um_total u = 0 then wrap64 (um_input u + um_output u) else um_total u),
       uo_window = None, uo_utilization = None, uo_input_cost = decimal_pointer (um_input_cost u),
       uo_output_cost = decimal_pointer (um_output_cost u), uo_total_cost = decimal_pointer (um_total_cost u),
       uo_duration =
         (case (started, ended) of (Some s, Some e) \<Rightarrow> Some (milliseconds (time_sub e s)) | _ \<Rightarrow> None),
       uo_first_token = None, uo_errors = (if lt_error r = GNil then 0 else 1), uo_started = started,
       uo_ended = ended,
       uo_observed = (case ended of Some e \<Rightarrow> e | None \<Rightarrow> (case started of Some s \<Rightarrow> s | None \<Rightarrow> ts)),
       uo_metadata_version = '''',
       uo_attributes = [(''trace_id'', GStr (lt_trace r)), (''quality'', GStr ''trace'')]\<rparr>)"

fun run_observations ::
    "('w, 'u) transport \<Rightarrow> string \<Rightarrow> trace_run list \<Rightarrow> ('w, usage_observation list) call" where
  "run_observations t conn [] = return []"
| "run_observations t conn (r # rs) =
     (if \<not> accepted_run r then run_observations t conn rs
      else
        seq (current_time t) (\<lambda>ts.
        seq (run_observations t conn rs) (\<lambda>us. return (run_observation conn r ts # us))))"


section \<open>The query\<close>

definition connection_setting :: "runtime_connection \<Rightarrow> string \<Rightarrow> string" where
  "connection_setting conn k =
     (if map_string (rc_metadata conn) k \<noteq> '''' then map_string (rc_metadata conn) k
      else trim_space (case map_of (rc_labels conn) k of None \<Rightarrow> '''' | Some s \<Rightarrow> s))"

definition langsmith_configured :: "runtime_connection \<Rightarrow> bool" where
  "langsmith_configured conn \<longleftrightarrow>
     connection_setting conn ''langsmith_project'' \<noteq> '''' \<and> connection_setting conn ''langsmith_auth_ref'' \<noteq> ''''"

definition default_base_url :: string where
  "default_base_url = ''https://api.smith.langchain.com''"

definition langsmith_endpoint :: "('w, 'u) transport \<Rightarrow> runtime_connection \<Rightarrow> string res" where
  "langsmith_endpoint t conn =
     (let url = connection_setting conn ''langsmith_api_url'' in
      case ul_parse (ht_url t) (trim_right_char (CHR 0x2F) (if url = '''' then default_base_url else url)) of
        None \<Rightarrow> Inl (Text ''invalid langsmith API URL'')
      | Some u \<Rightarrow>
          if (url_scheme u \<noteq> ''http'' \<and> url_scheme u \<noteq> ''https'') \<or> url_host u = ''''
          then Inl (Text ''invalid langsmith API URL'')
          else Inr (ul_string (ht_url t) u @ ''/runs/query''))"

definition runs_query :: "runtime_connection \<Rightarrow> usage_query \<Rightarrow> gval" where
  "runs_query conn q =
     GMap [(''project_name'', GStr (connection_setting conn ''langsmith_project'')),
       (''start_time'', GStr (rfc3339_nano (uq_from q))), (''end_time'', GStr (rfc3339_nano (uq_to q))),
       (''filter'', GStr (''eq(run_type, '' @ quoted ''llm'' @ '')''))]"

definition send_query ::
    "('w, 'u) transport \<Rightarrow> runtime_connection \<Rightarrow> string \<Rightarrow> gval \<Rightarrow> ('w, http_reply) call" where
  "send_query t conn url body =
     (if ul_parse (ht_url t) url = None
      then failing (Wrapped ''build langsmith query: '' (Text ''invalid URL''))
      else case ht_resolve t of
        None \<Rightarrow> failing (Text ''langsmith credential resolver is required'')
      | Some resolve \<Rightarrow>
          seq (wrapping ''resolve langsmith credential: '' (resolve (connection_setting conn ''langsmith_auth_ref''))) (\<lambda>token.
          wrapping ''query langsmith runs: '' (ht_do t
            \<lparr>hc_method = ''POST'', hc_url = url,
             hc_headers = [(''x-api-key'', token), (''Content-Type'', ''application/json''), (''Accept'', ''application/json'')],
             hc_body = Some body\<rparr>)))"

definition langsmith_query_usage ::
    "('w, 'u) transport \<Rightarrow> runtime_connection \<Rightarrow> usage_query \<Rightarrow> ('w, usage_observation list) call" where
  "langsmith_query_usage t conn q =
     (if \<not> langsmith_configured conn then failing (Text ''langsmith telemetry is not configured'')
      else case langsmith_endpoint t conn of
        Inl e \<Rightarrow> failing e
      | Inr url \<Rightarrow>
          seq (send_query t conn url (runs_query conn q)) (\<lambda>resp.
          if hp_status resp < 200 \<or> 300 \<le> hp_status resp
          then failing (Text (''langsmith runs query returned '' @ show_int (hp_status resp) @ '': '' @
                 trim_space (take 4096 (hp_body resp))))
          else case ht_next t (hp_body resp) of
            None \<Rightarrow> failing (Wrapped ''decode langsmith runs: '' (Text ''invalid document''))
          | Some (payload, rest) \<Rightarrow>
              (case decode_runs payload of
                 None \<Rightarrow> failing (Wrapped ''decode langsmith run list: '' (Text ''invalid document''))
               | Some runs \<Rightarrow> run_observations t (rc_id conn) runs)))"

end
