(* ===== verification/Adapter_Calls.thy ===== *)
theory Adapter_Calls
  imports Gantry_Usage Lang_Graph Lang_Smith
begin

text \<open>What the adapters do to the world: which requests the operations of the Gantry and the LangGraph client
  send, and where.\<close>

section \<open>Effects of a request\<close>

definition endpoint_of :: "runtime_connection \<Rightarrow> string" where
  "endpoint_of conn = trim_right_char (CHR 0x2F) (trim_space (rc_base_url conn))"

text \<open>A request with one of the given methods to a URL below the endpoint of the connection.\<close>

definition below :: "string list \<Rightarrow> runtime_connection \<Rightarrow> http_call \<Rightarrow> bool" where
  "below verbs conn c \<longleftrightarrow> List.member verbs (hc_method c) \<and> prefix (endpoint_of conn) (hc_url c)"

text \<open>A transport on which such requests, the clock and the credentials leave an observation of the world
  alone: an operation that keeps every such observation sends no other request.\<close>

definition quiet :: "('w \<Rightarrow> 'o) \<Rightarrow> (http_call \<Rightarrow> bool) \<Rightarrow> ('w, 'u) transport \<Rightarrow> bool" where
  "quiet obs allowed t \<longleftrightarrow>
     (\<forall>c. allowed c \<longrightarrow> keeps obs (ht_do t c)) \<and>
     (\<forall>w. obs (snd (ht_clock t w)) = obs w) \<and>
     (\<forall>resolve ref. ht_resolve t = Some resolve \<longrightarrow> keeps obs (resolve ref))"

lemma keeps_current_time: "quiet obs allowed t \<Longrightarrow> keeps obs (current_time t)"
  by (auto simp: quiet_def keeps_def current_time_def split: prod.splits) (metis snd_conv)

lemma keeps_resolve_credential: "quiet obs allowed t \<Longrightarrow> keeps obs (resolve_credential pt t ref)"
  by (auto simp: resolve_credential_def quiet_def intro!: keeps_intros split: option.splits)

lemma normalize_base_url_Inr: "normalize_base_url name l raw = Inr base \<Longrightarrow> base = trim_right_char (CHR 0x2F) (trim_space raw)"
  by (auto simp: normalize_base_url_def Let_def split: if_splits option.splits)

lemma keeps_checked_request:
  assumes "quiet obs (below verbs conn) t" and "List.member verbs verb"
  shows "keeps obs (checked_request pt t conn verb path body)"
proof -
  have "keeps obs (ht_do t \<lparr>hc_method = verb, hc_url = base @ path, hc_headers = hs, hc_body = body\<rparr>)"
    if "normalize_base_url (pt_name pt) (ht_url t) (rc_base_url conn) = Inr base" for base hs
    using assms normalize_base_url_Inr [OF that]
    by (simp add: quiet_def below_def endpoint_of_def)
  then show ?thesis
    using keeps_resolve_credential [OF assms(1)]
    by (auto simp: checked_request_def send_request_def intro!: keeps_intros split: sum.splits)
qed

lemma keeps_do_json:
  "quiet obs (below verbs conn) t \<Longrightarrow> List.member verbs verb \<Longrightarrow> keeps obs (do_json pt t conn verb path body decode)"
  by (auto simp: do_json_def intro!: keeps_intros keeps_checked_request)

lemma keeps_do_request:
  "quiet obs (below verbs conn) t \<Longrightarrow> List.member verbs verb \<Longrightarrow> keeps obs (do_request pt t conn verb path body)"
  by (auto simp: do_request_def intro!: keeps_intros keeps_checked_request)

lemmas call_intros = keeps_intros keeps_current_time keeps_do_json keeps_do_request


section \<open>The Gantry client\<close>

lemma keeps_gantry_reads:
  assumes "quiet obs (below [''GET''] conn) t"
  shows "keeps obs (gantry_check t conn)" and "keeps obs (gantry_list_agents t conn)"
    and "keeps obs (gantry_list_inventory t conn)" and "keeps obs (gantry_list_capabilities t conn)"
    and "keeps obs (gantry_list_skills t conn agent)" and "keeps obs (gantry_get_access t conn agent)"
    and "keeps obs (gantry_list_delegates t conn agent)"
  using assms
  by (auto simp: gantry_check_def gantry_list_agents_def gantry_list_inventory_def gantry_list_capabilities_def
      gantry_list_skills_def gantry_get_access_def gantry_list_delegates_def case_prod_unfold Let_def
      intro!: call_intros split: option.splits)

lemma keeps_executions_of_runs:
  "quiet obs (below [''GET''] conn) t \<Longrightarrow> keeps obs (executions_of_runs t conn observed owners runs)"
  by (induction runs) (auto intro!: call_intros)

lemma keeps_worker_read:
  "keeps obs read \<Longrightarrow> obs (snd (worker_read i failure read f p w)) = obs w"
  by (auto simp: worker_read_def split: prod.splits sum.splits dest: keepsD)

lemma keeps_pool_step:
  "quiet obs (below [''GET''] conn) t \<Longrightarrow> obs (snd (pool_step t conn observed agents i p w)) = obs w"
  by (auto simp: pool_step_def Let_def keeps_worker_read keeps_gantry_reads split: pool_worker.splits list.splits)

lemma keeps_pool_run:
  "quiet obs (below [''GET''] conn) t \<Longrightarrow> obs (snd (pool_run t conn observed agents picks p w)) = obs w"
proof (induction picks arbitrary: p w)
  case (Cons i picks)
  then show ?case
    using keeps_pool_step [OF Cons.prems, of observed agents i p w] by (auto split: prod.splits)
qed simp

lemma keeps_gantry_collect:
  assumes "quiet obs (below [''GET''] conn) t"
  shows "keeps obs (gantry_collect t picks conn)"
proof -
  have "keeps obs (collect_agents t picks conn observed agents)" for observed agents
    using keeps_pool_run [OF assms] by (auto simp: keeps_def collect_agents_def split: prod.splits) (metis snd_conv)
  moreover have "keeps obs (gantry_subagent_executions t conn observed)" for observed
    using assms by (auto simp: gantry_subagent_executions_def intro!: call_intros keeps_executions_of_runs)
  ultimately show ?thesis
    using assms by (auto simp: gantry_collect_def intro!: call_intros keeps_gantry_reads)
qed

text \<open>The operations of an adapter.\<close>

definition adapter_keeps :: "('w \<Rightarrow> 'o) \<Rightarrow> 'w adapter \<Rightarrow> runtime_connection \<Rightarrow> bool" where
  "adapter_keeps obs a conn \<longleftrightarrow>
     keeps obs (ad_check a conn) \<and> keeps obs (ad_collect a conn) \<and>
     (\<forall>agent access. keeps obs (ad_replace_access a conn agent access)) \<and>
     (\<forall>agent status. keeps obs (ad_set_status a conn agent status)) \<and>
     (\<forall>agent. keeps obs (ad_delete_agent a conn agent)) \<and> (\<forall>x. keeps obs (ad_cancel a conn x))"

lemma keeps_usage_observations:
  "quiet obs allowed t \<Longrightarrow> keeps obs (usage_observations t conn q records)"
  by (induction records)
     (auto simp: first_usage_time_def intro!: keeps_intros keeps_current_time split: option.split)

lemma keeps_gantry_query_usage:
  "quiet obs (below [''GET''] conn) t \<Longrightarrow> keeps obs (gantry_query_usage t conn q)"
  by (auto simp: gantry_query_usage_def intro!: call_intros keeps_usage_observations split: option.split)

text \<open>The methods of the client beside those of the adapter interface.\<close>

definition client_reads_keep :: "('w \<Rightarrow> 'o) \<Rightarrow> ('w, 'u) transport \<Rightarrow> runtime_connection \<Rightarrow> bool" where
  "client_reads_keep obs t conn \<longleftrightarrow>
     keeps obs (gantry_list_agents t conn) \<and> keeps obs (gantry_list_inventory t conn) \<and>
     keeps obs (gantry_list_capabilities t conn) \<and>
     (\<forall>agent. keeps obs (gantry_list_skills t conn agent) \<and> keeps obs (gantry_get_access t conn agent) \<and>
        keeps obs (gantry_list_delegates t conn agent)) \<and>
     (\<forall>query. keeps obs (gantry_query_usage t conn query))"

text \<open>C9: On a connection that is not control-enabled the Gantry client only reads: whatever operation of
  the adapter or other method of the client is called (the live listings and the usage query among
  them), every request is a GET to a URL below the endpoint of that connection.\<close>

theorem gantry_only_reads:
  assumes "quiet obs (below [''GET''] conn) t" and "rc_mode conn \<noteq> ModeControlEnabled"
  shows "adapter_keeps obs (gantry_client t picks) conn \<and> client_reads_keep obs t conn"
proof
  show "adapter_keeps obs (gantry_client t picks) conn"
    using assms
    by (auto simp: adapter_keeps_def gantry_client_def gantry_replace_access_def gantry_set_status_def
        intro!: keeps_intros keeps_gantry_reads keeps_gantry_collect)
  show "client_reads_keep obs t conn"
    using assms by (simp add: client_reads_keep_def keeps_gantry_reads keeps_gantry_query_usage)
qed

text \<open>A runtime that answers every request with an empty object and logs it.\<close>

definition logging_transport :: "(http_call list, unit) transport" where
  "logging_transport =
     \<lparr>ht_do = \<lambda>c w. (Inr \<lparr>hp_status = 200, hp_body = ''{}''\<rparr>, w @ [c]), ht_resolve = Some (\<lambda>ref. return ''key''),
      ht_clock = \<lambda>w. (0, w),
      ht_url = \<lparr>ul_parse = \<lambda>s. Some \<lparr>url_scheme = ''http'', url_host = ''g'', url_path = '''', url_query = '''',
          url_fragment = '''', url_rest = ()\<rparr>, ul_string = \<lambda>u. ''''\<rparr>,
      ht_next = \<lambda>s. Some (JObject [], ''''), ht_float = \<lambda>q. '''', ht_sha256 = \<lambda>s. s\<rparr>"

definition sample_endpoint :: "runtime_mode \<Rightarrow> runtime_connection" where
  "sample_endpoint m =
     \<lparr>rc_id = ''c1'', rc_org = ''o1'', rc_name = ''main'', rc_display_name = ''Main'', rc_environment = ''prod'',
      rc_kind = KindGantry, rc_mode = m, rc_status = RuntimeActive, rc_base_url = ''http://g/'', rc_auth_ref = ''env:T'',
      rc_metadata = [], rc_labels = [], rc_last_synced_at = None, rc_sync_enabled = True, rc_sync_interval = 60,
      rc_last_sync_status = SyncUnset, rc_last_sync_started = None, rc_last_sync_finished = None,
      rc_last_sync_duration = 0, rc_last_error = '''', rc_endpoints = []\<rparr>"

lemma logging_quiet: "quiet (filter (\<lambda>c. \<not> allowed c)) allowed logging_transport"
  by (auto simp: quiet_def logging_transport_def keeps_def)

lemma gantry_only_reads_witness:
  "adapter_keeps (filter (\<lambda>c. \<not> below [''GET''] (sample_endpoint ModeReadOnly) c))
     (gantry_client logging_transport [0, 1, 1]) (sample_endpoint ModeReadOnly) \<and>
   client_reads_keep (filter (\<lambda>c. \<not> below [''GET''] (sample_endpoint ModeReadOnly) c)) logging_transport
     (sample_endpoint ModeReadOnly)"
  by (rule gantry_only_reads [OF logging_quiet]) (simp add: sample_endpoint_def)

end
