(* ===== verification/Gantry_Claims.thy ===== *)
theory Gantry_Claims
  imports Adapter_Calls Snapshot_Validation
begin

text \<open>Properties of the Gantry adapter: the pool of workers drains and loses no agent, whatever the schedule;
  selections survive the way to the server and back; a repeated delegate reference makes the whole snapshot
  invalid.\<close>

section \<open>The pool drains\<close>

fun steps_left :: "pool_worker \<Rightarrow> nat" where
  "steps_left Waiting = 0"
| "steps_left (ReadSkills k) = 3"
| "steps_left (ReadAccess k skills) = 2"
| "steps_left (ReadDelegates k skills access) = 1"

definition pool_work :: "pool \<Rightarrow> nat" where
  "pool_work p = 4 * length (pl_queue p) + sum_list (map steps_left (pl_workers p))"

definition active :: "nat \<Rightarrow> pool \<Rightarrow> bool" where
  "active i p \<longleftrightarrow> i < length (pl_workers p) \<and> (pl_workers p ! i \<noteq> Waiting \<or> pl_queue p \<noteq> [])"

lemma inactive_step: "\<not> active i p \<Longrightarrow> pool_step t conn observed agents i p w = (p, w)"
  by (auto simp: active_def pool_step_def split: pool_worker.splits list.splits)

lemma set_worker_work:
  "i < length (pl_workers p) \<Longrightarrow>
     pool_work (set_worker i x p) + steps_left (pl_workers p ! i) = pool_work p + steps_left x"
  using sum_list_update [of i "map steps_left (pl_workers p)" "steps_left x"]
    elem_le_sum_list [of i "map steps_left (pl_workers p)"]
  by (simp add: pool_work_def set_worker_def map_update)

lemma set_worker_less:
  "i < length (pl_workers p) \<Longrightarrow> steps_left x < steps_left (pl_workers p ! i) \<Longrightarrow> pool_work (set_worker i x p) < pool_work p"
  using set_worker_work [of i p x] by simp

lemma pool_work_fields [simp]:
  "pool_work (p\<lparr>pl_items := xs\<rparr>) = pool_work p"
  "pool_work (p\<lparr>pl_error := e\<rparr>) = pool_work p"
  by (simp_all add: pool_work_def)

lemma pool_work_pop: "pl_queue p = k # ks \<Longrightarrow> pool_work (p\<lparr>pl_queue := ks\<rparr>) + 4 = pool_work p"
  by (simp add: pool_work_def)

lemma pool_step_workers: "length (pl_workers (fst (pool_step t conn observed agents i p w))) = length (pl_workers p)"
  by (auto simp: pool_step_def worker_read_def worker_failed_def set_worker_def Let_def
      split: pool_worker.splits list.splits prod.splits sum.splits)

lemma worker_read_work:
  assumes "i < length (pl_workers p)" and "\<And>x. pool_work (f x) < pool_work p" and "0 < steps_left (pl_workers p ! i)"
  shows "pool_work (fst (worker_read i failure read f p w)) < pool_work p"
  using assms(2,3) set_worker_work [OF assms(1), of Waiting]
  by (auto simp: worker_read_def worker_failed_def split: prod.splits sum.splits)

lemma active_step:
  assumes "active i p"
  shows "pool_work (fst (pool_step t conn observed agents i p w)) < pool_work p"
proof -
  have i: "i < length (pl_workers p)"
    using assms by (simp add: active_def)
  note m = set_worker_work [OF i]
  show ?thesis
  proof (cases "pl_workers p ! i")
    case Waiting
    then obtain k ks where q: "pl_queue p = k # ks"
      using assms by (cases "pl_queue p") (auto simp: active_def)
    then show ?thesis
      using i Waiting m [of "ReadSkills k"] pool_work_pop [of "set_worker i (ReadSkills k) p" k ks]
      by (simp add: pool_step_def set_worker_def)
  next
    case (ReadSkills k)
    then show ?thesis
      using i by (auto simp: pool_step_def Let_def intro!: worker_read_work set_worker_less)
  next
    case (ReadAccess k skills)
    then show ?thesis
      using i by (auto simp: pool_step_def Let_def intro!: worker_read_work set_worker_less)
  next
    case (ReadDelegates k skills access)
    then show ?thesis
      using i by (auto simp: pool_step_def Let_def intro!: worker_read_work set_worker_less)
  qed
qed

lemma step_work: "pool_work (fst (pool_step t conn observed agents i p w)) \<le> pool_work p"
  using active_step [of i p t conn observed agents w] inactive_step [of i p t conn observed agents w]
  by (cases "active i p") auto

lemma run_work: "pool_work (fst (pool_run t conn observed agents picks p w)) \<le> pool_work p"
proof (induction picks arbitrary: p w)
  case (Cons i picks)
  then show ?case
    using step_work [of t conn observed agents i p w] by (auto split: prod.splits) (metis order_trans)
qed simp

lemma run_workers:
  "length (pl_workers (fst (pool_run t conn observed agents picks p w))) = length (pl_workers p)"
proof (induction picks arbitrary: p w)
  case (Cons i picks)
  then show ?case
    using pool_step_workers [of t conn observed agents i p w] by (auto split: prod.splits)
qed simp

lemma run_progress:
  assumes "active i p" and "i \<in> set picks"
  shows "pool_work (fst (pool_run t conn observed agents picks p w)) < pool_work p"
  using assms(2)
proof (induction picks)
  case (Cons j picks)
  obtain p' w' where s: "pool_step t conn observed agents j p w = (p', w')"
    by fastforce
  show ?case
  proof (cases "active j p")
    case True
    then have "pool_work p' < pool_work p"
      using active_step [OF True, of t conn observed agents w] s by simp
    then show ?thesis
      using run_work [of t conn observed agents picks p' w'] s by simp
  next
    case False
    then have "(p', w') = (p, w)"
      using inactive_step [OF False, of t conn observed agents w] s by simp
    moreover have "i \<in> set picks"
      using Cons.prems False assms(1) by auto
    ultimately show ?thesis
      using Cons.IH s by simp
  qed
qed simp

lemma pool_run_append:
  "pool_run t conn observed agents (xs @ ys) p w =
     (case pool_run t conn observed agents xs p w of (p, w) \<Rightarrow> pool_run t conn observed agents ys p w)"
  by (induction xs arbitrary: p w) (auto split: prod.splits)

lemma sum_zero: "(\<forall>x\<in>set xs. steps_left x = 0) \<Longrightarrow> sum_list (map steps_left xs) = 0"
  by (induction xs) auto

lemma work_active:
  assumes "0 < pool_work p" and "pl_workers p \<noteq> []"
  obtains i where "active i p"
proof (cases "pl_queue p")
  case Nil
  then have "0 < sum_list (map steps_left (pl_workers p))"
    using assms by (simp add: pool_work_def)
  then obtain x where "x \<in> set (pl_workers p)" "steps_left x \<noteq> 0"
    using sum_zero [of "pl_workers p"] by (metis less_not_refl)
  then obtain i where "i < length (pl_workers p)" "steps_left (pl_workers p ! i) \<noteq> 0"
    by (metis in_set_conv_nth)
  then have "active i p"
    by (auto simp: active_def)
  then show ?thesis
    by (rule that)
next
  case (Cons k ks)
  then have "active 0 p"
    using assms by (simp add: active_def)
  then show ?thesis
    by (rule that)
qed

lemma rounds_work:
  assumes "pl_workers p \<noteq> []" and "length (pl_workers p) \<le> 4"
  shows "pool_work (fst (pool_run t conn observed agents (concat (replicate n [0..<4])) p w)) \<le> pool_work p - n"
  using assms
proof (induction n arbitrary: p w)
  case (Suc n)
  obtain p' w' where s: "pool_run t conn observed agents [0..<4] p w = (p', w')"
    by fastforce
  have "pool_work p' \<le> pool_work p - 1"
  proof (cases "pool_work p = 0")
    case True
    then show ?thesis
      using run_work [of t conn observed agents "[0..<4]" p w] s by simp
  next
    case False
    then obtain i where "active i p"
      using work_active Suc.prems by blast
    then have "pool_work p' < pool_work p"
      using run_progress [of i p "[0..<4]" t conn observed agents w] s Suc.prems(2) by (auto simp: active_def)
    then show ?thesis
      by simp
  qed
  moreover have "length (pl_workers p') = length (pl_workers p)"
    using run_workers [of t conn observed agents "[0..<4]" p w] s by simp
  then have "pool_work (fst (pool_run t conn observed agents (concat (replicate n [0..<4])) p' w')) \<le> pool_work p' - n"
    using Suc.IH [of p' w'] Suc.prems by (metis length_0_conv)
  ultimately show ?case
    using s by (simp add: pool_run_append)
qed simp

definition pool_done :: "pool \<Rightarrow> bool" where
  "pool_done p \<longleftrightarrow> pl_queue p = [] \<and> list_all (\<lambda>x. x = Waiting) (pl_workers p)"

lemma work_done: "pool_work p = 0 \<Longrightarrow> pool_done p"
  by (auto simp: pool_work_def pool_done_def list_all_iff) (metis not_gr_zero steps_left.elims zero_less_numeral zero_less_one)

text \<open>C32: The collection of the agents comes to an end: whatever order the scheduler gives the workers, the
  channel is drained and every worker is idle after four further rounds for each agent, failing reads
  included.\<close>

theorem pool_drains:
  "pool_done (fst (pool_run t conn observed agents (picks @ rounds (length agents)) (pool_start (length agents)) w))"
proof -
  let ?n = "length agents"
  obtain p w' where s: "pool_run t conn observed agents picks (pool_start ?n) w = (p, w')"
    by fastforce
  have work: "pool_work p \<le> 4 * ?n"
    using run_work [of t conn observed agents picks "pool_start ?n" w] s
    by (simp add: pool_work_def pool_start_def sum_list_replicate)
  have workers: "length (pl_workers p) = min ?n 4"
    using run_workers [of t conn observed agents picks "pool_start ?n" w] s by (simp add: pool_start_def)
  show ?thesis
  proof (cases "?n = 0")
    case True
    then show ?thesis
      using s work by (auto simp: rounds_def intro: work_done)
  next
    case False
    then have "0 < length (pl_workers p)"
      unfolding workers by simp
    then have "pl_workers p \<noteq> []"
      by simp
    then have "pool_work (fst (pool_run t conn observed agents (rounds ?n) p w')) \<le> pool_work p - 4 * ?n"
      using rounds_work [of p t conn observed agents "4 * ?n" w'] workers by (simp add: rounds_def)
    then show ?thesis
      using s work by (auto simp: pool_run_append intro: work_done)
  qed
qed

section \<open>The pool loses no agent\<close>

fun works_on :: "nat \<Rightarrow> pool_worker \<Rightarrow> bool" where
  "works_on k Waiting \<longleftrightarrow> False"
| "works_on k (ReadSkills j) \<longleftrightarrow> j = k"
| "works_on k (ReadAccess j skills) \<longleftrightarrow> j = k"
| "works_on k (ReadDelegates j skills access) \<longleftrightarrow> j = k"

definition accounted :: "pool \<Rightarrow> nat \<Rightarrow> bool" where
  "accounted p k \<longleftrightarrow>
     List.member (pl_queue p) k \<or> list_ex (works_on k) (pl_workers p) \<or> pl_items p ! k \<noteq> None"

definition item_for :: "time \<Rightarrow> agent_snapshot \<Rightarrow> (snapshot_agent \<times> delegation_snapshot list) option \<Rightarrow> bool" where
  "item_for observed agent item \<longleftrightarrow>
     (case item of None \<Rightarrow> True | Some (a, ds) \<Rightarrow> sa_agent a = agent\<lparr>as_observed_at := observed\<rparr>)"

definition pool_ok :: "time \<Rightarrow> agent_snapshot list \<Rightarrow> pool \<Rightarrow> bool" where
  "pool_ok observed agents p \<longleftrightarrow>
     length (pl_items p) = length agents \<and>
     (\<forall>k<length agents. item_for observed (agents ! k) (pl_items p ! k)) \<and>
     (pl_error p = None \<longrightarrow> (\<forall>k<length agents. accounted p k))"

lemma list_ex_update:
  "i < length xs \<Longrightarrow> list_ex P xs \<Longrightarrow> \<not> P (xs ! i) \<or> P x \<Longrightarrow> list_ex P (xs[i := x])"
  by (simp add: list_ex_length) (metis length_list_update nth_list_update)

lemma list_ex_updated: "i < length xs \<Longrightarrow> P x \<Longrightarrow> list_ex P (xs[i := x])"
  by (simp add: list_ex_length) (metis length_list_update nth_list_update_eq)

lemma pool_ok_start: "pool_ok observed agents (pool_start (length agents))"
  by (simp add: pool_ok_def pool_start_def item_for_def accounted_def)

lemma pool_ok_failed: "pool_ok observed agents p \<Longrightarrow> pool_ok observed agents (worker_failed i e p)"
  by (auto simp: pool_ok_def worker_failed_def set_worker_def split: option.splits)

text \<open>A worker that goes on with the same agent.\<close>

lemma pool_ok_next:
  assumes "pool_ok observed agents p" and "i < length (pl_workers p)"
    and "\<And>k. works_on k (pl_workers p ! i) \<Longrightarrow> works_on k x"
  shows "pool_ok observed agents (set_worker i x p)"
  using assms by (auto simp: pool_ok_def set_worker_def accounted_def intro!: list_ex_update)

lemma pool_ok_take:
  assumes "pool_ok observed agents p" and "i < length (pl_workers p)" and "pl_workers p ! i = Waiting"
    and "pl_queue p = k # ks"
  shows "pool_ok observed agents ((set_worker i (ReadSkills k) p)\<lparr>pl_queue := ks\<rparr>)"
proof -
  have "accounted ((set_worker i (ReadSkills k) p)\<lparr>pl_queue := ks\<rparr>) j" if "accounted p j" for j
  proof (cases "j = k")
    case True
    then show ?thesis
      using assms(2) by (simp add: accounted_def set_worker_def list_ex_updated)
  next
    case False
    then show ?thesis
      using that assms by (auto simp: accounted_def set_worker_def intro!: list_ex_update)
  qed
  then show ?thesis
    using assms(1) by (auto simp: pool_ok_def set_worker_def)
qed

lemma pool_ok_finish:
  assumes "pool_ok observed agents p" and "i < length (pl_workers p)"
    and "\<And>j. works_on j (pl_workers p ! i) \<Longrightarrow> j = k"
    and "item_for observed (agents ! k) (Some item)"
  shows "pool_ok observed agents ((set_worker i Waiting p)\<lparr>pl_items := (pl_items p)[k := Some item]\<rparr>)"
proof -
  have "accounted ((set_worker i Waiting p)\<lparr>pl_items := (pl_items p)[k := Some item]\<rparr>) j"
    if "accounted p j" "j < length agents" for j
  proof (cases "j = k")
    case True
    then show ?thesis
      using that assms(1) by (simp add: accounted_def pool_ok_def)
  next
    case False
    then have "\<not> works_on j (pl_workers p ! i)"
      using assms(3) by blast
    then show ?thesis
      using that(1) assms(2) False by (auto simp: accounted_def set_worker_def intro!: list_ex_update)
  qed
  moreover have "item_for observed (agents ! j) ((pl_items p)[k := Some item] ! j)" if "j < length agents" for j
    using assms(1,4) that by (cases "j = k") (auto simp: pool_ok_def)
  ultimately show ?thesis
    using assms(1) by (auto simp: pool_ok_def set_worker_def)
qed

lemma pool_ok_read:
  assumes "pool_ok observed agents p" and "\<And>x. pool_ok observed agents (f x)"
  shows "pool_ok observed agents (fst (worker_read i failure read f p w))"
  using assms by (auto simp: worker_read_def pool_ok_failed split: prod.splits sum.splits)

lemma pool_ok_step:
  assumes "pool_ok observed agents p"
  shows "pool_ok observed agents (fst (pool_step t conn observed agents i p w))"
proof (cases "active i p")
  case False
  then show ?thesis
    using assms by (simp add: inactive_step)
next
  case True
  then have i: "i < length (pl_workers p)"
    by (simp add: active_def)
  show ?thesis
  proof (cases "pl_workers p ! i")
    case Waiting
    then show ?thesis
      using True i assms pool_ok_take by (cases "pl_queue p") (auto simp: pool_step_def active_def)
  next
    case (ReadDelegates k skills access)
    then show ?thesis
      using i assms by (auto simp: pool_step_def Let_def item_for_def snapshot_item_def intro!: pool_ok_read pool_ok_finish)
  qed (use i assms in \<open>auto simp: pool_step_def Let_def intro!: pool_ok_read pool_ok_next\<close>)
qed

lemma pool_ok_run:
  "pool_ok observed agents p \<Longrightarrow> pool_ok observed agents (fst (pool_run t conn observed agents picks p w))"
proof (induction picks arbitrary: p w)
  case (Cons i picks)
  then show ?case
    using pool_ok_step [OF Cons.prems, of t conn i w] by (auto split: prod.splits)
qed simp

lemma collected_agents:
  assumes "collect_agents t picks conn observed agents w = (Inr items, w')"
  shows "map (\<lambda>i. sa_agent (fst i)) items = map (\<lambda>a. a\<lparr>as_observed_at := observed\<rparr>) agents"
proof -
  let ?run = "pool_run t conn observed agents (picks @ rounds (length agents)) (pool_start (length agents)) w"
  define p where "p = fst ?run"
  have ok: "pool_ok observed agents p"
    unfolding p_def by (rule pool_ok_run [OF pool_ok_start])
  have "pool_done p"
    unfolding p_def by (rule pool_drains)
  moreover have e: "pl_error p = None" and items: "items = map the (pl_items p)"
    using assms by (auto simp: collect_agents_def p_def split: prod.splits option.splits)
  ultimately have full: "pl_items p ! k \<noteq> None" if "k < length agents" for k
    using ok that by (fastforce simp: pool_ok_def accounted_def pool_done_def list_all_iff list_ex_iff)
  show ?thesis
  proof (rule nth_equalityI)
    show "length (map (\<lambda>i. sa_agent (fst i)) items) = length (map (\<lambda>a. a\<lparr>as_observed_at := observed\<rparr>) agents)"
      using ok by (simp add: items pool_ok_def)
  next
    fix k assume "k < length (map (\<lambda>i. sa_agent (fst i)) items)"
    then have k: "k < length agents"
      using ok by (simp add: items pool_ok_def)
    then have "item_for observed (agents ! k) (pl_items p ! k)"
      using ok by (simp add: pool_ok_def)
    then show "map (\<lambda>i. sa_agent (fst i)) items ! k = map (\<lambda>a. a\<lparr>as_observed_at := observed\<rparr>) agents ! k"
      using full [OF k] k ok by (auto simp: items item_for_def pool_ok_def)
  qed
qed

text \<open>C5: A collection that succeeds has exactly one entry for each agent the server listed, in the order of
  that list and stamped with the instant of the snapshot, whatever order the scheduler gave the workers.\<close>

theorem collected_agents_exact:
  assumes "collect_agents t picks conn observed agents w = (Inr items, w')"
  shows "map (\<lambda>i. sa_agent (fst i)) items = map (\<lambda>a. a\<lparr>as_observed_at := observed\<rparr>) agents"
  using assms by (rule collected_agents)

definition sample_listed :: agent_snapshot where
  "sample_listed =
     \<lparr>as_id = ''agent:main_agent'', as_parent = '''', as_kind = AgentMain, as_name = ''Main'', as_status = AgentEnabled,
      as_metadata = [], as_observed_at = 1\<rparr>"

lemma collected_agents_exact_witness:
  "\<exists>items w'. collect_agents logging_transport [0, 0] (sample_endpoint ModeReadOnly) 5 [sample_listed] [] = (Inr items, w') \<and>
     map (\<lambda>i. sa_agent (fst i)) items = [sample_listed\<lparr>as_observed_at := 5\<rparr>]"
proof -
  let ?run = "collect_agents logging_transport [0, 0] (sample_endpoint ModeReadOnly) 5 [sample_listed] []"
  have "\<not> isl (fst ?run)"
    by code_simp
  then obtain items w' where r: "?run = (Inr items, w')"
    by (cases ?run) (auto simp: isl_def, metis sum.exhaust)
  then show ?thesis
    using collected_agents_exact [OF r] by simp
qed


section \<open>Selections\<close>

text \<open>Access selections survive the way to a Gantry server and back: what is sent for the selections read
  from a server is what the server had, when its identifiers and versions carry no surrounding space.\<close>

theorem selections_round_trip:
  assumes "list_all (\<lambda>s. trim_space (gs_id s) = gs_id s \<and> trim_space (gs_version s) = gs_version s) xs"
  shows "gantry_selections (normalize_selections xs) = xs"
  using assms
  by (induction xs) (auto simp: gantry_selections_def normalize_selections_def map_string_def)

lemma selections_round_trip_witness:
  "gantry_selections (normalize_selections [\<lparr>gs_id = ''fs.read'', gs_version = ''2''\<rparr>]) =
     [\<lparr>gs_id = ''fs.read'', gs_version = ''2''\<rparr>]"
  by (rule selections_round_trip) (simp add: str_simps)


section \<open>Paths\<close>

lemma upper_hex_inj: "m < 16 \<Longrightarrow> n < 16 \<Longrightarrow> upper_hex m = upper_hex n \<Longrightarrow> m = n"
  by (auto simp: upper_hex_def split: if_splits)

definition plain_char :: "char \<Rightarrow> bool" where
  "plain_char c \<longleftrightarrow> unreserved c \<or> List.member ''$&+=:@'' c"

definition escaped :: "char \<Rightarrow> string" where
  "escaped c = (if plain_char c then [c] else percent c)"

lemma path_escape_escaped: "path_escape s = concat (map escaped s)"
  by (simp add: path_escape_def escaped_def [abs_def] plain_char_def)

lemma plain_not_percent: "plain_char c \<Longrightarrow> c \<noteq> CHR 0x25"
  by (auto simp: plain_char_def unreserved_def byte_in_def)

lemma percent_inj: "percent c = percent d \<Longrightarrow> c = d"
proof -
  assume "percent c = percent d"
  then have "upper_hex (of_char c div 16) = upper_hex (of_char d div 16)"
    and "upper_hex (of_char c mod 16) = upper_hex (of_char d mod 16)"
    by (simp_all add: percent_def)
  moreover have "of_char x div 16 < (16::nat)" "of_char x mod 16 < (16::nat)" for x :: char
    by (simp_all add: less_mult_imp_div_less)
  ultimately have "of_char c div 16 = (of_char d div 16 :: nat)" "of_char c mod 16 = (of_char d mod 16 :: nat)"
    using upper_hex_inj by blast+
  then have "(of_char c :: nat) = of_char d"
    by (metis mult_div_mod_eq)
  then show "c = d"
    by simp
qed

lemma escaped_prefix: "escaped c @ xs = escaped d @ ys \<Longrightarrow> c = d \<and> xs = ys"
proof -
  assume e: "escaped c @ xs = escaped d @ ys"
  show ?thesis
  proof (cases "plain_char c = plain_char d")
    case True
    then have "length (escaped c) = length (escaped d)"
      by (simp add: escaped_def percent_def)
    then have "escaped c = escaped d" "xs = ys"
      using e by simp_all
    then show ?thesis
      using True percent_inj by (auto simp: escaped_def split: if_splits)
  next
    case False
    then show ?thesis
      using e plain_not_percent [of c] plain_not_percent [of d]
      by (auto simp: escaped_def percent_def split: if_splits)
  qed
qed

lemma path_escape_inj: "path_escape s = path_escape s' \<Longrightarrow> s = s'"
  unfolding path_escape_escaped
proof (induction s arbitrary: s')
  case Nil
  then show ?case
    by (cases s') (auto simp: escaped_def percent_def split: if_splits)
next
  case (Cons c s)
  then obtain d s'' where "s' = d # s''"
    by (cases s') (auto simp: escaped_def percent_def split: if_splits)
  then show ?case
    using Cons escaped_prefix by (metis concat.simps(2) list.simps(9))
qed

lemma hex_plain: "n < 16 \<Longrightarrow> \<not> List.member ''/?#'' (upper_hex n)"
proof
  assume n: "n < 16" and "List.member ''/?#'' (upper_hex n)"
  then have "(of_char (upper_hex n) :: nat) \<in> {47, 63, 35}"
    by auto
  then show False
    using n by (auto simp: upper_hex_def split: if_splits)
qed

lemma escaped_no_delimiter: "c \<in> set (escaped d) \<Longrightarrow> \<not> List.member ''/?#'' c"
  using hex_plain [of "of_char d div 16"] hex_plain [of "of_char d mod 16"]
  by (auto simp: escaped_def percent_def plain_char_def unreserved_def byte_in_def less_mult_imp_div_less split: if_splits)

text \<open>The identifier of an agent cannot leave its place in the path of a request: it is one segment, without
  a slash, a question mark or a hash, and different identifiers give different paths.\<close>

theorem agent_path_separate:
  "(agent_path a rest = agent_path b rest \<longleftrightarrow> a = b) \<and> list_all (\<lambda>c. \<not> List.member ''/?#'' c) (path_escape a)"
  using path_escape_inj escaped_no_delimiter
  by (auto simp: agent_path_def path_escape_escaped list_all_iff)


section \<open>Repeated references\<close>

lemma validate_delegations:
  "validate_runtime_snapshot sn = None \<Longrightarrow> distinct (map delegation_identity (sn_delegations sn))"
  by (simp add: validate_runtime_snapshot_def scan_delegations)

text \<open>A reference that an agent's settings name twice, and that the server has not resolved, makes the
  snapshot of the whole runtime invalid: the adapter lists it twice, and the snapshot is refused as having a
  duplicate delegation.\<close>

theorem repeated_reference_rejects_snapshot:
  assumes "sn_delegations sn = xs @ agent_delegations observed agent p @ ys"
    and "\<not> distinct (filter (\<lambda>ref. ref \<noteq> '''' \<and> \<not> List.member (map delegate_ref (filter usable_delegate (elems (dd_resolved p)))) ref)
           (map trim_space (elems (dd_delegates p))))"
  shows "validate_runtime_snapshot sn \<noteq> None"
proof
  assume "validate_runtime_snapshot sn = None"
  then have "distinct (map delegation_identity (agent_delegations observed agent p))"
    using validate_delegations [of sn] by (simp add: assms(1))
  then show False
    using assms(2) by (auto simp: agent_delegations_def Let_def filter_filter conj_commute o_def distinct_map)
qed

definition repeated_delegates :: agent_delegates where
  "repeated_delegates = \<lparr>dd_agent = ''a1'', dd_revision = 1, dd_delegates = Some [''coder'', '' coder''], dd_resolved = None\<rparr>"

definition delegating_snapshot :: runtime_snapshot where
  "delegating_snapshot =
     \<lparr>sn_observed_at = 5, sn_agents = [], sn_diagnostics = [], sn_inventory = [], sn_catalog = [],
      sn_delegations = agent_delegations 5 ''a1'' repeated_delegates, sn_executions = [], sn_subagents = [],
      sn_metadata = [], sn_capabilities = []\<rparr>"

lemma repeated_reference_rejects_snapshot_witness: "validate_runtime_snapshot delegating_snapshot \<noteq> None"
  by (rule repeated_reference_rejects_snapshot [where xs = "[]" and ys = "[]" and observed = 5 and agent = "''a1''"
        and p = repeated_delegates])
     (simp_all add: delegating_snapshot_def repeated_delegates_def str_simps)

end
