(* ===== verification/Lang_Claims.thy ===== *)
theory Lang_Claims
  imports Adapter_Calls Telemetry_Service
begin

text \<open>Properties of the LangGraph and LangSmith connectors: what the paged listings return of a server's list,
  which executions therefore get into a snapshot, and what an imported run becomes.\<close>

section \<open>Paged listings\<close>

text \<open>A server that holds a list and answers page \<open>n\<close> with its elements from \<open>100 n\<close> on.\<close>

definition serves :: "(nat \<Rightarrow> ('w, 'a list) call) \<Rightarrow> 'a list \<Rightarrow> bool" where
  "serves page xs \<longleftrightarrow> (\<forall>n w. fst (page n w) = Inr (take page_size (drop (n * page_size) xs)))"

lemma page_size_pos: "0 < page_size"
  by (simp add: page_size_def)

lemma read_pages_served:
  assumes "serves page xs" and "n * page_size \<le> length xs"
  shows "fst (read_pages page fuel n acc w) =
    Inr (acc @ take (fuel * page_size) (drop (n * page_size) xs), length xs < (n + fuel) * page_size)"
  using assms(2)
proof (induction fuel arbitrary: n acc w)
  case 0
  then show ?case
    by (simp add: return_def)
next
  case (Suc fuel)
  let ?items = "take page_size (drop (n * page_size) xs)"
  obtain w' where p: "page n w = (Inr ?items, w')"
    using assms(1) by (metis serves_def prod.collapse)
  show ?case
  proof (cases "length ?items < page_size")
    case True
    then have short: "length xs - n * page_size < page_size"
      by simp
    then have "length xs < (n + Suc fuel) * page_size"
      using Suc.prems by (simp add: algebra_simps)
    moreover have "take (Suc fuel * page_size) (drop (n * page_size) xs) = ?items"
      using short by simp
    ultimately show ?thesis
      using p short by (simp add: return_def)
  next
    case False
    then have full: "Suc n * page_size \<le> length xs"
      using Suc.prems by auto
    have "?items @ take (fuel * page_size) (drop (Suc n * page_size) xs) =
        take (Suc fuel * page_size) (drop (n * page_size) xs)"
      using take_add [of page_size "fuel * page_size" "drop (n * page_size) xs"] by (simp add: add.commute)
    then show ?thesis
      using p False Suc.IH [OF full, of "acc @ ?items" w'] by simp
  qed
qed

text \<open>C33: Listing the assistants of a LangGraph server gives the server's whole list, or an error when it has
  10000 assistants or more: a list cut short is never taken for the whole inventory.\<close>

theorem assistants_listed_exactly:
  assumes "serves (assistant_page t conn) xs"
  shows "fst (list_assistants t conn w) =
    (if length xs < 10000 then Inr xs
     else Inl (Text (''langgraph assistant pagination exceeded '' @ show_nat max_assistant_pages @ '' pages'')))"
proof -
  obtain r w' where r: "read_pages (assistant_page t conn) max_assistant_pages 0 [] w = (r, w')"
    by fastforce
  moreover have "r = Inr (take 10000 xs, length xs < 10000)"
    using read_pages_served [OF assms, of 0 max_assistant_pages "[]" w] r
    by (simp add: max_assistant_pages_def page_size_def)
  ultimately show ?thesis
    by (simp add: list_assistants_def seq_def return_def failing_def)
qed

text \<open>The executions of a snapshot are cut off without a notice: of the server's threads only the first 200
  are listed, and of the runs of a thread only the first 1000, and a longer list is no error.\<close>

theorem executions_truncated:
  assumes "serves (thread_page t conn) threads" and "serves (run_page t conn thread) runs"
  shows "fst (list_threads t conn w) = Inr (take 200 threads) \<and> fst (list_thread_runs t conn thread w) = Inr (take 1000 runs)"
proof -
  obtain r w' where r: "read_pages (thread_page t conn) max_thread_pages 0 [] w = (r, w')"
    by fastforce
  then have "r = Inr (take 200 threads, length threads < 200)"
    using read_pages_served [OF assms(1), of 0 max_thread_pages "[]" w]
    by (simp add: max_thread_pages_def page_size_def)
  moreover obtain s v where s: "read_pages (run_page t conn thread) max_run_pages 0 [] w = (s, v)"
    by fastforce
  then have "s = Inr (take 1000 runs, length runs < 1000)"
    using read_pages_served [OF assms(2), of 0 max_run_pages "[]" w]
    by (simp add: max_run_pages_def page_size_def)
  ultimately show ?thesis
    using r s by (simp add: list_threads_def list_thread_runs_def seq_def return_def)
qed

text \<open>A server with one assistant, one thread and one run: every first page has one empty object.\<close>

definition first_page :: "http_call \<Rightarrow> bool" where
  "first_page c \<longleftrightarrow>
     (case hc_body c of
        Some (GMap m) \<Rightarrow> map_of m ''offset'' = Some (GInt 0)
      | _ \<Rightarrow> hc_url c = ''http://g'' @ ''/threads/'' @ path_escape '''' @ ''/runs?limit='' @ show_nat page_size @
          ''&offset='' @ show_nat 0)"

definition one_of_each :: "(unit, unit) transport" where
  "one_of_each =
     \<lparr>ht_do = \<lambda>c w. (Inr \<lparr>hp_status = 200, hp_body = (if first_page c then ''[{}]'' else ''[]'')\<rparr>, w),
      ht_resolve = Some (\<lambda>ref. return ''key''), ht_clock = \<lambda>w. (0, w),
      ht_url = \<lparr>ul_parse = \<lambda>s. Some \<lparr>url_scheme = ''http'', url_host = ''g'', url_path = '''', url_query = '''',
          url_fragment = '''', url_rest = ()\<rparr>, ul_string = \<lambda>u. ''''\<rparr>,
      ht_next = \<lambda>s. Some (JArray (if s = ''[{}]'' then [JObject []] else []), ''''), ht_float = \<lambda>q. '''',
      ht_sha256 = \<lambda>s. s\<rparr>"

lemma one_page:
  "do_json langgraph one_of_each (sample_endpoint m) verb path body (items_element element) () =
     (case items_element element (JArray (if first_page \<lparr>hc_method = verb, hc_url = ''http://g'' @ path,
         hc_headers = [(''Accept'', ''application/json''), (''X-Api-Key'', ''key'')] @
           (if body = None then [] else [(''Content-Type'', ''application/json'')]), hc_body = body\<rparr>
         then [JObject []] else [])) of
        None \<Rightarrow> (Inl (Wrapped ''decode langgraph response: '' (Text ''invalid document'')), ())
      | Some x \<Rightarrow> (Inr x, ()))"
  by (simp add: do_json_def checked_request_def send_request_def normalize_base_url_def resolve_credential_def
      one_of_each_def sample_endpoint_def langgraph_def seq_def wrapping_def chain_def str_simps trim_right_char_def
      split: option.splits)

definition blank_assistant :: assistant where
  "blank_assistant =
     \<lparr>at_id = '''', at_graph = '''', at_name = '''', at_description = '''', at_version = 0, at_created = '''',
      at_updated = '''', at_config = GNil, at_context = GNil, at_metadata = GNil, at_raw = []\<rparr>"

definition blank_thread :: lg_thread where
  "blank_thread =
     \<lparr>th_id = '''', th_status = '''', th_created = '''', th_updated = '''', th_state_updated = '''',
      th_metadata = GNil, th_config = GNil, th_values = GNil, th_interrupts = GNil, th_raw = []\<rparr>"

definition blank_run :: lg_run where
  "blank_run =
     \<lparr>lr_id = '''', lr_thread = '''', lr_assistant = '''', lr_status = '''', lr_created = '''', lr_updated = '''',
      lr_metadata = GNil, lr_kwargs = GNil, lr_strategy = '''', lr_session = '''', lr_raw = []\<rparr>"

lemma blank_documents:
  "decode_assistant (JObject []) = Some blank_assistant"
  "decode_thread (JObject []) = Some blank_thread"
  "decode_run (JObject []) = Some blank_run"
  by (simp_all add: decode_assistant_def decode_thread_def decode_run_def decode_raw_def decode_object_def chain_def
      any_map_def blank_assistant_def blank_thread_def blank_run_def)

lemma drop_one: "take page_size (drop (n * page_size) [x]) = (if n = 0 then [x] else [])"
  by (simp add: page_size_def)

lemma show_nat_inj: "show_nat m = show_nat n \<Longrightarrow> m = n"
  using show_nat_digits by metis

lemma first_offset: "n * page_size = 0 \<longleftrightarrow> n = 0" "int n * int page_size = 0 \<longleftrightarrow> n = 0"
  "show_nat (n * page_size) = show_nat 0 \<longleftrightarrow> n = 0"
  using show_nat_inj [of "n * page_size" 0] by (auto simp: page_size_def)

lemma one_of_each_serves:
  "serves (assistant_page one_of_each (sample_endpoint m)) [blank_assistant]"
  "serves (thread_page one_of_each (sample_endpoint m)) [blank_thread]"
  "serves (run_page one_of_each (sample_endpoint m) '''') [blank_run]"
  by (simp_all add: serves_def assistant_page_def thread_page_def run_page_def one_page first_page_def search_body_def
      items_element_def decode_list_def blank_documents drop_one first_offset del: mult_eq_0_iff mult_is_0)

lemma assistants_listed_exactly_witness:
  "fst (list_assistants one_of_each (sample_endpoint ModeReadOnly) ()) = Inr [blank_assistant]"
  using assistants_listed_exactly [OF one_of_each_serves(1)] by simp

lemma executions_truncated_witness:
  "fst (list_threads one_of_each (sample_endpoint ModeReadOnly) ()) = Inr [blank_thread] \<and>
   fst (list_thread_runs one_of_each (sample_endpoint ModeReadOnly) '''' ()) = Inr [blank_run]"
  using executions_truncated [OF one_of_each_serves(2,3)] by simp

section \<open>Imported runs\<close>

lemma first_nonzero_nonneg: "list_all (\<lambda>n. 0 \<le> n) xs \<Longrightarrow> 0 \<le> first_nonzero xs"
  by (auto simp: first_nonzero_def list_all_iff split: option.splits dest!: find_SomeD)

definition run_counts :: "usage_metadata \<Rightarrow> int list" where
  "run_counts u =
     [um_input u, um_output u, um_total u, um_cached u, um_cache_creation u, um_reasoning u, um_in_cached u,
      um_in_cache_read u, um_in_cache_creation u, um_out_reasoning u]"

text \<open>A run imported from LangSmith is accepted by the telemetry service when its counts are not negative,
  the sum of its input and output tokens is an \<^verbatim>\<open>int64\<close>, and its identifier and that of the connection are not
  blank; and what is stored of it has no attribute but the trace and the quality: nothing of its inputs,
  outputs and metadata.\<close>

theorem imported_run_accepted:
  assumes "\<not> blank conn" and "\<not> blank (lt_id r)" and "list_all (\<lambda>n. 0 \<le> n) (run_counts (lt_usage r))"
    and "um_input (lt_usage r) + um_output (lt_usage r) \<le> max_int64"
  shows "check_observation (run_observation conn r ts) = None \<and>
    map fst (uo_attributes (run_observation conn r ts)) = [''trace_id'', ''quality'']"
proof -
  have "wrap64 (um_input (lt_usage r) + um_output (lt_usage r)) = um_input (lt_usage r) + um_output (lt_usage r)"
    using assms(3,4) by (simp add: wrap64_def run_counts_def max_int64_def)
  then show ?thesis
    using assms
    by (auto simp: check_observation_def run_observation_def Let_def usage_counts_def run_counts_def
        first_nonzero_nonneg not_less)
qed

definition sample_run :: trace_run where
  "sample_run =
     \<lparr>lt_id = ''r1'', lt_parent = '''', lt_trace = ''t1'', lt_type = ''llm'', lt_start = '''', lt_end = '''',
      lt_error = GNil, lt_usage = no_usage\<lparr>um_input := 7, um_in_cached := 3\<rparr>, lt_extra = GNil,
      lt_outputs = GMap [(''text'', GStr ''secret'')]\<rparr>"

lemma imported_run_accepted_witness: "check_observation (run_observation ''c1'' sample_run 9) = None"
  using imported_run_accepted [of "''c1''" sample_run 9]
  by (simp add: sample_run_def no_usage_def run_counts_def max_int64_def str_simps)

end
