(* ===== verification/Safe_Requests.thy ===== *)
theory Safe_Requests
  imports Api_Router
begin

text \<open>Requests that only read.  A request whose method needs no CSRF token reaches a handler that answers with
  the outcome of at most one reading call of a service (after the clock, for metrics).  The locale
  \<open>read_calls\<close> states what the router relies on: a property of answers holds for each of these calls.  Then it
  holds for every route such a request can take; \<open>Server_Claims\<close> interprets the locale twice, with ``keeps the
  stored data'' and with ``depends on the rows of one organisation only''.\<close>

locale read_calls =
  fixes cfg :: "'w router_config"
    and good :: "('w \<Rightarrow> response \<times> 'w) \<Rightarrow> bool"
    and accepted :: "request \<Rightarrow> bool"
  assumes fixed_answer: "good (\<lambda>w. (resp, w))"
    and clock: "(\<And>t. good (f t)) \<Longrightarrow> good (\<lambda>w. case rt_now cfg w of (t, w) \<Rightarrow> f t w)"
    and routed: "accepted r \<Longrightarrow> accepted (r\<lparr>hr_values := vs\<rparr>)"
    and get: "rt_connections cfg = Some c \<Longrightarrow> accepted r \<Longrightarrow> good (answer e s v1 (qc_get c (hr_context r) i))"
    and list: "rt_connections cfg = Some c \<Longrightarrow> accepted r \<Longrightarrow> good (answer e s v2 (qc_list c (hr_context r)))"
    and live_agents:
      "rt_connections cfg = Some c \<Longrightarrow> accepted r \<Longrightarrow> good (answer e s v3 (qc_agents c (hr_context r) i))"
    and live_skills:
      "rt_connections cfg = Some c \<Longrightarrow> accepted r \<Longrightarrow> good (answer e s v4 (qc_skills c (hr_context r) i k))"
    and live_access:
      "rt_connections cfg = Some c \<Longrightarrow> accepted r \<Longrightarrow> good (answer e s v5 (qc_access c (hr_context r) i k))"
    and runs: "rt_sync cfg = Some y \<Longrightarrow> accepted r \<Longrightarrow> good (answer e s v6 (qy_runs y (hr_context r) i n))"
    and one_run: "rt_sync cfg = Some y \<Longrightarrow> accepted r \<Longrightarrow> good (answer e s v7 (qy_run y (hr_context r) i k))"
    and agents: "rt_sync cfg = Some y \<Longrightarrow> accepted r \<Longrightarrow> good (answer e s v8 (qy_agents y (hr_context r) i))"
    and one_agent: "rt_sync cfg = Some y \<Longrightarrow> accepted r \<Longrightarrow> good (answer e s v9 (qy_agent y (hr_context r) i))"
    and subagents: "rt_sync cfg = Some y \<Longrightarrow> accepted r \<Longrightarrow>
      good (answer e s v10 (qy_subagents y (hr_context r) i (query_of r ''agent_id'')))"
    and executions: "rt_sync cfg = Some y \<Longrightarrow> accepted r \<Longrightarrow>
      good (answer e s v11 (qy_executions y (hr_context r) i k kind n))"
    and diagnostics: "rt_sync cfg = Some y \<Longrightarrow> accepted r \<Longrightarrow> good (answer e s v12 (qy_diagnostics y (hr_context r) i))"
    and inventory: "rt_sync cfg = Some y \<Longrightarrow> accepted r \<Longrightarrow> good (answer e s v13 (qy_inventory y (hr_context r) i k))"
    and catalog: "rt_sync cfg = Some y \<Longrightarrow> accepted r \<Longrightarrow> good (answer e s v14 (qy_capabilities y (hr_context r) i))"
    and delegations: "rt_sync cfg = Some y \<Longrightarrow> accepted r \<Longrightarrow> good (answer e s v15 (qy_delegations y (hr_context r) i k))"
    and summary: "rt_telemetry cfg = Some s' \<Longrightarrow> accepted r \<Longrightarrow> good (answer e s v16 (qt_summary s' (hr_context r) q))"
    and health: "rt_telemetry cfg = Some s' \<Longrightarrow> accepted r \<Longrightarrow> good (answer e s v17 (qt_health s' (hr_context r) i))"
begin

lemmas calls = get list live_agents live_skills live_access runs one_run agents one_agent subagents executions
  diagnostics inventory catalog delegations summary health

lemma served:
  assumes "\<And>s. service = Some s \<Longrightarrow> good (h s r)"
  shows "good (with_service service text h r)"
proof (cases service)
  case None
  then have "with_service service text h r = (\<lambda>w. (write_failure 503 text, w))"
    by (simp add: with_service_def fun_eq_iff)
  then show ?thesis
    by (simp add: fixed_answer)
next
  case (Some s)
  then have "with_service service text h r = h s r"
    by (simp add: with_service_def fun_eq_iff)
  with Some show ?thesis
    by (simp add: assms)
qed

lemma plain_handlers:
  "good (handle_service_root cfg r)" "good (handle_health cfg r)" "good (handle_me cfg r)" "good (handle_not_found r)"
proof -
  have "handle_service_root cfg r = (\<lambda>w. (fst (handle_service_root cfg r undefined), w))"
    "handle_health cfg r = (\<lambda>w. (fst (handle_health cfg r undefined), w))"
    "handle_me cfg r = (\<lambda>w. (fst (handle_me cfg r undefined), w))"
    "handle_not_found r = (\<lambda>w. (fst (handle_not_found r undefined), w))"
    by (auto simp: fun_eq_iff handle_service_root_def handle_health_def handle_me_def handle_not_found_def
        split: option.splits)
  then show "good (handle_service_root cfg r)" "good (handle_health cfg r)" "good (handle_me cfg r)"
    "good (handle_not_found r)"
    by (metis fixed_answer)+
qed

lemma connection_handlers:
  assumes "accepted r"
  shows "good (handle_list_connections cfg r)" "good (handle_get_connection cfg r)"
    "good (handle_list_live_agents cfg r)" "good (handle_live_access cfg r)" "good (handle_live_skills cfg r)"
  unfolding handle_list_connections_def handle_get_connection_def handle_list_live_agents_def
    handle_live_access_def handle_live_skills_def
  by (rule served; simp add: calls assms)+

lemma record_handlers:
  assumes "accepted r"
  shows "good (handle_list_runs cfg r)" "good (handle_get_run cfg r)" "good (handle_list_agents cfg r)"
    "good (handle_list_instance_agents cfg r)" "good (handle_get_agent cfg r)" "good (handle_agent_skills cfg r)"
    "good (handle_agent_access cfg r)" "good (handle_list_subagents cfg r)" "good (handle_list_instance_subagents cfg r)"
    "good (handle_list_executions cfg r)" "good (handle_list_instance_executions cfg r)"
    "good (handle_list_diagnostics cfg r)" "good (handle_list_inventory cfg r)" "good (handle_list_capabilities cfg r)"
    "good (handle_agent_delegations cfg r)" "good (handle_instance_delegations cfg r)"
  unfolding handle_list_runs_def handle_get_run_def handle_list_agents_def handle_list_instance_agents_def
    answer_agents_def load_persisted_agent_def handle_get_agent_def handle_agent_skills_def handle_agent_access_def
    answer_subagents_def handle_list_subagents_def handle_list_instance_subagents_def answer_executions_def
    handle_list_executions_def handle_list_instance_executions_def handle_list_diagnostics_def
    handle_list_inventory_def handle_list_capabilities_def answer_delegations_def handle_agent_delegations_def
    handle_instance_delegations_def
  by (rule served; simp add: calls assms)+

lemma metrics:
  assumes "accepted r"
  shows "good (metrics_handler cfg scope r)"
  unfolding metrics_handler_def
proof (rule served)
  fix s
  assume s: "rt_telemetry cfg = Some s"
  let ?f = "\<lambda>t. case usage_query_from_request r (clock_value t) of
      Inl e \<Rightarrow> \<lambda>w. (write_api_error 400 e, w)
    | Inr q \<Rightarrow> answer summary_failure 200 metrics_response
        (qt_summary s (hr_context r) (q\<lparr>uq_conn := fst (scope r), uq_agent := snd (scope r)\<rparr>))"
  have "good (\<lambda>w. case rt_now cfg w of (t, w) \<Rightarrow> ?f t w)"
    by (rule clock) (simp add: fixed_answer summary [OF s assms] split: sum.split)
  moreover have "?f t w = (case usage_query_from_request r (clock_value t) of
      Inl e \<Rightarrow> (write_api_error 400 e, w)
    | Inr q \<Rightarrow> answer summary_failure 200 metrics_response
        (qt_summary s (hr_context r) (q\<lparr>uq_conn := fst (scope r), uq_agent := snd (scope r)\<rparr>)) w)" for t w
    by (simp split: sum.split)
  ultimately show "good (\<lambda>w. case rt_now cfg w of (t, w) \<Rightarrow> (case usage_query_from_request r (clock_value t) of
      Inl e \<Rightarrow> (write_api_error 400 e, w)
    | Inr q \<Rightarrow> answer summary_failure 200 metrics_response
        (qt_summary s (hr_context r) (q\<lparr>uq_conn := fst (scope r), uq_agent := snd (scope r)\<rparr>)) w))"
    by simp
qed

lemma telemetry_handlers:
  assumes "accepted r"
  shows "good (handle_metrics_summary cfg r)" "good (handle_agent_metrics cfg r)" "good (handle_runtime_metrics cfg r)"
    "good (handle_telemetry_health cfg r)"
  using metrics [OF assms] served [of "rt_telemetry cfg" _ r] health assms
  by (simp_all add: handle_metrics_summary_def handle_agent_metrics_def handle_runtime_metrics_def
      handle_telemetry_health_def)

lemmas handlers = plain_handlers connection_handlers record_handlers telemetry_handlers

lemma routes:
  "x \<in> set (routes l cfg) \<Longrightarrow> \<not> requires_csrf given \<Longrightarrow> method_matches (fst x) given \<Longrightarrow> accepted r \<Longrightarrow>
     good (snd (snd x) r)"
  by (auto simp: routes_def method_matches_def requires_csrf_def handlers)

lemma dispatched:
  assumes "accepted r" and "\<And>x r. x \<in> set xs \<Longrightarrow> method_matches (fst x) (hr_method r) \<Longrightarrow> accepted r \<Longrightarrow>
      hr_method r = verb \<Longrightarrow> good (snd (snd x) r)" and "hr_method r = verb"
  shows "good (dispatch xs r)"
  using assms(2)
proof (induction xs)
  case Nil
  have "dispatch [] r = handle_not_found r"
    by (simp add: fun_eq_iff)
  then show ?case
    by (simp add: plain_handlers)
next
  case (Cons x xs)
  show ?case
  proof (cases "route_values x r")
    case None
    then have "dispatch (x # xs) r = dispatch xs r"
      by (simp add: fun_eq_iff)
    with Cons show ?thesis
      by simp
  next
    case (Some vs)
    then have "dispatch (x # xs) r = snd (snd x) (r\<lparr>hr_values := vs\<rparr>)" and "method_matches (fst x) (hr_method r)"
      by (auto simp: fun_eq_iff route_values_def split: if_splits)
    with Cons.prems [of x "r\<lparr>hr_values := vs\<rparr>"] assms(1,3) show ?thesis
      by (simp add: routed)
  qed
qed

text \<open>The router behind the session check.\<close>

lemma good_mux:
  assumes "\<not> requires_csrf (hr_method r)" and "accepted r"
  shows "good (mux (routes l cfg) r)"
proof (cases "hr_clean r")
  case True
  have "good (dispatch (routes l cfg) r)"
    using assms by (intro dispatched [where verb = "hr_method r"]) (auto dest: routes)
  then show ?thesis
    using True by (simp add: mux_def [abs_def])
next
  case False
  then show ?thesis
    by (simp add: mux_def [abs_def] fixed_answer)
qed

end


section \<open>The way of a request to the router\<close>

text \<open>What a request sees before the handlers: the middleware keeps an observation that the authentication
  service and the handlers keep.\<close>

lemma keeps_session_auth:
  assumes "\<And>a ctx tok. auth = Some a \<Longrightarrow> keeps obs (qa_authenticate a ctx tok)"
    and "\<And>c w. obs (snd (h (r\<lparr>hr_context := c\<rparr>) w)) = obs w" and "\<And>w. obs (snd (h r w)) = obs w"
  shows "obs (snd (session_auth l h token auth r w)) = obs w"
  using assms
  by (auto simp: session_auth_def split: option.splits prod.splits sum.splits dest!: assms(1))
     (metis keepsD snd_conv)+

lemma keeps_cors: "obs (snd (h r w)) = obs w \<Longrightarrow> obs (snd (cors_middleware h origins r w)) = obs w"
  by (simp add: cors_middleware_def Let_def case_prod_unfold)

lemma keeps_recover:
  "obs (snd (f r w)) = obs w \<Longrightarrow> obs (snd (recover_middleware f r w)) = obs w"
  by (cases "f r w"; cases "fst (f r w)") (simp_all add: recover_middleware_def)

lemma keeps_new_router:
  assumes "obs (snd (session_auth (rt_library cfg) (mux (routes l cfg)) (rt_admin_token cfg) (rt_auth cfg) r w)) = obs w"
  shows "obs (snd (new_router l cfg r w)) = obs w"
  unfolding new_router_def by (intro keeps_recover) (simp add: keeps_cors assms)

lemma keeps_answer: "keeps obs m \<Longrightarrow> obs (snd (answer failed status view m w)) = obs w"
  by (auto simp: answer_def split: prod.splits sum.splits dest: keepsD)

end
