(* ===== verification/Server.thy ===== *)
theory Server
  imports Safe_Requests Adapter_Calls Migrations Sync_Worker
begin

text \<open>The server as \<^verbatim>\<open>run\<close> of \<^verbatim>\<open>cmd/capcom-server/main.go\<close> puts it together: the repositories on one database,
  the services over them, the adapters with the secret service as their resolver of credentials, the router
  over the services, and the two workers.  The state of the process is the state of the authentication service
  (its limiter) beside the world of the repositories; the network is the state of the runtimes outside.\<close>

section \<open>What the process gets from outside\<close>

record ('x, 'u) platform =
  pf_env :: env
  pf_do :: "http_call \<Rightarrow> ('x, http_reply) call"
  pf_url :: "'u url_library"
  pf_next :: "string \<Rightarrow> (json \<times> string) option"
  pf_float :: "rat \<Rightarrow> string"
  pf_sha256 :: "string \<Rightarrow> string"
  pf_gcm :: "string \<Rightarrow> aead"
  pf_auth :: auth_library
  pf_salt :: string
  pf_api :: api_library
  pf_picks :: "nat list"

type_synonym 'x server_world = "(db, 'x) world"
type_synonym 'x server_state = "'x server_world auth_world"

text \<open>The environment of a call made in a context.\<close>

definition env_at :: "('x, 'u) platform \<Rightarrow> req_context \<Rightarrow> env" where
  "env_at pf ctx = (pf_env pf)\<lparr>e_context := ctx\<rparr>"

definition cipher_of :: "('x, 'u) platform \<Rightarrow> server_plan \<Rightarrow> aead option" where
  "cipher_of pf plan = (case new_cipher (pf_gcm pf) (lp_cipher_key plan) of Inl _ \<Rightarrow> None | Inr a \<Rightarrow> Some a)"

definition server_secrets :: "('x, 'u) platform \<Rightarrow> server_plan \<Rightarrow> req_context \<Rightarrow> 'x server_world secret_ports" where
  "server_secrets pf plan ctx = secret_store_ports (env_at pf ctx) (cipher_of pf plan)"

text \<open>The HTTP client of the adapters, \<^verbatim>\<open>NewClient(nil, secretService)\<close>.\<close>

definition server_transport ::
    "('x, 'u) platform \<Rightarrow> server_plan \<Rightarrow> req_context \<Rightarrow> ('x server_world, 'u) transport" where
  "server_transport pf plan ctx =
     \<lparr>ht_do = \<lambda>c. outside (pf_do pf c), ht_resolve = Some (resolve_secret (server_secrets pf plan ctx)),
      ht_clock = \<lambda>w. (e_now (pf_env pf) (w_step w), tick w), ht_url = pf_url pf, ht_next = pf_next pf,
      ht_float = pf_float pf, ht_sha256 = pf_sha256 pf\<rparr>"

definition server_adapters ::
    "('x, 'u) platform \<Rightarrow> server_plan \<Rightarrow> req_context \<Rightarrow> 'x server_world adapters" where
  "server_adapters pf plan ctx =
     with_adapter KindLangGraph (Some (langgraph_client (server_transport pf plan ctx)))
       (with_adapter KindGantry (Some (gantry_client (server_transport pf plan ctx) (pf_picks pf))) [])"


section \<open>The services\<close>

definition server_sync_ports :: "('x, 'u) platform \<Rightarrow> server_plan \<Rightarrow> req_context \<Rightarrow> 'x server_world sync_ports" where
  "server_sync_ports pf plan ctx =
     (store_sync_ports (env_at pf ctx) [] (lp_missing_threshold plan))\<lparr>sp_adapters := server_adapters pf plan ctx\<rparr>"

definition server_control_ports ::
    "('x, 'u) platform \<Rightarrow> server_plan \<Rightarrow> req_context \<Rightarrow> 'x server_world control_ports" where
  "server_control_ports pf plan ctx =
     (store_control_ports (env_at pf ctx) [] (lp_missing_threshold plan))
       \<lparr>kp_syncer := Some (sync (server_sync_ports pf plan ctx)), kp_adapters := server_adapters pf plan ctx\<rparr>"

definition server_connection_ports ::
    "('x, 'u) platform \<Rightarrow> server_plan \<Rightarrow> req_context \<Rightarrow> ('x server_world, 'u) connection_ports" where
  "server_connection_ports pf plan ctx =
     (store_connection_ports (env_at pf ctx) (cipher_of pf plan) [] lift_adapter (pf_url pf))
       \<lparr>np_adapters := server_adapters pf plan ctx\<rparr>"

definition server_telemetry_ports ::
    "('x, 'u) platform \<Rightarrow> server_plan \<Rightarrow> req_context \<Rightarrow> 'x server_world telemetry_ports" where
  "server_telemetry_ports pf plan ctx = telemetry_store_ports (env_at pf ctx) (Some (lp_catalog plan))"

text \<open>\<^verbatim>\<open>NewAuthService\<close> hashes a password that nobody has; a read of random bytes that fails leaves the salt zero.\<close>

definition server_auth_ports :: "('x, 'u) platform \<Rightarrow> req_context \<Rightarrow> 'x server_world auth_ports" where
  "server_auth_ports pf ctx =
     auth_store_ports (env_at pf ctx) (pf_auth pf) (encode_password (pf_auth pf) ''not-a-real-password'' (pf_salt pf))"


section \<open>The services as the router calls them\<close>

definition on_store :: "('w \<Rightarrow> 'r \<times> 'w) \<Rightarrow> 'w auth_world \<Rightarrow> 'r \<times> 'w auth_world" where
  "on_store m w = (case m (aw_store w) of (r, s) \<Rightarrow> (r, w\<lparr>aw_store := s\<rparr>))"

text \<open>\<^verbatim>\<open>ListAgents\<close>, \<^verbatim>\<open>ListAgentSkills\<close> and \<^verbatim>\<open>GetAgentAccess\<close> of the adapter registered for the kind.\<close>

definition live_read :: "(runtime_connection \<Rightarrow> 'a) \<Rightarrow> (runtime_connection \<Rightarrow> 'a) \<Rightarrow> 'w adapter \<Rightarrow> runtime_connection \<Rightarrow> 'a" where
  "live_read gantry_read langgraph_read a conn =
     (if rc_kind conn = KindGantry then gantry_read conn else langgraph_read conn)"

definition server_connections ::
    "('x, 'u) platform \<Rightarrow> server_plan \<Rightarrow> 'x server_state connection_api" where
  "server_connections pf plan =
     \<lparr>qc_create = \<lambda>ctx i. stored (create_connection (server_connection_ports pf plan ctx) i),
      qc_update = \<lambda>ctx i. stored (update_settings (server_connection_ports pf plan ctx) i),
      qc_remove = \<lambda>ctx i. stored (remove_connection (server_connection_ports pf plan ctx) i),
      qc_consolidate = \<lambda>ctx i. stored (consolidate_connection (server_connection_ports pf plan ctx) i),
      qc_get = \<lambda>ctx i. stored (get_connection (server_connection_ports pf plan ctx) i),
      qc_list = \<lambda>ctx. stored (np_list (server_connection_ports pf plan ctx)),
      qc_test = \<lambda>ctx i. stored (test_connection (server_connection_ports pf plan ctx) i),
      qc_agents = \<lambda>ctx i. stored (list_live_agents (server_connection_ports pf plan ctx)
        (live_read (gantry_list_agents (server_transport pf plan ctx))
           (langgraph_list_agents (server_transport pf plan ctx))) i),
      qc_skills = \<lambda>ctx i agent. stored (read_live_agent (server_connection_ports pf plan ctx)
        (live_read (gantry_list_skills (server_transport pf plan ctx))
           (langgraph_list_skills (server_transport pf plan ctx))) i agent),
      qc_access = \<lambda>ctx i agent. stored (read_live_agent (server_connection_ports pf plan ctx)
        (live_read (gantry_get_access (server_transport pf plan ctx))
           (langgraph_get_access (server_transport pf plan ctx))) i agent)\<rparr>"

definition server_secret_api :: "('x, 'u) platform \<Rightarrow> server_plan \<Rightarrow> 'x server_state secret_api" where
  "server_secret_api pf plan =
     \<lparr>qs_create = \<lambda>ctx i. stored (secret_create (server_secrets pf plan ctx) i),
      qs_rotate = \<lambda>ctx i. stored (secret_rotate_value (server_secrets pf plan ctx) i)\<rparr>"

definition server_sync :: "('x, 'u) platform \<Rightarrow> server_plan \<Rightarrow> 'x server_state sync_api" where
  "server_sync pf plan =
     \<lparr>qy_sync = \<lambda>ctx i. on_store (sync (server_sync_ports pf plan ctx) i),
      qy_runs = \<lambda>ctx i n. stored (list_runs (env_at pf ctx) i n),
      qy_run = \<lambda>ctx i k. stored (get_run (env_at pf ctx) i k),
      qy_agents = \<lambda>ctx i. stored (list_persisted_agents (env_at pf ctx) i),
      qy_agent = \<lambda>ctx i. stored (get_agent (get_persisted_agent (env_at pf ctx)) i),
      qy_subagents = \<lambda>ctx i k. stored (list_subagent_executions (env_at pf ctx) i k),
      qy_executions = \<lambda>ctx i agent k n. stored (list_runtime_executions (env_at pf ctx) i agent k n),
      qy_diagnostics = \<lambda>ctx i. stored (list_runtime_diagnostics (env_at pf ctx) i),
      qy_inventory = \<lambda>ctx i k. stored (list_runtime_inventory (env_at pf ctx) i k),
      qy_capabilities = \<lambda>ctx i. stored (list_runtime_capabilities (env_at pf ctx) i),
      qy_delegations = \<lambda>ctx i agent. stored (service_agent_delegations (get_persisted_agent (env_at pf ctx))
        (list_agent_delegations (env_at pf ctx)) i agent)\<rparr>"

definition server_control :: "('x, 'u) platform \<Rightarrow> server_plan \<Rightarrow> 'x server_state control_api" where
  "server_control pf plan =
     \<lparr>qk_reconcile = \<lambda>ctx agent access q. on_store (reconcile_access (server_control_ports pf plan ctx) agent access q),
      qk_status = \<lambda>ctx agent status q. on_store (set_agent_status (server_control_ports pf plan ctx) agent status q),
      qk_delete = \<lambda>ctx agent confirmation q. on_store (delete_agent (server_control_ports pf plan ctx) agent confirmation q),
      qk_cancel = \<lambda>ctx execution q. on_store (cancel_execution (server_control_ports pf plan ctx) execution q)\<rparr>"

definition server_telemetry :: "('x, 'u) platform \<Rightarrow> server_plan \<Rightarrow> 'x server_state telemetry_api" where
  "server_telemetry pf plan =
     \<lparr>qt_summary = \<lambda>ctx q. stored (summary (server_telemetry_ports pf plan ctx) q),
      qt_health = \<lambda>ctx i. stored (telemetry_health (server_telemetry_ports pf plan ctx) i),
      qt_ingest = \<lambda>ctx us. on_store (ingest (server_telemetry_ports pf plan ctx) us)\<rparr>"

text \<open>Without a database no service is configured.\<close>

definition server_config :: "('x, 'u) platform \<Rightarrow> config \<Rightarrow> server_plan \<Rightarrow> 'x server_state router_config" where
  "server_config pf cfg plan =
     (let with_db = (lp_pool plan \<noteq> None) in
      \<lparr>rt_version = cf_version cfg, rt_admin_token = xc_admin_token (cf_security cfg),
       rt_origins = xc_origins (cf_security cfg),
       rt_connections = (if with_db then Some (server_connections pf plan) else None),
       rt_secrets = (if with_db then Some (server_secret_api pf plan) else None),
       rt_sync = (if with_db then Some (server_sync pf plan) else None),
       rt_control = (if with_db then Some (server_control pf plan) else None),
       rt_telemetry = (if with_db then Some (server_telemetry pf plan) else None),
       rt_auth = (if with_db then Some (auth_api_of (server_auth_ports pf)) else None),
       rt_secure_cookies = xc_secure_cookies (cf_security cfg), rt_library = pf_api pf,
       rt_now = stored (now (pf_env pf))\<rparr>)"

definition server_handler :: "('x, 'u) platform \<Rightarrow> otlp_library \<Rightarrow> config \<Rightarrow> server_plan \<Rightarrow> 'x server_state handler" where
  "server_handler pf l cfg plan = new_router l (server_config pf cfg plan)"


section \<open>The workers\<close>

definition server_sync_worker ::
    "('x, 'u) platform \<Rightarrow> server_plan \<Rightarrow> 'x server_world sync_worker option" where
  "server_sync_worker pf plan =
     map_option (\<lambda>(period, slots, timeout).
       \<lparr>sk_config = new_worker period slots timeout, sk_list = connection_list (pf_env pf), sk_now = now (pf_env pf),
        sk_sync = \<lambda>ctx. sync (server_sync_ports pf plan ctx)\<rparr>) (lp_sync_worker plan)"

text \<open>The reader of a runtime runs in the context of its organisation, which \<open>collect_one\<close> has set.\<close>

definition server_readers ::
    "('x, 'u) platform \<Rightarrow> server_plan \<Rightarrow> (runtime_kind \<times> 'x server_world usage_reader) list" where
  "server_readers pf plan =
     [(KindGantry,
       \<lparr>rd_query = \<lambda>c. gantry_query_usage (server_transport pf plan (with_principal None (system_principal c))) c,
        rd_configured = None\<rparr>),
      (KindLangGraph,
       \<lparr>rd_query = \<lambda>c. langsmith_query_usage (server_transport pf plan (with_principal None (system_principal c))) c,
        rd_configured = Some langsmith_configured\<rparr>)]"

definition server_telemetry_worker ::
    "('x, 'u) platform \<Rightarrow> server_plan \<Rightarrow> 'x server_world telemetry_worker option" where
  "server_telemetry_worker pf plan =
     map_option (\<lambda>_.
       \<lparr>tw_list = connection_list (pf_env pf), tw_create = \<lambda>ctx. create_ingestion_run (env_at pf ctx),
        tw_finish = \<lambda>ctx. finish_ingestion_run (env_at pf ctx),
        tw_ingest = \<lambda>ctx. ingest (server_telemetry_ports pf plan ctx),
        tw_readers = server_readers pf plan, tw_now = now (pf_env pf)\<rparr>) (lp_telemetry_worker plan)"

end
