(* ===== verification/Tenant_View.thy ===== *)
theory Tenant_View
  imports Server
begin

text \<open>What one organisation can see of the database, and the reading calls that see no more.  \<open>tenant_view t\<close>
  removes the rows of every other organisation; a call is confined to \<open>t\<close> when it gives the same result on the
  view and leaves the view of what it leaves: it commutes with hiding the other rows.  The identities (users,
  memberships, organisations, sessions) are read before the organisation is known and stay.\<close>

section \<open>Calls that commute with a change of the world\<close>

definition commutes_at :: "('w \<Rightarrow> bool) \<Rightarrow> ('w \<Rightarrow> 'w) \<Rightarrow> ('w \<Rightarrow> 'r \<times> 'w) \<Rightarrow> 'w \<Rightarrow> bool" where
  "commutes_at ok h m w \<longleftrightarrow> m (h w) = apsnd h (m w) \<and> ok (snd (m w))"

definition commutes :: "('w \<Rightarrow> bool) \<Rightarrow> ('w \<Rightarrow> 'w) \<Rightarrow> ('w \<Rightarrow> 'r \<times> 'w) \<Rightarrow> bool" where
  "commutes ok h m \<longleftrightarrow> (\<forall>w. ok w \<longrightarrow> commutes_at ok h m w)"

named_theorems commutes_intros \<open>calls that commute with hiding rows\<close>

lemma commutesD: "commutes ok h m \<Longrightarrow> ok w \<Longrightarrow> commutes_at ok h m w"
  by (simp add: commutes_def)

lemma commutesI: "(\<And>w. ok w \<Longrightarrow> commutes_at ok h m w) \<Longrightarrow> commutes ok h m"
  by (simp add: commutes_def)

lemma commutes_at_result: "commutes_at ok h m w \<Longrightarrow> m w = (r, w') \<Longrightarrow> m (h w) = (r, h w') \<and> ok w'"
  by (simp add: commutes_at_def)

lemma commutes_at_seq:
  assumes "commutes_at ok h m w" and "\<And>x w'. m w = (Inr x, w') \<Longrightarrow> ok w' \<Longrightarrow> commutes_at ok h (f x) w'"
  shows "commutes_at ok h (seq m f) w"
proof -
  obtain r w' where m: "m w = (r, w')"
    by (cases "m w")
  with commutes_at_result [OF assms(1)] have h: "m (h w) = (r, h w')" "ok w'"
    by simp_all
  show ?thesis
  proof (cases r)
    case (Inl e)
    with m h show ?thesis
      by (simp add: commutes_at_def)
  next
    case (Inr x)
    with m h assms(2) [of x w'] show ?thesis
      by (simp add: commutes_at_def)
  qed
qed

lemma commutes_return [commutes_intros]: "commutes ok h (return x)" "commutes ok h (failing e)"
  by (simp_all add: commutes_def commutes_at_def)

lemma commutes_seq [commutes_intros]:
  "commutes ok h m \<Longrightarrow> (\<And>x. commutes ok h (f x)) \<Longrightarrow> commutes ok h (seq m f)"
  by (auto intro!: commutesI commutes_at_seq dest: commutesD)

lemma commutes_at_wrapping: "commutes_at ok h m w \<Longrightarrow> commutes_at ok h (wrapping p m) w"
  by (auto simp: commutes_at_def wrapping_def split: prod.splits sum.splits)

lemma commutes_wrapping [commutes_intros]: "commutes ok h m \<Longrightarrow> commutes ok h (wrapping p m)"
  by (auto intro!: commutesI commutes_at_wrapping dest: commutesD)

lemma commutes_if [commutes_intros]:
  "commutes ok h m \<Longrightarrow> commutes ok h n \<Longrightarrow> commutes ok h (if b then m else n)"
  by simp

lemma commutes_let [commutes_intros]: "commutes ok h (f x) \<Longrightarrow> commutes ok h (let y = x in f y)"
  by (simp add: Let_def)

lemma commutes_case_option [commutes_intros]:
  "commutes ok h m \<Longrightarrow> (\<And>x. commutes ok h (f x)) \<Longrightarrow> commutes ok h (case x of None \<Rightarrow> m | Some y \<Rightarrow> f y)"
  by (simp split: option.splits)

lemma commutes_case_sum [commutes_intros]:
  "(\<And>e. commutes ok h (f e)) \<Longrightarrow> (\<And>x. commutes ok h (g x)) \<Longrightarrow> commutes ok h (case r of Inl e \<Rightarrow> f e | Inr x \<Rightarrow> g x)"
  by (simp split: sum.splits)

lemma commutes_case_prod [commutes_intros]:
  "(\<And>a b. commutes ok h (f a b)) \<Longrightarrow> commutes ok h (case p of (a, b) \<Rightarrow> f a b)"
  by (simp split: prod.splits)

lemma commutes_then:
  assumes "commutes ok h m" and "\<And>x. commutes ok h (f x)"
  shows "commutes ok h (\<lambda>w. case m w of (x, w) \<Rightarrow> f x w)"
  unfolding commutes_def
proof (intro allI impI)
  fix w
  assume "ok w"
  with assms(1) have m: "commutes_at ok h m w"
    by (rule commutesD)
  obtain x w' where x: "m w = (x, w')"
    by (cases "m w")
  with commutes_at_result [OF m x] commutesD [OF assms(2), of w' x]
  show "commutes_at ok h (\<lambda>w. case m w of (x, w) \<Rightarrow> f x w) w"
    by (simp add: commutes_at_def)
qed

lemma commutes_answer: "commutes ok h m \<Longrightarrow> commutes ok h (answer e s v m)"
  by (auto simp: commutes_def commutes_at_def answer_def split: prod.splits sum.splits)


section \<open>The view\<close>

definition owns :: "string \<Rightarrow> db \<Rightarrow> string \<Rightarrow> bool" where
  "owns t d cid \<longleftrightarrow> list_ex (\<lambda>c. rc_id (cr_conn c) = cid \<and> rc_org (cr_conn c) = t) (db_conns d)"

definition owns_agent :: "string \<Rightarrow> db \<Rightarrow> string \<Rightarrow> bool" where
  "owns_agent t d a \<longleftrightarrow> list_ex (\<lambda>b. bd_agent b = a \<and> owns t d (bd_conn b)) (db_bindings d)"

definition owns_skill :: "string \<Rightarrow> db \<Rightarrow> string \<Rightarrow> bool" where
  "owns_skill t d s \<longleftrightarrow> list_ex (\<lambda>b. kb_skill b = s \<and> owns_agent t d (kb_agent b)) (db_skill_bindings d)"

definition tenant_view :: "string \<Rightarrow> db \<Rightarrow> db" where
  "tenant_view t d = d\<lparr>
     db_conns := filter (\<lambda>c. rc_org (cr_conn c) = t) (db_conns d),
     db_endpoints := filter (\<lambda>r. owns t d (ep_conn (er_endpoint r))) (db_endpoints d),
     db_runs := filter (\<lambda>r. owns t d (run_conn r)) (db_runs d),
     db_agents := filter (\<lambda>a. owns_agent t d (ag_id a)) (db_agents d),
     db_bindings := filter (\<lambda>b. owns t d (bd_conn b)) (db_bindings d),
     db_skills := filter (\<lambda>s. owns_skill t d (ks_id s)) (db_skills d),
     db_skill_bindings := filter (\<lambda>b. owns_agent t d (kb_agent b)) (db_skill_bindings d),
     db_access := filter (\<lambda>r. owns t d (aa_conn r)) (db_access d),
     db_executions := filter (\<lambda>r. owns t d (xr_conn r)) (db_executions d),
     db_subagents := filter (\<lambda>r. owns t d (sr_conn r)) (db_subagents d),
     db_diagnostics := filter (\<lambda>r. owns t d (gr_conn r)) (db_diagnostics d),
     db_inventory := filter (\<lambda>r. owns t d (ir_conn r)) (db_inventory d),
     db_catalog := filter (\<lambda>r. owns t d (pr_conn r)) (db_catalog d),
     db_delegations := filter (\<lambda>r. owns t d (dr_conn r)) (db_delegations d),
     db_actions := filter (\<lambda>r. cx_org r = t) (db_actions d),
     db_audits := filter (\<lambda>r. ur_org r = t) (db_audits d),
     db_secrets := filter (\<lambda>r. st_org r = t) (db_secrets d),
     db_usage := filter (\<lambda>r. ug_org r = t \<or> owns t d (uo_conn (ug_observation r))) (db_usage d),
     db_ingestions := filter (\<lambda>r. tr_org r = t \<or> owns t d (ti_conn (tr_run r))) (db_ingestions d)\<rparr>"

text \<open>The primary key of connections, and the one binding of an agent.\<close>

definition keys_ok :: "db \<Rightarrow> bool" where
  "keys_ok d \<longleftrightarrow> distinct (map (\<lambda>c. rc_id (cr_conn c)) (db_conns d)) \<and> distinct (map bd_agent (db_bindings d))"

definition hide :: "string \<Rightarrow> 'x server_world \<Rightarrow> 'x server_world" where
  "hide t w = w\<lparr>w_db := tenant_view t (w_db w)\<rparr>"

abbreviation keys :: "'x server_world \<Rightarrow> bool" where
  "keys w \<equiv> keys_ok (w_db w)"

lemma hide_simps [simp]:
  "w_db (hide t w) = tenant_view t (w_db w)" "w_step (hide t w) = w_step w" "w_locks (hide t w) = w_locks w"
  "w_runtime (hide t w) = w_runtime w" "hide t (tick w) = tick (hide t w)"
  by (simp_all add: hide_def tick_def)

lemma view_simps [simp]:
  "db_conns (tenant_view t d) = filter (\<lambda>c. rc_org (cr_conn c) = t) (db_conns d)"
  "db_endpoints (tenant_view t d) = filter (\<lambda>r. owns t d (ep_conn (er_endpoint r))) (db_endpoints d)"
  "db_runs (tenant_view t d) = filter (\<lambda>r. owns t d (run_conn r)) (db_runs d)"
  "db_agents (tenant_view t d) = filter (\<lambda>a. owns_agent t d (ag_id a)) (db_agents d)"
  "db_bindings (tenant_view t d) = filter (\<lambda>b. owns t d (bd_conn b)) (db_bindings d)"
  "db_skills (tenant_view t d) = filter (\<lambda>s. owns_skill t d (ks_id s)) (db_skills d)"
  "db_skill_bindings (tenant_view t d) = filter (\<lambda>b. owns_agent t d (kb_agent b)) (db_skill_bindings d)"
  "db_access (tenant_view t d) = filter (\<lambda>r. owns t d (aa_conn r)) (db_access d)"
  "db_executions (tenant_view t d) = filter (\<lambda>r. owns t d (xr_conn r)) (db_executions d)"
  "db_subagents (tenant_view t d) = filter (\<lambda>r. owns t d (sr_conn r)) (db_subagents d)"
  "db_diagnostics (tenant_view t d) = filter (\<lambda>r. owns t d (gr_conn r)) (db_diagnostics d)"
  "db_inventory (tenant_view t d) = filter (\<lambda>r. owns t d (ir_conn r)) (db_inventory d)"
  "db_catalog (tenant_view t d) = filter (\<lambda>r. owns t d (pr_conn r)) (db_catalog d)"
  "db_delegations (tenant_view t d) = filter (\<lambda>r. owns t d (dr_conn r)) (db_delegations d)"
  "db_secrets (tenant_view t d) = filter (\<lambda>r. st_org r = t) (db_secrets d)"
  "db_usage (tenant_view t d) = filter (\<lambda>r. ug_org r = t \<or> owns t d (uo_conn (ug_observation r))) (db_usage d)"
  "db_ingestions (tenant_view t d) = filter (\<lambda>r. tr_org r = t \<or> owns t d (ti_conn (tr_run r))) (db_ingestions d)"
  "db_users (tenant_view t d) = db_users d" "db_organizations (tenant_view t d) = db_organizations d"
  "db_members (tenant_view t d) = db_members d" "db_sessions (tenant_view t d) = db_sessions d"
  by (simp_all add: tenant_view_def)

text \<open>The statements a scoped call consists of.\<close>

lemma commutes_at_query:
  "q (tenant_view t (w_db w)) = q (w_db w) \<Longrightarrow> keys w \<Longrightarrow> commutes_at keys (hide t) (query env q) w"
  by (simp add: commutes_at_def query_def split: option.split)

lemma commutes_query:
  "(\<And>d. keys_ok d \<Longrightarrow> q (tenant_view t d) = q d) \<Longrightarrow> commutes keys (hide t) (query env q)"
  by (simp add: commutes_def commutes_at_query)

lemma commutes_query_row:
  "(\<And>d. keys_ok d \<Longrightarrow> q (tenant_view t d) = q d) \<Longrightarrow> commutes keys (hide t) (query_row env q)"
  unfolding query_row_def by (intro commutes_intros commutes_query)

lemma commutes_query_now:
  "(\<And>s d. keys_ok d \<Longrightarrow> q s (tenant_view t d) = q s d) \<Longrightarrow> commutes keys (hide t) (query_now env q)"
  by (simp add: commutes_def query_now_def commutes_at_def query_def split: option.split)

lemma commutes_now [commutes_intros]: "commutes keys (hide t) (now env)"
  by (simp add: commutes_def commutes_at_def now_def)

lemma commutes_outside [commutes_intros]: "commutes keys (hide t) (outside m)"
  by (auto simp: commutes_def commutes_at_def outside_def hide_def split: prod.splits)

lemma owns_view [simp]: "owns t (tenant_view t d) cid = owns t d cid"
  by (auto simp: owns_def list_ex_iff)

lemma find_filter: "(\<And>x. x \<in> set xs \<Longrightarrow> P x \<Longrightarrow> Q x) \<Longrightarrow> List.find P (filter Q xs) = List.find P xs"
  by (induction xs) auto

lemma filter_within: "(\<And>x. x \<in> set xs \<Longrightarrow> P x \<Longrightarrow> Q x) \<Longrightarrow> filter P (filter Q xs) = filter P xs"
  by (induction xs) auto

lemma concat_filter: "(\<And>x. x \<in> set xs \<Longrightarrow> \<not> P x \<Longrightarrow> f x = []) \<Longrightarrow> concat (map f (filter P xs)) = concat (map f xs)"
  by (induction xs) auto

end
