(* ===== verification/Tenant_Reads.thy ===== *)
theory Tenant_Reads
  imports Tenant_View
begin

text \<open>The reading calls of the repositories and of the adapters are confined to the organisation of their
  context.\<close>

section \<open>What a scoped condition sees\<close>

definition scoped_to :: "string \<Rightarrow> env \<Rightarrow> bool" where
  "scoped_to t env \<longleftrightarrow> t \<noteq> '''' \<and> tenant env = t"

lemma owns_iff: "owns t d cid \<longleftrightarrow> (\<exists>c\<in>set (db_conns d). rc_id (cr_conn c) = cid \<and> rc_org (cr_conn c) = t)"
  by (simp add: owns_def list_ex_iff)

lemma owns_agentI: "b \<in> set (db_bindings d) \<Longrightarrow> owns t d (bd_conn b) \<Longrightarrow> owns_agent t d (bd_agent b)"
  by (auto simp: owns_agent_def list_ex_iff)

lemma owns_skillI: "b \<in> set (db_skill_bindings d) \<Longrightarrow> owns_agent t d (kb_agent b) \<Longrightarrow> owns_skill t d (kb_skill b)"
  by (auto simp: owns_skill_def list_ex_iff)

lemma in_tenant: "scoped_to t env \<Longrightarrow> conn_in_tenant env d cid \<longleftrightarrow> owns t d cid"
  by (auto simp: scoped_to_def conn_in_tenant_def owns_iff)

lemma allowed: "scoped_to t env \<Longrightarrow> tenant_allows (tenant env) org \<longleftrightarrow> org = t"
  by (simp add: scoped_to_def tenant_allows_def)

lemma visible_list:
  assumes "distinct (map (\<lambda>c. rc_id (cr_conn c)) cs)"
  shows "(case List.find (\<lambda>c. rc_id (cr_conn c) = cid) (filter (\<lambda>c. rc_org (cr_conn c) = t) cs) of
      None \<Rightarrow> None | Some c \<Rightarrow> if rc_org (cr_conn c) = t then Some (cr_conn c) else None) =
    (case List.find (\<lambda>c. rc_id (cr_conn c) = cid) cs of
      None \<Rightarrow> None | Some c \<Rightarrow> if rc_org (cr_conn c) = t then Some (cr_conn c) else None)"
  using assms
proof (induction cs)
  case (Cons c cs)
  show ?case
  proof (cases "rc_id (cr_conn c) = cid")
    case True
    have "List.find (\<lambda>c. rc_id (cr_conn c) = cid) (filter (\<lambda>c. rc_org (cr_conn c) = t) cs) = None"
      using Cons.prems True unfolding find_None_iff by (force simp: image_iff)
    with True show ?thesis
      by simp
  next
    case False
    with Cons show ?thesis
      by simp
  qed
qed simp

lemma visible:
  assumes "scoped_to t env" and "keys_ok d"
  shows "conn_visible env (tenant_view t d) cid = conn_visible env d cid"
  unfolding conn_visible_def conn_row_def allowed [OF assms(1)]
  using visible_list [where cs = "db_conns d" and t = t and cid = cid] assms(2) by (simp add: keys_ok_def)

lemma visible_owns: "scoped_to t env \<Longrightarrow> conn_visible env d cid \<noteq> None \<Longrightarrow> owns t d cid"
  by (auto simp: conn_visible_def conn_row_def allowed owns_iff dest!: find_SomeD split: option.splits if_splits)


section \<open>Repositories\<close>

lemmas scoped_rules = in_tenant allowed conj_ac

lemma commutes_run_reads:
  assumes "scoped_to t env"
  shows "commutes keys (hide t) (list_runs env i n)" "commutes keys (hide t) (get_run env i k)"
  unfolding list_runs_def get_run_def using assms
  by (auto intro!: commutes_intros commutes_query commutes_query_row find_filter simp: scoped_rules)

lemma commutes_row_reads:
  assumes "scoped_to t env"
  shows "commutes keys (hide t) (list_runtime_executions env i a k n)"
    "commutes keys (hide t) (list_subagent_executions env i '''')"
    "commutes keys (hide t) (list_runtime_diagnostics env i)" "commutes keys (hide t) (list_runtime_inventory env i k)"
    "commutes keys (hide t) (list_runtime_capabilities env i)"
    "commutes keys (hide t) (list_agent_delegations env i k)"
  unfolding list_runtime_executions_def list_subagent_executions_def list_runtime_diagnostics_def
    list_runtime_inventory_def list_runtime_capabilities_def list_agent_delegations_def using assms
  by (auto intro!: commutes_intros commutes_query simp: scoped_rules)

lemma active_owned: "scoped_to t env \<Longrightarrow> active_in_tenant env r \<Longrightarrow> rc_org (cr_conn r) = t"
  by (simp add: active_in_tenant_def allowed)

lemma find_active_view: "scoped_to t env \<Longrightarrow> find_active env cid (tenant_view t d) = find_active env cid d"
  by (auto simp: find_active_def intro!: arg_cong [where f = "map_option cr_conn"] find_filter dest: active_owned)

lemma find_active_owns: "scoped_to t env \<Longrightarrow> find_active env cid d = Some c \<Longrightarrow> owns t d (rc_id c)"
  by (force simp: find_active_def owns_iff dest: find_SomeD active_owned)

lemma commutes_at_endpoints:
  assumes "owns t (w_db w) (rc_id c)" and "keys w"
  shows "commutes_at keys (hide t) (list_endpoints env (rc_id c)) w"
  unfolding list_endpoints_def using assms
  by (intro commutes_at_wrapping commutes_at_query) (auto simp: endpoints_of_def conj_ac intro!: arg_cong [where f = "map _"] arg_cong [where f = "sort_key _"] filter_cong)

lemma commutes_connection_get:
  assumes "scoped_to t env"
  shows "commutes keys (hide t) (connection_get env cid)"
proof (rule commutesI)
  fix w :: "'a server_world"
  assume "keys w"
  moreover have "commutes keys (hide t) (wrapping ''get runtime connection: '' (query_row env (find_active env cid)))"
    by (intro commutes_intros commutes_query_row) (simp add: find_active_view assms)
  ultimately show "commutes_at keys (hide t) (connection_get env cid) w"
    unfolding connection_get_def
    by (intro commutes_at_seq commutes_at_endpoints)
       (auto simp: wrapping_Inr_iff find_active_owns [OF assms] commutes_at_def dest: commutesD query_row_Inr)
qed

lemma commutes_at_with_endpoints:
  assumes "list_all (\<lambda>c. owns t d (rc_id c)) cs" and "w_db w = d" and "keys w"
  shows "commutes_at keys (hide t) (with_endpoints env cs) w"
  using assms
proof (induction cs arbitrary: w)
  case Nil
  then show ?case
    by (simp add: commutes_at_def)
next
  case (Cons c cs)
  have "w_db w' = d" if "list_endpoints env (rc_id c) w = (Inr es, w')" for es w'
    using that Cons.prems(2) by (auto simp: list_endpoints_def wrapping_Inr_iff dest: query_Inr)
  then show ?case
    unfolding with_endpoints.simps using Cons
    by (intro commutes_at_seq commutes_at_endpoints) (auto simp: commutes_at_def)
qed

lemma commutes_connection_list:
  assumes "scoped_to t env"
  shows "commutes keys (hide t) (connection_list env)"
proof (rule commutesI)
  fix w :: "'a server_world"
  assume k: "keys w"
  let ?q = "\<lambda>d. map cr_conn (filter (active_in_tenant env) (db_conns d))"
  have "commutes_at keys (hide t) (query env ?q) w"
    using k by (intro commutes_at_query)
      (auto intro!: arg_cong [where f = "map cr_conn"] filter_cong dest: active_owned [OF assms])
  moreover have "list_all (\<lambda>c. owns t (w_db w) (rc_id c)) (?q (w_db w))"
    using active_owned [OF assms] by (auto simp: list_all_iff owns_iff)
  ultimately show "commutes_at keys (hide t) (connection_list env) w"
    unfolding connection_list_def
    by (intro commutes_at_seq commutes_at_wrapping)
       (auto simp: wrapping_Inr_iff intro!: commutes_at_with_endpoints dest: query_Inr)
qed

text \<open>An agent that the listing of an organisation holds has a binding to one of its runtimes.\<close>

lemma persisted_agents_view:
  assumes "scoped_to t env"
  shows "persisted_agents env runtime s (tenant_view t d) = persisted_agents env runtime s d"
proof -
  let ?c = "\<lambda>a b. map (\<lambda>c. persisted_agent_of s a b (cr_conn c))
      (filter (\<lambda>c. rc_id (cr_conn c) = bd_conn b \<and> cr_archived_at c = None \<and>
         tenant_allows (tenant env) (rc_org (cr_conn c))) (db_conns d))"
  let ?b = "\<lambda>a. concat (map (?c a) (filter (\<lambda>b. bd_agent b = ag_id a \<and> (runtime = '''' \<or> bd_conn b = runtime)) (db_bindings d)))"
  have c: "?c a b = []" if "\<not> owns t d (bd_conn b)" for a b
    using that assms by (auto simp: filter_empty_conv allowed owns_iff)
  have b: "?b a = []" if "\<not> owns_agent t d (ag_id a)" for a
  proof -
    have "\<not> owns t d (bd_conn x)" if "x \<in> set (db_bindings d)" "bd_agent x = ag_id a" for x
      using that \<open>\<not> owns_agent t d (ag_id a)\<close> owns_agentI [of x d t] by auto
    with c show ?thesis
      by auto
  qed
  have "persisted_agents env runtime s (tenant_view t d) =
      concat (map (\<lambda>a. concat (map (?c a)
        (filter (\<lambda>b. owns t d (bd_conn b)) (filter (\<lambda>b. bd_agent b = ag_id a \<and> (runtime = '''' \<or> bd_conn b = runtime))
           (db_bindings d))))) (filter (\<lambda>a. owns_agent t d (ag_id a)) (db_agents d)))"
    by (simp add: persisted_agents_def allowed [OF assms] conj_ac)
  also have "\<dots> = concat (map ?b (filter (\<lambda>a. owns_agent t d (ag_id a)) (db_agents d)))"
    using c by (subst concat_filter) auto
  also have "\<dots> = concat (map ?b (db_agents d))"
    using b by (intro concat_filter) auto
  finally show ?thesis
    by (simp add: persisted_agents_def)
qed

lemma persisted_agent_owned:
  "scoped_to t env \<Longrightarrow> a \<in> set (persisted_agents env runtime s d) \<Longrightarrow> owns t d (pa_conn a) \<and> owns_agent t d (pa_id a)"
  by (auto simp: persisted_agents_def persisted_agent_of_def allowed owns_iff owns_agent_def list_ex_iff)

lemma commutes_list_agents:
  "scoped_to t env \<Longrightarrow> commutes keys (hide t) (list_persisted_agents env runtime)"
  unfolding list_persisted_agents_def
  by (intro commutes_intros commutes_query_now) (rule persisted_agents_view)

lemma listed_agents_owned:
  assumes "scoped_to t env" and "list_persisted_agents env runtime w = (Inr as, w')" and "a \<in> set as"
  shows "w_db w' = w_db w \<and> owns t (w_db w) (pa_conn a) \<and> owns_agent t (w_db w) (pa_id a)"
  using assms persisted_agent_owned [OF assms(1)]
  by (auto simp: list_persisted_agents_def wrapping_Inr_iff query_now_def dest!: query_Inr)

lemma agent_skills_view: "owns_agent t d a \<Longrightarrow> agent_skills a (tenant_view t d) = agent_skills a d"
proof -
  assume a: "owns_agent t d a"
  have "filter (\<lambda>s. ks_id s = kb_skill kb) (filter (\<lambda>s. owns_skill t d (ks_id s)) (db_skills d)) =
      filter (\<lambda>s. ks_id s = kb_skill kb) (db_skills d)" if "kb \<in> set (db_skill_bindings d)" "kb_agent kb = a" for kb
    using that a by (intro filter_within) (auto dest: owns_skillI)
  moreover have "filter (\<lambda>kb. kb_agent kb = a) (db_skill_bindings (tenant_view t d)) =
      filter (\<lambda>kb. kb_agent kb = a) (db_skill_bindings d)"
    unfolding view_simps using a by (intro filter_within) auto
  ultimately show ?thesis
    by (auto simp: agent_skills_def simp del: filter_filter intro!: arg_cong [where f = concat])
qed

lemma commutes_get_agent:
  assumes "scoped_to t env"
  shows "commutes keys (hide t) (get_persisted_agent env agent)"
proof (rule commutesI)
  fix w :: "'a server_world"
  assume k: "keys w"
  show "commutes_at keys (hide t) (get_persisted_agent env agent) w"
    unfolding get_persisted_agent_def
  proof (rule commutes_at_seq)
    show "commutes_at keys (hide t) (list_persisted_agents env '''') w"
      using commutes_list_agents [OF assms] k by (rule commutesD)
  next
    fix as w'
    assume l: "list_persisted_agents env '''' w = (Inr as, w')" and k': "keys w'"
    let ?skills = "wrapping ''list persisted agent skills: '' (query env (agent_skills agent))"
    let ?access = "\<lambda>a. wrapping ''get persisted access: ''
        (query env (\<lambda>d. List.find (\<lambda>r. aa_agent r = agent \<and> aa_conn r = pa_conn a) (db_access d)))"
    let ?detail = "\<lambda>a skills access. return \<lparr>ad_agent = a, ad_skills = skills,
        ad_access = (case access of None \<Rightarrow> no_access | Some r \<Rightarrow> aa_access r)\<rparr>"
    have "commutes_at keys (hide t) (seq ?skills (\<lambda>skills. seq (?access a) (\<lambda>access. ?detail a skills access))) w'"
      if "List.find (\<lambda>a. pa_id a = agent) as = Some a" for a
    proof -
      have a: "a \<in> set as" "pa_id a = agent"
        using that by (auto dest: find_SomeD)
      from listed_agents_owned [OF assms l a(1)] a(2)
      have o: "owns t (w_db w') (pa_conn a)" "owns_agent t (w_db w') agent"
        by simp_all
      then have "commutes_at keys (hide t) ?skills w'"
        using k' by (intro commutes_at_wrapping commutes_at_query agent_skills_view)
      moreover have "commutes_at keys (hide t) (?access a) w''" if "w_db w'' = w_db w'" "keys w''" for w'' :: "'a server_world"
        using that o by (intro commutes_at_wrapping commutes_at_query) (auto intro!: find_filter)
      ultimately show ?thesis
        by (intro commutes_at_seq)
           (auto simp: commutes_at_def wrapping_Inr_iff dest: query_Inr)
    qed
    then show "commutes_at keys (hide t) (case List.find (\<lambda>a. pa_id a = agent) as of
        None \<Rightarrow> failing (Sentinel NoRows)
      | Some a \<Rightarrow> seq ?skills (\<lambda>skills. seq (?access a) (\<lambda>access. ?detail a skills access))) w'"
      using k' by (auto simp: commutes_at_def split: option.split)
  qed
qed

lemma commutes_service_agent: "scoped_to t env \<Longrightarrow> commutes keys (hide t) (get_agent (get_persisted_agent env) i)"
  unfolding get_agent_def by (intro commutes_intros commutes_get_agent)

lemma commutes_service_delegations:
  "scoped_to t env \<Longrightarrow> commutes keys (hide t)
     (service_agent_delegations (get_persisted_agent env) (list_agent_delegations env) i agent)"
  unfolding service_agent_delegations_def
  by (intro commutes_intros commutes_service_agent commutes_row_reads)


section \<open>Usage\<close>

lemma in_scope_view:
  "scoped_to t env \<Longrightarrow> keys_ok d \<Longrightarrow> in_scope env q (tenant_view t d) u = in_scope env q d u"
  by (simp add: in_scope_def visible)

lemma scoped_view:
  assumes "scoped_to t env" and "keys_ok d"
  shows "scoped env q (tenant_view t d) = scoped env q d"
proof -
  let ?us = "filter (in_scope env q d) (map ug_observation (db_usage d))"
  have o: "owns t d (uo_conn u)" if "in_scope env q d u" for u
    using that by (auto simp: in_scope_def intro: visible_owns [OF assms(1)])
  then have "filter (in_scope env q (tenant_view t d)) (map ug_observation (db_usage (tenant_view t d))) = ?us"
    by (auto simp: in_scope_view [OF assms] filter_map comp_def intro!: arg_cong [where f = "map ug_observation"] filter_cong)
  moreover have "joined_bindings (tenant_view t d) u = joined_bindings d u" if "u \<in> set ?us" for u
  proof -
    have "filter (\<lambda>b. bd_conn b = uo_conn u \<and> bd_runtime_agent b = uo_agent u)
        (filter (\<lambda>b. owns t d (bd_conn b)) (db_bindings d)) =
      filter (\<lambda>b. bd_conn b = uo_conn u \<and> bd_runtime_agent b = uo_agent u) (db_bindings d)"
      using that o [of u] by (intro filter_within) auto
    then show ?thesis
      unfolding joined_bindings_def view_simps by (rule arg_cong)
  qed
  ultimately show ?thesis
    unfolding scoped_def by (auto intro!: arg_cong [where f = concat])
qed

lemma selected_view:
  "scoped_to t env \<Longrightarrow> keys_ok d \<Longrightarrow> selected env q (tenant_view t d) = selected env q d"
  by (simp add: selected_def scoped_view)

lemma one_binding: "keys_ok d \<Longrightarrow> \<not> several_bindings q d"
proof -
  assume "keys_ok d"
  moreover have "distinct (map bd_agent bs) \<Longrightarrow> length (filter (\<lambda>b. bd_agent b = a) bs) \<le> 1"
    for a and bs :: "binding_row list"
    by (induction bs) (auto simp: filter_empty_conv intro: rev_image_eqI)
  ultimately have "length (filter (\<lambda>b. bd_agent b = uq_agent q) (db_bindings d)) \<le> 1"
    by (simp add: keys_ok_def)
  then show ?thesis
    by (simp add: several_bindings_def)
qed

lemma keys_ok_view: "keys_ok d \<Longrightarrow> keys_ok (tenant_view t d)"
  by (simp add: keys_ok_def distinct_map_filter)

lemma configured_view:
  assumes "scoped_to t env"
  shows "(\<exists>r\<in>set (db_ingestions (tenant_view t d)). configured_row env q (tenant_view t d) r) \<longleftrightarrow>
    (\<exists>r\<in>set (db_ingestions d). configured_row env q d r)"
proof -
  have "configured_row env q (tenant_view t d) r = configured_row env q d r" for r
    by (auto simp: configured_row_def in_tenant [OF assms])
  moreover have "owns t d (ti_conn (tr_run r))" if "configured_row env q d r" for r
    using that by (simp add: configured_row_def in_tenant [OF assms])
  ultimately show ?thesis
    by auto
qed

lemma commutes_summary:
  assumes "scoped_to t env"
  shows "commutes keys (hide t) (usage_summary_of env q)"
  unfolding usage_summary_of_def telemetry_configured_def model_breakdown_def time_series_def Let_def
  by (intro commutes_intros commutes_query)
     (simp_all only: selected_view [OF assms] configured_view [OF assms] one_binding keys_ok_view)

lemma commutes_health:
  assumes "scoped_to t env"
  shows "commutes keys (hide t) (latest_ingestion_run env cid)"
proof -
  have "filter (\<lambda>r. ti_conn (tr_run r) = cid \<and> tr_org r = t)
      (filter (\<lambda>r. tr_org r = t \<or> owns t d (ti_conn (tr_run r))) (db_ingestions d)) =
    filter (\<lambda>r. ti_conn (tr_run r) = cid \<and> tr_org r = t) (db_ingestions d)" for d
    by (intro filter_within) auto
  moreover have "filter (\<lambda>r. uo_conn (ug_observation r) = cid \<and> ug_org r = t)
      (filter (\<lambda>r. ug_org r = t \<or> owns t d (uo_conn (ug_observation r))) (db_usage d)) =
    filter (\<lambda>r. uo_conn (ug_observation r) = cid \<and> ug_org r = t) (db_usage d)" for d
    by (intro filter_within) auto
  ultimately show ?thesis
    unfolding latest_ingestion_run_def
    by (intro commutes_intros commutes_query)
       (simp_all add: latest_run_def observed_health_def allowed [OF assms] del: filter_filter split: option.split prod.split)
qed


section \<open>Credentials and sessions\<close>

lemma commutes_not_found: "commutes ok h m \<Longrightarrow> commutes ok h (not_found m)"
proof (rule commutesI)
  fix w
  assume "commutes ok h m" and "ok w"
  then have "commutes_at ok h m w"
    by (rule commutesD)
  then show "commutes_at ok h (not_found m) w"
    by (auto simp: commutes_at_def not_found_def split: prod.splits sum.splits)
qed

lemma commutes_resolve:
  assumes "scoped_to t env"
  shows "commutes keys (hide t) (resolve_secret (secret_store_ports env c) ref)"
proof -
  have "organization_for_write env = t"
    using assms by (simp add: scoped_to_def organization_for_write_def)
  then have "commutes keys (hide t) (secret_ciphertext env name)" for name
    unfolding secret_ciphertext_def
    by (intro commutes_intros commutes_query_row) (auto simp: has_secret_def intro!: arg_cong [where f = "map_option st_cipher"] find_filter)
  then show ?thesis
    unfolding resolve_secret_def Let_def secret_store_ports_simps
    by (intro commutes_intros commutes_not_found)
qed

text \<open>A session is found among all, and touching it changes no row of an organisation.\<close>

lemma touch_view: "touch_session sid s (tenant_view t d) = tenant_view t (touch_session sid s d)"
proof -
  have o: "owns t (touch_session sid s d) = owns t d"
    by (simp add: fun_eq_iff owns_def touch_session_def)
  moreover have "owns_agent t (touch_session sid s d) = owns_agent t d"
    using o by (simp add: fun_eq_iff owns_agent_def) (simp add: touch_session_def)
  moreover from this have "owns_skill t (touch_session sid s d) = owns_skill t d"
    by (simp add: fun_eq_iff owns_skill_def) (simp add: touch_session_def)
  ultimately show ?thesis
    by (simp add: tenant_view_def) (simp add: touch_session_def)
qed

lemma touch_keys [simp]: "keys_ok (touch_session sid s d) = keys_ok d"
  by (simp add: keys_ok_def touch_session_def)

lemma commutes_touch:
  "commutes keys (hide t) (\<lambda>w. (Inr p, snd (exec_now env (touch_session sid) w)))"
  by (auto simp: commutes_def commutes_at_def exec_now_def exec_def hide_def tick_def touch_view split: option.split)

lemma commutes_find_session: "commutes keys (hide t) (find_session env token)"
proof -
  have "session_rows token s (tenant_view t d) = session_rows token s d" for s d
    by (simp add: session_rows_def)
  then show ?thesis
    unfolding find_session_def
    by (auto intro!: commutes_intros commutes_query_now commutes_touch split: list.split)
qed

lemma commutes_authenticate: "commutes keys (hide t) (authenticate (auth_store_ports env l dummy) token)"
proof (rule commutesI)
  fix w :: "'a server_world"
  assume "keys w"
  with commutes_find_session [of t env "al_sha256 l token"]
  have "commutes_at keys (hide t) (find_session env (al_sha256 l token)) w"
    by (rule commutesD)
  with \<open>keys w\<close> show "commutes_at keys (hide t) (authenticate (auth_store_ports env l dummy) token) w"
    by (auto simp: commutes_at_def authenticate_def split: prod.splits sum.splits)
qed


section \<open>Adapters\<close>

text \<open>A transport whose requests, clock and credentials commute.\<close>

definition blind :: "('w \<Rightarrow> bool) \<Rightarrow> ('w \<Rightarrow> 'w) \<Rightarrow> ('w, 'u) transport \<Rightarrow> bool" where
  "blind ok h t \<longleftrightarrow> (\<forall>c. commutes ok h (ht_do t c)) \<and> commutes ok h (ht_clock t) \<and>
     (\<forall>resolve ref. ht_resolve t = Some resolve \<longrightarrow> commutes ok h (resolve ref))"

lemma commutes_current_time: "blind ok h t \<Longrightarrow> commutes ok h (current_time t)"
  unfolding blind_def commutes_def commutes_at_def
  by (auto simp: current_time_def split: prod.splits)

lemma commutes_do_json: "blind ok h t \<Longrightarrow> commutes ok h (do_json pt t conn verb path body decode)"
  unfolding do_json_def checked_request_def send_request_def resolve_credential_def
  by (auto simp: blind_def intro!: commutes_intros split: sum.split option.split)

lemma commutes_read_pages:
  "(\<And>n. commutes ok h (page n)) \<Longrightarrow> commutes ok h (read_pages page fuel n acc)"
  by (induction fuel arbitrary: n acc) (auto intro!: commutes_intros)

lemmas commutes_calls = commutes_intros commutes_current_time commutes_do_json commutes_read_pages

lemma commutes_live_reads:
  assumes "blind ok h t"
  shows "commutes ok h (gantry_list_agents t conn)" "commutes ok h (gantry_list_skills t conn agent)"
    "commutes ok h (gantry_get_access t conn agent)" "commutes ok h (langgraph_list_agents t conn)"
    "commutes ok h (langgraph_list_skills t conn agent)" "commutes ok h (langgraph_get_access t conn agent)"
  using assms
  by (auto simp: gantry_list_agents_def gantry_list_skills_def gantry_get_access_def langgraph_list_agents_def
      langgraph_list_skills_def langgraph_get_access_def list_assistants_def assistant_page_def case_prod_unfold Let_def
      intro!: commutes_calls split: option.splits)

end
