(* ===== verification/Server_Reads.thy ===== *)
theory Server_Reads
  imports Tenant_Reads
begin

text \<open>The server meets the contracts of its parts: the reading calls of its services keep the stored data
  (interpretation \<open>safe\<close> of \<open>read_calls\<close>) and are confined to the organisation of the session
  (interpretation \<open>confined\<close>), and its synchronisation service meets \<open>sync_contract\<close> with the adapters of the
  server in place (interpretation \<open>server\<close>).\<close>

section \<open>What the calls of the server keep\<close>

text \<open>Everything but the time a session was last used.\<close>

definition settled :: "db \<Rightarrow> db" where
  "settled d = d\<lparr>db_sessions := map (\<lambda>s. s\<lparr>sv_last_seen := 0, sv_idle := 0\<rparr>) (db_sessions d)\<rparr>"

definition store_kept :: "'x server_world \<Rightarrow> db \<times> int list" where
  "store_kept w = (settled (w_db w), w_locks w)"

definition state_kept :: "'x server_state \<Rightarrow> (db \<times> int list) \<times> limiter" where
  "state_kept w = (store_kept (aw_store w), aw_limiter w)"

lemma keeps_pair_call: "keeps obs (Pair r)"
  by (simp add: keeps_def)

lemma keeps_stored: "keeps store_kept m \<Longrightarrow> keeps state_kept (stored m)"
  by (auto simp: keeps_def state_kept_def stored_def split: prod.splits) (metis snd_conv)

lemma keeps_store: "keeps (\<lambda>w. settled (w_db w)) m \<Longrightarrow> keeps w_locks m \<Longrightarrow> keeps store_kept m"
  unfolding store_kept_def [abs_def] by (rule keeps_pair)

lemma keeps_repository_reads:
  "keeps store_kept (connection_get env i)" "keeps store_kept (list_runs env i n)" "keeps store_kept (get_run env i k)"
  "keeps store_kept (list_persisted_agents env i)" "keeps store_kept (get_persisted_agent env i)"
  "keeps store_kept (list_subagent_executions env i k)" "keeps store_kept (list_runtime_executions env i a k n)"
  "keeps store_kept (list_runtime_diagnostics env i)" "keeps store_kept (list_runtime_inventory env i k)"
  "keeps store_kept (list_runtime_capabilities env i)" "keeps store_kept (list_agent_delegations env i k)"
  "keeps store_kept (usage_summary_of env q)" "keeps store_kept (latest_ingestion_run env i)" "keeps store_kept (now env)"
  "keeps store_kept (list_endpoints env i)" "keeps store_kept (secret_ciphertext env name)"
  unfolding connection_get_def list_endpoints_def list_runs_def get_run_def list_persisted_agents_def
    get_persisted_agent_def list_subagent_executions_def list_runtime_executions_def list_runtime_diagnostics_def
    list_runtime_inventory_def list_runtime_capabilities_def list_agent_delegations_def usage_summary_of_def
    telemetry_configured_def model_breakdown_def time_series_def latest_ingestion_run_def Let_def secret_ciphertext_def
  by (intro keeps_store keeps_intros; auto simp: split_def intro!: keeps_intros)+

lemma keeps_query_stored: "keeps store_kept (query_now env q)"
  by (intro keeps_store keeps_intros)

lemma keeps_with_endpoints: "keeps store_kept (with_endpoints env cs)"
  by (induction cs) (auto intro!: keeps_intros keeps_pair_call keeps_repository_reads)

lemma keeps_connection_list: "keeps store_kept (connection_list env)"
  unfolding connection_list_def
  by (intro keeps_intros keeps_with_endpoints keeps_store)

lemma keeps_resolve_rows: "keeps (\<lambda>w. (f (w_db w), w_locks w)) (resolve_secret (secret_store_ports env c) ref)"
proof -
  have s: "keeps (\<lambda>w. (f (w_db w), w_locks w)) (secret_ciphertext env name)" for name
    unfolding secret_ciphertext_def by (intro keeps_pair keeps_intros)
  have "keeps (\<lambda>w. (f (w_db w), w_locks w)) (not_found (secret_ciphertext env name))" for name
    using keepsD [OF s] by (fastforce simp: keeps_def not_found_def split: prod.splits sum.splits)
  then show ?thesis
    unfolding resolve_secret_def Let_def secret_store_ports_simps
    by (auto intro!: keeps_intros split: sum.split)
qed

lemmas keeps_resolve_secret = keeps_resolve_rows [where f = settled, folded store_kept_def]

lemma settled_touch: "settled (touch_session sid t d) = settled d"
  by (auto simp: settled_def touch_session_def update_where_def)

lemma keeps_authenticate: "keeps store_kept (authenticate (auth_store_ports env l dummy) token)"
proof -
  have "keeps store_kept (\<lambda>w. (Inr p :: gerr + principal, snd (exec_now env (touch_session sid) w)))" for p sid
    by (auto simp: keeps_def store_kept_def exec_now_def exec_def settled_touch split: option.split)
  then have "keeps store_kept (find_session env hash)" for hash
    unfolding find_session_def
    by (auto intro!: keeps_seq keeps_failing keeps_wrapping keeps_query_stored split: list.split)
  from keepsD [OF this] show ?thesis
    by (auto simp: keeps_def authenticate_def split: prod.splits sum.splits)
qed


section \<open>The transport of the adapters\<close>

lemma quiet_mono: "quiet obs (\<lambda>_. True) t \<Longrightarrow> quiet obs allowed t"
  by (simp add: quiet_def)

lemma keeps_read_pages: "(\<And>n. keeps obs (page n)) \<Longrightarrow> keeps obs (read_pages page fuel n acc)"
  by (induction fuel arbitrary: n acc) (auto intro!: keeps_intros)

lemma keeps_langgraph_json:
  "quiet obs (\<lambda>_. True) t \<Longrightarrow> keeps obs (do_json langgraph t conn verb path body decode)"
  by (rule keeps_do_json [where verbs = "[verb]"]) (simp_all add: quiet_mono)

lemma keeps_langgraph_reads:
  assumes "quiet obs (\<lambda>_. True) t"
  shows "keeps obs (langgraph_check t conn)" "keeps obs (langgraph_list_agents t conn)"
    "keeps obs (list_threads t conn)" "keeps obs (list_thread_runs t conn thread)"
    "keeps obs (langgraph_list_skills t conn agent)" "keeps obs (langgraph_get_access t conn agent)"
proof -
  note j = keeps_langgraph_json [OF assms]
  have "keeps obs (read_info t conn)"
    using keepsD [OF j] by (fastforce simp: keeps_def read_info_def split: prod.splits sum.splits)
  moreover have "keeps obs (assistant_page t conn n)" "keeps obs (thread_page t conn n)" "keeps obs (run_page t conn k n)" for k n
    by (simp_all add: assistant_page_def thread_page_def run_page_def j)
  ultimately show "keeps obs (langgraph_check t conn)" "keeps obs (langgraph_list_agents t conn)"
    "keeps obs (list_threads t conn)" "keeps obs (list_thread_runs t conn thread)"
    "keeps obs (langgraph_list_skills t conn agent)" "keeps obs (langgraph_get_access t conn agent)"
    using j keeps_current_time [OF assms]
    by (auto simp: langgraph_check_def langgraph_list_agents_def list_assistants_def list_threads_def
        list_thread_runs_def langgraph_list_skills_def langgraph_get_access_def Let_def split_def
        intro!: keeps_intros keeps_pair_call keeps_read_pages)
qed

lemma keeps_langgraph_collect:
  assumes "quiet obs (\<lambda>_. True) t"
  shows "keeps obs (langgraph_collect t conn)"
proof -
  have "keeps obs (thread_executions t conn observed xs)" for observed xs
    by (induction xs) (auto intro!: keeps_intros keeps_pair_call keeps_langgraph_reads [OF assms])
  then show ?thesis
    unfolding langgraph_collect_def
    by (intro keeps_intros keeps_langgraph_reads [OF assms] keeps_current_time [OF assms])
qed

lemma transport_quiet:
  fixes pf :: "('x, 'u) platform" and obs :: "'x server_world \<Rightarrow> 'o"
  assumes "\<And>w. obs (tick w) = obs w" and "\<And>w x. obs (w\<lparr>w_runtime := x\<rparr>) = obs w"
    and "\<And>ref. keeps obs (resolve_secret (server_secrets pf plan ctx) ref)"
  shows "quiet obs (\<lambda>_. True) (server_transport pf plan ctx)"
proof -
  have "keeps obs (outside m)" for m :: "('x, http_reply) call"
    using assms(2) by (simp add: keeps_def outside_def split: prod.split)
  then show ?thesis
    using assms(1,3) by (simp add: quiet_def server_transport_def)
qed

lemma server_adapters_of:
  "map_of (server_adapters pf plan ctx) k =
     (if k = KindLangGraph then Some (langgraph_client (server_transport pf plan ctx))
      else if k = KindGantry then Some (gantry_client (server_transport pf plan ctx) (pf_picks pf)) else None)"
  by (simp add: server_adapters_def with_adapter_lookup with_adapter_def)

lemma keeps_server_collect:
  assumes "quiet obs (\<lambda>_. True) (server_transport pf plan ctx)"
    and "map_of (server_adapters pf plan ctx) k = Some ad"
  shows "keeps obs (ad_collect ad conn)"
  using assms(2) keeps_langgraph_collect [OF assms(1)] keeps_gantry_collect [OF quiet_mono [OF assms(1)]]
  by (auto simp: server_adapters_of langgraph_client_def gantry_client_def split: if_splits)

lemma settled_transport: "quiet store_kept (\<lambda>_. True) (server_transport pf plan ctx)"
  by (rule transport_quiet)
     (simp_all add: store_kept_def tick_def server_secrets_def keeps_resolve_secret)

lemma keeps_live_read:
  assumes "quiet obs (\<lambda>_. True) t"
  shows "keeps obs (live_read (gantry_list_agents t) (langgraph_list_agents t) a conn)"
    "keeps obs (live_read (gantry_list_skills t) (langgraph_list_skills t) a conn agent)"
    "keeps obs (live_read (gantry_get_access t) (langgraph_get_access t) a conn agent)"
  using keeps_gantry_reads [OF quiet_mono [OF assms]] keeps_langgraph_reads [OF assms]
  by (simp_all add: live_read_def)

lemma keeps_connection_adapter:
  "keeps store_kept (connection_adapter (server_connection_ports pf plan ctx) i)"
  unfolding connection_adapter_def get_connection_def server_connection_ports_def store_connection_ports_def
  by (intro keeps_intros) (auto intro!: keeps_intros keeps_repository_reads)

lemma keeps_server_calls:
  "keeps store_kept (get_connection (server_connection_ports pf plan ctx) i)"
  "keeps store_kept (np_list (server_connection_ports pf plan ctx))"
  "(\<And>a conn. keeps store_kept (reads a conn)) \<Longrightarrow>
     keeps store_kept (list_live_agents (server_connection_ports pf plan ctx) reads i)"
  "(\<And>a conn k. keeps store_kept (inspect a conn k)) \<Longrightarrow>
     keeps store_kept (read_live_agent (server_connection_ports pf plan ctx) inspect i k)"
  "keeps store_kept (get_agent (get_persisted_agent env) i)"
  "keeps store_kept (service_agent_delegations (get_persisted_agent env) (list_agent_delegations env) i k)"
  "keeps store_kept (summary (server_telemetry_ports pf plan ctx) q)"
  "keeps store_kept (telemetry_health (server_telemetry_ports pf plan ctx) i)"
proof -
  show "keeps store_kept (get_connection (server_connection_ports pf plan ctx) i)"
    "keeps store_kept (np_list (server_connection_ports pf plan ctx))"
    by (auto simp: get_connection_def server_connection_ports_def store_connection_ports_def
        intro!: keeps_intros keeps_repository_reads keeps_connection_list)
  show "(\<And>a conn. keeps store_kept (reads a conn)) \<Longrightarrow>
      keeps store_kept (list_live_agents (server_connection_ports pf plan ctx) reads i)"
    "(\<And>a conn k. keeps store_kept (inspect a conn k)) \<Longrightarrow>
      keeps store_kept (read_live_agent (server_connection_ports pf plan ctx) inspect i k)"
    unfolding list_live_agents_def read_live_agent_def
    by (auto intro!: keeps_intros keeps_connection_adapter split: prod.split)
  show "keeps store_kept (get_agent (get_persisted_agent env) i)"
    "keeps store_kept (service_agent_delegations (get_persisted_agent env) (list_agent_delegations env) i k)"
    unfolding service_agent_delegations_def get_agent_def by (intro keeps_intros keeps_repository_reads)+
  show "keeps store_kept (summary (server_telemetry_ports pf plan ctx) q)"
    "keeps store_kept (telemetry_health (server_telemetry_ports pf plan ctx) i)"
    by (auto simp: summary_def telemetry_health_def server_telemetry_ports_def telemetry_store_ports_def Let_def
        intro!: keeps_intros keeps_repository_reads)
qed

section \<open>Reading calls keep the stored data\<close>

lemma with_database:
  "rt_connections (server_config pf cfg plan) = Some c \<Longrightarrow> c = server_connections pf plan"
  "rt_sync (server_config pf cfg plan) = Some y \<Longrightarrow> y = server_sync pf plan"
  "rt_telemetry (server_config pf cfg plan) = Some s \<Longrightarrow> s = server_telemetry pf plan"
  "rt_auth (server_config pf cfg plan) = Some a \<Longrightarrow> a = auth_api_of (server_auth_ports pf)"
  by (simp_all add: server_config_def Let_def split: if_splits)

definition keeps_data :: "('x server_state \<Rightarrow> 'r \<times> 'x server_state) \<Rightarrow> bool" where
  "keeps_data m \<longleftrightarrow> (\<forall>w. state_kept (snd (m w)) = state_kept w)"

lemma keeps_data_answer: "keeps store_kept m \<Longrightarrow> keeps_data (answer e s v (stored m))"
  by (simp add: keeps_data_def keeps_answer keeps_stored)

lemmas server_calls = keeps_server_calls keeps_live_read [OF settled_transport] keeps_repository_reads

interpretation safe: read_calls "server_config pf cfg plan" keeps_data "\<lambda>_. True"
proof (unfold_locales, goal_cases)
  case (1 resp)
  then show ?case
    by (simp add: keeps_data_def)
next
  case (2 f)
  then show ?case
    by (simp add: keeps_data_def server_config_def Let_def stored_def now_def state_kept_def store_kept_def tick_def)
qed (auto dest!: with_database
    simp: server_connections_def server_sync_def server_telemetry_def intro!: keeps_data_answer server_calls)

section \<open>Reading calls are confined to the organisation of the session\<close>

definition state_keys :: "'x server_state \<Rightarrow> bool" where
  "state_keys w \<longleftrightarrow> keys (aw_store w)"

definition state_hide :: "string \<Rightarrow> 'x server_state \<Rightarrow> 'x server_state" where
  "state_hide t w = w\<lparr>aw_store := hide t (aw_store w)\<rparr>"

lemma commutes_stored: "commutes keys (hide t) m \<Longrightarrow> commutes state_keys (state_hide t) (stored m)"
  by (auto simp: commutes_def commutes_at_def state_keys_def state_hide_def stored_def split: prod.splits)

lemma at_tenant: "organization_id ctx = t \<Longrightarrow> t \<noteq> '''' \<Longrightarrow> scoped_to t (env_at pf ctx)"
  by (simp add: scoped_to_def env_at_def tenant_def)

lemma blind_transport:
  fixes pf :: "('a, 'u) platform"
  assumes "scoped_to t (env_at pf ctx)"
  shows "blind keys (hide t) (server_transport pf plan ctx)"
proof -
  have "commutes keys (hide t) (\<lambda>w :: 'a server_world. (e_now (pf_env pf) (w_step w), tick w))"
    by (simp add: commutes_def commutes_at_def)
  then show ?thesis
    by (simp add: blind_def server_transport_def server_secrets_def commutes_outside commutes_resolve [OF assms])
qed

lemma commutes_live_read:
  assumes "blind ok h t"
  shows "commutes ok h (live_read (gantry_list_agents t) (langgraph_list_agents t) a conn)"
    "commutes ok h (live_read (gantry_list_skills t) (langgraph_list_skills t) a conn agent)"
    "commutes ok h (live_read (gantry_get_access t) (langgraph_get_access t) a conn agent)"
  using commutes_live_reads [OF assms] by (simp_all add: live_read_def)

lemma commutes_connection_adapter:
  assumes "scoped_to t (env_at pf ctx)"
  shows "commutes keys (hide t) (connection_adapter (server_connection_ports pf plan ctx) i)"
  unfolding connection_adapter_def get_connection_def server_connection_ports_def store_connection_ports_def
  using commutes_connection_get [OF assms] by (auto intro!: commutes_intros split: option.split)

lemma commutes_server_calls:
  assumes "scoped_to t (env_at pf ctx)"
  shows "commutes keys (hide t) (get_connection (server_connection_ports pf plan ctx) i)"
    "commutes keys (hide t) (np_list (server_connection_ports pf plan ctx))"
    "(\<And>a conn. commutes keys (hide t) (reads a conn)) \<Longrightarrow>
       commutes keys (hide t) (list_live_agents (server_connection_ports pf plan ctx) reads i)"
    "(\<And>a conn k. commutes keys (hide t) (inspect a conn k)) \<Longrightarrow>
       commutes keys (hide t) (read_live_agent (server_connection_ports pf plan ctx) inspect i k)"
    "commutes keys (hide t) (summary (server_telemetry_ports pf plan ctx) q)"
    "commutes keys (hide t) (telemetry_health (server_telemetry_ports pf plan ctx) i)"
proof -
  show "commutes keys (hide t) (get_connection (server_connection_ports pf plan ctx) i)"
    "commutes keys (hide t) (np_list (server_connection_ports pf plan ctx))"
    using commutes_connection_get [OF assms] commutes_connection_list [OF assms]
    by (auto simp: get_connection_def server_connection_ports_def store_connection_ports_def intro!: commutes_intros)
  show "(\<And>a conn. commutes keys (hide t) (reads a conn)) \<Longrightarrow>
      commutes keys (hide t) (list_live_agents (server_connection_ports pf plan ctx) reads i)"
    "(\<And>a conn k. commutes keys (hide t) (inspect a conn k)) \<Longrightarrow>
      commutes keys (hide t) (read_live_agent (server_connection_ports pf plan ctx) inspect i k)"
    unfolding list_live_agents_def read_live_agent_def
    by (auto intro!: commutes_intros commutes_connection_adapter [OF assms] split: prod.split)
  show "commutes keys (hide t) (summary (server_telemetry_ports pf plan ctx) q)"
    "commutes keys (hide t) (telemetry_health (server_telemetry_ports pf plan ctx) i)"
    using commutes_summary [OF assms] commutes_health [OF assms]
    by (auto simp: summary_def telemetry_health_def server_telemetry_ports_def telemetry_store_ports_def Let_def
        intro!: commutes_intros)
qed

lemmas confined_calls = commutes_server_calls commutes_live_read [OF blind_transport] commutes_run_reads
  commutes_row_reads commutes_list_agents commutes_service_agent commutes_service_delegations

definition of_tenant :: "string \<Rightarrow> request \<Rightarrow> bool" where
  "of_tenant t r \<longleftrightarrow> t \<noteq> '''' \<and> organization_id (hr_context r) = t \<and> query_of r ''agent_id'' = ''''"

interpretation confined: read_calls "server_config pf cfg plan" "commutes state_keys (state_hide t)" "of_tenant t"
proof (unfold_locales, goal_cases)
  case (1 resp)
  then show ?case
    by (simp add: commutes_def commutes_at_def)
next
  case (2 f)
  have "commutes state_keys (state_hide t) (rt_now (server_config pf cfg plan))"
    by (simp add: server_config_def Let_def commutes_stored commutes_now)
  then show ?case
    using 2 by (rule commutes_then)
next
  case (3 r vs)
  then show ?case
    by (simp add: of_tenant_def)
qed (auto dest!: with_database
    simp: server_connections_def server_sync_def server_telemetry_def of_tenant_def
    intro!: commutes_answer commutes_stored confined_calls at_tenant)

section \<open>The synchronisation of the server\<close>

lemma server_sync_ports_simps [simp]:
  "sp_get_runtime (server_sync_ports pf plan ctx) = connection_get (env_at pf ctx)"
  "sp_try_lock (server_sync_ports pf plan ctx) = try_lock (env_at pf ctx)"
  "sp_release (server_sync_ports pf plan ctx) = release_lock (env_at pf ctx)"
  "sp_create_run (server_sync_ports pf plan ctx) = create_run (env_at pf ctx)"
  "sp_fail_run (server_sync_ports pf plan ctx) = fail_run (env_at pf ctx)"
  "sp_persist (server_sync_ports pf plan ctx) = persist_snapshot (env_at pf ctx)"
  "sp_audit (server_sync_ports pf plan ctx) = Some (audit_create (env_at pf ctx))"
  "sp_threshold (server_sync_ports pf plan ctx) = missing_threshold (lp_missing_threshold plan)"
  "sp_adapters (server_sync_ports pf plan ctx) = server_adapters pf plan ctx"
  by (simp_all add: server_sync_ports_def store_sync_ports_def)

text \<open>The calls of the adapters to a runtime go through the transport of the server, which may read a
  credential from the database; the synchronised state and the locks are not its to change.\<close>

lemma stored_transport:
  fixes pf :: "('x, 'u) platform"
  shows "quiet (\<lambda>w. (w_locks w, stored_of w)) (\<lambda>_. True) (server_transport pf plan ctx)"
proof (rule transport_quiet)
  fix ref
  have "keeps (\<lambda>w :: 'x server_world. (stored_of w, w_locks w)) (resolve_secret (server_secrets pf plan ctx) ref)"
    by (simp add: keeps_resolve_rows server_secrets_def)
  then show "keeps (\<lambda>w :: 'x server_world. (w_locks w, stored_of w)) (resolve_secret (server_secrets pf plan ctx) ref)"
    by (simp add: keeps_def)
qed (simp_all add: tick_def)

interpretation server: sync_contract "server_sync_ports pf plan ctx" w_locks stored_of "last_failed (env_at pf ctx)"
proof (unfold_locales, goal_cases)
  case (10 a event)
  then show ?case
    using st.audit [of "env_at pf ctx" "[]" 0] by simp
next
  case (11 k ad conn)
  then show ?case
    unfolding keeps2_def by (intro keeps_server_collect [OF stored_transport]) simp
qed (use st.get_runtime [of "env_at pf ctx" "[]" 0] st.lock_refused [of "env_at pf ctx" "[]" 0]
    st.lock_stored [of "env_at pf ctx" "[]" 0] st.lock_release [of "env_at pf ctx" "[]" 0]
    st.release_failed [of "env_at pf ctx" "[]" 0] st.release_stored [of "env_at pf ctx" "[]" 0] st.create_run [of "env_at pf ctx" "[]" 0]
    st.fail_run [of "env_at pf ctx" "[]" 0] st.persist_locks [of "env_at pf ctx" "[]" 0]
    st.persist_error [of "env_at pf ctx" "[]" 0] in \<open>simp_all\<close>)

end
