(* ===== verification/Server_Sync.thy ===== *)
theory Server_Sync
  imports Server_Reads Sync_Persist Connection_Claims Gantry_Claims
begin

text \<open>A synchronisation of a Gantry runtime on the whole server: from what the runtime listed to the bindings
  of its agents in the database.\<close>

section \<open>What the steps of a synchronisation keep\<close>

definition agent_view :: "db \<Rightarrow> string list \<times> binding_row list \<times> (string \<times> string) list" where
  "agent_view d = (map ag_id (db_agents d), db_bindings d, map (\<lambda>r. (rc_id (cr_conn r), rc_org (cr_conn r))) (db_conns d))"

lemma visible_keys:
  "(\<exists>c. conn_visible env d cid = Some c) \<longleftrightarrow>
     (\<exists>k. List.find (\<lambda>k. fst k = cid) (map (\<lambda>r. (rc_id (cr_conn r), rc_org (cr_conn r))) (db_conns d)) = Some k \<and>
       tenant_allows (tenant env) (snd k))"
proof -
  have "List.find (\<lambda>k. fst k = cid) (map (\<lambda>r. (rc_id (cr_conn r), rc_org (cr_conn r))) cs) =
      map_option (\<lambda>r. (rc_id (cr_conn r), rc_org (cr_conn r))) (List.find (\<lambda>c. rc_id (cr_conn c) = cid) cs)"
    for cs :: "connection_row list"
    by (induction cs) auto
  then show ?thesis
    by (auto simp: conn_visible_def conn_row_def split: option.splits)
qed

lemma consistent_agents:
  assumes "agent_view d = agent_view d'"
  shows "consistent env run d = consistent env run d'"
proof -
  have "(conn_visible env d (run_conn run) \<noteq> None) = (conn_visible env d' (run_conn run) \<noteq> None)"
    using assms unfolding agent_view_def not_None_eq visible_keys by simp
  then show ?thesis
    using assms by (simp add: consistent_def bindings_ok_def agent_view_def del: set_map)
qed

lemma agent_view_updates [simp]:
  "agent_view (d\<lparr>db_runs := r\<rparr>) = agent_view d" "agent_view (d\<lparr>db_audits := a\<rparr>) = agent_view d"
  by (simp_all add: agent_view_def)

lemma agent_view_conn:
  assumes "\<And>c. rc_id (f c) = rc_id c \<and> rc_org (f c) = rc_org c"
  shows "agent_view (update_conn cid f d) = agent_view d"
  using assms by (simp add: agent_view_def update_conn_def update_where_def)

lemma create_run_agents: "keeps (\<lambda>w. agent_view (w_db w)) (create_run env run)"
  unfolding create_run_def
  by (intro keeps_intros keeps_exec; simp add: agent_view_conn split: option.split)

lemma audit_create_agents: "keeps (\<lambda>w. agent_view (w_db w)) (audit_create env e)"
  unfolding audit_create_def by (intro keeps_intros keeps_exec; simp)

lemma create_run_Inr:
  "create_run env run w = (Inr run', w') \<Longrightarrow> run_conn run' = run_conn run"
  by (auto simp: create_run_def seq_Inr_iff Let_def)

lemma persist_run:
  "persist_snapshot env run sn t w = (Inr run', w') \<Longrightarrow> run_id run' = run_id run"
  unfolding persist_snapshot_def
  by (auto dest!: transaction_commit simp: seq_Inr_iff finish_run_def complete_run_def Let_def)

text \<open>A runtime is only read through the transport of the server, and no row changes.\<close>

lemma row_transport:
  fixes pf :: "('x, 'u) platform"
  shows "quiet w_db (\<lambda>_. True) (server_transport pf plan ctx)"
proof (rule transport_quiet)
  fix ref
  have "keeps (\<lambda>w :: 'x server_world. (w_db w, w_locks w)) (resolve_secret (server_secrets pf plan ctx) ref)"
    using keeps_resolve_rows [where f = "\<lambda>d. d" and 'a = 'x] by (simp add: server_secrets_def)
  then show "keeps (w_db :: 'x server_world \<Rightarrow> db) (resolve_secret (server_secrets pf plan ctx) ref)"
    by (simp add: keeps_def)
qed (simp_all add: tick_def)

lemma gantry_collect_agents:
  assumes "gantry_collect t picks conn w = (Inr sn, w')"
  shows "\<exists>agents v v'. gantry_list_agents t conn v = (Inr agents, v') \<and> snapshot_ids sn = as_id ` set agents"
proof -
  obtain agents v v' observed items u u' where l: "gantry_list_agents t conn v = (Inr agents, v')"
      and c: "collect_agents t picks conn observed agents u = (Inr items, u')" and s: "sn_agents sn = map fst items"
    using assms by (auto simp: gantry_collect_def seq_Inr_iff wrapping_Inr_iff)
  have "map (\<lambda>a. as_id (sa_agent a)) (sn_agents sn) = map as_id (map (\<lambda>i. sa_agent (fst i)) items)"
    by (simp add: s)
  also have "\<dots> = map as_id agents"
    by (simp add: collected_agents [OF c])
  finally show ?thesis
    using l unfolding snapshot_ids_def by (metis set_map)
qed

section \<open>From the listing of a runtime to the bindings\<close>

definition counted :: "db \<Rightarrow> string \<Rightarrow> sync_run \<Rightarrow> string set \<Rightarrow> db \<Rightarrow> bool" where
  "counted d cid run ids d' \<longleftrightarrow>
     (\<forall>i\<in>ids. \<exists>b\<in>set (db_bindings d'). bd_conn b = cid \<and> bd_runtime_agent b = i) \<and>
     (\<forall>b\<in>set (db_bindings d'). bd_conn b = cid \<longrightarrow>
        (if bd_runtime_agent b \<in> ids then bd_missing b = 0 \<and> bd_last_run b = Some (run_id run)
         else (\<exists>b0\<in>set (db_bindings d). b = b0\<lparr>bd_missing := bd_missing b0 + 1\<rparr>)))"

lemma persist_counted:
  assumes "persist_snapshot env run sn t w = (Inr run', w')" and "consistent env run (w_db w)"
    and "\<forall>b\<in>set (db_bindings (w_db w)). bd_last_run b \<noteq> Some (run_id run)"
  shows "counted (w_db w) (run_conn run) run (snapshot_ids sn) (w_db w')"
proof -
  obtain d1 where s: "stored_agents run (snapshot_ids sn) (db_bindings (w_db w)) (db_bindings d1)"
    and b: "db_bindings (w_db w') = db_bindings (advance_missing_agents run d1)"
    by (metis persist_snapshot_phases [OF assms(1,2)])
  have "\<exists>b\<in>set (db_bindings (w_db w')). bd_conn b = run_conn run \<and> bd_runtime_agent b = i"
    if "i \<in> snapshot_ids sn" for i
  proof -
    obtain b0 where "b0 \<in> set (db_bindings d1)" "binding_for (run_conn run) i b0"
      using s \<open>i \<in> snapshot_ids sn\<close> unfolding stored_agents_def by blast
    moreover have "\<exists>b\<in>set (db_bindings (w_db w')). bd_conn b = bd_conn b0 \<and> bd_runtime_agent b = bd_runtime_agent b0"
      if "b0 \<in> set (db_bindings d1)"
      by (rule bexI [of _ "if bd_conn b0 = run_conn run \<and> bd_last_run b0 \<noteq> Some (run_id run)
            then b0\<lparr>bd_missing := bd_missing b0 + 1\<rparr> else b0"])
         (use that in \<open>auto simp: b advance_missing_agents_def update_where_def\<close>)
    ultimately show ?thesis
      by (simp add: binding_for_def)
  qed
  then show ?thesis
    using missing_counts [OF s assms(3)] unfolding counted_def b seen_in_def by meson
qed

lemma sync_audit_bindings:
  "db_bindings (w_db (audit_sync (server_sync_ports pf plan ctx) run i ev r w)) = db_bindings (w_db w)"
  using keepsD [OF audit_create_agents] by (fastforce simp: audit_sync_def agent_view_def intro: surjective_pairing)

lemma find_active_id: "find_active env cid d = Some c \<Longrightarrow> rc_id c = cid"
  by (auto simp: find_active_def dest!: find_SomeD)

lemma active_visible:
  assumes "find_active env cid d = Some c" and "keys_ok d"
  shows "conn_visible env d cid \<noteq> None"
proof -
  obtain x where x: "x \<in> set (db_conns d)" "rc_id (cr_conn x) = cid" "active_in_tenant env x"
    using assms(1) by (auto simp: find_active_def dest!: find_SomeD)
  then obtain y where y: "List.find (\<lambda>c. rc_id (cr_conn c) = cid) (db_conns d) = Some y"
    by (cases "List.find (\<lambda>c. rc_id (cr_conn c) = cid) (db_conns d)") (auto simp: find_None_iff)
  then have "y = x"
    using x assms(2) by (auto simp: keys_ok_def distinct_map dest!: find_SomeD inj_onD)
  with x y show ?thesis
    by (simp add: conn_visible_def conn_row_def active_in_tenant_def)
qed

end
