(* ===== verification/Server_Claims.thy ===== *)
theory Server_Claims
  imports Server_Sync Sync_Properties Auth_Claims Api_Claims
begin

text \<open>The claims about the whole server: what a request can change, and what it can see.\<close>

section \<open>What a request can change\<close>

text \<open>The session of a request, as the middleware authenticates it.\<close>

definition session_of ::
    "('x, 'u) platform \<Rightarrow> request \<Rightarrow> string \<Rightarrow> ('x server_state, principal) call" where
  "session_of pf r tok = stored (authenticate (server_auth_ports pf (hr_context r)) tok)"

lemma keeps_session_of: "keeps state_kept (session_of pf r tok)"
  by (simp add: session_of_def server_auth_ports_def keeps_stored keeps_authenticate)

lemma handler_keeps:
  assumes "state_kept (snd (session_auth (pf_api pf) (mux (routes l (server_config pf cfg plan)))
    (xc_admin_token (cf_security cfg)) (rt_auth (server_config pf cfg plan)) r w)) = state_kept w"
  shows "state_kept (snd (server_handler pf l cfg plan r w)) = state_kept w"
  unfolding server_handler_def using assms
  by (intro keeps_new_router) (simp add: server_config_def Let_def)

lemma reading_keeps:
  assumes "\<not> requires_csrf (hr_method r)"
  shows "state_kept (snd (server_handler pf l cfg plan r w)) = state_kept w"
proof -
  have g: "keeps_data (mux (routes l (server_config pf cfg plan)) (r\<lparr>hr_context := c\<rparr>))"
    "keeps_data (mux (routes l (server_config pf cfg plan)) r)" for c
    using assms by (intro safe.good_mux; simp)+
  show ?thesis
  proof (intro handler_keeps keeps_session_auth)
    show "keeps state_kept (qa_authenticate a ctx tok)" if "rt_auth (server_config pf cfg plan) = Some a" for a ctx tok
      using with_database(4) [OF that] by (simp add: auth_api_of_def server_auth_ports_def keeps_stored keeps_authenticate)
  qed (use g in \<open>simp_all add: keeps_data_def\<close>)
qed

text \<open>C4: A request that only reads (GET, HEAD or OPTIONS) changes nothing that the server stores, whatever its
  path, its session and its parameters are and whatever the runtimes answer: the rows of every table, the
  advisory locks and the login limiter stay as they are.  Only the time at which the session was last used
  moves.\<close>

theorem safe_requests_keep_data:
  assumes "\<not> requires_csrf (hr_method r)"
  shows "state_kept (snd (server_handler pf l cfg plan r w)) = state_kept w"
  using assms by (rule reading_keeps)

text \<open>C30: Behind the session gate, a member whose role is none of owner, admin and operator changes nothing
  on the server, with any method, body and path but the one that ends the session.  Outside of the gate are
  the public paths (the health check, the root, login and signup, which store sessions and limiter entries
  whoever calls them) and requests with the administrator token.\<close>

theorem viewer_keeps_data:
  assumes "\<not> is_public_path r" "\<not> admin_token_given (pf_api pf) (xc_admin_token (cf_security cfg)) r"
    and "request_path r \<noteq> ''/auth/logout''" "map_of (hr_cookies r) session_cookie = Some tok"
    and "session_of pf r tok w = (Inr who, w')"
    and "\<not> p_platform_admin who" "p_role who \<notin> {''owner'', ''admin'', ''operator''}"
  shows "state_kept (snd (server_handler pf l cfg plan r w)) = state_kept w"
proof (cases "requires_csrf (hr_method r)")
  case True
  have "rt_auth (server_config pf cfg plan) = None \<or>
      rt_auth (server_config pf cfg plan) = Some (auth_api_of (server_auth_ports pf))"
    by (simp add: server_config_def Let_def)
  then show ?thesis
  proof
    assume "rt_auth (server_config pf cfg plan) = None"
    with assms(1,2) show ?thesis
      by (intro handler_keeps) (simp add: session_auth_def)
  next
    assume a: "rt_auth (server_config pf cfg plan) = Some (auth_api_of (server_auth_ports pf))"
    have "qa_authenticate (auth_api_of (server_auth_ports pf)) (hr_context r) tok w = (Inr who, w')"
      using assms(5) by (simp add: auth_api_of_def session_of_def)
    note refused = viewer_refused [OF assms(1,2) True assms(3,4) this assms(6,7)]
    show ?thesis
      using keepsD [OF keeps_session_of assms(5)] by (intro handler_keeps) (simp add: a refused)
  qed
qed (rule reading_keeps)

section \<open>What a request can see\<close>

lemma commutes_at_session_auth:
  assumes "\<not> is_public_path r" "\<not> admin_token_given l token r"
    and "\<And>a tok. auth = Some a \<Longrightarrow> commutes ok h (qa_authenticate a (hr_context r) tok)"
    and "\<And>a tok who w'. auth = Some a \<Longrightarrow> map_of (hr_cookies r) session_cookie = Some tok \<Longrightarrow>
      qa_authenticate a (hr_context r) tok w = (Inr who, w') \<Longrightarrow>
      commutes ok h (next_handler (r\<lparr>hr_context := with_principal (hr_context r) who\<rparr>))"
    and "ok w"
  shows "commutes_at ok h (session_auth l next_handler token auth r) w"
proof (cases "auth = None \<or> map_of (hr_cookies r) session_cookie = None")
  case True
  with assms(1,2,5) show ?thesis
    by (auto simp: commutes_at_def session_auth_def split: option.split)
next
  case False
  then obtain a tok where a: "auth = Some a" "map_of (hr_cookies r) session_cookie = Some tok"
    by auto
  obtain res w' where m: "qa_authenticate a (hr_context r) tok w = (res, w')"
    by (cases "qa_authenticate a (hr_context r) tok w")
  have h: "qa_authenticate a (hr_context r) tok (h w) = (res, h w')" "ok w'"
    using commutes_at_result [OF commutesD [OF assms(3) [OF a(1)] assms(5)] m] by simp_all
  show ?thesis
  proof (cases res)
    case (Inl e)
    with a m h assms(1,2) show ?thesis
      by (simp add: commutes_at_def session_auth_def)
  next
    case (Inr who)
    obtain resp w'' where n: "next_handler (r\<lparr>hr_context := with_principal (hr_context r) who\<rparr>) w' = (resp, w'')"
      by (cases "next_handler (r\<lparr>hr_context := with_principal (hr_context r) who\<rparr>) w'")
    have "commutes ok h (next_handler (r\<lparr>hr_context := with_principal (hr_context r) who\<rparr>))"
      using assms(4) [OF a] m Inr by blast
    from commutes_at_result [OF commutesD [OF this h(2)] n] a m h n Inr assms(1,2) show ?thesis
      by (auto simp: commutes_at_def session_auth_def split: option.split)
  qed
qed

lemma commutes_at_router:
  assumes "commutes_at ok h (session_auth (rt_library cfg) (mux (routes l cfg)) (rt_admin_token cfg) (rt_auth cfg) r) w"
    and "ok w"
  shows "commutes_at ok h (new_router l cfg r) w"
proof -
  let ?s = "session_auth (rt_library cfg) (mux (routes l cfg)) (rt_admin_token cfg) (rt_auth cfg) r"
  obtain resp w' where s: "?s w = (resp, w')"
    by (cases "?s w")
  with commutes_at_result [OF assms(1) s] assms(2) show ?thesis
    by (simp add: commutes_at_def new_router_def recover_middleware_def cors_middleware_def Let_def)
qed

lemma session_principal:
  assumes "session_of pf r tok w = (Inr who, w')"
  shows "\<not> p_platform_admin who"
proof -
  have "\<exists>hash v. find_session (env_at pf (hr_context r)) hash v = (Inr who, aw_store w')"
    using stored_Inr [OF assms [unfolded session_of_def]]
    by (auto simp: server_auth_ports_def authenticate_def split: if_splits prod.splits sum.splits)
  then show ?thesis
    by (auto dest!: find_session_Inr simp: session_rows_def split: if_splits)
qed

lemma reading_commutes:
  assumes "\<not> requires_csrf (hr_method r)" "\<not> is_public_path r"
    and "\<not> admin_token_given (pf_api pf) (xc_admin_token (cf_security cfg)) r"
    and "t \<noteq> ''''" "query_of r ''agent_id'' = ''''"
    and "\<And>tok who w'. map_of (hr_cookies r) session_cookie = Some tok \<Longrightarrow>
      session_of pf r tok w = (Inr who, w') \<Longrightarrow> p_org who = t"
    and "state_keys w"
  shows "commutes_at state_keys (state_hide t) (server_handler pf l cfg plan r) w"
  unfolding server_handler_def
proof (rule commutes_at_router)
  let ?cfg = "server_config pf cfg plan"
  have lib: "rt_library ?cfg = pf_api pf" "rt_admin_token ?cfg = xc_admin_token (cf_security cfg)"
    by (simp_all add: server_config_def Let_def)
  have auth: "qa_authenticate a (hr_context r) tok = session_of pf r tok" if "rt_auth ?cfg = Some a" for a tok
    using with_database(4) [OF that] by (simp add: auth_api_of_def session_of_def)
  show "commutes_at state_keys (state_hide t)
      (session_auth (rt_library ?cfg) (mux (routes l ?cfg)) (rt_admin_token ?cfg) (rt_auth ?cfg) r) w"
  proof (rule commutes_at_session_auth)
    show "commutes state_keys (state_hide t) (qa_authenticate a (hr_context r) tok)" if "rt_auth ?cfg = Some a" for a tok
      by (simp add: auth [OF that] session_of_def server_auth_ports_def commutes_stored commutes_authenticate)
    show "commutes state_keys (state_hide t) (mux (routes l ?cfg) (r\<lparr>hr_context := with_principal (hr_context r) who\<rparr>))"
      if "rt_auth ?cfg = Some a" "map_of (hr_cookies r) session_cookie = Some tok"
        "qa_authenticate a (hr_context r) tok w = (Inr who, w')" for a tok who w'
    proof -
      have "p_org who = t" "\<not> p_platform_admin who"
        using that assms(6) session_principal unfolding auth [OF that(1)] by blast+
      then have "of_tenant t (r\<lparr>hr_context := with_principal (hr_context r) who\<rparr>)"
        using assms(4,5) by (simp add: of_tenant_def organization_id_def with_principal_def principal_from_def)
      then show ?thesis
        using assms(1) by (intro confined.good_mux) simp_all
    qed
  qed (use assms lib in simp_all)
qed (rule assms)

text \<open>C1: Organisations are isolated as long as the parameter \<open>agent_id\<close> is not used: with it they are not,
  see \<open>foreign_agent_selects_own_rows\<close>.  A request that only reads, carries no parameter \<open>agent_id\<close> and is
  sent with a session of one organisation (not to a public path, not with the administrator token) has the
  same response on any two servers that differ only in the rows of other organisations (accounts and sessions
  are the same), and what it leaves of the organisation's own rows is the same: runtimes, endpoints, runs,
  agents, skills, access, executions, diagnostics, inventories, usage, secrets and control actions of others
  are not observable.  The rows keep the primary key of connections and one binding for each agent
  (\<open>persist_keeps_bindings_ok\<close>).\<close>

theorem tenant_isolation:
  assumes "\<not> requires_csrf (hr_method r)" "\<not> is_public_path r"
    and "\<not> admin_token_given (pf_api pf) (xc_admin_token (cf_security cfg)) r"
    and "t \<noteq> ''''" "query_of r ''agent_id'' = ''''"
    and "\<And>tok who v'. map_of (hr_cookies r) session_cookie = Some tok \<Longrightarrow>
      session_of pf r tok v = (Inr who, v') \<Longrightarrow> p_org who = t"
    and "state_hide t v = state_hide t w" "keys_ok (w_db (aw_store v))" "keys_ok (w_db (aw_store w))"
  shows "fst (server_handler pf l cfg plan r v) = fst (server_handler pf l cfg plan r w) \<and>
    state_hide t (snd (server_handler pf l cfg plan r v)) = state_hide t (snd (server_handler pf l cfg plan r w))"
proof -
  have k: "state_keys v" "state_keys w"
    using assms(8,9) by (simp_all add: state_keys_def)
  have "p_org who = t" if "map_of (hr_cookies r) session_cookie = Some tok" "session_of pf r tok w = (Inr who, w')"
    for tok who w'
  proof -
    have c: "commutes state_keys (state_hide t) (session_of pf r tok)"
      by (simp add: session_of_def server_auth_ports_def commutes_stored commutes_authenticate)
    have "fst (session_of pf r tok v) = Inr who"
      using commutesD [OF c k(1)] commutesD [OF c k(2)] that(2) assms(7) by (simp add: commutes_at_def) (metis fst_apsnd fst_conv)
    then show ?thesis
      using assms(6) [OF that(1)] by (metis prod.collapse)
  qed
  then have "commutes_at state_keys (state_hide t) (server_handler pf l cfg plan r) w"
    using assms k by (intro reading_commutes) auto
  moreover have "commutes_at state_keys (state_hide t) (server_handler pf l cfg plan r) v"
    using assms k by (intro reading_commutes) auto
  ultimately show ?thesis
    using assms(7) by (auto simp: commutes_at_def prod_eq_iff)
qed

text \<open>C40: The parameter \<open>agent_id\<close> of the listing of subagents is not scoped.  The identifier of an agent of
  another organisation selects the caller's own rows by the name that agent has on its foreign runtime, so the
  answer tells which name that is; with the rows of the other organisation hidden the answer is empty.\<close>

theorem foreign_agent_selects_own_rows:
  assumes "scoped_to t env" and "e_fault env (w_step w) = None" and "length (db_subagents (w_db w)) \<le> 200"
    and "b \<in> set (db_bindings (w_db w))" "\<not> owns t (w_db w) (bd_conn b)" "bd_agent b \<noteq> ''''"
    and "distinct (map bd_agent (db_bindings (w_db w)))"
    and "r \<in> set (db_subagents (w_db w))" "owns t (w_db w) (sr_conn r)" "se_agent (sr_snapshot r) = bd_runtime_agent b"
  shows "(\<exists>rows w'. list_subagent_executions env '''' (bd_agent b) w = (Inr rows, w') \<and> r \<in> set rows) \<and>
    (\<exists>w'. list_subagent_executions env '''' (bd_agent b) (hide t w) = (Inr [], w'))"
proof -
  let ?own = "\<lambda>r. conn_in_tenant env (w_db w) (sr_conn r)"
  let ?rows = "filter (\<lambda>r. (\<exists>x\<in>set (db_bindings (w_db w)). bd_agent x = bd_agent b \<and>
      bd_runtime_agent x = se_agent (sr_snapshot r)) \<and> ?own r) (db_subagents (w_db w))"
  have n: "length ?rows \<le> 200"
    using assms(3) length_filter_le order_trans by blast
  have r: "r \<in> set ?rows"
    using assms in_tenant [OF assms(1)] by auto
  have "list_subagent_executions env '''' (bd_agent b) w =
      (Inr (take 200 (sort_key (\<lambda>r. - se_observed_at (sr_snapshot r)) ?rows)), tick w)"
    using assms(2,6) by (simp add: list_subagent_executions_def wrapping_def query_def)
  then have "\<exists>rows w'. list_subagent_executions env '''' (bd_agent b) w = (Inr rows, w') \<and> r \<in> set rows"
    using r n by simp
  moreover have "\<not> (\<exists>x\<in>set (db_bindings (tenant_view t (w_db w))). bd_agent x = bd_agent b)"
    using assms(4,5,7) by (auto simp: distinct_map dest: inj_onD)
  then have "list_subagent_executions env '''' (bd_agent b) (hide t w) = (Inr [], tick (hide t w))"
    using assms(2,6) by (auto simp: list_subagent_executions_def wrapping_def query_def)
  ultimately show ?thesis
    by blast
qed


section \<open>What a synchronisation does\<close>

text \<open>C3: On the whole server, from the HTTP requests to the rows: when a synchronisation of a Gantry runtime
  reports success, then the runtime listed some agents through the transport of the server, each of them has a
  binding of this runtime that carries the run and a zero counter, and the counter of each other binding of the
  runtime went up by one.\<close>

theorem server_sync_binds_listed_agents:
  assumes "sync (server_sync_ports pf plan ctx) input w = ((run, None), w')"
    and "find_active (env_at pf ctx) (si_conn input) (w_db w) = Some c" and "rc_kind c = KindGantry"
    and "keys_ok (w_db w)" and "bindings_ok (w_db w)"
    and "\<forall>b\<in>set (db_bindings (w_db w)). bd_last_run b \<noteq> Some (run_id run)"
  shows "\<exists>conn agents v v'. gantry_list_agents (server_transport pf plan ctx) conn v = (Inr agents, v') \<and>
    rc_id conn = si_conn input \<and> counted (w_db w) (si_conn input) run (as_id ` set agents) (w_db w')"
proof -
  let ?p = "server_sync_ports pf plan ctx" and ?env = "env_at pf ctx"
  obtain conn ad w0 w1 w2 where ad: "map_of (server_adapters pf plan ctx) (rc_kind conn) = Some ad"
      and g: "connection_get ?env (si_conn input) w = (Inr conn, w1)"
      and l: "try_lock ?env (rc_id conn) w1 = (Inr True, w0)"
      and s: "sync_locked ?p (with_trigger input) conn ad w0 = ((run, None), w2)" and w': "w' = release_lock ?env (rc_id conn) w2"
    using sync_success [OF assms(1)] by auto
  have conn: "rc_id conn = si_conn input" "rc_kind conn = KindGantry" "w_db w1 = w_db w"
    using connection_get_Inr [OF g] assms(2,3) find_active_id [OF assms(2)] by auto
  obtain run0 sn v1 v2 v3 where
      r: "create_run ?env (no_run\<lparr>run_conn := rc_id conn, run_trigger := si_trigger (with_trigger input)\<rparr>) w0 = (Inr run0, v1)"
      and a: "ad_collect ad conn v1 = (Inr sn, v2)"
      and p: "persist_snapshot ?env run0 sn (sp_threshold ?p) v2 = (Inr run, v3)"
      and w2: "w2 = audit_sync ?p run (with_trigger input) ''runtime.sync_succeeded'' ''succeeded'' v3"
    using sync_locked_success [OF s] by auto
  have c: "gantry_collect (server_transport pf plan ctx) (pf_picks pf) conn v1 = (Inr sn, v2)"
    using a ad conn(2) by (auto simp: server_adapters_of gantry_client_def)
  have "w_db v2 = w_db v1"
    using keeps_gantry_collect [OF quiet_mono [OF row_transport]] c by (rule keepsD)
  moreover have "agent_view (w_db v1) = agent_view (w_db w)"
    using keepsD [OF create_run_agents r] try_lock_result [OF l] conn(3) by simp
  ultimately have view: "agent_view (w_db v2) = agent_view (w_db w)"
    by simp
  have run0: "run_conn run0 = si_conn input" "run_id run0 = run_id run"
    using create_run_Inr [OF r] persist_run [OF p] conn(1) by simp_all
  have "conn_visible ?env (w_db w) (si_conn input) \<noteq> None"
    using assms(2,4) by (rule active_visible)
  then have "consistent ?env run0 (w_db v2)"
    using assms(5) run0(1) by (simp add: consistent_agents [OF view]) (simp add: consistent_def)
  moreover have b: "db_bindings (w_db v2) = db_bindings (w_db w)"
    using view by (simp add: agent_view_def)
  ultimately have "counted (w_db v2) (si_conn input) run0 (snapshot_ids sn) (w_db v3)"
    using persist_counted [OF p] assms(6) run0 by simp
  moreover have "db_bindings (w_db w') = db_bindings (w_db v3)"
    unfolding w' w2 by (simp add: sync_audit_bindings)
  ultimately have "counted (w_db w) (si_conn input) run (snapshot_ids sn) (w_db w')"
    by (simp only: counted_def b run0)
  then show ?thesis
    using gantry_collect_agents [OF c] conn(1) by metis
qed

section \<open>Concrete servers\<close>

text \<open>A process whose runtimes answer every request with an empty object, but list one agent, and whose
  cipher keeps the plaintext.\<close>

definition listing_platform :: "(unit, unit) platform" where
  "listing_platform =
     \<lparr>pf_env = calm_env, pf_do = \<lambda>c w. (Inr \<lparr>hp_status = 200, hp_body = hc_url c\<rparr>, w),
      pf_url = \<lparr>ul_parse = \<lambda>s. Some \<lparr>url_scheme = ''http'', url_host = ''g'', url_path = '''', url_query = '''',
          url_fragment = '''', url_rest = ()\<rparr>, ul_string = \<lambda>u. ''''\<rparr>,
      pf_next = \<lambda>s. Some (JObject (if suffix ''/v1/agents'' s
          then [(''agents'', JArray [JObject [(''id'', JString ''kept'')]])] else []), ''''),
      pf_float = \<lambda>q. '''', pf_sha256 = \<lambda>s. s,
      pf_gcm = \<lambda>k. \<lparr>ae_nonce_size = 0, ae_overhead = 0, ae_seal = \<lambda>n p a. p, ae_open = \<lambda>n c a. Some c\<rparr>,
      pf_auth = pair_library, pf_salt = '''', pf_api = sample_api_library, pf_picks = []\<rparr>"

definition listing_plan :: server_plan where
  "listing_plan = \<lparr>lp_pool = Some \<lparr>po_url = ''postgres'', po_max_open = 4, po_max_idle = 2, po_lifetime = 60\<rparr>,
     lp_cipher_key = replicate 32 (CHR 0x6B), lp_catalog = [], lp_missing_threshold = 3, lp_sync_worker = None,
     lp_telemetry_worker = None, lp_adapters = [KindGantry, KindLangGraph], lp_readers = []\<rparr>"

definition keyed_conn :: runtime_connection where
  "keyed_conn = sample_conn\<lparr>rc_auth_ref := ''key''\<rparr>"

definition keyed_world :: "(db, unit) world" where
  "keyed_world = sample_world\<lparr>w_db := sample_db\<lparr>db_conns := [sample_row keyed_conn],
     db_secrets := [\<lparr>st_secret = \<lparr>sc_id = ''s1'', sc_name = ''key'', sc_created_at = 0, sc_updated_at = 0\<rparr>,
       st_cipher = [ciphertext_version, CHR 0x6B], st_org = bootstrap_organization\<rparr>]\<rparr>\<rparr>"

definition listed_snapshot :: runtime_snapshot where
  "listed_snapshot =
     \<lparr>sn_observed_at = 22000000000,
      sn_agents = [\<lparr>sa_agent = \<lparr>as_id = ''kept'', as_parent = '''', as_kind = AgentRegistered, as_name = ''kept'',
            as_status = AgentUnknown,
            as_metadata = [(''description'', GStr ''''), (''app_id'', GStr ''''), (''agent_harness'', GStr ''''),
              (''current_config_version_id'', GStr ''''), (''runtime_created_at'', GStr ''''),
              (''runtime_updated_at'', GStr '''')], as_observed_at = 22000000000\<rparr>,
          sa_skills = [], sa_access = \<lparr>acc_agent = '''', acc_selections = [], acc_raw = [],
            acc_observed_at = 22000000000, acc_desired_at = None, acc_source = ''gantry'', acc_source_ref = '''',
            acc_source_sha = ''''\<rparr>\<rparr>],
      sn_diagnostics = [], sn_inventory = [], sn_catalog = [], sn_delegations = [], sn_executions = [],
      sn_subagents = [], sn_metadata = [(''health'', GMap []), (''doctor_status'', GStr '''')],
      sn_capabilities = [(''read_agents'', True), (''read_agent_hierarchy'', False), (''read_agent_delegates'', True),
        (''read_agent_skills'', True), (''read_agent_access'', True), (''replace_agent_access'', True),
        (''read_subagent_executions'', True), (''read_diagnostics'', True), (''read_inventory'', True),
        (''read_capability_catalog'', True), (''set_agent_status'', True)]\<rparr>"

definition started_run :: sync_run where
  "started_run = no_run\<lparr>run_id := ''00000000-0000-4000-8000-000000000000'', run_conn := ''c1'',
     run_trigger := TriggerManual, run_status := SyncRunning, run_started := 10000000000\<rparr>"

definition started_world :: "(db, unit) world" where
  "started_world = keyed_world\<lparr>w_db := (w_db keyed_world)\<lparr>
     db_conns := [sample_row (keyed_conn\<lparr>rc_last_sync_status := SyncRunning, rc_last_sync_started := Some 10000000000\<rparr>)],
     db_runs := db_runs sample_db @ [started_run]\<rparr>, w_step := 8, w_locks := [0]\<rparr>"

lemma listing_started:
  "connection_get calm_env ''c1'' keyed_world = (Inr keyed_conn, keyed_world\<lparr>w_step := 2\<rparr>)"
  "try_lock calm_env ''c1'' (keyed_world\<lparr>w_step := 2\<rparr>) = (Inr True, keyed_world\<lparr>w_step := 4, w_locks := [0]\<rparr>)"
  "create_run calm_env (no_run\<lparr>run_conn := ''c1'', run_trigger := TriggerManual\<rparr>)
     (keyed_world\<lparr>w_step := 4, w_locks := [0]\<rparr>) = (Inr started_run, started_world)"
  by code_simp+

lemma listing_collected:
  "gantry_collect (server_transport listing_platform listing_plan None) [] keyed_conn started_world =
     (Inr listed_snapshot, started_world\<lparr>w_step := 27\<rparr>)"
  "validate_runtime_snapshot listed_snapshot = None"
  by code_simp+

lemma listing_persisted:
  "\<exists>run w'. persist_snapshot calm_env started_run listed_snapshot 3 (started_world\<lparr>w_step := 27\<rparr>) = (Inr run, w') \<and>
     run_id run = ''00000000-0000-4000-8000-000000000000''"
  by (simp add: started_world_def started_run_def listed_snapshot_def keyed_world_def keyed_conn_def eval_simps
      upsert_actual_access_def
      sample_defs cong: store_congs)

lemma listing_synchronised:
  "\<exists>run w'. sync (server_sync_ports listing_platform listing_plan None) sample_input keyed_world = ((run, None), w') \<and>
     run_id run = ''00000000-0000-4000-8000-000000000000''"
proof -
  obtain run w' where p: "persist_snapshot calm_env started_run listed_snapshot 3 (started_world\<lparr>w_step := 27\<rparr>) = (Inr run, w')"
      and r: "run_id run = ''00000000-0000-4000-8000-000000000000''"
    using listing_persisted by blast
  let ?p = "server_sync_ports listing_platform listing_plan None"
  have e: "env_at listing_platform None = calm_env" "pf_picks listing_platform = []" "lp_missing_threshold listing_plan = 3"
    by (simp_all add: env_at_def listing_platform_def listing_plan_def calm_env_def)
  have a: "map_of (server_adapters listing_platform listing_plan None) (rc_kind keyed_conn) =
      Some (gantry_client (server_transport listing_platform listing_plan None) [])"
    by (simp add: server_adapters_of e keyed_conn_def sample_conn_def)
  have c: "rc_id keyed_conn = ''c1''"
    by (simp add: keyed_conn_def sample_conn_def)
  have i: "\<not> trim_space ''c1'' = ''''" "\<not> trim_space ''ops'' = ''''" "\<not> trim_space ''check'' = ''''"
    by code_simp+
  have "sync_locked ?p sample_input keyed_conn (gantry_client (server_transport listing_platform listing_plan None) [])
      (keyed_world\<lparr>w_step := 4, w_locks := [0]\<rparr>) =
    ((run, None), audit_sync ?p run sample_input ''runtime.sync_succeeded'' ''succeeded'' w')"
    using listing_started(3) listing_collected p
    by (simp add: sync_locked_def e c sample_input_def gantry_client_def missing_threshold_def)
  then show ?thesis
    using listing_started(1,2) a r
    by (simp add: sync_def with_trigger_def sync_exclusive_def Let_def e c i sample_input_def)
qed

lemma server_sync_binds_listed_agents_witness:
  "\<exists>run w'. \<exists>agents :: agent_snapshot list. sync (server_sync_ports listing_platform listing_plan None) sample_input keyed_world = ((run, None), w') \<and>
     counted (w_db keyed_world) ''c1'' run (as_id ` set agents) (w_db w')"
proof -
  obtain run w' where s: "sync (server_sync_ports listing_platform listing_plan None) sample_input keyed_world = ((run, None), w')"
      and r: "run_id run = ''00000000-0000-4000-8000-000000000000''"
    using listing_synchronised by blast
  have f: "find_active (env_at listing_platform None) (si_conn sample_input) (w_db keyed_world) = Some keyed_conn"
    and k: "rc_kind keyed_conn = KindGantry" "keys_ok (w_db keyed_world)" "bindings_ok (w_db keyed_world)"
      "\<forall>b\<in>set (db_bindings (w_db keyed_world)). bd_last_run b \<noteq> Some (run_id run)"
    using sample_consistent(1)
    by (simp_all add: find_active_def active_in_tenant_def sample_input_def env_at_def listing_platform_def
        tenant_allows_def tenant_def organization_id_def principal_from_def keys_ok_def bindings_ok_def r keyed_world_def keyed_conn_def sample_defs)
  obtain agents :: "agent_snapshot list" where "counted (w_db keyed_world) (si_conn sample_input) run (as_id ` set agents) (w_db w')"
    using server_sync_binds_listed_agents [OF s f k] by blast
  with s show ?thesis
    by (intro exI [of _ run] exI [of _ w'] exI [of _ agents]) (simp add: sample_input_def)
qed

text \<open>Two servers: on one of them the runtime of another organisation is registered.\<close>

definition sample_cfg :: config where
  "sample_cfg =
     \<lparr>cf_http = \<lparr>hc_addr = '':8080'', hc_read_timeout = 5, hc_shutdown_timeout = 10\<rparr>,
      cf_database = \<lparr>dc_url = ''postgres'', dc_max_open = 4, dc_max_idle = 2, dc_lifetime = 60\<rparr>, cf_secret_key = '''',
      cf_security = \<lparr>xc_admin_token = '''', xc_origins = [], xc_secure_cookies = True, xc_mode = ''production''\<rparr>,
      cf_version = ''1'',
      cf_sync = \<lparr>yc_enabled = False, yc_tick = 30, yc_concurrency = 4, yc_timeout = 60, yc_threshold = 3\<rparr>,
      cf_telemetry = \<lparr>tc_enabled = False, tc_tick = 60, tc_timeout = 60, tc_catalog = []\<rparr>, cf_log_level = LevelInfo\<rparr>"

definition reading_request :: request where
  "reading_request = (sample_request ''GET'' [''v1'', ''runtime-connections''] [])\<lparr>hr_cookies := [(session_cookie, ''t1'')]\<rparr>"

definition shared_state :: "unit server_state" where
  "shared_state = \<lparr>aw_store = live_session_world, aw_limiter = []\<rparr>"

definition lonely_state :: "unit server_state" where
  "lonely_state = state_hide bootstrap_organization shared_state"

theorem safe_requests_keep_data_witness:
  "state_kept (snd (server_handler listing_platform sample_otlp_library sample_cfg listing_plan reading_request shared_state)) =
     state_kept shared_state"
  by (rule safe_requests_keep_data) (simp add: reading_request_def sample_request_def requires_csrf_def)

lemma plain_sha: "al_sha256 pair_library s = s"
  by (simp add: pair_library_def plain_library_def)

lemma listing_auth:
  "hr_context r = None \<Longrightarrow> \<exists>dummy. server_auth_ports listing_platform (hr_context r) = auth_store_ports calm_env pair_library dummy"
  by (simp add: server_auth_ports_def env_at_def) (simp add: listing_platform_def calm_env_def exI)

lemma listed_session:
  assumes "\<And>dummy. \<exists>who w'. authenticate (auth_store_ports calm_env pair_library dummy) tok (aw_store w) = (Inr who, w') \<and> P who"
    and "hr_context r = None"
  shows "\<exists>who w'. session_of listing_platform r tok w = (Inr who, w') \<and> P who"
proof -
  obtain dummy where d: "server_auth_ports listing_platform (hr_context r) = auth_store_ports calm_env pair_library dummy"
    using listing_auth [OF assms(2)] by blast
  obtain who v where "authenticate (auth_store_ports calm_env pair_library dummy) tok (aw_store w) = (Inr who, v)" "P who"
    using assms(1) by blast
  then show ?thesis
    by (intro exI [of _ who] exI [of _ "w\<lparr>aw_store := v\<rparr>"]) (simp add: session_of_def stored_def d)
qed

lemma shared_session:
  "\<exists>who w'. session_of listing_platform reading_request ''t1'' shared_state = (Inr who, w') \<and> p_org who = bootstrap_organization"
proof -
  have "\<exists>who w'. authenticate (auth_store_ports calm_env pair_library dummy) ''t1'' (aw_store shared_state) = (Inr who, w') \<and>
      p_org who = bootstrap_organization" for dummy
    by (simp add: authenticate_def plain_sha find_session_def seq_def wrapping_def query_now_def query_def
        session_rows_def session_live_def shared_state_def live_session_world_def auth_sample_world_def
        sample_world_def sample_db_def empty_db_def local_organization_def cong: store_congs)
  then show ?thesis
    by (rule listed_session) (simp add: reading_request_def sample_request_def)
qed

lemma hide_idem: "tenant_view t (tenant_view t d) = tenant_view t d"
proof -
  have a: "owns_agent t (tenant_view t d) a = owns_agent t d a" for a
    by (auto simp: owns_agent_def list_ex_iff)
  then have "owns_skill t (tenant_view t d) s = owns_skill t d s" for s
    by (auto simp: owns_skill_def list_ex_iff)
  with a show ?thesis
    by (intro db.equality) (simp_all add: tenant_view_def owns_view [unfolded tenant_view_def])
qed

theorem tenant_isolation_witness:
  "fst (server_handler listing_platform sample_otlp_library sample_cfg listing_plan reading_request lonely_state) =
     fst (server_handler listing_platform sample_otlp_library sample_cfg listing_plan reading_request shared_state) \<and>
   db_conns (w_db (aw_store lonely_state)) \<noteq> db_conns (w_db (aw_store shared_state))"
proof -
  have k: "keys_ok (w_db (aw_store shared_state))"
    by (simp add: keys_ok_def shared_state_def live_session_world_def auth_sample_world_def sample_defs)
  have h: "state_hide bootstrap_organization lonely_state = state_hide bootstrap_organization shared_state"
    by (simp add: lonely_state_def state_hide_def hide_idem)
  have "\<exists>who w'. session_of listing_platform reading_request ''t1'' shared_state = (Inr who, w') \<and> p_org who = bootstrap_organization"
    by (rule shared_session)
  then have s: "p_org who = bootstrap_organization"
    if "map_of (hr_cookies reading_request) session_cookie = Some tok"
      "session_of listing_platform reading_request tok shared_state = (Inr who, v')" for tok who v'
    using that by (auto simp: reading_request_def)
  have r: "\<not> requires_csrf (hr_method reading_request)" "\<not> is_public_path reading_request"
    "\<not> admin_token_given (pf_api listing_platform) (xc_admin_token (cf_security sample_cfg)) reading_request"
    "bootstrap_organization \<noteq> ''''" "query_of reading_request ''agent_id'' = ''''"
    by (simp_all add: reading_request_def sample_api_simps sample_cfg_def bootstrap_organization_def)
  have "keys_ok (w_db (aw_store lonely_state))"
    using k by (simp add: lonely_state_def state_hide_def keys_ok_view)
  from tenant_isolation [OF r s h [symmetric] k this] show ?thesis
    by (simp add: lonely_state_def state_hide_def shared_state_def live_session_world_def auth_sample_world_def sample_defs
        bootstrap_organization_def)
qed

text \<open>A database with a runtime of its own and a binding on the runtime of another organisation.\<close>

definition two_tenants :: "(db, unit) world" where
  "two_tenants = sample_world\<lparr>w_db := empty_db\<lparr>
     db_conns := [sample_row sample_conn, sample_row (sample_conn\<lparr>rc_id := ''c2'', rc_org := ''o2''\<rparr>)],
     db_bindings := [(sample_binding ''a9'' ''worker'')\<lparr>bd_conn := ''c2''\<rparr>],
     db_subagents := [\<lparr>sr_id = ''s1'', sr_conn = ''c1'', sr_snapshot = \<lparr>se_id = ''x1'', se_parent_run = '''',
       se_agent = ''worker'', se_type = '''', se_status = ''done'', se_description = '''', se_summary = '''',
       se_started = None, se_ended = None, se_observed_at = 5, se_metadata = [], se_raw = []\<rparr>\<rparr>]\<rparr>\<rparr>"

lemma foreign_agent_selects_own_rows_witness:
  "\<exists>env rows w'. tenant env = ''o1'' \<and> list_subagent_executions env '''' ''a9'' two_tenants = (Inr rows, w') \<and> rows \<noteq> []"
proof -
  let ?env = "calm_env\<lparr>e_context := Some (sample_member ''viewer'')\<rparr>"
  let ?b = "(sample_binding ''a9'' ''worker'')\<lparr>bd_conn := ''c2''\<rparr>"
  have t: "tenant ?env = ''o1''"
    by (simp add: tenant_def organization_id_def principal_from_def sample_member_def)
  have "bd_agent ?b = ''a9''"
    by (simp add: sample_binding_def)
  moreover have "\<exists>rows w'. list_subagent_executions ?env '''' (bd_agent ?b) two_tenants = (Inr rows, w') \<and>
      hd (db_subagents (w_db two_tenants)) \<in> set rows"
    by (rule foreign_agent_selects_own_rows [where t = "''o1''", THEN conjunct1])
       (simp_all add: scoped_to_def t two_tenants_def sample_defs owns_def)
  ultimately show ?thesis
    using t by fastforce
qed

text \<open>A viewer's session.\<close>

definition viewed_state :: "unit server_state" where
  "viewed_state = shared_state\<lparr>aw_store := live_session_world\<lparr>w_db := (w_db live_session_world)\<lparr>
     db_members := [\<lparr>mb_org = bootstrap_organization, mb_user = ''u1'', mb_role = ''viewer'', mb_active = True,
       mb_created = 0\<rparr>]\<rparr>\<rparr>\<rparr>"

lemma viewed_session:
  "\<exists>who w'. session_of listing_platform (reading_request\<lparr>hr_method := ''POST''\<rparr>) ''t1'' viewed_state = (Inr who, w') \<and>
     p_role who = ''viewer''"
proof -
  have "\<exists>who w'. authenticate (auth_store_ports calm_env pair_library dummy) ''t1'' (aw_store viewed_state) = (Inr who, w') \<and>
      p_role who = ''viewer''" for dummy
    by (simp add: authenticate_def plain_sha find_session_def seq_def wrapping_def query_now_def query_def
        session_rows_def session_live_def viewed_state_def live_session_world_def auth_sample_world_def
        sample_world_def sample_db_def empty_db_def local_organization_def cong: store_congs)
  then show ?thesis
    by (rule listed_session) (simp add: reading_request_def sample_request_def)
qed

theorem viewer_keeps_data_witness:
  "state_kept (snd (server_handler listing_platform sample_otlp_library sample_cfg listing_plan
     (reading_request\<lparr>hr_method := ''POST''\<rparr>) viewed_state)) = state_kept viewed_state"
proof -
  obtain who w' where s: "session_of listing_platform (reading_request\<lparr>hr_method := ''POST''\<rparr>) ''t1'' viewed_state = (Inr who, w')"
      and "p_role who = ''viewer''"
    using viewed_session by blast
  moreover have "\<not> p_platform_admin who"
    using s by (rule session_principal)
  ultimately show ?thesis
    by (intro viewer_keeps_data [OF _ _ _ _ s])
       (simp_all add: reading_request_def sample_api_simps sample_cfg_def listing_platform_def)
qed

end
