(* ===== verification/Spec2Isabelle.thy ===== *)
theory Spec2Isabelle
  imports Sync_Properties Control_Claims Secret_Claims Connection_Claims Telemetry_Claims Sync_Worker Auth_Claims
    Config_Claims Api_Claims Migration_Claims Gantry_Usage Gantry_Claims Lang_Claims Server_Claims
begin

text \<open>
  Capcom is a control plane for agent runtimes.  A server process (\<^verbatim>\<open>cmd/capcom-server\<close>) reads its
  configuration, migrates a PostgreSQL database, starts two background workers and serves an HTTP API.
  Runtimes (Gantry or LangGraph servers) are registered as connections.  An adapter reads a runtime's agents,
  skills, access, delegations and executions as one snapshot, which the synchronisation service validates and
  stores; control actions (replace access, enable, disable, delete, cancel) go to the runtime through the same
  adapter, under an idempotency key and with an audit trail; usage comes in by polling or as OTLP traces.

  \<^bold>\<open>How the model is written.\<close>  A Go call that returns a value and an error is a function of type
  \<^verbatim>\<open>'w \<Rightarrow> (gerr + 'a) \<times> 'w\<close>: the error is a value (\<^verbatim>\<open>gerr\<close>, with its texts and what \<^verbatim>\<open>errors.Is\<close> finds in it),
  the world after the call is explicit, and every early return is a branch.  A service is a definition over a
  record of the interfaces it consumes (\<^verbatim>\<open>sync_ports\<close>, \<^verbatim>\<open>control_ports\<close>, \<^verbatim>\<open>auth_ports\<close>, \<^verbatim>\<open>router_config\<close>, ...), one
  field per method of the Go interface.  The tables are lists of rows in the record \<^verbatim>\<open>db\<close>; each statement may
  fail, as an environment \<^verbatim>\<open>env\<close> decides, and a transaction that fails gives back the tables it began with.
  Integers that can overflow are \<^verbatim>\<open>int\<close> with the wrap to 64 bits written out; decimals and \<^verbatim>\<open>float64\<close> quotients
  are exact rationals with their rounding computed.

  \<^bold>\<open>The theories.\<close>
  \<^item> Prelude.  \<^verbatim>\<open>Go_Base\<close>: strings, errors, contexts, \<^verbatim>\<open>any\<close> values, maps, and the lemma collections on what a call
    keeps of the world.  \<^verbatim>\<open>Decimals\<close>: \<^verbatim>\<open>big.Rat\<close> texts and float rounding.  \<^verbatim>\<open>Wire\<close>: JSON documents and decoding,
    RFC 3339, escaping of URLs.  \<^verbatim>\<open>Text_Order\<close>: the byte order of strings and sorting by it.  \<^verbatim>\<open>Samples\<close>: concrete inputs.
  \<^item> Data and storage.  \<^verbatim>\<open>Domain\<close> (\<^verbatim>\<open>internal/domain\<close>, \<^verbatim>\<open>internal/tenant\<close>, \<^verbatim>\<open>internal/adapters/runtime\<close>);
    \<^verbatim>\<open>Store_Base\<close> and \<^verbatim>\<open>Schema\<close> (sessions, statements, tables); one theory per repository of \<^verbatim>\<open>internal/store\<close>:
    \<^verbatim>\<open>Sync_Store\<close>, \<^verbatim>\<open>Connection_Store\<close>, \<^verbatim>\<open>Control_Store\<close>, \<^verbatim>\<open>Telemetry_Store\<close>, \<^verbatim>\<open>Auth_Store\<close>; \<^verbatim>\<open>Migrations\<close> (\<^verbatim>\<open>migrator.go\<close>,
    \<^verbatim>\<open>db.go\<close> and the two commands).
  \<^item> Services (\<^verbatim>\<open>internal/services\<close>, \<^verbatim>\<open>internal/secrets\<close>).  \<^verbatim>\<open>Snapshot_Validation\<close> and \<^verbatim>\<open>Sync_Service\<close>; \<^verbatim>\<open>Control_Service\<close>;
    \<^verbatim>\<open>Secrets\<close>; \<^verbatim>\<open>Connection_Service\<close>; \<^verbatim>\<open>Telemetry_Service\<close> (with the model catalog and the polling worker);
    \<^verbatim>\<open>Auth_Service\<close>; \<^verbatim>\<open>Sync_Worker\<close> (\<^verbatim>\<open>internal/workers/runtime_sync.go\<close> as a step relation).
  \<^item> Adapters.  \<^verbatim>\<open>Http_Client\<close> (the outgoing calls both adapters share), \<^verbatim>\<open>Gantry\<close> (documents and translation),
    \<^verbatim>\<open>Gantry_Client\<close> (operations and the pool of workers of \<^verbatim>\<open>CollectSnapshot\<close>), \<^verbatim>\<open>Gantry_Usage\<close>, \<^verbatim>\<open>Lang_Graph\<close>,
    \<^verbatim>\<open>Lang_Smith\<close>.
  \<^item> HTTP API (\<^verbatim>\<open>internal/api\<close>).  \<^verbatim>\<open>Api_Base\<close> (errors, middleware), \<^verbatim>\<open>Api_Config\<close> (the services the router holds,
    sessions), \<^verbatim>\<open>Api_Handlers\<close>, \<^verbatim>\<open>Api_Records\<close>, \<^verbatim>\<open>Api_Telemetry\<close> (the handlers), \<^verbatim>\<open>Api_Router\<close> (the table of routes).
  \<^item> \<^verbatim>\<open>Config\<close> (\<^verbatim>\<open>internal/config\<close>): the environment, the \<^verbatim>\<open>.env\<close> file, the validated record.
  \<^item> The process (\<^verbatim>\<open>cmd/capcom-server\<close>).  \<^verbatim>\<open>Server\<close> wires the parts as \<^verbatim>\<open>run\<close> does: the adapters over an HTTP transport that
    resolves credentials through the secret service, the services over the repositories, the router over the
    services, the workers.  Its state is one database, the locks, the limiter and the runtimes outside.

  \<^bold>\<open>What the lemmas show.\<close>
  \<^item> \<^verbatim>\<open>Sync_Service\<close>, \<^verbatim>\<open>Sync_Persist\<close>, \<^verbatim>\<open>Sync_Properties\<close>: validation is exactly the declarative condition; the lock is
    given back on every path; an error stores nothing, a success stores a valid snapshot; bindings stay consistent
    and the counters of missing agents are right.  The locale \<^verbatim>\<open>sync_contract\<close> states what the service relies on
    and is interpreted on the repository.
  \<^item> \<^verbatim>\<open>Control_Contract\<close>, \<^verbatim>\<open>Control_Properties\<close>, \<^verbatim>\<open>Control_Claims\<close>: a runtime is changed only by an executed action on a
    control-enabled connection; dry runs change nothing outside; known keys replay; every action ends and is
    audited (locales \<^verbatim>\<open>stable_reads\<close> and \<^verbatim>\<open>audited_actions\<close>, interpreted on the repositories).
  \<^item> \<^verbatim>\<open>Secret_Claims\<close>, \<^verbatim>\<open>Connection_Claims\<close>, \<^verbatim>\<open>Auth_Claims\<close>, \<^verbatim>\<open>Telemetry_Claims\<close>, \<^verbatim>\<open>Sync_Worker\<close>: secrets and passwords round
    trip, sessions live from login to logout, the limiter stays bounded, costs are exact, content is never
    stored, summaries add up, the semaphore holds.
  \<^item> \<^verbatim>\<open>Config_Claims\<close>: a loaded configuration is well-formed, a \<^verbatim>\<open>.env\<close> file reads back.
  \<^item> \<^verbatim>\<open>Api_Claims\<close>: failures are public details only, forged or unauthorised requests reach no handler, one route
    takes a request, actors cannot be forged, no span is lost and no content gets in, both encodings agree.
  \<^item> \<^verbatim>\<open>Adapter_Calls\<close>, \<^verbatim>\<open>Gantry_Claims\<close>, \<^verbatim>\<open>Lang_Claims\<close>: which requests an adapter makes, the pool of workers drains and
    loses nothing under every schedule, listings are complete or reported (or, for threads and runs, cut off).
  \<^item> \<^verbatim>\<open>Safe_Requests\<close>, \<^verbatim>\<open>Server_Reads\<close>, \<^verbatim>\<open>Tenant_View\<close>, \<^verbatim>\<open>Tenant_Reads\<close>, \<^verbatim>\<open>Server_Sync\<close>, \<^verbatim>\<open>Server_Claims\<close>: the parts together.
    The locale \<^verbatim>\<open>read_calls\<close> carries a property of the reading calls of the services through every route a request
    without a CSRF token can take.  It is interpreted twice on the server: the calls keep the stored data, and they
    commute with hiding the rows of the other organisations (\<^verbatim>\<open>tenant_view\<close>), which gives the isolation of the
    organisations as a noninterference property of responses.  \<^verbatim>\<open>sync_contract\<close> is interpreted on the server too, and a
    synchronisation is followed from the requests to a Gantry runtime to the bindings in the database.
  \<^item> \<^verbatim>\<open>Migration_Claims\<close>: a run of the migrator refines the specification by one-at-a-time application.

  \<^bold>\<open>Bounds and fuel.\<close>  No function of the model needs a claim of the form ``if it returns''.  \<^verbatim>\<open>read_pages\<close> counts down
  the page limits of the source (100, 2 and 10 pages of 100).  \<^verbatim>\<open>pool_run\<close> consumes a schedule, a list of worker
  numbers; a round visits each of the four workers once, and four rounds for each agent drain the
  channel whatever schedule came before (\<^verbatim>\<open>pool_drains\<close>).  The workers of \<^verbatim>\<open>Sync_Worker\<close> are an inductive relation with no bound.

  \<^bold>\<open>Parameters.\<close>  Code outside the repository is an argument of the model: AES-GCM, Argon2id, SHA-256, base64,
  Unicode NFC, \<^verbatim>\<open>net/url\<close> and \<^verbatim>\<open>net/mail\<close> parsing, the text of a JSON document and of a float, the protobuf decoder,
  the network with its time limits, the file system, the clock and the random source, the effect of a migration's
  SQL.  Where a property needs a law of one of them, it is a hypothesis of the property or a law of a locale.

  \<^bold>\<open>Not modelled.\<close>  \<^verbatim>\<open>internal/domain/drift.go\<close> declares types that nothing uses.  The two commands are modelled up
  to the server with its handler and workers; signals, listening, the shutdown and the interleaving of requests with
  each other and with the workers are process I/O.  The isolation of organisations leaves out requests with the
  parameter \<^verbatim>\<open>agent_id\<close>, for which it does not hold, and requests that write.  Columns that only record when
  a row was written (\<^verbatim>\<open>created_at\<close>, \<^verbatim>\<open>updated_at\<close>) are left out of the tables and of the views of connections,
  endpoints and actions.  Text collation of the database is the order of the table.  Log lines are dropped except
  where their absence matters.
\<close>

end
